(* ===== verification/Scn_Prelude.thy ===== *)
theory Scn_Prelude
  imports Main "HOL-Library.Word" "HOL-Library.Multiset"
begin

text \<open>
  Prelude of the securecnet development: the machine integers of \<^verbatim>\<open>util/util.h\<close>, the
  result values of \<^verbatim>\<open>result.hpp\<close>, and the generic facts on lists, sums and words that
  the component theories share.

  Conventions used throughout. \<open>U8\<close>, \<open>U16\<close>, \<open>U32\<close> and \<open>U64\<close> are words of
  that width, so their arithmetic wraps as in C++. A size (\<^verbatim>\<open>ST\<close>, that is
  \<^verbatim>\<open>std::size_t\<close>) counts bytes or elements of a container in memory and is a \<open>nat\<close>.
  A \<^verbatim>\<open>Result\<close> with output parameters is a value of the sum type \<open>errc + 'a\<close>: \<open>Inl\<close>
  carries the error code and \<open>Inr\<close> the outputs; the diagnostic string of a result is not
  modelled. A pointer that the code compares with \<^verbatim>\<open>nullptr\<close> is an \<open>option\<close>.
\<close>

unbundle bit_operations_syntax

section \<open>Machine integers\<close>

type_synonym U8 = "8 word"
type_synonym U16 = "16 word"
type_synonym U32 = "32 word"
type_synonym U64 = "64 word"
type_synonym ST = nat

definition U16_MAX :: nat where
  "U16_MAX = 0xFFFF"

definition U32_MAX :: nat where
  "U32_MAX = 0xFFFFFFFF"

lemma word_numeral_le_one [simp]:
  "numeral n \<le> (1 :: 'a::len word) \<longleftrightarrow> unat (numeral n :: 'a word) \<le> unat (1 :: 'a word)"
  by (simp add: word_le_nat_alt)

lemma unat_less_pow: "unat (x :: 'a::len word) < 2 ^ LENGTH('a)"
  by (rule unsigned_less)

lemma unat_plus_one: "unat x + 1 < 2 ^ LENGTH('a) \<Longrightarrow> unat (x + 1 :: 'a::len word) = unat x + 1"
  by (simp add: unat_word_ariths unsigned_1)

lemma unat_of_nat_small: "n < 2 ^ LENGTH('a) \<Longrightarrow> unat (of_nat n :: 'a::len word) = n"
  by (simp add: unat_of_nat take_bit_nat_eq_self)

text \<open>
  \<open>std::clamp\<close>. Its behaviour is undefined for \<open>hi < lo\<close>; the components that call it
  prove \<open>lo \<le> hi\<close>.
\<close>

definition clamp :: "'a::linorder \<Rightarrow> 'a \<Rightarrow> 'a \<Rightarrow> 'a" where
  "clamp v lo hi = (if v < lo then lo else if hi < v then hi else v)"

lemma clamp_bounds: "lo \<le> hi \<Longrightarrow> lo \<le> clamp v lo hi \<and> clamp v lo hi \<le> hi"
  by (auto simp: clamp_def)

lemma clamp_id: "lo \<le> v \<Longrightarrow> v \<le> hi \<Longrightarrow> clamp v lo hi = v"
  by (auto simp: clamp_def)

section \<open>Results\<close>

text \<open>\<^verbatim>\<open>enum class Errc\<close>.\<close>

datatype errc =
    Ok | InvalidArg | SocketError | ResolveError | WouldBlock | Truncated | BadPacket
  | Internal | EndOfStream | QueueFull | UnsupportedVersion | AuthFailed | Timeout
  | Closed | StateError | Replay | ProtocolError | TooLarge | RateLimited | Backpressure

fun errc_name :: "errc \<Rightarrow> string" where
  "errc_name errc.Ok = ''Ok''"
| "errc_name errc.InvalidArg = ''InvalidArg''"
| "errc_name errc.SocketError = ''SocketError''"
| "errc_name errc.ResolveError = ''ResolveError''"
| "errc_name errc.WouldBlock = ''WouldBlock''"
| "errc_name errc.Truncated = ''Truncated''"
| "errc_name errc.BadPacket = ''BadPacket''"
| "errc_name errc.Internal = ''Internal''"
| "errc_name errc.EndOfStream = ''EndOfStream''"
| "errc_name errc.QueueFull = ''QueueFull''"
| "errc_name errc.UnsupportedVersion = ''UnsupportedVersion''"
| "errc_name errc.AuthFailed = ''AuthFailed''"
| "errc_name errc.Timeout = ''Timeout''"
| "errc_name errc.Closed = ''Closed''"
| "errc_name errc.StateError = ''StateError''"
| "errc_name errc.Replay = ''Replay''"
| "errc_name errc.ProtocolError = ''ProtocolError''"
| "errc_name errc.TooLarge = ''TooLarge''"
| "errc_name errc.RateLimited = ''RateLimited''"
| "errc_name errc.Backpressure = ''Backpressure''"

type_synonym 'a result = "errc + 'a"

text \<open>The \<^verbatim>\<open>code\<close> field of a result, and \<^verbatim>\<open>Result::ok\<close>.\<close>

definition code_of :: "'a result \<Rightarrow> errc" where
  "code_of r = (case r of Inl e \<Rightarrow> e | Inr _ \<Rightarrow> errc.Ok)"

definition ok :: "'a result \<Rightarrow> bool" where
  "ok r \<longleftrightarrow> code_of r = errc.Ok"

lemma code_of_simps [simp]: "code_of (Inl e) = e" "code_of (Inr x) = errc.Ok"
  by (simp_all add: code_of_def)

lemma ok_simps [simp]: "ok (Inl e) \<longleftrightarrow> e = errc.Ok" "ok (Inr x)"
  by (simp_all add: ok_def)

text \<open>
  \<^verbatim>\<open>rc = f(...); if (!rc.ok()) return rc; ...\<close>: continue with the outputs of a
  successful step, or return its error.
\<close>

definition rbind :: "'a result \<Rightarrow> ('a \<Rightarrow> 'b result) \<Rightarrow> 'b result" where
  "rbind m k = (case m of Inl e \<Rightarrow> Inl e | Inr x \<Rightarrow> k x)"

lemma rbind_simps [simp]: "rbind (Inl e) k = Inl e" "rbind (Inr x) k = k x"
  by (simp_all add: rbind_def)

lemma rbind_Inr_iff: "rbind m k = Inr y \<longleftrightarrow> (\<exists>x. m = Inr x \<and> k x = Inr y)"
  by (cases m) auto

lemma rbind_Inr_iff2:
  "rbind m (\<lambda>(x, s). k x s) = Inr y \<longleftrightarrow> (\<exists>x s. m = Inr (x, s) \<and> k x s = Inr y)"
  by (cases m) auto

text \<open>An early return with an error.\<close>

lemma guard_Inr_iff [simp]: "(if c then Inl e else m) = Inr y \<longleftrightarrow> \<not> c \<and> m = Inr y"
  by simp

lemma rbind_assoc: "rbind (rbind m k) l = rbind m (\<lambda>x. rbind (k x) l)"
  by (cases m) auto

lemma rbind_if [simp]: "rbind (if c then Inl e else m) k = (if c then Inl e else rbind m k)"
  by simp

lemma rbind_cong [fundef_cong]:
  "m = m' \<Longrightarrow> (\<And>x. m' = Inr x \<Longrightarrow> k x = k' x) \<Longrightarrow> rbind m k = rbind m' k'"
  by (cases m') auto

section \<open>Big-endian byte strings\<close>

text \<open>
  \<open>be_bytes n v\<close> is the big-endian encoding of the low \<open>n\<close> bytes of \<open>v\<close>, \<open>be_value\<close>
  the value of a big-endian byte string. The serialisers of \<^verbatim>\<open>bytebuf.cpp\<close> are shown to
  compute exactly these.
\<close>

definition cat_byte :: "'a::len word \<Rightarrow> U8 \<Rightarrow> 'a word" where
  "cat_byte v b = (push_bit 8 v OR ucast b)"

fun be_bytes :: "nat \<Rightarrow> 'a::len word \<Rightarrow> U8 list" where
  "be_bytes 0 v = []"
| "be_bytes (Suc n) v = be_bytes n (drop_bit 8 v) @ [ucast v]"

definition be_value :: "U8 list \<Rightarrow> 'a::len word" where
  "be_value bs = foldl cat_byte 0 bs"

lemma length_be_bytes [simp]: "length (be_bytes n v) = n"
  by (induction n arbitrary: v) auto

lemma be_bytes_numeral:
  "be_bytes (numeral k) v = be_bytes (pred_numeral k) (drop_bit 8 v) @ [ucast v]"
  by (simp add: numeral_eq_Suc)

lemma be_value_snoc: "be_value (bs @ [b]) = cat_byte (be_value bs) b"
  by (simp add: be_value_def)

lemma be_value_Nil: "be_value [] = 0"
  by (simp add: be_value_def)

lemma be_value_be_bytes: "be_value (be_bytes n v) = (take_bit (8 * n) v :: 'a::len word)"
proof (induction n arbitrary: v)
  case (Suc n)
  have "cat_byte (take_bit (8 * n) (drop_bit 8 v)) (ucast v) = take_bit (8 * Suc n) v"
    by (rule bit_word_eqI) (auto simp: cat_byte_def bit_simps)
  with Suc show ?case by (simp add: be_value_snoc)
qed (simp add: be_value_Nil)

lemma take_bit_be_value: "take_bit (8 * length bs) (be_value bs :: 'a::len word) = be_value bs"
proof (induction bs rule: rev_induct)
  case (snoc b bs)
  have "take_bit (8 * Suc (length bs)) (cat_byte (take_bit (8 * length bs) (be_value bs)) b :: 'a word)
     = cat_byte (take_bit (8 * length bs) (be_value bs)) b"
    by (rule bit_word_eqI) (auto simp: cat_byte_def bit_simps dest: bit_imp_le_length)
  with snoc show ?case by (simp add: be_value_snoc)
qed (simp add: be_value_Nil)

lemma ucast_cat_byte: "8 \<le> LENGTH('a::len) \<Longrightarrow> (ucast (cat_byte (v :: 'a word) b) :: U8) = b"
  by (rule bit_word_eqI) (auto simp: cat_byte_def bit_simps)

lemma drop_bit_cat_byte:
  fixes v :: "'a::len word"
  assumes "n + 8 \<le> LENGTH('a)" and "take_bit n v = v"
  shows "drop_bit 8 (cat_byte v b) = v"
proof -
  have "drop_bit 8 (cat_byte (take_bit n v) b) = take_bit n v"
    using assms(1) by (intro bit_word_eqI) (auto simp: cat_byte_def bit_simps dest: bit_imp_le_length)
  then show ?thesis by (simp add: assms(2))
qed

lemma be_bytes_be_value:
  "8 * length bs \<le> LENGTH('a::len) \<Longrightarrow> be_bytes (length bs) (be_value bs :: 'a word) = bs"
proof (induction bs rule: rev_induct)
  case (snoc b bs)
  have d: "drop_bit 8 (cat_byte (be_value bs) b) = (be_value bs :: 'a word)"
    by (rule drop_bit_cat_byte [OF _ take_bit_be_value]) (use snoc.prems in simp)
  show ?case using snoc by (simp add: d be_value_snoc ucast_cat_byte)
qed simp

lemma ucast_and_255 [simp]: "(ucast (v AND 255 :: 'a::len word) :: U8) = ucast v"
proof -
  have m: "(255 :: 'a word) = mask 8" by (simp add: mask_eq_exp_minus_1)
  show ?thesis unfolding m by (rule bit_word_eqI) (auto simp: bit_simps dest: bit_imp_le_length)
qed

section \<open>Priority insertion\<close>

text \<open>
  The send queues and the reliable queue insert a new element before the first element of
  strictly lower priority.
\<close>

fun insert_prio :: "('a \<Rightarrow> nat) \<Rightarrow> 'a \<Rightarrow> 'a list \<Rightarrow> 'a list" where
  "insert_prio p x [] = [x]"
| "insert_prio p x (y # ys) = (if p y < p x then x # y # ys else y # insert_prio p x ys)"

lemma set_insert_prio [simp]: "set (insert_prio p x xs) = insert x (set xs)"
  by (induction xs) auto

lemma length_insert_prio [simp]: "length (insert_prio p x xs) = Suc (length xs)"
  by (induction xs) auto

lemma mset_insert_prio [simp]: "mset (insert_prio p x xs) = add_mset x (mset xs)"
  by (induction xs) auto

lemma sum_list_insert_prio [simp]:
  "sum_list (map f (insert_prio p x xs)) = f x + sum_list (map f xs)" for f :: "'a \<Rightarrow> nat"
  by (induction xs) auto

lemma filter_insert_prio: "filter P (insert_prio p x xs) = filter P xs" if "\<not> P x"
  using that by (induction xs) auto

lemma distinct_insert_prio: "distinct (map f (insert_prio p x xs)) \<longleftrightarrow> f x \<notin> f ` set xs \<and> distinct (map f xs)"
  by (induction xs) auto

lemma insert_prio_sorted:
  "sorted_wrt (\<lambda>a b. p b \<le> p a) xs \<Longrightarrow> sorted_wrt (\<lambda>a b. p b \<le> p a) (insert_prio p x xs)"
  by (induction xs) (auto intro: order_trans less_imp_le)

text \<open>Within one priority the queue is first in, first out.\<close>

lemma insert_prio_fifo:
  "sorted_wrt (\<lambda>a b. p b \<le> p a) xs \<Longrightarrow>
   filter (\<lambda>y. p y = k) (insert_prio p x xs) = filter (\<lambda>y. p y = k) xs @ (if p x = k then [x] else [])"
proof (induction xs)
  case (Cons y ys)
  have *: "filter (\<lambda>z. p z = k) (y # ys) = []" if "p y < p x" "p x = k"
    using Cons.prems that by (auto simp: filter_empty_conv)
  show ?case using Cons * by auto
qed simp

section \<open>Lists\<close>

lemma sum_list_filter_split:
  "sum_list (map f xs) = sum_list (map f (filter P xs)) + sum_list (map f (filter (\<lambda>x. \<not> P x) xs))"
  for f :: "'a \<Rightarrow> nat"
  by (induction xs) auto

lemma append_eq_length: "xs @ ys = zs @ ws \<Longrightarrow> length xs = length zs \<Longrightarrow> xs = zs \<and> ys = ws"
  by simp

end
