(* ===== verification/Scn_Bytebuf.thy ===== *)
theory Scn_Bytebuf
  imports Scn_Prelude
begin

text \<open>
  Byte buffers (\<^verbatim>\<open>bytebuf.hpp\<close>, \<^verbatim>\<open>bytebuf.cpp\<close>): the bounded big-endian writer and
  reader that every wire format of the library goes through.

  A writer that fails in the middle of a composite write leaves some bytes in the caller's
  buffer; every caller abandons the buffer then, and the model returns only the error. Every
  single primitive leaves the writer unchanged when it fails.

  The lemmas show that a chain of writes is one bounded append (\<open>emit\<close>) of the concatenated
  encodings, and what each read returns from a position of a byte string; they are collected in
  \<open>write_rules\<close> and in the simpset, and carry the proofs of the frame formats.
\<close>

named_theorems write_rules \<open>writes as bounded appends\<close>
named_theorems read_evals \<open>values of reads at a position\<close>
named_theorems read_binds \<open>reads that succeed and continue\<close>
named_theorems read_iffs \<open>reads that succeed, by the bytes they consume\<close>

section \<open>State\<close>

record ByteWriter =
  bw_dst :: "U8 list option"
  bw_cap :: ST
  bw_off :: ST

record ByteReader =
  br_src :: "U8 list option"
  br_len :: ST
  br_off :: ST

definition remaining_w :: "ByteWriter \<Rightarrow> ST" where
  "remaining_w w = (if bw_off w \<le> bw_cap w then bw_cap w - bw_off w else 0)"

definition remaining_r :: "ByteReader \<Rightarrow> ST" where
  "remaining_r r = (if br_off r \<le> br_len r then br_len r - br_off r else 0)"

definition need_w :: "ByteWriter \<Rightarrow> ST \<Rightarrow> unit result" where
  "need_w w n =
    (if 0 < n \<and> bw_dst w = None then Inl errc.InvalidArg
     else if n \<le> remaining_w w then Inr () else Inl errc.Truncated)"

definition need_r :: "ByteReader \<Rightarrow> ST \<Rightarrow> unit result" where
  "need_r r n =
    (if 0 < n \<and> br_src r = None then Inl errc.InvalidArg
     else if n \<le> remaining_r r then Inr () else Inl errc.Truncated)"

text \<open>\<^verbatim>\<open>dst[off++] = v\<close> and \<^verbatim>\<open>src[off + i]\<close>.\<close>

definition put_byte :: "U8 \<Rightarrow> ByteWriter \<Rightarrow> ByteWriter" where
  "put_byte v w = w\<lparr>bw_dst := map_option (\<lambda>d. d[bw_off w := v]) (bw_dst w), bw_off := bw_off w + 1\<rparr>"

definition byte_at :: "ByteReader \<Rightarrow> ST \<Rightarrow> U8" where
  "byte_at r i = (case br_src r of None \<Rightarrow> 0 | Some s \<Rightarrow> s ! (br_off r + i))"

section \<open>Writing\<close>

definition write_u8 :: "ByteWriter \<Rightarrow> U8 \<Rightarrow> ByteWriter result" where
  "write_u8 w v = rbind (need_w w 1) (\<lambda>_. Inr (put_byte v w))"

definition write_u16 :: "ByteWriter \<Rightarrow> U16 \<Rightarrow> ByteWriter result" where
  "write_u16 w v = rbind (need_w w 2) (\<lambda>_.
     let w = put_byte (ucast (drop_bit 8 v AND 0xFF)) w;
         w = put_byte (ucast (v AND 0xFF)) w
     in Inr w)"

definition write_u32 :: "ByteWriter \<Rightarrow> U32 \<Rightarrow> ByteWriter result" where
  "write_u32 w v = rbind (need_w w 4) (\<lambda>_.
     let w = put_byte (ucast (drop_bit 24 v AND 0xFF)) w;
         w = put_byte (ucast (drop_bit 16 v AND 0xFF)) w;
         w = put_byte (ucast (drop_bit 8 v AND 0xFF)) w;
         w = put_byte (ucast (v AND 0xFF)) w
     in Inr w)"

text \<open>The loop \<^verbatim>\<open>for (int i = 7; i >= 0; --i)\<close> of \<^verbatim>\<open>write_u64\<close>.\<close>

definition write_u64 :: "ByteWriter \<Rightarrow> U64 \<Rightarrow> ByteWriter result" where
  "write_u64 w v = rbind (need_w w 8) (\<lambda>_.
     Inr (fold (\<lambda>i. put_byte (ucast (drop_bit (i * 8) v AND 0xFF))) (rev [0..<8]) w))"

definition write_bytes :: "ByteWriter \<Rightarrow> U8 list option \<Rightarrow> ST \<Rightarrow> ByteWriter result" where
  "write_bytes w p n =
    (if 0 < n \<and> p = None then Inl errc.InvalidArg
     else rbind (need_w w n) (\<lambda>_.
       if 0 < n
       then Inr (w\<lparr>bw_dst := map_option (\<lambda>d. take (bw_off w) d @ take n (the p) @ drop (bw_off w + n) d) (bw_dst w),
                   bw_off := bw_off w + n\<rparr>)
       else Inr w))"

section \<open>Reading\<close>

definition read_u8 :: "ByteReader \<Rightarrow> (U8 \<times> ByteReader) result" where
  "read_u8 r = rbind (need_r r 1) (\<lambda>_. Inr (byte_at r 0, r\<lparr>br_off := br_off r + 1\<rparr>))"

definition read_u16 :: "ByteReader \<Rightarrow> (U16 \<times> ByteReader) result" where
  "read_u16 r = rbind (need_r r 2) (\<lambda>_.
     Inr (push_bit 8 (ucast (byte_at r 0)) OR ucast (byte_at r 1), r\<lparr>br_off := br_off r + 2\<rparr>))"

definition read_u32 :: "ByteReader \<Rightarrow> (U32 \<times> ByteReader) result" where
  "read_u32 r = rbind (need_r r 4) (\<lambda>_.
     Inr (push_bit 24 (ucast (byte_at r 0)) OR push_bit 16 (ucast (byte_at r 1)) OR
          push_bit 8 (ucast (byte_at r 2)) OR ucast (byte_at r 3),
          r\<lparr>br_off := br_off r + 4\<rparr>))"

definition read_u64 :: "ByteReader \<Rightarrow> (U64 \<times> ByteReader) result" where
  "read_u64 r = rbind (need_r r 8) (\<lambda>_.
     Inr (fold (\<lambda>i v. push_bit 8 v OR ucast (byte_at r i)) [0..<8] 0, r\<lparr>br_off := br_off r + 8\<rparr>))"

text \<open>\<^verbatim>\<open>read_bytes\<close> into a destination that is not null.\<close>

definition read_bytes :: "ByteReader \<Rightarrow> ST \<Rightarrow> (U8 list \<times> ByteReader) result" where
  "read_bytes r n = rbind (need_r r n) (\<lambda>_.
     if 0 < n then Inr (take n (drop (br_off r) (the (br_src r))), r\<lparr>br_off := br_off r + n\<rparr>)
     else Inr ([], r))"

text \<open>\<^verbatim>\<open>peek_ptr\<close>: the \<open>n\<close> bytes at the cursor, or null.\<close>

definition peek_ptr :: "ByteReader \<Rightarrow> ST \<Rightarrow> U8 list option" where
  "peek_ptr r n =
    (if remaining_r r < n then None
     else case br_src r of
       None \<Rightarrow> None
     | Some s \<Rightarrow> Some (take n (drop (br_off r) s)))"

definition skip :: "ByteReader \<Rightarrow> ST \<Rightarrow> ByteReader result" where
  "skip r n = rbind (need_r r n) (\<lambda>_. Inr (r\<lparr>br_off := br_off r + n\<rparr>))"

section \<open>Writes are bounded appends\<close>

definition writer_wf :: "ByteWriter \<Rightarrow> bool" where
  "writer_wf w \<longleftrightarrow> (\<exists>d. bw_dst w = Some d \<and> bw_cap w \<le> length d) \<and> bw_off w \<le> bw_cap w"

definition append_bytes :: "U8 list \<Rightarrow> ByteWriter \<Rightarrow> ByteWriter" where
  "append_bytes bs w =
     w\<lparr>bw_dst := map_option (\<lambda>d. take (bw_off w) d @ bs @ drop (bw_off w + length bs) d) (bw_dst w),
       bw_off := bw_off w + length bs\<rparr>"

definition emit :: "U8 list \<Rightarrow> ByteWriter \<Rightarrow> ByteWriter result" where
  "emit bs w = (if length bs \<le> remaining_w w then Inr (append_bytes bs w) else Inl errc.Truncated)"

text \<open>The bytes written so far.\<close>

definition written :: "ByteWriter \<Rightarrow> U8 list" where
  "written w = take (bw_off w) (the (bw_dst w))"

lemma append_bytes_Nil [simp]: "append_bytes [] w = w"
  by (cases w; cases "bw_dst w") (auto simp: append_bytes_def)

lemma append_bytes_append:
  assumes "writer_wf w" "length a + length b \<le> remaining_w w"
  shows "append_bytes b (append_bytes a w) = append_bytes (a @ b) w"
proof -
  obtain d where d: "bw_dst w = Some d" "bw_cap w \<le> length d" "bw_off w \<le> bw_cap w"
    using assms(1) by (auto simp: writer_wf_def)
  then have "bw_off w + length a \<le> length d"
    using assms(2) by (auto simp: remaining_w_def)
  then show ?thesis using d(1) by (simp add: append_bytes_def min_absorb2 algebra_simps)
qed

lemma append_bytes_wf:
  assumes "writer_wf w" "length a \<le> remaining_w w"
  shows "writer_wf (append_bytes a w)"
proof -
  obtain d where d: "bw_dst w = Some d" "bw_cap w \<le> length d" "bw_off w \<le> bw_cap w"
    using assms(1) by (auto simp: writer_wf_def)
  then show ?thesis using assms(2) by (auto simp: writer_wf_def append_bytes_def remaining_w_def)
qed

lemma remaining_append_bytes [simp]: "remaining_w (append_bytes a w) = remaining_w w - length a"
  by (auto simp: remaining_w_def append_bytes_def)

lemma put_byte_append: "writer_wf w \<Longrightarrow> 0 < remaining_w w \<Longrightarrow> put_byte b w = append_bytes [b] w"
  by (auto simp: writer_wf_def put_byte_def append_bytes_def remaining_w_def upd_conv_take_nth_drop
      split: if_splits)

lemma fold_put_byte:
  "writer_wf w \<Longrightarrow> length xs \<le> remaining_w w \<Longrightarrow>
   fold (\<lambda>i. put_byte (f i)) xs w = append_bytes (map f xs) w"
proof (induction xs arbitrary: w)
  case (Cons x xs)
  then have "put_byte (f x) w = append_bytes [f x] w" by (intro put_byte_append) auto
  moreover have "writer_wf (append_bytes [f x] w)" using Cons.prems by (intro append_bytes_wf) auto
  ultimately show ?case
    using Cons append_bytes_append [of w "[f x]" "map f xs"] by simp
qed simp

lemma need_w_wf: "writer_wf w \<Longrightarrow> need_w w n = (if n \<le> remaining_w w then Inr () else Inl errc.Truncated)"
  by (auto simp: need_w_def writer_wf_def)

lemma write_u8_emit: "writer_wf w \<Longrightarrow> write_u8 w v = emit [v] w"
  by (auto simp: write_u8_def need_w_wf emit_def put_byte_append)

text \<open>The encoding of one byte; a constant of its own, so that it stays apart from its context.\<close>

definition enc_u8 :: "U8 \<Rightarrow> U8 list" where
  "enc_u8 v = [v]"

lemma length_enc_u8 [simp]: "length (enc_u8 v) = 1"
  by (simp add: enc_u8_def)

lemma write_u8_emit_enc [write_rules]: "writer_wf w \<Longrightarrow> write_u8 w v = emit (enc_u8 v) w"
  by (simp add: write_u8_emit enc_u8_def)

lemma write_u16_emit [write_rules]: "writer_wf w \<Longrightarrow> write_u16 w v = emit (be_bytes 2 v) w"
  using fold_put_byte [of w "[8, 0]" "\<lambda>i. ucast (drop_bit i v AND 0xFF)"]
  by (auto simp: write_u16_def need_w_wf emit_def Let_def numeral_2_eq_2)

lemma write_u32_emit [write_rules]: "writer_wf w \<Longrightarrow> write_u32 w v = emit (be_bytes 4 v) w"
  using fold_put_byte [of w "[24, 16, 8, 0]" "\<lambda>i. ucast (drop_bit i v AND 0xFF)"]
  by (auto simp: write_u32_def need_w_wf emit_def Let_def numeral_eq_Suc)

lemma be_bytes_8_loop:
  "map (\<lambda>i. (ucast (drop_bit (i * 8) v AND 0xFF) :: U8)) (rev [0..<8]) = be_bytes 8 v"
  by (simp add: upt_rec numeral_eq_Suc)

lemma write_u64_emit [write_rules]: "writer_wf w \<Longrightarrow> write_u64 w v = emit (be_bytes 8 v) w"
  using fold_put_byte [of w "rev [0..<8]" "\<lambda>i. ucast (drop_bit (i * 8) v AND 0xFF)"]
  by (auto simp: write_u64_def need_w_wf emit_def be_bytes_8_loop simp del: ucast_and_255)

lemma write_bytes_emit:
  assumes "writer_wf w" "n \<le> length bs"
  shows "write_bytes w (Some bs) n = emit (take n bs) w"
proof (cases "n = 0")
  case True
  then show ?thesis using assms by (simp add: write_bytes_def need_w_wf emit_def)
next
  case False
  then show ?thesis
    using assms by (simp add: write_bytes_def need_w_wf emit_def append_bytes_def min_def)
qed

lemma write_bytes_all [write_rules]: "writer_wf w \<Longrightarrow> write_bytes w (Some bs) (length bs) = emit bs w"
  by (simp add: write_bytes_emit)

text \<open>The composition rule of the writers.\<close>

lemma rbind_emit:
  assumes "m = emit a w" "writer_wf w" "\<And>w'. writer_wf w' \<Longrightarrow> k w' = emit b w'"
  shows "rbind m k = emit (a @ b) w"
proof (cases "length a \<le> remaining_w w")
  case True
  then have wf: "writer_wf (append_bytes a w)" using assms(2) by (rule append_bytes_wf [rotated])
  have "rbind m k = emit b (append_bytes a w)" using assms(1,3) True wf by (simp add: emit_def)
  also have "\<dots> = emit (a @ b) w"
    using True assms(2) append_bytes_append [of w a b] by (auto simp: emit_def)
  finally show ?thesis .
next
  case False
  then show ?thesis using assms(1) by (simp add: emit_def)
qed

lemma emit_Nil [simp]: "emit [] w = Inr w"
  by (simp add: emit_def)

lemma emit_written:
  assumes "writer_wf w" "emit bs w = Inr w'"
  shows "written w' = written w @ bs" "bw_off w' = bw_off w + length bs" "writer_wf w'"
proof -
  obtain d where d: "bw_dst w = Some d" "bw_cap w \<le> length d" "bw_off w \<le> bw_cap w"
    using assms(1) by (auto simp: writer_wf_def)
  from assms(2) have w': "w' = append_bytes bs w" "length bs \<le> remaining_w w"
    by (auto simp: emit_def split: if_splits)
  show "written w' = written w @ bs" using d w' by (auto simp: written_def append_bytes_def)
  show "bw_off w' = bw_off w + length bs" using w' by (simp add: append_bytes_def)
  show "writer_wf w'" using w' append_bytes_wf [OF assms(1)] by simp
qed

text \<open>A fresh writer on a buffer, as the callers build it with \<^verbatim>\<open>ByteWriter w{ out, cap }\<close>.\<close>

abbreviation writer_on :: "U8 list \<Rightarrow> ST \<Rightarrow> ByteWriter" where
  "writer_on buf n \<equiv> \<lparr>bw_dst = Some buf, bw_cap = n, bw_off = 0\<rparr>"

lemma writer_on_wf [simp]: "writer_wf (writer_on buf n) \<longleftrightarrow> n \<le> length buf"
  by (simp add: writer_wf_def)

lemma emit_writer_on:
  "emit bs (writer_on buf n) =
   (if length bs \<le> n then Inr \<lparr>bw_dst = Some (bs @ drop (length bs) buf), bw_cap = n, bw_off = length bs\<rparr>
    else Inl errc.Truncated)"
  by (simp add: emit_def append_bytes_def remaining_w_def)

section \<open>Reads from a position of a byte string\<close>

definition rd :: "U8 list \<Rightarrow> nat \<Rightarrow> ByteReader" where
  "rd bs k = \<lparr>br_src = Some bs, br_len = length bs, br_off = k\<rparr>"

lemma remaining_rd [simp]: "remaining_r (rd bs k) = length bs - k"
  by (simp add: remaining_r_def rd_def)

lemma need_rd: "need_r (rd bs k) n = (if n \<le> length bs - k then Inr () else Inl errc.Truncated)"
  by (simp add: need_r_def) (simp add: rd_def)

lemma byte_at_rd: "byte_at (rd bs k) i = bs ! (k + i)"
  by (simp add: byte_at_def rd_def)

lemma rd_off [simp]: "(rd bs k)\<lparr>br_off := j\<rparr> = rd bs j" "br_off (rd bs k) = k" "br_src (rd bs k) = Some bs"
  "br_len (rd bs k) = length bs"
  by (simp_all add: rd_def)

lemma take_drop_nth:
  "k + n \<le> length bs \<Longrightarrow> take n (drop k bs) = map (\<lambda>i. bs ! (k + i)) [0..<n]"
  by (intro nth_equalityI) auto

lemma foldl_cat_byte_fold: "foldl cat_byte a (map f xs) = fold (\<lambda>i v. push_bit 8 v OR ucast (f i)) xs a"
  by (induction xs arbitrary: a) (auto simp: cat_byte_def)

lemma push_bit_8_simps:
  "push_bit 8 (a OR b :: 'a::len word) = push_bit 8 a OR push_bit 8 b"
  "push_bit 8 (push_bit n a :: 'a word) = push_bit (n + 8) a"
  by (simp_all add: push_bit_or add.commute)

lemma read_u8_rd [read_evals]:
  "read_u8 (rd bs k) = (if k + 1 \<le> length bs then Inr (bs ! k, rd bs (k + 1)) else Inl errc.Truncated)"
  by (auto simp: read_u8_def need_rd byte_at_rd)

lemma read_u16_rd [read_evals]:
  "read_u16 (rd bs k) =
   (if k + 2 \<le> length bs then Inr (be_value (take 2 (drop k bs)), rd bs (k + 2)) else Inl errc.Truncated)"
  by (auto simp: read_u16_def need_rd byte_at_rd take_drop_nth be_value_def cat_byte_def
      upt_rec push_bit_8_simps)

lemma read_u32_rd [read_evals]:
  "read_u32 (rd bs k) =
   (if k + 4 \<le> length bs then Inr (be_value (take 4 (drop k bs)), rd bs (k + 4)) else Inl errc.Truncated)"
  by (auto simp: read_u32_def need_rd byte_at_rd take_drop_nth be_value_def cat_byte_def
      upt_rec push_bit_8_simps or.assoc eval_nat_numeral)

lemma read_u64_rd [read_evals]:
  "read_u64 (rd bs k) =
   (if k + 8 \<le> length bs then Inr (be_value (take 8 (drop k bs)), rd bs (k + 8)) else Inl errc.Truncated)"
  by (auto simp: read_u64_def need_rd byte_at_rd take_drop_nth be_value_def foldl_cat_byte_fold)

lemma read_bytes_rd [read_evals]:
  "k \<le> length bs \<Longrightarrow> read_bytes (rd bs k) n =
   (if k + n \<le> length bs then Inr (take n (drop k bs), rd bs (k + n)) else Inl errc.Truncated)"
  by (auto simp: read_bytes_def need_rd)

lemma peek_ptr_rd [read_evals]:
  "k \<le> length bs \<Longrightarrow> peek_ptr (rd bs k) n = (if k + n \<le> length bs then Some (take n (drop k bs)) else None)"
  by (auto simp: peek_ptr_def)

lemma skip_rd [read_evals]:
  "k \<le> length bs \<Longrightarrow> skip (rd bs k) n = (if k + n \<le> length bs then Inr (rd bs (k + n)) else Inl errc.Truncated)"
  by (auto simp: skip_def need_rd)

text \<open>Values and their encodings.\<close>

lemma be_value_be_bytes_full [simp]:
  "be_value (be_bytes 2 v) = (v :: U16)" "be_value (be_bytes 4 v') = (v' :: U32)"
  "be_value (be_bytes 8 v'') = (v'' :: U64)"
  by (simp_all add: be_value_be_bytes take_bit_word_eq_self)

lemma be_bytes_take:
  "k + 2 \<le> length bs \<Longrightarrow> be_bytes 2 (be_value (take 2 (drop k bs)) :: U16) = take 2 (drop k bs)"
  "k + 4 \<le> length bs \<Longrightarrow> be_bytes 4 (be_value (take 4 (drop k bs)) :: U32) = take 4 (drop k bs)"
  "k + 8 \<le> length bs \<Longrightarrow> be_bytes 8 (be_value (take 8 (drop k bs)) :: U64) = take 8 (drop k bs)"
  using be_bytes_be_value [of "take 2 (drop k bs)", where ?'a = 16]
    be_bytes_be_value [of "take 4 (drop k bs)", where ?'a = 32]
    be_bytes_be_value [of "take 8 (drop k bs)", where ?'a = 64]
  by (simp_all add: min_absorb2)

lemma take_nth_drop: "k < length bs \<Longrightarrow> [bs ! k] = take 1 (drop k bs)"
  by (simp add: take_Suc_conv_app_nth flip: Cons_nth_drop_Suc)

lemma take_drop_join: "take m (drop k bs) @ take n (drop (k + m) bs) = take (m + n) (drop k bs)"
  by (simp add: take_add add.commute)

lemma be_bytes_inj [simp]:
  "be_bytes 2 a = be_bytes 2 b \<longleftrightarrow> a = (b :: U16)" "be_bytes 4 c = be_bytes 4 d \<longleftrightarrow> c = (d :: U32)"
  "be_bytes 8 e = be_bytes 8 f \<longleftrightarrow> e = (f :: U64)"
  by (metis be_value_be_bytes_full)+

section \<open>Reads by the bytes they consume\<close>

definition bytes_at :: "U8 list \<Rightarrow> nat \<Rightarrow> U8 list \<Rightarrow> bool" where
  "bytes_at bs k e \<longleftrightarrow> k + length e \<le> length bs \<and> take (length e) (drop k bs) = e"

lemma bytes_at_append: "bytes_at bs k (a @ b) \<longleftrightarrow> bytes_at bs k a \<and> bytes_at bs (k + length a) b"
proof (cases "k + (length a + length b) \<le> length bs")
  case True
  then have "take (length a + length b) (drop k bs) = a @ b \<longleftrightarrow>
      take (length a) (drop k bs) = a \<and> take (length b) (drop (k + length a) bs) = b"
    unfolding take_drop_join [symmetric] by (intro append_eq_append_conv) simp
  with True show ?thesis by (simp add: bytes_at_def)
qed (auto simp: bytes_at_def)

lemma bytes_at_Nil: "bytes_at bs k [] \<longleftrightarrow> k \<le> length bs"
  by (simp add: bytes_at_def)

lemma bytes_at_le: "bytes_at bs k e \<Longrightarrow> k + length e \<le> length bs"
  by (simp add: bytes_at_def)

lemma bytes_at_all: "bytes_at bs 0 e \<and> length bs - length e = 0 \<longleftrightarrow> bs = e"
proof
  assume a: "bytes_at bs 0 e \<and> length bs - length e = 0"
  then have "take (length e) bs = bs" by simp
  with a show "bs = e" by (simp add: bytes_at_def)
qed (simp add: bytes_at_def)

lemma bytes_at_length: "bytes_at bs k p \<and> length p = n \<longleftrightarrow> k + n \<le> length bs \<and> take n (drop k bs) = p"
  unfolding bytes_at_def by (metis add.commute length_drop length_take min_absorb2 le_diff_conv2 add_leD1)

lemma bytes_at_split: "bytes_at bs 0 h \<Longrightarrow> bs = h @ drop (length h) bs"
  by (metis append_take_drop_id bytes_at_def drop0)

lemma bytes_at_mid: "bytes_at (pre @ e @ rest) (length pre) e"
  by (simp add: bytes_at_def)

lemma read_u8_iff [read_iffs]: "read_u8 (rd bs k) = Inr (v, r) \<longleftrightarrow> bytes_at bs k (enc_u8 v) \<and> r = rd bs (k + 1)"
  using take_nth_drop [of k bs] by (auto simp: read_evals bytes_at_def enc_u8_def)

lemma be_value_iff2:
  "be_value (take 2 bs) = (a :: U16) \<longleftrightarrow> take 2 bs = be_bytes 2 a" if "2 \<le> length bs"
  using be_bytes_take(1) [of 0 bs] that by (metis add_0 drop0 be_value_be_bytes_full(1))

lemma be_value_iff4:
  "be_value (take 4 bs) = (a :: U32) \<longleftrightarrow> take 4 bs = be_bytes 4 a" if "4 \<le> length bs"
  using be_bytes_take(2) [of 0 bs] that by (metis add_0 drop0 be_value_be_bytes_full(2))

lemma be_value_iff8:
  "be_value (take 8 bs) = (a :: U64) \<longleftrightarrow> take 8 bs = be_bytes 8 a" if "8 \<le> length bs"
  using be_bytes_take(3) [of 0 bs] that by (metis add_0 drop0 be_value_be_bytes_full(3))

lemma read_u16_iff [read_iffs]:
  "read_u16 (rd bs k) = Inr (v, r) \<longleftrightarrow> bytes_at bs k (be_bytes 2 v) \<and> r = rd bs (k + 2)"
  by (auto simp: read_evals bytes_at_def be_value_iff2)

lemma read_u32_iff [read_iffs]:
  "read_u32 (rd bs k) = Inr (v, r) \<longleftrightarrow> bytes_at bs k (be_bytes 4 v) \<and> r = rd bs (k + 4)"
  by (auto simp: read_evals bytes_at_def be_value_iff4)

lemma read_u64_iff [read_iffs]:
  "read_u64 (rd bs k) = Inr (v, r) \<longleftrightarrow> bytes_at bs k (be_bytes 8 v) \<and> r = rd bs (k + 8)"
  by (auto simp: read_evals bytes_at_def be_value_iff8)

lemma read_bytes_iff [read_iffs]:
  assumes "0 < n"
  shows "read_bytes (rd bs k) n = Inr (p, r) \<longleftrightarrow> bytes_at bs k p \<and> length p = n \<and> r = rd bs (k + n)"
proof -
  have "n \<le> length bs - k \<longleftrightarrow> k + n \<le> length bs" using assms by arith
  then have "read_bytes (rd bs k) n = Inr (p, r) \<longleftrightarrow>
      (k + n \<le> length bs \<and> take n (drop k bs) = p) \<and> r = rd bs (k + n)"
    using assms by (simp add: read_bytes_def need_rd) blast
  then show ?thesis unfolding bytes_at_length [symmetric] by blast
qed

text \<open>Reading what stands at the position.\<close>

lemma read_at:
  "bytes_at bs k (enc_u8 a) \<Longrightarrow> read_u8 (rd bs k) = Inr (a, rd bs (k + 1))"
  "bytes_at bs k (be_bytes 2 b) \<Longrightarrow> read_u16 (rd bs k) = Inr (b, rd bs (k + 2))"
  "bytes_at bs k (be_bytes 4 c) \<Longrightarrow> read_u32 (rd bs k) = Inr (c, rd bs (k + 4))"
  "bytes_at bs k (be_bytes 8 d) \<Longrightarrow> read_u64 (rd bs k) = Inr (d, rd bs (k + 8))"
  "bytes_at bs k p \<Longrightarrow> read_bytes (rd bs k) (length p) = Inr (p, rd bs (k + length p))"
  "bytes_at bs k p \<Longrightarrow> peek_ptr (rd bs k) (length p) = Some p"
  "bytes_at bs k p \<Longrightarrow> skip (rd bs k) (length p) = Inr (rd bs (k + length p))"
  by (auto simp: read_iffs) (auto simp: bytes_at_def read_evals)

lemma read_bind:
  assumes "\<And>x r. m = Inr (x, r) \<longleftrightarrow> P x \<and> r = r0"
  shows "rbind m (\<lambda>(x, r). K x r) = Inr y \<longleftrightarrow> (\<exists>x. P x \<and> K x r0 = Inr y)"
  using assms by (auto simp: rbind_Inr_iff2)

lemmas read_u16_bind [read_binds] = read_bind [OF read_u16_iff]
lemmas read_u32_bind [read_binds] = read_bind [OF read_u32_iff]
lemmas read_u64_bind [read_binds] = read_bind [OF read_u64_iff]

lemma read_bytes_bind [read_binds]:
  "0 < n \<Longrightarrow> rbind (read_bytes (rd bs k) n) (\<lambda>(p, r). K p r) = Inr y \<longleftrightarrow>
   (\<exists>p. (bytes_at bs k p \<and> length p = n) \<and> K p (rd bs (k + n)) = Inr y)"
  by (rule read_bind) (simp add: read_bytes_iff)

lemma read_tag_bind [read_binds]:
  "rbind (read_u8 (rd bs k)) (\<lambda>(v, r). if v \<noteq> c then Inl e else K r) = Inr y \<longleftrightarrow>
   bytes_at bs k (enc_u8 c) \<and> K (rd bs (k + 1)) = Inr y"
  by (auto simp: rbind_Inr_iff2 read_iffs)

end
