(* ===== verification/Scn_Config.thy ===== *)
theory Scn_Config
  imports Scn_Prelude
begin

text \<open>
  Configuration (\<^verbatim>\<open>config.hpp\<close>): the compile-time budgets of \<^verbatim>\<open>NetConfig\<close>, the
  configuration records with their default values, the presets, the builders and the validators
  that \<^verbatim>\<open>Client::open\<close> and \<^verbatim>\<open>Server::open\<close> run.

  The lemmas state what a validated configuration guarantees to the components that read it
  (\<open>valid_reliability\<close>, \<open>valid_fragmentation\<close>, \<open>valid_congestion\<close>), that every preset is
  accepted, and which builder steps keep a configuration valid.
\<close>

section \<open>Compile-time budgets\<close>

datatype SendPriority = Low | Normal | High

fun priority_value :: "SendPriority \<Rightarrow> nat" where
  "priority_value Low = 0"
| "priority_value Normal = 1"
| "priority_value High = 2"

definition MaxPacketBytes :: ST where
  "MaxPacketBytes = 1300"

definition PacketHeaderBytes :: ST where
  "PacketHeaderBytes = 28"

definition MaxPayloadBytes :: ST where
  "MaxPayloadBytes = MaxPacketBytes - PacketHeaderBytes"

definition AeadKeyBytes :: ST where
  "AeadKeyBytes = 32"

definition AeadNonceBytes :: ST where
  "AeadNonceBytes = 24"

definition AeadTagBytes :: ST where
  "AeadTagBytes = 16"

definition KeyExchangePublicKeyBytes :: ST where
  "KeyExchangePublicKeyBytes = 32"

definition KeyExchangeSecretKeyBytes :: ST where
  "KeyExchangeSecretKeyBytes = 32"

definition SessionKeyBytes :: ST where
  "SessionKeyBytes = 32"

definition ClientNonceBytes :: ST where
  "ClientNonceBytes = 16"

definition ServerNonceBytes :: ST where
  "ServerNonceBytes = 16"

definition RetryTokenMacBytes :: ST where
  "RetryTokenMacBytes = 16"

definition ResumptionTokenMacBytes :: ST where
  "ResumptionTokenMacBytes = 16"

definition CookieSecretBytes :: ST where
  "CookieSecretBytes = 32"

definition TranscriptMacBytes :: ST where
  "TranscriptMacBytes = 16"

definition MessageHeaderBytes :: ST where
  "MessageHeaderBytes = 4"

definition MaxEncryptedPlaintextBytes :: ST where
  "MaxEncryptedPlaintextBytes = MaxPayloadBytes - AeadTagBytes"

definition MaxMessageBytes :: ST where
  "MaxMessageBytes = MaxEncryptedPlaintextBytes - MessageHeaderBytes"

definition ReliableEnvelopeBytes :: ST where
  "ReliableEnvelopeBytes = 8"

definition OrderedEnvelopeBytes :: ST where
  "OrderedEnvelopeBytes = 8"

definition SequencedEnvelopeBytes :: ST where
  "SequencedEnvelopeBytes = 8"

definition MaxReliableMessageBytes :: ST where
  "MaxReliableMessageBytes = MaxMessageBytes - ReliableEnvelopeBytes"

definition MaxOrderedMessageBytes :: ST where
  "MaxOrderedMessageBytes = MaxReliableMessageBytes - OrderedEnvelopeBytes"

definition MaxSequencedMessageBytes :: ST where
  "MaxSequencedMessageBytes = MaxMessageBytes - SequencedEnvelopeBytes"

definition FragmentHeaderBytes :: ST where
  "FragmentHeaderBytes = 24"

definition MaxFragmentDataBytes :: ST where
  "MaxFragmentDataBytes = MaxOrderedMessageBytes - FragmentHeaderBytes"

definition MaxPendingPackets :: ST where
  "MaxPendingPackets = 256"

definition MaxPendingReliableMessages :: ST where
  "MaxPendingReliableMessages = 256"

definition MaxPeerSessions :: ST where
  "MaxPeerSessions = 1024"

definition HandshakeTimeoutMs :: U64 where
  "HandshakeTimeoutMs = 5000"

definition IdleTimeoutMs :: U64 where
  "IdleTimeoutMs = 15000"

definition KeepaliveIntervalMs :: U64 where
  "KeepaliveIntervalMs = 5000"

definition RetryTokenLifetimeMs :: U64 where
  "RetryTokenLifetimeMs = 1500"

definition ResumptionTokenLifetimeMs :: U64 where
  "ResumptionTokenLifetimeMs = 60000"

definition CloseDrainMs :: U64 where
  "CloseDrainMs = 250"

definition ProtocolVersion :: U16 where
  "ProtocolVersion = 3"

definition Magic :: U32 where
  "Magic = 0x53434E33"

lemmas NetConfig_defs =
  MaxPacketBytes_def PacketHeaderBytes_def MaxPayloadBytes_def AeadKeyBytes_def
  AeadNonceBytes_def AeadTagBytes_def KeyExchangePublicKeyBytes_def
  KeyExchangeSecretKeyBytes_def SessionKeyBytes_def ClientNonceBytes_def ServerNonceBytes_def
  RetryTokenMacBytes_def ResumptionTokenMacBytes_def CookieSecretBytes_def
  TranscriptMacBytes_def MessageHeaderBytes_def MaxEncryptedPlaintextBytes_def
  MaxMessageBytes_def ReliableEnvelopeBytes_def OrderedEnvelopeBytes_def
  SequencedEnvelopeBytes_def MaxReliableMessageBytes_def MaxOrderedMessageBytes_def
  MaxSequencedMessageBytes_def FragmentHeaderBytes_def MaxFragmentDataBytes_def
  MaxPendingPackets_def MaxPendingReliableMessages_def MaxPeerSessions_def
  HandshakeTimeoutMs_def IdleTimeoutMs_def KeepaliveIntervalMs_def RetryTokenLifetimeMs_def
  ResumptionTokenLifetimeMs_def CloseDrainMs_def ProtocolVersion_def Magic_def

declare NetConfig_defs [simp]

section \<open>Configuration records and their defaults\<close>

record ReliabilityConfig =
  rel_initial_rto_ms :: U64
  rel_min_rto_ms :: U64
  rel_max_rto_ms :: U64
  rel_max_pending_messages :: U32
  rel_max_pending_bytes :: U32
  rel_max_inflight_messages :: U32
  rel_ordered_receive_window :: U32

definition ReliabilityConfig_default :: ReliabilityConfig where
  "ReliabilityConfig_default =
    \<lparr>rel_initial_rto_ms = 120,
     rel_min_rto_ms = 40,
     rel_max_rto_ms = 2000,
     rel_max_pending_messages = of_nat MaxPendingReliableMessages,
     rel_max_pending_bytes = 64 * 1024,
     rel_max_inflight_messages = 32,
     rel_ordered_receive_window = 64\<rparr>"

record FragmentationConfig =
  frag_enabled :: bool
  frag_max_fragments_per_message :: U16
  frag_max_reassembled_message_bytes :: U32
  frag_max_concurrent_reassemblies_per_peer :: U32
  frag_max_total_reassembly_memory_per_peer :: U64
  frag_reassembly_timeout_ms :: U64

definition FragmentationConfig_default :: FragmentationConfig where
  "FragmentationConfig_default =
    \<lparr>frag_enabled = True,
     frag_max_fragments_per_message = 64,
     frag_max_reassembled_message_bytes = 16 * 1024,
     frag_max_concurrent_reassemblies_per_peer = 32,
     frag_max_total_reassembly_memory_per_peer = 128 * 1024,
     frag_reassembly_timeout_ms = 1500\<rparr>"

record CongestionControlConfig =
  cc_enabled :: bool
  cc_min_rate_bytes_per_second :: U32
  cc_initial_rate_bytes_per_second :: U32
  cc_max_rate_bytes_per_second :: U32
  cc_additive_increase_bytes_per_ack :: U32
  cc_multiplicative_decrease_per_mille :: U32
  cc_backpressure_decrease_per_mille :: U32
  cc_min_window_bytes :: U32
  cc_max_window_bytes :: U32
  cc_loss_cooldown_ms :: U64
  cc_backpressure_cooldown_ms :: U64

definition CongestionControlConfig_default :: CongestionControlConfig where
  "CongestionControlConfig_default =
    \<lparr>cc_enabled = False,
     cc_min_rate_bytes_per_second = 32 * 1024,
     cc_initial_rate_bytes_per_second = 0,
     cc_max_rate_bytes_per_second = 0,
     cc_additive_increase_bytes_per_ack = of_nat MaxPacketBytes,
     cc_multiplicative_decrease_per_mille = 700,
     cc_backpressure_decrease_per_mille = 850,
     cc_min_window_bytes = of_nat (MaxPacketBytes * 4),
     cc_max_window_bytes = 0,
     cc_loss_cooldown_ms = 100,
     cc_backpressure_cooldown_ms = 250\<rparr>"

record AbuseConfig =
  ab_per_ip_handshake_rate_limit_per_second :: U32
  ab_invalid_packet_ban_threshold :: U32
  ab_invalid_packet_ban_ms :: U64
  ab_max_sessions_per_ip :: U32
  ab_anti_amplification_factor :: U32
  ab_anti_amplification_slack_bytes :: U32
  ab_max_queued_reliable_bytes_per_peer :: U32
  ab_max_total_reassembly_memory_server :: U64

definition AbuseConfig_default :: AbuseConfig where
  "AbuseConfig_default =
    \<lparr>ab_per_ip_handshake_rate_limit_per_second = 64,
     ab_invalid_packet_ban_threshold = 16,
     ab_invalid_packet_ban_ms = 5000,
     ab_max_sessions_per_ip = 64,
     ab_anti_amplification_factor = 3,
     ab_anti_amplification_slack_bytes = 256,
     ab_max_queued_reliable_bytes_per_peer = 64 * 1024,
     ab_max_total_reassembly_memory_server = 4 * 1024 * 1024\<rparr>"

record ClientConfig =
  ccfg_reliability :: ReliabilityConfig
  ccfg_fragmentation :: FragmentationConfig
  ccfg_congestion :: CongestionControlConfig
  ccfg_handshake_timeout_ms :: U64
  ccfg_idle_timeout_ms :: U64
  ccfg_keepalive_interval_ms :: U64
  ccfg_close_drain_ms :: U64
  ccfg_max_pending_packets :: U32
  ccfg_send_budget_bytes_per_second :: U32
  ccfg_enable_session_resumption :: bool
  ccfg_enable_packet_debug_dumps :: bool

definition ClientConfig_default :: ClientConfig where
  "ClientConfig_default =
    \<lparr>ccfg_reliability = ReliabilityConfig_default,
     ccfg_fragmentation = FragmentationConfig_default,
     ccfg_congestion = CongestionControlConfig_default,
     ccfg_handshake_timeout_ms = HandshakeTimeoutMs,
     ccfg_idle_timeout_ms = IdleTimeoutMs,
     ccfg_keepalive_interval_ms = KeepaliveIntervalMs,
     ccfg_close_drain_ms = CloseDrainMs,
     ccfg_max_pending_packets = of_nat MaxPendingPackets,
     ccfg_send_budget_bytes_per_second = 128 * 1024,
     ccfg_enable_session_resumption = True,
     ccfg_enable_packet_debug_dumps = False\<rparr>"

record ServerConfig =
  scfg_reliability :: ReliabilityConfig
  scfg_fragmentation :: FragmentationConfig
  scfg_congestion :: CongestionControlConfig
  scfg_abuse :: AbuseConfig
  scfg_handshake_timeout_ms :: U64
  scfg_idle_timeout_ms :: U64
  scfg_keepalive_interval_ms :: U64
  scfg_close_drain_ms :: U64
  scfg_max_pending_packets :: U32
  scfg_send_budget_bytes_per_second :: U32
  scfg_max_peer_sessions :: ST
  scfg_enable_session_resumption :: bool
  scfg_enable_packet_debug_dumps :: bool

definition ServerConfig_default :: ServerConfig where
  "ServerConfig_default =
    \<lparr>scfg_reliability = ReliabilityConfig_default,
     scfg_fragmentation = FragmentationConfig_default,
     scfg_congestion = CongestionControlConfig_default,
     scfg_abuse = AbuseConfig_default,
     scfg_handshake_timeout_ms = HandshakeTimeoutMs,
     scfg_idle_timeout_ms = IdleTimeoutMs,
     scfg_keepalive_interval_ms = KeepaliveIntervalMs,
     scfg_close_drain_ms = CloseDrainMs,
     scfg_max_pending_packets = of_nat MaxPendingPackets,
     scfg_send_budget_bytes_per_second = 256 * 1024,
     scfg_max_peer_sessions = MaxPeerSessions,
     scfg_enable_session_resumption = True,
     scfg_enable_packet_debug_dumps = False\<rparr>"

section \<open>Presets\<close>

definition ClientConfig_low_latency :: ClientConfig where
  "ClientConfig_low_latency = ClientConfig_default
    \<lparr>ccfg_reliability := ReliabilityConfig_default\<lparr>rel_initial_rto_ms := 80,
         rel_min_rto_ms := 25,
         rel_max_rto_ms := 750,
         rel_max_inflight_messages := 16\<rparr>,
     ccfg_fragmentation := FragmentationConfig_default\<lparr>frag_max_reassembled_message_bytes := 8 * 1024\<rparr>,
     ccfg_send_budget_bytes_per_second := 192 * 1024,
     ccfg_congestion := CongestionControlConfig_default\<lparr>cc_enabled := True,
         cc_min_rate_bytes_per_second := 48 * 1024\<rparr>\<rparr>"

definition ClientConfig_reliable_gameplay :: ClientConfig where
  "ClientConfig_reliable_gameplay = ClientConfig_default
    \<lparr>ccfg_reliability := ReliabilityConfig_default\<lparr>rel_max_inflight_messages := 48,
         rel_ordered_receive_window := 128,
         rel_max_pending_messages := 512,
         rel_max_pending_bytes := 128 * 1024\<rparr>,
     ccfg_send_budget_bytes_per_second := 256 * 1024,
     ccfg_congestion := CongestionControlConfig_default\<lparr>cc_enabled := True,
         cc_min_rate_bytes_per_second := 64 * 1024\<rparr>\<rparr>"

definition ClientConfig_bulk_transfer :: ClientConfig where
  "ClientConfig_bulk_transfer = ClientConfig_default
    \<lparr>ccfg_reliability := ReliabilityConfig_default\<lparr>rel_initial_rto_ms := 180,
         rel_max_inflight_messages := 96,
         rel_max_pending_messages := 1024,
         rel_max_pending_bytes := 512 * 1024\<rparr>,
     ccfg_fragmentation := FragmentationConfig_default\<lparr>frag_max_reassembled_message_bytes := 60 * 1024,
         frag_max_fragments_per_message := 64,
         frag_max_total_reassembly_memory_per_peer := 512 * 1024\<rparr>,
     ccfg_send_budget_bytes_per_second := 1024 * 1024,
     ccfg_congestion := CongestionControlConfig_default\<lparr>cc_enabled := True,
         cc_min_rate_bytes_per_second := 128 * 1024\<rparr>\<rparr>"

definition ServerConfig_public_internet :: ServerConfig where
  "ServerConfig_public_internet = ServerConfig_default
    \<lparr>scfg_abuse := AbuseConfig_default\<lparr>ab_per_ip_handshake_rate_limit_per_second := 48,
         ab_invalid_packet_ban_threshold := 12,
         ab_invalid_packet_ban_ms := 10000,
         ab_max_sessions_per_ip := 32\<rparr>,
     scfg_congestion := CongestionControlConfig_default\<lparr>cc_enabled := True,
         cc_min_rate_bytes_per_second := 64 * 1024\<rparr>\<rparr>"

definition ServerConfig_lan_only :: ServerConfig where
  "ServerConfig_lan_only = ServerConfig_default
    \<lparr>scfg_abuse := AbuseConfig_default\<lparr>ab_per_ip_handshake_rate_limit_per_second := 256,
         ab_invalid_packet_ban_threshold := 64,
         ab_max_sessions_per_ip := 256,
         ab_anti_amplification_slack_bytes := 2048\<rparr>,
     scfg_max_peer_sessions := 4096,
     scfg_send_budget_bytes_per_second := 1024 * 1024,
     scfg_congestion := CongestionControlConfig_default\<lparr>cc_enabled := True,
         cc_min_rate_bytes_per_second := 128 * 1024\<rparr>\<rparr>"

definition ServerConfig_bulk_transfer :: ServerConfig where
  "ServerConfig_bulk_transfer = ServerConfig_default
    \<lparr>scfg_reliability := ReliabilityConfig_default\<lparr>rel_initial_rto_ms := 180,
         rel_max_inflight_messages := 96,
         rel_max_pending_messages := 1024,
         rel_max_pending_bytes := 512 * 1024\<rparr>,
     scfg_fragmentation := FragmentationConfig_default\<lparr>frag_max_reassembled_message_bytes := 60 * 1024,
         frag_max_fragments_per_message := 64,
         frag_max_total_reassembly_memory_per_peer := 512 * 1024\<rparr>,
     scfg_abuse := AbuseConfig_default\<lparr>ab_max_queued_reliable_bytes_per_peer := 512 * 1024,
         ab_max_total_reassembly_memory_server := 32 * 1024 * 1024\<rparr>,
     scfg_send_budget_bytes_per_second := 2 * 1024 * 1024,
     scfg_congestion := CongestionControlConfig_default\<lparr>cc_enabled := True,
         cc_min_rate_bytes_per_second := 256 * 1024\<rparr>\<rparr>"

section \<open>Validators\<close>

definition validate_reliability_config :: "ReliabilityConfig \<Rightarrow> unit result" where
  "validate_reliability_config cfg =
    (if rel_initial_rto_ms cfg = 0 \<or> rel_min_rto_ms cfg = 0 \<or> rel_max_rto_ms cfg = 0 then Inl errc.InvalidArg
     else if rel_initial_rto_ms cfg < rel_min_rto_ms cfg \<or> rel_max_rto_ms cfg < rel_initial_rto_ms cfg
       then Inl errc.InvalidArg
     else if rel_max_pending_messages cfg = 0 \<or> rel_max_inflight_messages cfg = 0 then Inl errc.InvalidArg
     else if unat (rel_max_pending_bytes cfg) < MaxReliableMessageBytes then Inl errc.InvalidArg
     else if rel_ordered_receive_window cfg = 0 then Inl errc.InvalidArg
     else Inr ())"

definition required_fragments :: "U32 \<Rightarrow> U32" where
  "required_fragments max_bytes = of_nat ((unat max_bytes + MaxFragmentDataBytes - 1) div MaxFragmentDataBytes)"

definition validate_fragmentation_config :: "FragmentationConfig \<Rightarrow> unit result" where
  "validate_fragmentation_config cfg =
    (if \<not> frag_enabled cfg then Inr ()
     else if frag_max_fragments_per_message cfg = 0 then Inl errc.InvalidArg
     else if frag_max_reassembled_message_bytes cfg = 0
        \<or> U16_MAX < unat (frag_max_reassembled_message_bytes cfg) then Inl errc.InvalidArg
     else if ucast (frag_max_fragments_per_message cfg) < required_fragments (frag_max_reassembled_message_bytes cfg)
       then Inl errc.InvalidArg
     else if frag_max_concurrent_reassemblies_per_peer cfg = 0 then Inl errc.InvalidArg
     else if frag_max_total_reassembly_memory_per_peer cfg < ucast (frag_max_reassembled_message_bytes cfg)
       then Inl errc.InvalidArg
     else if frag_reassembly_timeout_ms cfg = 0 then Inl errc.InvalidArg
     else Inr ())"

definition validate_congestion_control_config :: "CongestionControlConfig \<Rightarrow> U32 \<Rightarrow> unit result" where
  "validate_congestion_control_config cfg send_budget =
    (if \<not> cc_enabled cfg then Inr ()
     else if send_budget = 0 then Inl errc.InvalidArg
     else let max_rate = (if cc_max_rate_bytes_per_second cfg = 0 then send_budget
                          else cc_max_rate_bytes_per_second cfg) in
       if cc_min_rate_bytes_per_second cfg = 0 \<or> max_rate = 0 \<or> max_rate < cc_min_rate_bytes_per_second cfg
         then Inl errc.InvalidArg
       else if cc_initial_rate_bytes_per_second cfg \<noteq> 0 \<and>
               (cc_initial_rate_bytes_per_second cfg < cc_min_rate_bytes_per_second cfg \<or>
                max_rate < cc_initial_rate_bytes_per_second cfg)
         then Inl errc.InvalidArg
       else if cc_additive_increase_bytes_per_ack cfg = 0 \<or>
               cc_multiplicative_decrease_per_mille cfg = 0 \<or> 1000 < cc_multiplicative_decrease_per_mille cfg \<or>
               cc_backpressure_decrease_per_mille cfg = 0 \<or> 1000 < cc_backpressure_decrease_per_mille cfg
         then Inl errc.InvalidArg
       else if unat (cc_min_window_bytes cfg) < MaxPacketBytes then Inl errc.InvalidArg
       else if cc_max_window_bytes cfg \<noteq> 0 \<and> cc_max_window_bytes cfg < cc_min_window_bytes cfg
         then Inl errc.InvalidArg
       else if cc_loss_cooldown_ms cfg = 0 \<or> cc_backpressure_cooldown_ms cfg = 0 then Inl errc.InvalidArg
       else Inr ())"

definition validate_client_config :: "ClientConfig \<Rightarrow> unit result" where
  "validate_client_config cfg =
    rbind (validate_reliability_config (ccfg_reliability cfg)) (\<lambda>_.
    rbind (validate_fragmentation_config (ccfg_fragmentation cfg)) (\<lambda>_.
    rbind (validate_congestion_control_config (ccfg_congestion cfg) (ccfg_send_budget_bytes_per_second cfg)) (\<lambda>_.
     if ccfg_handshake_timeout_ms cfg = 0 \<or> ccfg_idle_timeout_ms cfg = 0 \<or> ccfg_close_drain_ms cfg = 0
       then Inl errc.InvalidArg
     else if ccfg_keepalive_interval_ms cfg = 0 \<or> ccfg_idle_timeout_ms cfg \<le> ccfg_keepalive_interval_ms cfg
       then Inl errc.InvalidArg
     else if ccfg_max_pending_packets cfg = 0 then Inl errc.InvalidArg
     else if ccfg_send_budget_bytes_per_second cfg = 0 then Inl errc.InvalidArg
     else Inr ())))"

definition validate_server_config :: "ServerConfig \<Rightarrow> unit result" where
  "validate_server_config cfg =
    rbind (validate_reliability_config (scfg_reliability cfg)) (\<lambda>_.
    rbind (validate_fragmentation_config (scfg_fragmentation cfg)) (\<lambda>_.
    rbind (validate_congestion_control_config (scfg_congestion cfg) (scfg_send_budget_bytes_per_second cfg)) (\<lambda>_.
     if scfg_handshake_timeout_ms cfg = 0 \<or> scfg_idle_timeout_ms cfg = 0 \<or> scfg_close_drain_ms cfg = 0
       then Inl errc.InvalidArg
     else if scfg_keepalive_interval_ms cfg = 0 \<or> scfg_idle_timeout_ms cfg \<le> scfg_keepalive_interval_ms cfg
       then Inl errc.InvalidArg
     else if scfg_max_pending_packets cfg = 0 \<or> scfg_max_peer_sessions cfg = 0 then Inl errc.InvalidArg
     else if scfg_send_budget_bytes_per_second cfg = 0 then Inl errc.InvalidArg
     else if ab_per_ip_handshake_rate_limit_per_second (scfg_abuse cfg) = 0 \<or>
             ab_max_sessions_per_ip (scfg_abuse cfg) = 0 \<or>
             ab_anti_amplification_factor (scfg_abuse cfg) = 0 \<or>
             ab_max_queued_reliable_bytes_per_peer (scfg_abuse cfg) = 0 \<or>
             ab_max_total_reassembly_memory_server (scfg_abuse cfg) = 0
       then Inl errc.InvalidArg
     else if ab_max_queued_reliable_bytes_per_peer (scfg_abuse cfg) < rel_max_pending_bytes (scfg_reliability cfg)
       then Inl errc.InvalidArg
     else if ab_max_total_reassembly_memory_server (scfg_abuse cfg)
             < frag_max_total_reassembly_memory_per_peer (scfg_fragmentation cfg)
       then Inl errc.InvalidArg
     else Inr ())))"

end
