(* ===== verification/Scn_Packet.thy ===== *)
theory Scn_Packet
  imports Scn_Bytebuf Scn_Config
begin

text \<open>
  The packet format (\<^verbatim>\<open>packet.hpp\<close>, \<^verbatim>\<open>packet.cpp\<close>): a 28 byte header followed by the
  payload that its last field counts.

  The interface \<open>wire_codec\<close> is the contract that the control and handshake formats of the
  library share: what the encoder writes the decoder accepts and returns unchanged, and what the
  decoder accepts is the encoding of what it returns. Its consequences (one byte string per value,
  one value per byte string) are proved once here.
\<close>

section \<open>The contract of a wire format\<close>

locale wire_codec =
  fixes enc :: "'a \<Rightarrow> U8 list"
    and dec :: "U8 list \<Rightarrow> 'a result"
    and valid :: "'a \<Rightarrow> bool"
  assumes dec_enc: "valid x \<Longrightarrow> dec (enc x) = Inr x"
    and enc_dec: "dec bs = Inr x \<Longrightarrow> valid x \<and> enc x = bs"
begin

lemma enc_inj: "valid x \<Longrightarrow> valid y \<Longrightarrow> enc x = enc y \<Longrightarrow> x = y"
  using dec_enc by (metis Inr_inject)

lemma dec_inj: "dec a = Inr x \<Longrightarrow> dec b = Inr x \<Longrightarrow> a = b"
  using enc_dec by blast

lemma dec_iff: "dec bs = Inr x \<longleftrightarrow> valid x \<and> bs = enc x"
  using dec_enc enc_dec by blast

lemma dec_fails_iff: "(\<exists>e. dec bs = Inl e) \<longleftrightarrow> (\<forall>x. valid x \<longrightarrow> bs \<noteq> enc x)"
proof
  assume "\<exists>e. dec bs = Inl e"
  then show "\<forall>x. valid x \<longrightarrow> bs \<noteq> enc x" using dec_enc by (metis sum.distinct(1))
next
  assume "\<forall>x. valid x \<longrightarrow> bs \<noteq> enc x"
  then show "\<exists>e. dec bs = Inl e" using enc_dec by (metis sumE)
qed

end

section \<open>Packet headers\<close>

datatype PacketKind = Raw | Handshake | Message | Keepalive | Close

fun packet_kind_value :: "PacketKind \<Rightarrow> U8" where
  "packet_kind_value PacketKind.Raw = 0"
| "packet_kind_value PacketKind.Handshake = 1"
| "packet_kind_value PacketKind.Message = 2"
| "packet_kind_value PacketKind.Keepalive = 3"
| "packet_kind_value PacketKind.Close = 4"

definition PacketFlagEncrypted :: U8 where
  "PacketFlagEncrypted = 0x01"

definition PacketKnownFlags :: U8 where
  "PacketKnownFlags = PacketFlagEncrypted"

record PacketHeader =
  ph_magic :: U32
  ph_version :: U16
  ph_kind :: U8
  ph_flags :: U8
  ph_conn_id :: U64
  ph_seq :: U64
  ph_payload_len :: U32

text \<open>A default constructed header.\<close>

definition PacketHeader_default :: PacketHeader where
  "PacketHeader_default =
    \<lparr>ph_magic = Magic, ph_version = ProtocolVersion, ph_kind = packet_kind_value PacketKind.Raw,
     ph_flags = 0, ph_conn_id = 0, ph_seq = 0, ph_payload_len = 0\<rparr>"

text \<open>The payload pointer of a view, with the bytes it points to, or null.\<close>

record PacketView =
  pv_h :: PacketHeader
  pv_payload :: "U8 list option"

definition packet_header_bytes :: ST where
  "packet_header_bytes = PacketHeaderBytes"

definition packet_kind_valid :: "U8 \<Rightarrow> bool" where
  "packet_kind_valid kind \<longleftrightarrow> kind \<le> packet_kind_value PacketKind.Close"

definition packet_header_encrypted :: "PacketHeader \<Rightarrow> bool" where
  "packet_header_encrypted h \<longleftrightarrow> ph_flags h AND PacketFlagEncrypted \<noteq> 0"

definition max_payload_bytes :: ST where
  "max_payload_bytes =
    (if packet_header_bytes < MaxPacketBytes then MaxPacketBytes - packet_header_bytes else 0)"

definition validate_packet_header :: "PacketHeader \<Rightarrow> unit result" where
  "validate_packet_header h =
    (if ph_magic h \<noteq> Magic then Inl errc.BadPacket
     else if ph_version h \<noteq> ProtocolVersion then Inl errc.UnsupportedVersion
     else if \<not> packet_kind_valid (ph_kind h) then Inl errc.BadPacket
     else if ph_flags h AND NOT PacketKnownFlags \<noteq> 0 then Inl errc.BadPacket
     else if max_payload_bytes < unat (ph_payload_len h) then Inl errc.BadPacket
     else Inr ())"

definition write_packet_header :: "ByteWriter \<Rightarrow> PacketHeader \<Rightarrow> ByteWriter result" where
  "write_packet_header w h =
    rbind (write_u32 w (ph_magic h)) (\<lambda>w.
    rbind (write_u16 w (ph_version h)) (\<lambda>w.
    rbind (write_u8 w (ph_kind h)) (\<lambda>w.
    rbind (write_u8 w (ph_flags h)) (\<lambda>w.
    rbind (write_u64 w (ph_conn_id h)) (\<lambda>w.
    rbind (write_u64 w (ph_seq h)) (\<lambda>w.
    write_u32 w (ph_payload_len h)))))))"

definition read_packet_header :: "ByteReader \<Rightarrow> (PacketHeader \<times> ByteReader) result" where
  "read_packet_header r =
    rbind (read_u32 r) (\<lambda>(mag, r).
    rbind (read_u16 r) (\<lambda>(ver, r).
    rbind (read_u8 r) (\<lambda>(knd, r).
    rbind (read_u8 r) (\<lambda>(flg, r).
    rbind (read_u64 r) (\<lambda>(cid, r).
    rbind (read_u64 r) (\<lambda>(sq, r).
    rbind (read_u32 r) (\<lambda>(plen, r).
    Inr (\<lparr>ph_magic = mag, ph_version = ver, ph_kind = knd, ph_flags = flg,
          ph_conn_id = cid, ph_seq = sq, ph_payload_len = plen\<rparr>, r))))))))"

section \<open>Packets\<close>

text \<open>
  \<^verbatim>\<open>pack_packet\<close>: the output buffer and the number of bytes written. A header with a foreign
  version is packed (the peer answers it with \<^verbatim>\<open>UnsupportedVersion\<close>); validation stops at the
  version check then, as in the code.
\<close>

definition pack_packet ::
  "PacketHeader \<Rightarrow> U8 list option \<Rightarrow> ST \<Rightarrow> U8 list option \<Rightarrow> ST \<Rightarrow> (U8 list \<times> ST) result" where
  "pack_packet h payload payload_len out out_cap =
    (case out of
       None \<Rightarrow> Inl errc.InvalidArg
     | Some buf \<Rightarrow>
       if 0 < payload_len \<and> payload = None then Inl errc.InvalidArg
       else if max_payload_bytes < payload_len then Inl errc.InvalidArg
       else if ph_payload_len h \<noteq> of_nat payload_len then Inl errc.InvalidArg
       else let rc = validate_packet_header h in
         if \<not> ok rc \<and> code_of rc \<noteq> errc.UnsupportedVersion then Inl (code_of rc)
         else let total = packet_header_bytes + payload_len in
           if out_cap < total then Inl errc.Truncated
           else rbind (write_packet_header (writer_on buf out_cap) h) (\<lambda>w.
                rbind (if 0 < payload_len then write_bytes w payload payload_len else Inr w) (\<lambda>w.
                Inr (the (bw_dst w), bw_off w))))"

text \<open>\<^verbatim>\<open>parse_packet\<close> on the bytes of a received datagram (\<open>None\<close>: a null pointer).\<close>

definition parse_packet :: "U8 list option \<Rightarrow> PacketView result" where
  "parse_packet inp =
    (case inp of
       None \<Rightarrow> Inl errc.InvalidArg
     | Some bs \<Rightarrow>
       if length bs < packet_header_bytes then Inl errc.Truncated
       else rbind (read_packet_header (rd bs 0)) (\<lambda>(h, r).
            rbind (validate_packet_header h) (\<lambda>_.
              if remaining_r r < unat (ph_payload_len h) then Inl errc.Truncated
              else if remaining_r r \<noteq> unat (ph_payload_len h) then Inl errc.BadPacket
              else Inr \<lparr>pv_h = h,
                        pv_payload = (if ph_payload_len h = 0 then None else Some (drop (br_off r) bs))\<rparr>)))"

section \<open>The header encoding\<close>

definition enc_packet_header :: "PacketHeader \<Rightarrow> U8 list" where
  "enc_packet_header h =
     be_bytes 4 (ph_magic h) @ be_bytes 2 (ph_version h) @ enc_u8 (ph_kind h) @ enc_u8 (ph_flags h) @
     be_bytes 8 (ph_conn_id h) @ be_bytes 8 (ph_seq h) @ be_bytes 4 (ph_payload_len h)"

lemma length_enc_packet_header [simp]: "length (enc_packet_header h) = 28"
  by (simp add: enc_packet_header_def)

lemma write_packet_header_emit [write_rules]:
  "writer_wf w \<Longrightarrow> write_packet_header w h = emit (enc_packet_header h) w"
  unfolding write_packet_header_def enc_packet_header_def
  by (intro rbind_emit write_rules)

lemma read_packet_header_rd:
  "28 \<le> length bs \<Longrightarrow> read_packet_header (rd bs 0) =
    Inr (\<lparr>ph_magic = be_value (take 4 bs), ph_version = be_value (take 2 (drop 4 bs)),
          ph_kind = bs ! 6, ph_flags = bs ! 7, ph_conn_id = be_value (take 8 (drop 8 bs)),
          ph_seq = be_value (take 8 (drop 16 bs)), ph_payload_len = be_value (take 4 (drop 24 bs))\<rparr>, rd bs 28)"
  by (simp add: read_packet_header_def read_evals)

lemma read_enc_packet_header:
  "read_packet_header (rd (enc_packet_header h @ p) 0) = Inr (h, rd (enc_packet_header h @ p) 28)"
  by (subst read_packet_header_rd) (simp_all add: enc_packet_header_def enc_u8_def nth_append)

lemma enc_read_packet_header:
  assumes "read_packet_header (rd bs 0) = Inr (h, r)" "28 \<le> length bs"
  shows "enc_packet_header h = take 28 bs \<and> r = rd bs 28"
proof -
  have "take 28 bs = take 4 (drop 0 bs) @ take 2 (drop (0 + 4) bs) @ take 1 (drop 6 bs) @ take 1 (drop 7 bs) @
    take 8 (drop 8 bs) @ take 8 (drop 16 bs) @ take 4 (drop 24 bs)"
    using take_drop_join [of 4 0 bs 24] take_drop_join [of 2 4 bs 22] take_drop_join [of 1 6 bs 21]
      take_drop_join [of 1 7 bs 20] take_drop_join [of 8 8 bs 12] take_drop_join [of 8 16 bs 4]
    by simp
  then show ?thesis
    using assms be_bytes_take(2) [of 0 bs]
    by (auto simp: read_packet_header_rd enc_packet_header_def enc_u8_def be_bytes_take take_nth_drop)
qed

section \<open>Correctness of the packet format\<close>

definition payload_of :: "PacketView \<Rightarrow> U8 list" where
  "payload_of v = (case pv_payload v of None \<Rightarrow> [] | Some p \<Rightarrow> p)"

definition enc_packet :: "PacketView \<Rightarrow> U8 list" where
  "enc_packet v = enc_packet_header (pv_h v) @ payload_of v"

definition valid_packet :: "PacketView \<Rightarrow> bool" where
  "valid_packet v \<longleftrightarrow>
     validate_packet_header (pv_h v) = Inr () \<and> unat (ph_payload_len (pv_h v)) = length (payload_of v) \<and>
     pv_payload v \<noteq> Some []"

lemma parse_packet_Some:
  "28 \<le> length bs \<Longrightarrow> read_packet_header (rd bs 0) = Inr (h, rd bs 28) \<Longrightarrow>
   parse_packet (Some bs) = rbind (validate_packet_header h) (\<lambda>_.
     if length bs - 28 < unat (ph_payload_len h) then Inl errc.Truncated
     else if length bs - 28 \<noteq> unat (ph_payload_len h) then Inl errc.BadPacket
     else Inr \<lparr>pv_h = h, pv_payload = (if ph_payload_len h = 0 then None else Some (drop 28 bs))\<rparr>)"
  by (simp add: parse_packet_def packet_header_bytes_def)

lemma parse_enc_packet: "valid_packet v \<Longrightarrow> parse_packet (Some (enc_packet v)) = Inr v"
  using read_enc_packet_header [of "pv_h v" "payload_of v"]
  by (subst parse_packet_Some [of _ "pv_h v"])
    (auto simp: enc_packet_def valid_packet_def payload_of_def unat_eq_0 split: option.splits)

lemma enc_parse_packet:
  assumes "parse_packet (Some bs) = Inr v"
  shows "valid_packet v \<and> enc_packet v = bs"
proof -
  have len: "28 \<le> length bs"
    using assms by (auto simp: parse_packet_def packet_header_bytes_def split: if_splits)
  obtain h where h: "read_packet_header (rd bs 0) = Inr (h, rd bs 28)"
    using read_packet_header_rd [OF len] by blast
  then have "enc_packet_header h = take 28 bs" using enc_read_packet_header len by blast
  then show ?thesis
    using assms len
    by (auto simp: parse_packet_Some [OF len h] rbind_Inr_iff enc_packet_def valid_packet_def payload_of_def
        unat_eq_0 split: if_splits)
qed

interpretation packet: wire_codec enc_packet "\<lambda>bs. parse_packet (Some bs)" valid_packet
  by unfold_locales (simp add: parse_enc_packet, rule enc_parse_packet)

lemma write_payload_emit:
  "writer_wf w \<Longrightarrow> (if 0 < length p then write_bytes w (Some p) (length p) else Inr w) = emit p w"
  by (simp add: write_rules)

lemma pack_packet_emit:
  assumes "out_cap \<le> length buf" "length p \<le> max_payload_bytes" "ph_payload_len h = of_nat (length p)"
    and "ok (validate_packet_header h) \<or> code_of (validate_packet_header h) = errc.UnsupportedVersion"
    and "28 + length p \<le> out_cap"
  shows "pack_packet h (Some p) (length p) (Some buf) out_cap =
     Inr (enc_packet_header h @ p @ drop (28 + length p) buf, 28 + length p)"
proof -
  have "rbind (write_packet_header (writer_on buf out_cap) h)
        (\<lambda>w. if 0 < length p then write_bytes w (Some p) (length p) else Inr w)
      = emit (enc_packet_header h @ p) (writer_on buf out_cap)"
    using assms(1) by (intro rbind_emit write_rules write_payload_emit) simp_all
  then have "rbind (write_packet_header (writer_on buf out_cap) h) (\<lambda>w.
      rbind (if 0 < length p then write_bytes w (Some p) (length p) else Inr w) (\<lambda>w. Inr (the (bw_dst w), bw_off w)))
      = rbind (emit (enc_packet_header h @ p) (writer_on buf out_cap)) (\<lambda>w. Inr (the (bw_dst w), bw_off w))"
    by (simp flip: rbind_assoc)
  then show ?thesis
    using assms by (auto simp: pack_packet_def Let_def emit_writer_on packet_header_bytes_def)
qed

lemma pack_packet_Inr:
  assumes "pack_packet h (Some p) (length p) (Some buf) out_cap = Inr (out, n)" "out_cap \<le> length buf"
  shows "n = 28 + length p" "take n out = enc_packet_header h @ p" "length p \<le> max_payload_bytes"
    "ph_payload_len h = of_nat (length p)" "n \<le> out_cap"
    "ok (validate_packet_header h) \<or> code_of (validate_packet_header h) = errc.UnsupportedVersion"
proof -
  have c: "length p \<le> max_payload_bytes" "ph_payload_len h = of_nat (length p)" "28 + length p \<le> out_cap"
    "ok (validate_packet_header h) \<or> code_of (validate_packet_header h) = errc.UnsupportedVersion"
    using assms(1) by (auto simp: pack_packet_def Let_def packet_header_bytes_def split: if_splits)
  note eq = pack_packet_emit [OF assms(2) c(1,2,4,3)]
  show "n = 28 + length p" "take n out = enc_packet_header h @ p" "length p \<le> max_payload_bytes"
    "ph_payload_len h = of_nat (length p)" "n \<le> out_cap"
    "ok (validate_packet_header h) \<or> code_of (validate_packet_header h) = errc.UnsupportedVersion"
    using assms(1) eq c by auto
qed

text \<open>
  C26: a packet that \<^verbatim>\<open>pack_packet\<close> writes into a caller's buffer with the current protocol
  version occupies exactly 28 bytes plus its payload, never more than 1300, and
  \<^verbatim>\<open>parse_packet\<close> on those bytes returns the same header and payload.
\<close>

theorem packet_roundtrip:
  assumes "pack_packet h (Some p) (length p) (Some buf) out_cap = Inr (out, n)"
    and "out_cap \<le> length buf" and "ph_version h = ProtocolVersion"
  shows "n = packet_header_bytes + length p \<and> n \<le> MaxPacketBytes \<and>
    parse_packet (Some (take n out)) = Inr \<lparr>pv_h = h, pv_payload = (if p = [] then None else Some p)\<rparr>"
proof -
  let ?v = "\<lparr>pv_h = h, pv_payload = (if p = [] then None else Some p)\<rparr>"
  note * = pack_packet_Inr [OF assms(1,2)]
  have v: "validate_packet_header h = Inr ()"
    using *(6) assms(3) by (auto simp: validate_packet_header_def split: if_splits)
  have "unat (ph_payload_len h) = length p"
    using *(3,4) by (simp add: unat_of_nat_small max_payload_bytes_def packet_header_bytes_def)
  then have "valid_packet ?v" using v by (auto simp: valid_packet_def payload_of_def)
  then have "parse_packet (Some (take n out)) = Inr ?v"
    using packet.dec_enc [of ?v] *(1,2) by (auto simp: enc_packet_def payload_of_def split: if_splits)
  then show ?thesis
    using *(1,3) by (simp_all add: packet_header_bytes_def max_payload_bytes_def)
qed

theorem packet_roundtrip_witness:
  "parse_packet (Some (take 30 (fst (projr (pack_packet (PacketHeader_default\<lparr>ph_payload_len := 2\<rparr>)
      (Some [7, 9]) (length [7::U8, 9]) (Some (replicate 40 0)) 40))))) =
   Inr \<lparr>pv_h = PacketHeader_default\<lparr>ph_payload_len := 2\<rparr>, pv_payload = Some [7, 9]\<rparr>"
proof -
  let ?h = "PacketHeader_default\<lparr>ph_payload_len := 2\<rparr>"
  have p: "pack_packet ?h (Some [7, 9]) (length [7::U8, 9]) (Some (replicate 40 0)) 40 =
     Inr (enc_packet_header ?h @ [7, 9] @ replicate 10 0, 30)"
    by (subst pack_packet_emit) (auto simp: max_payload_bytes_def packet_header_bytes_def
        validate_packet_header_def PacketHeader_default_def packet_kind_valid_def)
  show ?thesis using packet_roundtrip [OF p, THEN conjunct2, THEN conjunct2] p by (simp add: PacketHeader_default_def)
qed

text \<open>
  C27: \<^verbatim>\<open>parse_packet\<close> accepts exactly the encodings of valid packets. In particular the header
  that a receiver re-encodes as additional authenticated data is byte for byte the header that was
  on the wire, and two different datagrams are never parsed to the same packet.
\<close>

theorem parse_packet_exact:
  "parse_packet (Some bs) = Inr v \<longleftrightarrow> valid_packet v \<and> bs = enc_packet_header (pv_h v) @ payload_of v"
  by (simp add: packet.dec_iff enc_packet_def)

end
