(* ===== verification/Scn_Crypto.thy ===== *)
theory Scn_Crypto
  imports Scn_Packet
begin

text \<open>
  The wrappers of crypto.hpp and crypto.cpp around libsodium.

  libsodium itself is a parameter: a record \<open>Sodium\<close> with one field per function the code calls.
  The functions with randomness take and return a world \<open>'w\<close>; a call that reports failure by a
  non-zero status is the value \<^term>\<open>None\<close>.  The wrappers add the length and null checks and the error
  codes, and these are what the definitions below translate.
\<close>

record 'w Sodium =
  sodium_init :: int
  randombytes_buf :: "nat \<Rightarrow> 'w \<Rightarrow> U8 list \<times> 'w"
  kx_keypair :: "'w \<Rightarrow> (U8 list \<times> U8 list) option \<times> 'w"
  kx_client_session_keys :: "U8 list \<Rightarrow> U8 list \<Rightarrow> U8 list \<Rightarrow> (U8 list \<times> U8 list) option"
  kx_server_session_keys :: "U8 list \<Rightarrow> U8 list \<Rightarrow> U8 list \<Rightarrow> (U8 list \<times> U8 list) option"
  xchacha_encrypt :: "U8 list \<Rightarrow> U8 list \<Rightarrow> U8 list \<Rightarrow> U8 list \<Rightarrow> U8 list option"
  xchacha_decrypt :: "U8 list \<Rightarrow> U8 list \<Rightarrow> U8 list \<Rightarrow> U8 list \<Rightarrow> U8 list option"
  generichash :: "nat \<Rightarrow> U8 list \<Rightarrow> U8 list \<Rightarrow> U8 list option"

text \<open>The \<open>n\<close> bytes at a pointer.\<close>

definition at_ptr :: "U8 list option \<Rightarrow> nat \<Rightarrow> U8 list" where
  "at_ptr p n = (case p of None \<Rightarrow> [] | Some bs \<Rightarrow> take n bs)"

section \<open>Keys\<close>

record KeyPair =
  kp_public_key :: "U8 list"
  kp_secret_key :: "U8 list"

record SessionKeys =
  sk_rx :: "U8 list"
  sk_tx :: "U8 list"

definition KeyPair_default :: KeyPair where
  "KeyPair_default =
    \<lparr>kp_public_key = replicate KeyExchangePublicKeyBytes 0, kp_secret_key = replicate KeyExchangeSecretKeyBytes 0\<rparr>"

definition SessionKeys_default :: SessionKeys where
  "SessionKeys_default = \<lparr>sk_rx = replicate SessionKeyBytes 0, sk_tx = replicate SessionKeyBytes 0\<rparr>"

definition ensure_crypto_ready :: "'w Sodium \<Rightarrow> unit result" where
  "ensure_crypto_ready S = (if sodium_init S < 0 then Inl Internal else Inr ())"

definition crypto_runtime_status :: "'w Sodium \<Rightarrow> unit result" where
  "crypto_runtime_status S = ensure_crypto_ready S"

text \<open>Zeroing the \<open>len\<close> first bytes at a pointer.\<close>

definition crypto_secure_zero :: "U8 list option \<Rightarrow> nat \<Rightarrow> U8 list option" where
  "crypto_secure_zero p len =
    (case p of None \<Rightarrow> None
     | Some bs \<Rightarrow> if len = 0 then Some bs else Some (replicate len 0 @ drop len bs))"

definition zeroed :: "U8 list \<Rightarrow> U8 list" where
  "zeroed bs = the (crypto_secure_zero (Some bs) (length bs))"

definition kp_clear :: "KeyPair \<Rightarrow> KeyPair" where
  "kp_clear k = k\<lparr>kp_secret_key := zeroed (kp_secret_key k),
                  kp_public_key := replicate (length (kp_public_key k)) 0\<rparr>"

definition sk_clear :: "SessionKeys \<Rightarrow> SessionKeys" where
  "sk_clear k = k\<lparr>sk_rx := zeroed (sk_rx k), sk_tx := zeroed (sk_tx k)\<rparr>"

definition sk_empty :: "SessionKeys \<Rightarrow> bool" where
  "sk_empty k \<longleftrightarrow> (let accum = fold (\<lambda>b acc. acc OR b) (sk_rx k) 0;
                       accum = fold (\<lambda>b acc. acc OR b) (sk_tx k) accum
                   in accum = 0)"

section \<open>Randomness, comparison, key exchange\<close>

text \<open>Fills the \<open>len\<close> bytes at a pointer; the result is what they are afterwards.\<close>

definition crypto_random_bytes :: "'w Sodium \<Rightarrow> U8 list option \<Rightarrow> nat \<Rightarrow> 'w \<Rightarrow> U8 list option \<times> 'w" where
  "crypto_random_bytes S dst len w =
    (case dst of None \<Rightarrow> (None, w)
     | Some bs \<Rightarrow>
         if len = 0 then (Some bs, w)
         else let (r, w') = randombytes_buf S len w in (Some (r @ drop len bs), w'))"

definition crypto_constant_time_equal :: "U8 list option \<Rightarrow> U8 list option \<Rightarrow> nat \<Rightarrow> bool" where
  "crypto_constant_time_equal a b len \<longleftrightarrow>
    (if (a = None \<or> b = None) \<and> len \<noteq> 0 then False
     else fold (\<lambda>i diff. diff OR ((the a ! i) XOR (the b ! i))) [0..<len] (0 :: U8) = 0)"

definition crypto_generate_keypair :: "'w Sodium \<Rightarrow> KeyPair \<Rightarrow> 'w \<Rightarrow> (unit result \<times> KeyPair) \<times> 'w" where
  "crypto_generate_keypair S out w =
    (case ensure_crypto_ready S of
       Inl e \<Rightarrow> ((Inl e, out), w)
     | Inr _ \<Rightarrow>
         (case kx_keypair S w of
            (None, w') \<Rightarrow> ((Inl Internal, out), w')
          | (Some (pk, sk), w') \<Rightarrow> ((Inr (), out\<lparr>kp_public_key := pk, kp_secret_key := sk\<rparr>), w')))"

definition crypto_derive_client_session_keys ::
  "'w Sodium \<Rightarrow> KeyPair \<Rightarrow> U8 list option \<Rightarrow> nat \<Rightarrow> SessionKeys \<Rightarrow> unit result \<times> SessionKeys" where
  "crypto_derive_client_session_keys S client_ephemeral server_public_key server_public_key_len out =
    (case ensure_crypto_ready S of
       Inl e \<Rightarrow> (Inl e, out)
     | Inr _ \<Rightarrow>
         if server_public_key = None \<or> server_public_key_len \<noteq> KeyExchangePublicKeyBytes then (Inl InvalidArg, out)
         else case kx_client_session_keys S (kp_public_key client_ephemeral) (kp_secret_key client_ephemeral)
                     (the server_public_key) of
           None \<Rightarrow> (Inl AuthFailed, out)
         | Some (rx, tx) \<Rightarrow> (Inr (), out\<lparr>sk_rx := rx, sk_tx := tx\<rparr>))"

definition crypto_derive_server_session_keys ::
  "'w Sodium \<Rightarrow> KeyPair \<Rightarrow> U8 list option \<Rightarrow> nat \<Rightarrow> SessionKeys \<Rightarrow> unit result \<times> SessionKeys" where
  "crypto_derive_server_session_keys S server_ephemeral client_public_key client_public_key_len out =
    (case ensure_crypto_ready S of
       Inl e \<Rightarrow> (Inl e, out)
     | Inr _ \<Rightarrow>
         if client_public_key = None \<or> client_public_key_len \<noteq> KeyExchangePublicKeyBytes then (Inl InvalidArg, out)
         else case kx_server_session_keys S (kp_public_key server_ephemeral) (kp_secret_key server_ephemeral)
                     (the client_public_key) of
           None \<Rightarrow> (Inl AuthFailed, out)
         | Some (rx, tx) \<Rightarrow> (Inr (), out\<lparr>sk_rx := rx, sk_tx := tx\<rparr>))"

section \<open>Packet nonces and authenticated encryption\<close>

definition crypto_make_packet_nonce :: "U64 \<Rightarrow> U64 \<Rightarrow> U8 list" where
  "crypto_make_packet_nonce conn_id seq =
    fold (\<lambda>i out. out[8 + i := ucast (drop_bit ((7 - i) * 8) conn_id AND 0xFF),
                      16 + i := ucast (drop_bit ((7 - i) * 8) seq AND 0xFF)])
      [0..<8] (replicate AeadNonceBytes 0)"

text \<open>Both calls give the bytes written at \<open>out\<close>, whose number is \<^verbatim>\<open>out_len\<close>.\<close>

definition crypto_aead_encrypt ::
  "'w Sodium \<Rightarrow> U8 list option \<Rightarrow> U8 list option \<Rightarrow> U8 list option \<Rightarrow> nat \<Rightarrow> U8 list option \<Rightarrow> nat \<Rightarrow> nat \<Rightarrow>
   U8 list result" where
  "crypto_aead_encrypt S key nonce aad aad_len plaintext plaintext_len out_cap =
    rbind (ensure_crypto_ready S) (\<lambda>_.
     if key = None \<or> length (the key) \<noteq> AeadKeyBytes then Inl InvalidArg
     else if nonce = None \<or> length (the nonce) \<noteq> AeadNonceBytes then Inl InvalidArg
     else if aad_len > 0 \<and> aad = None then Inl InvalidArg
     else if plaintext_len > 0 \<and> plaintext = None then Inl InvalidArg
     else if out_cap < plaintext_len + AeadTagBytes then Inl Truncated
     else case xchacha_encrypt S (at_ptr plaintext plaintext_len) (at_ptr aad aad_len)
                 (the nonce) (the key) of
       None \<Rightarrow> Inl Internal
     | Some out \<Rightarrow> Inr out)"

definition crypto_aead_decrypt ::
  "'w Sodium \<Rightarrow> U8 list option \<Rightarrow> U8 list option \<Rightarrow> U8 list option \<Rightarrow> nat \<Rightarrow> U8 list option \<Rightarrow> nat \<Rightarrow> nat \<Rightarrow>
   U8 list result" where
  "crypto_aead_decrypt S key nonce aad aad_len ciphertext ciphertext_len out_cap =
    rbind (ensure_crypto_ready S) (\<lambda>_.
     if key = None \<or> length (the key) \<noteq> AeadKeyBytes then Inl InvalidArg
     else if nonce = None \<or> length (the nonce) \<noteq> AeadNonceBytes then Inl InvalidArg
     else if aad_len > 0 \<and> aad = None then Inl InvalidArg
     else if ciphertext_len < AeadTagBytes then Inl BadPacket
     else if ciphertext = None then Inl InvalidArg
     else if out_cap < ciphertext_len - AeadTagBytes then Inl Truncated
     else case xchacha_decrypt S (at_ptr ciphertext ciphertext_len) (at_ptr aad aad_len)
                 (the nonce) (the key) of
       None \<Rightarrow> Inl AuthFailed
     | Some out \<Rightarrow> Inr out)"

definition crypto_keyed_hash ::
  "'w Sodium \<Rightarrow> U8 list option \<Rightarrow> U8 list option \<Rightarrow> nat \<Rightarrow> nat \<Rightarrow> U8 list result" where
  "crypto_keyed_hash S key data data_len out_len =
    rbind (ensure_crypto_ready S) (\<lambda>_.
     if (key = None \<or> length (the key) = 0) \<or> out_len = 0 then Inl InvalidArg
     else if data_len > 0 \<and> data = None then Inl InvalidArg
     else case generichash S out_len (at_ptr data data_len) (the key) of
       None \<Rightarrow> Inl Internal
     | Some out \<Rightarrow> Inr out)"

section \<open>Comparison and nonces\<close>

lemma word_or_zero: "x OR y = 0 \<longleftrightarrow> x = 0 \<and> y = 0" for x y :: "'a::len word"
  by (auto simp: bit_eq_iff bit_simps)

lemma word_xor_zero: "x XOR y = 0 \<longleftrightarrow> x = y" for x y :: "'a::len word"
  by (auto simp: bit_eq_iff bit_simps)

lemma fold_or_zero: "fold (\<lambda>x acc. acc OR f x) xs (a :: 'a::len word) = 0 \<longleftrightarrow> a = 0 \<and> list_all (\<lambda>x. f x = 0) xs"
  by (induction xs arbitrary: a) (simp_all add: word_or_zero)

lemma sk_empty_iff: "sk_empty k \<longleftrightarrow> list_all (\<lambda>b. b = 0) (sk_rx k @ sk_tx k)"
  by (simp add: sk_empty_def Let_def fold_or_zero [where f = "\<lambda>b. b"])

lemma list_all_zero: "list_all (\<lambda>b. b = z) bs \<longleftrightarrow> replicate (length bs) z = bs"
  by (induction bs) auto

lemma zeroed [simp]: "zeroed bs = replicate (length bs) 0"
  by (simp add: zeroed_def crypto_secure_zero_def)

lemma sk_empty_clear [simp]: "sk_empty (sk_clear k)"
  by (auto simp: sk_empty_iff sk_clear_def list_all_iff)

lemma sk_empty_default [simp]: "sk_empty SessionKeys_default"
  by (auto simp: sk_empty_iff SessionKeys_default_def list_all_iff)

lemma constant_time_equal_lists:
  "length a = n \<Longrightarrow> length b = n \<Longrightarrow> crypto_constant_time_equal (Some a) (Some b) n \<longleftrightarrow> a = b"
  by (simp add: crypto_constant_time_equal_def fold_or_zero [where f = "\<lambda>i. (a ! i) XOR (b ! i)"]
      word_xor_zero list_all_length list_eq_iff_nth_eq)

lemma packet_nonce_bytes: "crypto_make_packet_nonce c s = replicate 8 0 @ be_bytes 8 c @ be_bytes 8 s"
proof -
  have "[0..<8] = [0, 1, 2, 3, 4, 5, 6, 7 :: nat]" by (simp add: upt_rec)
  moreover have "replicate 24 x = [x,x,x,x,x,x,x,x, x,x,x,x,x,x,x,x, x,x,x,x,x,x,x,x]"
    "replicate 8 x = [x,x,x,x,x,x,x,x]" for x :: U8
    by (simp_all add: numeral_eq_Suc)
  ultimately show ?thesis
    by (simp add: crypto_make_packet_nonce_def AeadNonceBytes_def be_bytes_numeral del: upt_conv_Cons)
qed

lemma length_packet_nonce [simp]: "length (crypto_make_packet_nonce c s) = AeadNonceBytes"
  by (simp add: packet_nonce_bytes AeadNonceBytes_def)

lemma be_bytes_8_inj: "be_bytes 8 c = be_bytes 8 d \<longleftrightarrow> c = d" for c d :: U64
proof
  assume "be_bytes 8 c = be_bytes 8 d"
  then have "(be_value (be_bytes 8 c) :: U64) = be_value (be_bytes 8 d)" by simp
  then show "c = d" by (simp add: be_value_be_bytes take_bit_word_eq_self)
qed simp

section \<open>What the code relies on\<close>

text \<open>
  Documented behaviour of libsodium, as predicates on the parameter.  For keys of 32 and nonces of 24
  bytes the authenticated encryption adds 16 bytes and decryption of its output, with the same
  associated data, nonce and key, gives the plaintext back.  The two sides of a key exchange between
  generated key pairs agree, with receiving and transmitting key exchanged; public keys and the
  derived keys have 32 bytes.
\<close>

definition aead_correct :: "'w Sodium \<Rightarrow> bool" where
  "aead_correct S \<longleftrightarrow>
    (\<forall>p a n k. length n = AeadNonceBytes \<longrightarrow> length k = AeadKeyBytes \<longrightarrow>
       (\<exists>c. xchacha_encrypt S p a n k = Some c \<and> length c = length p + AeadTagBytes
            \<and> xchacha_decrypt S c a n k = Some p))"

definition generated :: "'w Sodium \<Rightarrow> KeyPair \<Rightarrow> bool" where
  "generated S k \<longleftrightarrow> (\<exists>w. fst (kx_keypair S w) = Some (kp_public_key k, kp_secret_key k))"

definition kx_correct :: "'w Sodium \<Rightarrow> bool" where
  "kx_correct S \<longleftrightarrow>
    (\<forall>k. generated S k \<longrightarrow> length (kp_public_key k) = KeyExchangePublicKeyBytes) \<and>
    (\<forall>c s. generated S c \<longrightarrow> generated S s \<longrightarrow>
       (\<exists>rx tx. length rx = SessionKeyBytes \<and> length tx = SessionKeyBytes
          \<and> kx_client_session_keys S (kp_public_key c) (kp_secret_key c) (kp_public_key s) = Some (rx, tx)
          \<and> kx_server_session_keys S (kp_public_key s) (kp_secret_key s) (kp_public_key c) = Some (tx, rx)))"

definition hash_correct :: "'w Sodium \<Rightarrow> bool" where
  "hash_correct S \<longleftrightarrow> (\<forall>n d k h. generichash S n d k = Some h \<longrightarrow> length h = n)"

text \<open>A small instance that has these properties, for concrete inputs.\<close>

definition sample_sodium :: "nat Sodium" where
  "sample_sodium =
    \<lparr>sodium_init = 0,
     randombytes_buf = (\<lambda>n w. (replicate n (of_nat w), Suc w)),
     kx_keypair = (\<lambda>w. (Some (replicate 32 (of_nat w), replicate 32 (of_nat w)), Suc w)),
     kx_client_session_keys = (\<lambda>pk sk opk. if length pk = 32 \<and> length opk = 32
        then Some (map2 (+) pk opk, map (\<lambda>b. b + 1) (map2 (+) pk opk)) else None),
     kx_server_session_keys = (\<lambda>pk sk opk. if length pk = 32 \<and> length opk = 32
        then Some (map (\<lambda>b. b + 1) (map2 (+) opk pk), map2 (+) opk pk) else None),
     xchacha_encrypt = (\<lambda>p a n k. Some (p @ take 16 n)),
     xchacha_decrypt = (\<lambda>c a n k. if 16 \<le> length c \<and> drop (length c - 16) c = take 16 n
        then Some (take (length c - 16) c) else None),
     generichash = (\<lambda>n d k. Some (take n (d @ k @ replicate n 0)))\<rparr>"

lemma sample_sodium_init [simp]: "sodium_init sample_sodium = 0"
  by (simp add: sample_sodium_def)

lemma sample_aead [simp]: "aead_correct sample_sodium"
  by (simp add: aead_correct_def sample_sodium_def AeadNonceBytes_def AeadTagBytes_def)

lemma sample_hash [simp]: "hash_correct sample_sodium"
  by (auto simp: hash_correct_def sample_sodium_def)

lemma sample_generated: "generated sample_sodium k \<Longrightarrow> length (kp_public_key k) = KeyExchangePublicKeyBytes"
  by (auto simp: generated_def sample_sodium_def) (metis length_replicate)

lemma sample_kx [simp]: "kx_correct sample_sodium"
  by (auto simp: kx_correct_def dest!: sample_generated) (simp add: sample_sodium_def SessionKeyBytes_def)

section \<open>Round trip of the encryption\<close>

lemma ready_Inr: "ensure_crypto_ready S = Inr u \<longleftrightarrow> 0 \<le> sodium_init S"
  by (auto simp: ensure_crypto_ready_def)

lemma aead_correctD:
  "aead_correct S \<Longrightarrow> length n = AeadNonceBytes \<Longrightarrow> length k = AeadKeyBytes \<Longrightarrow> xchacha_encrypt S p a n k = Some c \<Longrightarrow>
   length c = length p + AeadTagBytes \<and> xchacha_decrypt S c a n k = Some p"
  unfolding aead_correct_def by (metis option.inject)

lemma aead_encrypt_Inr:
  assumes "crypto_aead_encrypt S key nonce aad aad_len p n cap = Inr c"
  obtains k v where "key = Some k" "nonce = Some v" "length k = AeadKeyBytes" "length v = AeadNonceBytes"
    "xchacha_encrypt S (at_ptr p n) (at_ptr aad aad_len) v k = Some c"
    "0 \<le> sodium_init S" "\<not> (aad_len > 0 \<and> aad = None)" "n + AeadTagBytes \<le> cap"
proof -
  have "0 \<le> sodium_init S" "key \<noteq> None" "nonce \<noteq> None" "length (the key) = AeadKeyBytes"
    "length (the nonce) = AeadNonceBytes" "\<not> (aad_len > 0 \<and> aad = None)" "n + AeadTagBytes \<le> cap"
    "xchacha_encrypt S (at_ptr p n) (at_ptr aad aad_len) (the nonce) (the key) = Some c"
    using assms unfolding crypto_aead_encrypt_def rbind_Inr_iff ready_Inr
    by (auto split: if_splits option.splits)
  then show thesis by (intro that) auto
qed

lemma aead_roundtrip:
  assumes "aead_correct S" "crypto_aead_encrypt S key nonce aad aad_len (Some p) (length p) cap = Inr c"
    and "length p \<le> cap'"
  shows "crypto_aead_decrypt S key nonce aad aad_len (Some c) (length c) cap' = Inr p"
proof -
  obtain k v where k: "key = Some k" "nonce = Some v" "length k = AeadKeyBytes" "length v = AeadNonceBytes"
    and c: "xchacha_encrypt S (at_ptr (Some p) (length p)) (at_ptr aad aad_len) v k = Some c"
    and g: "0 \<le> sodium_init S" "\<not> (aad_len > 0 \<and> aad = None)"
    by (rule aead_encrypt_Inr [OF assms(2)])
  from aead_correctD [OF assms(1) k(4,3) c] k g assms(3) show ?thesis
    by (simp add: crypto_aead_decrypt_def ensure_crypto_ready_def at_ptr_def)
qed

section \<open>Properties\<close>

text \<open>
  C13: the nonce of a packet has 24 bytes and determines the connection id and the sequence number,
  so within one connection no nonce is used for two sequence numbers.
\<close>

theorem packet_nonce_unique:
  "length (crypto_make_packet_nonce c s) = AeadNonceBytes
   \<and> (crypto_make_packet_nonce c s = crypto_make_packet_nonce c' s' \<longleftrightarrow> c = c' \<and> s = s')"
  by (simp add: packet_nonce_bytes be_bytes_8_inj AeadNonceBytes_def)

text \<open>
  C34: the accumulating loops compute what they stand for.  The constant-time comparison of two
  buffers of at least \<open>n\<close> bytes is equality of their first \<open>n\<close> bytes, a null pointer is only equal at
  length 0, and the emptiness test of the session keys holds exactly for all-zero keys, which is
  what clearing leaves.
\<close>

theorem constant_time_equal_exact:
  assumes "n \<le> length a" "n \<le> length b"
  shows "(crypto_constant_time_equal (Some a) (Some b) n \<longleftrightarrow> take n a = take n b)
    \<and> (crypto_constant_time_equal None (Some b) n \<longleftrightarrow> n = 0)
    \<and> (sk_empty k \<longleftrightarrow> sk_clear k = k)"
proof (intro conjI)
  show "crypto_constant_time_equal (Some a) (Some b) n \<longleftrightarrow> take n a = take n b"
    using assms by (simp add: crypto_constant_time_equal_def fold_or_zero [where f = "\<lambda>i. (a ! i) XOR (b ! i)"]
        word_xor_zero list_all_length list_eq_iff_nth_eq)
  show "sk_empty k \<longleftrightarrow> sk_clear k = k"
    by (cases k) (simp add: sk_empty_iff sk_clear_def list_all_append list_all_zero [symmetric])
qed (simp add: crypto_constant_time_equal_def)

theorem constant_time_equal_exact_witness:
  "crypto_constant_time_equal (Some [1, 2, 3]) (Some [1, 2, 4]) 2 \<and>
   \<not> crypto_constant_time_equal (Some [1, 2, 3]) (Some [1, 2, 4]) 3"
  using constant_time_equal_exact [of 2 "[1, 2, 3]" "[1, 2, 4]"]
    constant_time_equal_exact [of 3 "[1, 2, 3]" "[1, 2, 4]"]
  by (simp add: numeral_eq_Suc)

end
