(* ===== verification/Scn_Protocol.thy ===== *)
theory Scn_Protocol
  imports Scn_Packet
begin

text \<open>
  The handshake protocol (\<^verbatim>\<open>protocol.hpp\<close>): connection states, close reasons, the handshake
  and close frames with their readers and writers, and the replay window of a session.

  Every frame format is shown to satisfy \<open>wire_codec\<close>. The replay window implements the
  interface \<open>dedup_window\<close>: a set of accepted numbers in which a number is accepted when it is
  new and not 64 or more behind the newest.
\<close>

section \<open>Enumerations\<close>

datatype ConnectionState = Idle | Handshaking | Established | Closing | Closed

datatype HandshakeType = ClientHello | Retry | ServerHello

fun handshake_type_value :: "HandshakeType \<Rightarrow> U8" where
  "handshake_type_value HandshakeType.ClientHello = 1"
| "handshake_type_value HandshakeType.Retry = 2"
| "handshake_type_value HandshakeType.ServerHello = 3"

datatype CloseReason =
    Normal | IdleTimeout | EstablishTimeout | UnsupportedVersion | AuthenticationFailed
  | ReplayDetected | ProtocolError | InvalidPacket | UnknownConnection | CookieExpired
  | StateViolation | InternalError | RateLimited | Backpressure
  | CloseReason_other U16

fun close_reason_value :: "CloseReason \<Rightarrow> U16" where
  "close_reason_value CloseReason.Normal = 0"
| "close_reason_value CloseReason.IdleTimeout = 1"
| "close_reason_value CloseReason.EstablishTimeout = 2"
| "close_reason_value CloseReason.UnsupportedVersion = 3"
| "close_reason_value CloseReason.AuthenticationFailed = 4"
| "close_reason_value CloseReason.ReplayDetected = 5"
| "close_reason_value CloseReason.ProtocolError = 6"
| "close_reason_value CloseReason.InvalidPacket = 7"
| "close_reason_value CloseReason.UnknownConnection = 8"
| "close_reason_value CloseReason.CookieExpired = 9"
| "close_reason_value CloseReason.StateViolation = 10"
| "close_reason_value CloseReason.InternalError = 11"
| "close_reason_value CloseReason.RateLimited = 12"
| "close_reason_value CloseReason.Backpressure = 13"
| "close_reason_value (CloseReason_other v) = v"

text \<open>\<^verbatim>\<open>static_cast<CloseReason>(raw)\<close>.\<close>

definition close_reason_of_value :: "U16 \<Rightarrow> CloseReason" where
  "close_reason_of_value v =
    (if v = 0 then CloseReason.Normal else if v = 1 then CloseReason.IdleTimeout
     else if v = 2 then CloseReason.EstablishTimeout else if v = 3 then CloseReason.UnsupportedVersion
     else if v = 4 then CloseReason.AuthenticationFailed else if v = 5 then CloseReason.ReplayDetected
     else if v = 6 then CloseReason.ProtocolError else if v = 7 then CloseReason.InvalidPacket
     else if v = 8 then CloseReason.UnknownConnection else if v = 9 then CloseReason.CookieExpired
     else if v = 10 then CloseReason.StateViolation else if v = 11 then CloseReason.InternalError
     else if v = 12 then CloseReason.RateLimited else if v = 13 then CloseReason.Backpressure
     else CloseReason_other v)"

definition close_reason_valid :: "CloseReason \<Rightarrow> bool" where
  "close_reason_valid reason = (case reason of CloseReason_other _ \<Rightarrow> False | _ \<Rightarrow> True)"

section \<open>Frames\<close>

record RetryToken =
  rt_issued_at_ms :: U64
  rt_mac :: "U8 list"

definition RetryToken_default :: RetryToken where
  "RetryToken_default = \<lparr>rt_issued_at_ms = 0, rt_mac = replicate RetryTokenMacBytes 0\<rparr>"

record ResumptionToken =
  st_issued_at_ms :: U64
  st_expires_at_ms :: U64
  st_ticket_id :: U64
  st_mac :: "U8 list"

definition ResumptionToken_default :: ResumptionToken where
  "ResumptionToken_default =
    \<lparr>st_issued_at_ms = 0, st_expires_at_ms = 0, st_ticket_id = 0, st_mac = replicate ResumptionTokenMacBytes 0\<rparr>"

record ClientHello =
  ch_client_public_key :: "U8 list"
  ch_client_nonce :: "U8 list"
  ch_has_retry_token :: bool
  ch_retry_token :: RetryToken
  ch_has_resumption_token :: bool
  ch_resumption_token :: ResumptionToken

record ServerHello =
  sh_server_conn_id :: U64
  sh_server_public_key :: "U8 list"
  sh_server_nonce :: "U8 list"
  sh_transcript_mac :: "U8 list"
  sh_has_resumption_token :: bool
  sh_resumption_token :: ResumptionToken

record CloseFrame =
  cf_reason :: CloseReason

definition write_retry_token :: "ByteWriter \<Rightarrow> RetryToken \<Rightarrow> ByteWriter result" where
  "write_retry_token w token =
    rbind (write_u64 w (rt_issued_at_ms token)) (\<lambda>w.
    write_bytes w (Some (rt_mac token)) (length (rt_mac token)))"

definition read_retry_token :: "ByteReader \<Rightarrow> (RetryToken \<times> ByteReader) result" where
  "read_retry_token r =
    rbind (read_u64 r) (\<lambda>(issued, r).
    rbind (read_bytes r RetryTokenMacBytes) (\<lambda>(m, r).
    Inr (\<lparr>rt_issued_at_ms = issued, rt_mac = m\<rparr>, r)))"

definition write_resumption_token :: "ByteWriter \<Rightarrow> ResumptionToken \<Rightarrow> ByteWriter result" where
  "write_resumption_token w token =
    rbind (write_u64 w (st_issued_at_ms token)) (\<lambda>w.
    rbind (write_u64 w (st_expires_at_ms token)) (\<lambda>w.
    rbind (write_u64 w (st_ticket_id token)) (\<lambda>w.
    write_bytes w (Some (st_mac token)) (length (st_mac token)))))"

definition read_resumption_token :: "ByteReader \<Rightarrow> (ResumptionToken \<times> ByteReader) result" where
  "read_resumption_token r =
    rbind (read_u64 r) (\<lambda>(issued, r).
    rbind (read_u64 r) (\<lambda>(expires, r).
    rbind (read_u64 r) (\<lambda>(ticket, r).
    rbind (read_bytes r ResumptionTokenMacBytes) (\<lambda>(m, r).
    if ticket = 0 \<or> expires \<le> issued then Inl errc.BadPacket
    else Inr (\<lparr>st_issued_at_ms = issued, st_expires_at_ms = expires, st_ticket_id = ticket, st_mac = m\<rparr>, r)))))"

definition write_client_hello :: "ByteWriter \<Rightarrow> ClientHello \<Rightarrow> ByteWriter result" where
  "write_client_hello w hello =
    rbind (write_u8 w (handshake_type_value HandshakeType.ClientHello)) (\<lambda>w.
    rbind (write_bytes w (Some (ch_client_public_key hello)) (length (ch_client_public_key hello))) (\<lambda>w.
    rbind (write_bytes w (Some (ch_client_nonce hello)) (length (ch_client_nonce hello))) (\<lambda>w.
    rbind (write_u8 w (if ch_has_retry_token hello then 1 else 0)) (\<lambda>w.
    rbind (if ch_has_retry_token hello then write_retry_token w (ch_retry_token hello) else Inr w) (\<lambda>w.
    rbind (write_u8 w (if ch_has_resumption_token hello then 1 else 0)) (\<lambda>w.
    if ch_has_resumption_token hello then write_resumption_token w (ch_resumption_token hello) else Inr w))))))"

definition read_client_hello :: "ByteReader \<Rightarrow> (ClientHello \<times> ByteReader) result" where
  "read_client_hello r =
    rbind (read_u8 r) (\<lambda>(type, r).
    if type \<noteq> handshake_type_value HandshakeType.ClientHello then Inl errc.BadPacket else
    rbind (read_bytes r KeyExchangePublicKeyBytes) (\<lambda>(pk, r).
    rbind (read_bytes r ClientNonceBytes) (\<lambda>(nonce, r).
    rbind (read_u8 r) (\<lambda>(has_retry, r).
    if 1 < has_retry then Inl errc.BadPacket else
    rbind (if has_retry \<noteq> 0 then read_retry_token r else Inr (RetryToken_default, r)) (\<lambda>(retry, r).
    rbind (read_u8 r) (\<lambda>(has_resumption, r).
    if 1 < has_resumption then Inl errc.BadPacket else
    rbind (if has_resumption \<noteq> 0 then read_resumption_token r else Inr (ResumptionToken_default, r)) (\<lambda>(resumption, r).
    if remaining_r r \<noteq> 0 then Inl errc.BadPacket
    else Inr (\<lparr>ch_client_public_key = pk, ch_client_nonce = nonce,
               ch_has_retry_token = (has_retry \<noteq> 0), ch_retry_token = retry,
               ch_has_resumption_token = (has_resumption \<noteq> 0), ch_resumption_token = resumption\<rparr>, r))))))))"

definition write_retry :: "ByteWriter \<Rightarrow> RetryToken \<Rightarrow> ByteWriter result" where
  "write_retry w token =
    rbind (write_u8 w (handshake_type_value HandshakeType.Retry)) (\<lambda>w. write_retry_token w token)"

definition read_retry :: "ByteReader \<Rightarrow> (RetryToken \<times> ByteReader) result" where
  "read_retry r =
    rbind (read_u8 r) (\<lambda>(type, r).
    if type \<noteq> handshake_type_value HandshakeType.Retry then Inl errc.BadPacket else
    rbind (read_retry_token r) (\<lambda>(token, r).
    if remaining_r r \<noteq> 0 then Inl errc.BadPacket else Inr (token, r)))"

definition write_server_hello :: "ByteWriter \<Rightarrow> ServerHello \<Rightarrow> ByteWriter result" where
  "write_server_hello w hello =
    rbind (write_u8 w (handshake_type_value HandshakeType.ServerHello)) (\<lambda>w.
    rbind (write_u64 w (sh_server_conn_id hello)) (\<lambda>w.
    rbind (write_bytes w (Some (sh_server_public_key hello)) (length (sh_server_public_key hello))) (\<lambda>w.
    rbind (write_bytes w (Some (sh_server_nonce hello)) (length (sh_server_nonce hello))) (\<lambda>w.
    rbind (write_bytes w (Some (sh_transcript_mac hello)) (length (sh_transcript_mac hello))) (\<lambda>w.
    rbind (write_u8 w (if sh_has_resumption_token hello then 1 else 0)) (\<lambda>w.
    if sh_has_resumption_token hello then write_resumption_token w (sh_resumption_token hello) else Inr w))))))"

definition read_server_hello :: "ByteReader \<Rightarrow> (ServerHello \<times> ByteReader) result" where
  "read_server_hello r =
    rbind (read_u8 r) (\<lambda>(type, r).
    if type \<noteq> handshake_type_value HandshakeType.ServerHello then Inl errc.BadPacket else
    rbind (read_u64 r) (\<lambda>(cid, r).
    rbind (read_bytes r KeyExchangePublicKeyBytes) (\<lambda>(pk, r).
    rbind (read_bytes r ServerNonceBytes) (\<lambda>(nonce, r).
    rbind (read_bytes r TranscriptMacBytes) (\<lambda>(m, r).
    rbind (read_u8 r) (\<lambda>(has_resumption, r).
    if 1 < has_resumption then Inl errc.BadPacket else
    rbind (if has_resumption \<noteq> 0 then read_resumption_token r else Inr (ResumptionToken_default, r)) (\<lambda>(resumption, r).
    if cid = 0 then Inl errc.BadPacket
    else if remaining_r r \<noteq> 0 then Inl errc.BadPacket
    else Inr (\<lparr>sh_server_conn_id = cid, sh_server_public_key = pk, sh_server_nonce = nonce, sh_transcript_mac = m,
               sh_has_resumption_token = (has_resumption \<noteq> 0), sh_resumption_token = resumption\<rparr>, r))))))))"

definition write_close_frame :: "ByteWriter \<Rightarrow> CloseFrame \<Rightarrow> ByteWriter result" where
  "write_close_frame w close =
    (if \<not> close_reason_valid (cf_reason close) then Inl errc.InvalidArg
     else write_u16 w (close_reason_value (cf_reason close)))"

definition read_close_frame :: "ByteReader \<Rightarrow> (CloseFrame \<times> ByteReader) result" where
  "read_close_frame r =
    rbind (read_u16 r) (\<lambda>(raw, r).
    if remaining_r r \<noteq> 0 then Inl errc.BadPacket
    else let reason = close_reason_of_value raw in
      if \<not> close_reason_valid reason then Inl errc.BadPacket
      else Inr (\<lparr>cf_reason = reason\<rparr>, r))"

section \<open>The replay window\<close>

record ReplayWindow =
  rw_initialized :: bool
  rw_latest :: U64
  rw_seen :: U64

definition ReplayWindow_default :: ReplayWindow where
  "ReplayWindow_default = \<lparr>rw_initialized = False, rw_latest = 0, rw_seen = 0\<rparr>"

definition replay_accept :: "ReplayWindow \<Rightarrow> U64 \<Rightarrow> bool \<times> ReplayWindow" where
  "replay_accept w sequence =
    (if \<not> rw_initialized w
     then (True, w\<lparr>rw_initialized := True, rw_latest := sequence, rw_seen := 1\<rparr>)
     else if rw_latest w < sequence
     then let delta = sequence - rw_latest w;
              seen = (if 64 \<le> delta then 0 else push_bit (unat delta) (rw_seen w))
          in (True, w\<lparr>rw_seen := seen OR 1, rw_latest := sequence\<rparr>)
     else let delta = rw_latest w - sequence in
       if 64 \<le> delta then (False, w)
       else let mask = push_bit (unat delta) 1;
                duplicate = (rw_seen w AND mask \<noteq> 0)
            in (\<not> duplicate, w\<lparr>rw_seen := rw_seen w OR mask\<rparr>))"

definition replay_reset :: "ReplayWindow \<Rightarrow> ReplayWindow" where
  "replay_reset w = w\<lparr>rw_initialized := False, rw_latest := 0, rw_seen := 0\<rparr>"

definition replay_latest :: "ReplayWindow \<Rightarrow> U64" where
  "replay_latest w = rw_latest w"

section \<open>Frame encodings\<close>

definition enc_retry_token :: "RetryToken \<Rightarrow> U8 list" where
  "enc_retry_token t = be_bytes 8 (rt_issued_at_ms t) @ rt_mac t"

definition enc_resumption_token :: "ResumptionToken \<Rightarrow> U8 list" where
  "enc_resumption_token t =
     be_bytes 8 (st_issued_at_ms t) @ be_bytes 8 (st_expires_at_ms t) @ be_bytes 8 (st_ticket_id t) @ st_mac t"

definition enc_client_hello :: "ClientHello \<Rightarrow> U8 list" where
  "enc_client_hello h = enc_u8 1 @ ch_client_public_key h @ ch_client_nonce h @
     enc_u8 (if ch_has_retry_token h then 1 else 0) @
     (if ch_has_retry_token h then enc_retry_token (ch_retry_token h) else []) @
     enc_u8 (if ch_has_resumption_token h then 1 else 0) @
     (if ch_has_resumption_token h then enc_resumption_token (ch_resumption_token h) else [])"

definition enc_retry :: "RetryToken \<Rightarrow> U8 list" where
  "enc_retry t = enc_u8 2 @ enc_retry_token t"

definition enc_server_hello :: "ServerHello \<Rightarrow> U8 list" where
  "enc_server_hello h = enc_u8 3 @ be_bytes 8 (sh_server_conn_id h) @ sh_server_public_key h @ sh_server_nonce h @
     sh_transcript_mac h @ enc_u8 (if sh_has_resumption_token h then 1 else 0) @
     (if sh_has_resumption_token h then enc_resumption_token (sh_resumption_token h) else [])"

definition enc_close_frame :: "CloseFrame \<Rightarrow> U8 list" where
  "enc_close_frame c = be_bytes 2 (close_reason_value (cf_reason c))"

definition valid_retry_token :: "RetryToken \<Rightarrow> bool" where
  "valid_retry_token t \<longleftrightarrow> length (rt_mac t) = RetryTokenMacBytes"

definition valid_resumption_token :: "ResumptionToken \<Rightarrow> bool" where
  "valid_resumption_token t \<longleftrightarrow> length (st_mac t) = ResumptionTokenMacBytes \<and>
     st_ticket_id t \<noteq> 0 \<and> st_issued_at_ms t < st_expires_at_ms t"

text \<open>A hello without a token carries the default token in memory and no token bytes on the wire.\<close>

definition valid_client_hello :: "ClientHello \<Rightarrow> bool" where
  "valid_client_hello h \<longleftrightarrow>
     length (ch_client_public_key h) = KeyExchangePublicKeyBytes \<and> length (ch_client_nonce h) = ClientNonceBytes \<and>
     (if ch_has_retry_token h then valid_retry_token (ch_retry_token h) else ch_retry_token h = RetryToken_default) \<and>
     (if ch_has_resumption_token h then valid_resumption_token (ch_resumption_token h)
      else ch_resumption_token h = ResumptionToken_default)"

definition valid_server_hello :: "ServerHello \<Rightarrow> bool" where
  "valid_server_hello h \<longleftrightarrow> sh_server_conn_id h \<noteq> 0 \<and>
     length (sh_server_public_key h) = KeyExchangePublicKeyBytes \<and> length (sh_server_nonce h) = ServerNonceBytes \<and>
     length (sh_transcript_mac h) = TranscriptMacBytes \<and>
     (if sh_has_resumption_token h then valid_resumption_token (sh_resumption_token h)
      else sh_resumption_token h = ResumptionToken_default)"

definition valid_close_frame :: "CloseFrame \<Rightarrow> bool" where
  "valid_close_frame c \<longleftrightarrow> close_reason_valid (cf_reason c)"

lemma length_enc_tokens:
  "valid_retry_token t \<Longrightarrow> length (enc_retry_token t) = 24"
  "valid_resumption_token s \<Longrightarrow> length (enc_resumption_token s) = 40"
  by (simp_all add: enc_retry_token_def enc_resumption_token_def valid_retry_token_def valid_resumption_token_def)

subsection \<open>Writers\<close>

lemma write_retry_token_emit [write_rules]:
  "writer_wf w \<Longrightarrow> write_retry_token w t = emit (enc_retry_token t) w"
  unfolding write_retry_token_def enc_retry_token_def by (intro rbind_emit write_rules)

lemma write_resumption_token_emit [write_rules]:
  "writer_wf w \<Longrightarrow> write_resumption_token w t = emit (enc_resumption_token t) w"
  unfolding write_resumption_token_def enc_resumption_token_def by (intro rbind_emit write_rules)

lemma write_client_hello_emit [write_rules]:
  "writer_wf w \<Longrightarrow> write_client_hello w h = emit (enc_client_hello h) w"
  unfolding write_client_hello_def enc_client_hello_def handshake_type_value.simps
  by (intro rbind_emit write_rules) (simp_all add: write_rules)

lemma write_retry_emit [write_rules]: "writer_wf w \<Longrightarrow> write_retry w t = emit (enc_retry t) w"
  unfolding write_retry_def enc_retry_def handshake_type_value.simps by (intro rbind_emit write_rules)

lemma write_server_hello_emit [write_rules]:
  "writer_wf w \<Longrightarrow> write_server_hello w h = emit (enc_server_hello h) w"
  unfolding write_server_hello_def enc_server_hello_def handshake_type_value.simps
  by (intro rbind_emit write_rules) (simp_all add: write_rules)

lemma write_close_frame_emit:
  "writer_wf w \<Longrightarrow> valid_close_frame c \<Longrightarrow> write_close_frame w c = emit (enc_close_frame c) w"
  by (simp add: write_close_frame_def valid_close_frame_def enc_close_frame_def write_rules)

subsection \<open>Readers\<close>

lemma read_retry_token_iff [read_iffs]:
  "read_retry_token (rd bs k) = Inr (t, r) \<longleftrightarrow>
   valid_retry_token t \<and> bytes_at bs k (enc_retry_token t) \<and> r = rd bs (k + 24)"
  by (cases t) (auto simp: read_retry_token_def rbind_Inr_iff2 read_iffs valid_retry_token_def enc_retry_token_def
      bytes_at_append add.assoc)

lemma read_resumption_token_iff [read_iffs]:
  "read_resumption_token (rd bs k) = Inr (t, r) \<longleftrightarrow>
   valid_resumption_token t \<and> bytes_at bs k (enc_resumption_token t) \<and> r = rd bs (k + 40)"
  by (cases t) (auto simp: read_resumption_token_def rbind_Inr_iff2 read_iffs valid_resumption_token_def
      enc_resumption_token_def bytes_at_append add.assoc not_le)

lemmas read_retry_token_bind [read_binds] = read_bind [OF read_retry_token_iff [unfolded conj_assoc [symmetric]]]
lemmas read_resumption_token_bind [read_binds] = read_bind [OF read_resumption_token_iff [unfolded conj_assoc [symmetric]]]

lemma flag_cases: "\<not> 1 < v \<longleftrightarrow> v = 0 \<or> v = (1 :: U8)"
proof -
  have "\<not> 1 < unat v \<longleftrightarrow> unat v = 0 \<or> unat v = 1" by linarith
  then show ?thesis unfolding word_less_nat_alt word_unat_eq_iff by simp
qed

lemma read_flagged_bind [read_binds]:
  "rbind (read_u8 (rd bs k)) (\<lambda>(f, r). if 1 < f then Inl e
     else rbind (if f \<noteq> 0 then tok r else Inr (d, r)) (\<lambda>(t, r). K f t r)) = Inr y \<longleftrightarrow>
   (bytes_at bs k (enc_u8 0) \<and> K 0 d (rd bs (k + 1)) = Inr y) \<or>
   (bytes_at bs k (enc_u8 1) \<and> (\<exists>t r. tok (rd bs (k + 1)) = Inr (t, r) \<and> K 1 t r = Inr y))"
proof -
  have "(if 1 < f then Inl e else rbind (if f \<noteq> 0 then tok r else Inr (d, r)) (\<lambda>(t, r). K f t r)) = Inr y \<longleftrightarrow>
      (f = 0 \<and> K 0 d r = Inr y) \<or> (f = 1 \<and> (\<exists>t r'. tok r = Inr (t, r') \<and> K 1 t r' = Inr y))" for f :: U8 and r
    using flag_cases [of f] by (auto simp: rbind_Inr_iff2)
  then show ?thesis by (auto simp: rbind_Inr_iff2 read_iffs)
qed

lemma read_client_hello_iff:
  "read_client_hello (rd bs 0) = Inr (h, r) \<longleftrightarrow>
   valid_client_hello h \<and> bs = enc_client_hello h \<and> r = rd bs (length bs)"
  (is "?L \<longleftrightarrow> ?R")
proof -
  have "?L \<longleftrightarrow> valid_client_hello h \<and> (bytes_at bs 0 (enc_client_hello h) \<and> length bs - length (enc_client_hello h) = 0)
      \<and> r = rd bs (length (enc_client_hello h))"
    by (cases h)
      (auto simp: read_client_hello_def read_binds read_iffs valid_client_hello_def enc_client_hello_def
        bytes_at_append bytes_at_Nil length_enc_tokens dest: bytes_at_le)
  also have "\<dots> \<longleftrightarrow> ?R" using bytes_at_all [of bs "enc_client_hello h"] by metis
  finally show ?thesis .
qed

lemma read_retry_iff:
  "read_retry (rd bs 0) = Inr (t, r) \<longleftrightarrow> valid_retry_token t \<and> bs = enc_retry t \<and> r = rd bs (length bs)"
  (is "?L \<longleftrightarrow> ?R")
proof -
  have "?L \<longleftrightarrow> valid_retry_token t \<and> (bytes_at bs 0 (enc_retry t) \<and> length bs - length (enc_retry t) = 0)
      \<and> r = rd bs (length (enc_retry t))"
    by (auto simp: read_retry_def read_binds enc_retry_def bytes_at_append length_enc_tokens)
  also have "\<dots> \<longleftrightarrow> ?R" using bytes_at_all [of bs "enc_retry t"] by metis
  finally show ?thesis .
qed

lemma read_server_hello_iff:
  "read_server_hello (rd bs 0) = Inr (h, r) \<longleftrightarrow>
   valid_server_hello h \<and> bs = enc_server_hello h \<and> r = rd bs (length bs)"
  (is "?L \<longleftrightarrow> ?R")
proof -
  have "?L \<longleftrightarrow> valid_server_hello h \<and> (bytes_at bs 0 (enc_server_hello h) \<and> length bs - length (enc_server_hello h) = 0)
      \<and> r = rd bs (length (enc_server_hello h))"
    by (cases h)
      (auto simp: read_server_hello_def read_binds read_iffs valid_server_hello_def enc_server_hello_def
        bytes_at_append bytes_at_Nil length_enc_tokens dest: bytes_at_le)
  also have "\<dots> \<longleftrightarrow> ?R" using bytes_at_all [of bs "enc_server_hello h"] by metis
  finally show ?thesis .
qed

lemma close_reason_of_value [simp]: "close_reason_valid c \<Longrightarrow> close_reason_of_value (close_reason_value c) = c"
  by (cases c) (simp_all add: close_reason_valid_def close_reason_of_value_def)

lemma close_reason_value_of_value [simp]: "close_reason_value (close_reason_of_value v) = v"
  by (simp add: close_reason_of_value_def)

lemma read_close_frame_iff:
  "read_close_frame (rd bs 0) = Inr (c, r) \<longleftrightarrow> valid_close_frame c \<and> bs = enc_close_frame c \<and> r = rd bs (length bs)"
  (is "?L \<longleftrightarrow> ?R")
proof -
  have "?L \<longleftrightarrow> valid_close_frame c \<and> (bytes_at bs 0 (enc_close_frame c) \<and> length bs - length (enc_close_frame c) = 0)
      \<and> r = rd bs (length (enc_close_frame c))"
    by (cases c) (auto simp: read_close_frame_def read_binds enc_close_frame_def valid_close_frame_def Let_def)
  also have "\<dots> \<longleftrightarrow> ?R" using bytes_at_all [of bs "enc_close_frame c"] by metis
  finally show ?thesis .
qed

text \<open>A frame reader applied to a whole payload.\<close>

definition decode_with :: "(ByteReader \<Rightarrow> ('a \<times> ByteReader) result) \<Rightarrow> U8 list \<Rightarrow> 'a result" where
  "decode_with reader bs = rbind (reader (rd bs 0)) (\<lambda>(x, r). Inr x)"

lemma decode_iffs:
  "decode_with read_client_hello bs = Inr ch \<longleftrightarrow> valid_client_hello ch \<and> bs = enc_client_hello ch"
  "decode_with read_retry bs = Inr rt \<longleftrightarrow> valid_retry_token rt \<and> bs = enc_retry rt"
  "decode_with read_server_hello bs = Inr sh \<longleftrightarrow> valid_server_hello sh \<and> bs = enc_server_hello sh"
  "decode_with read_close_frame bs = Inr cf \<longleftrightarrow> valid_close_frame cf \<and> bs = enc_close_frame cf"
  by (auto simp: decode_with_def rbind_Inr_iff2 read_client_hello_iff read_retry_iff read_server_hello_iff
      read_close_frame_iff)

interpretation client_hello: wire_codec enc_client_hello "decode_with read_client_hello" valid_client_hello
  by unfold_locales (auto simp: decode_iffs)

interpretation retry: wire_codec enc_retry "decode_with read_retry" valid_retry_token
  by unfold_locales (auto simp: decode_iffs)

interpretation server_hello: wire_codec enc_server_hello "decode_with read_server_hello" valid_server_hello
  by unfold_locales (auto simp: decode_iffs)

interpretation close_frame: wire_codec enc_close_frame "decode_with read_close_frame" valid_close_frame
  by unfold_locales (auto simp: decode_iffs)

lemma written_emit_on:
  "emit bs (writer_on buf n) = Inr w \<Longrightarrow> n \<le> length buf \<Longrightarrow> written w = bs"
  using emit_written(1) [of "writer_on buf n" bs w] by (simp add: written_def)

lemma length_enc_hellos:
  "valid_client_hello ch \<Longrightarrow> length (enc_client_hello ch) =
     51 + (if ch_has_retry_token ch then 24 else 0) + (if ch_has_resumption_token ch then 40 else 0)"
  "valid_server_hello sh \<Longrightarrow> length (enc_server_hello sh) = 74 + (if sh_has_resumption_token sh then 40 else 0)"
  by (auto simp: valid_client_hello_def valid_server_hello_def enc_client_hello_def enc_server_hello_def length_enc_tokens)

text \<open>
  C28: each handshake and close reader accepts exactly the encodings of valid frames of its own
  type, with nothing missing and no byte left over. A frame is therefore never read as two
  different values and no two byte strings are read as the same frame.
\<close>

theorem handshake_frames_exact:
  "(decode_with read_client_hello bs = Inr ch \<longleftrightarrow> valid_client_hello ch \<and> bs = enc_client_hello ch) \<and>
   (decode_with read_retry bs = Inr rt \<longleftrightarrow> valid_retry_token rt \<and> bs = enc_retry rt) \<and>
   (decode_with read_server_hello bs = Inr sh \<longleftrightarrow> valid_server_hello sh \<and> bs = enc_server_hello sh) \<and>
   (decode_with read_close_frame bs = Inr cf \<longleftrightarrow> valid_close_frame cf \<and> bs = enc_close_frame cf)"
  using client_hello.dec_iff retry.dec_iff server_hello.dec_iff close_frame.dec_iff by blast

text \<open>
  C29: a hello that is written into a packet payload buffer is always written completely (at most
  115 bytes, so it fits a single packet) and the peer's reader returns the same hello.
\<close>

theorem hello_roundtrip:
  assumes "valid_client_hello ch" "valid_server_hello sh" "n \<le> length buf" "115 \<le> n"
  shows "(\<exists>w. write_client_hello (writer_on buf n) ch = Inr w \<and> decode_with read_client_hello (written w) = Inr ch) \<and>
    (\<exists>w. write_server_hello (writer_on buf n) sh = Inr w \<and> decode_with read_server_hello (written w) = Inr sh)"
proof -
  have "length (enc_client_hello ch) \<le> 115" "length (enc_server_hello sh) \<le> 115"
    using assms(1,2) by (simp_all add: length_enc_hellos)
  then obtain wc ws where w: "emit (enc_client_hello ch) (writer_on buf n) = Inr wc"
      "emit (enc_server_hello sh) (writer_on buf n) = Inr ws"
    using assms(4) by (simp add: emit_writer_on)
  have "written wc = enc_client_hello ch" "written ws = enc_server_hello sh"
    using w assms(3) by (auto intro: written_emit_on)
  then show ?thesis
    using w assms by (auto simp: write_rules client_hello.dec_enc server_hello.dec_enc)
qed

theorem hello_roundtrip_witness:
  "\<exists>w. write_client_hello (writer_on (replicate 1272 0) 1272)
      \<lparr>ch_client_public_key = replicate 32 7, ch_client_nonce = replicate 16 9, ch_has_retry_token = False,
       ch_retry_token = RetryToken_default, ch_has_resumption_token = False,
       ch_resumption_token = ResumptionToken_default\<rparr> = Inr w \<and>
     decode_with read_client_hello (written w) = Inr
      \<lparr>ch_client_public_key = replicate 32 7, ch_client_nonce = replicate 16 9, ch_has_retry_token = False,
       ch_retry_token = RetryToken_default, ch_has_resumption_token = False,
       ch_resumption_token = ResumptionToken_default\<rparr>"
  by (rule hello_roundtrip [where sh = "\<lparr>sh_server_conn_id = 5, sh_server_public_key = replicate 32 1,
        sh_server_nonce = replicate 16 2, sh_transcript_mac = replicate 16 3, sh_has_resumption_token = False,
        sh_resumption_token = ResumptionToken_default\<rparr>", THEN conjunct1])
    (simp_all add: valid_client_hello_def valid_server_hello_def)

section \<open>Windows that accept each number once\<close>

text \<open>
  The contract of a receive window: it represents the set of the numbers accepted so far
  (\<open>repr\<close>), and accepts a number exactly when it is new and \<open>open_at\<close> the window.
\<close>

fun accept_all :: "('s \<Rightarrow> 'k \<Rightarrow> bool \<times> 's) \<Rightarrow> 's \<Rightarrow> 'k list \<Rightarrow> 'k list \<times> 's" where
  "accept_all accept s [] = ([], s)"
| "accept_all accept s (k # ks) =
    (case accept s k of (b, s') \<Rightarrow> case accept_all accept s' ks of (acc, s'') \<Rightarrow> (if b then k # acc else acc, s''))"

locale dedup_window =
  fixes accept :: "'s \<Rightarrow> 'k \<Rightarrow> bool \<times> 's"
    and init :: 's
    and repr :: "'s \<Rightarrow> 'k set \<Rightarrow> bool"
    and open_at :: "'k set \<Rightarrow> 'k \<Rightarrow> bool"
  assumes repr_init: "repr init {}"
    and accept_iff: "repr s A \<Longrightarrow> fst (accept s k) \<longleftrightarrow> k \<notin> A \<and> open_at A k"
    and accept_repr: "repr s A \<Longrightarrow> repr (snd (accept s k)) (if fst (accept s k) then insert k A else A)"
begin

lemma accept_all_repr:
  "repr s A \<Longrightarrow> accept_all accept s ks = (acc, s') \<Longrightarrow>
   repr s' (A \<union> set acc) \<and> distinct acc \<and> set acc \<inter> A = {} \<and> set acc \<subseteq> set ks"
proof (induction ks arbitrary: s A acc)
  case (Cons k ks)
  obtain b s1 where 1: "accept s k = (b, s1)" by fastforce
  obtain acc' where 2: "accept_all accept s1 ks = (acc', s')" "acc = (if b then k # acc' else acc')"
    using Cons.prems(2) 1 by (auto split: prod.splits)
  have "repr s1 (if b then insert k A else A)" "b \<longrightarrow> k \<notin> A"
    using accept_repr [OF Cons.prems(1), of k] accept_iff [OF Cons.prems(1), of k] 1 by auto
  then show ?case using Cons.IH [of s1 "if b then insert k A else A" acc'] 2 by (auto split: if_splits)
qed simp

lemma run_exact:
  assumes "accept_all accept init ks = (acc, s)"
  shows "distinct acc" "set acc \<subseteq> set ks" "fst (accept s k) \<longleftrightarrow> k \<notin> set acc \<and> open_at (set acc) k"
  using accept_all_repr [OF repr_init assms] accept_iff [of s "set acc" k] by auto

end

subsection \<open>Sliding windows of 64 numbers\<close>

text \<open>
  What the three fields of a sliding window say about the set of accepted numbers: the newest is in
  the set and bit \<open>d\<close> of the bitmap says whether the number \<open>d\<close> behind the newest is.
\<close>

definition window_repr :: "bool \<Rightarrow> U64 \<Rightarrow> U64 \<Rightarrow> U64 set \<Rightarrow> bool" where
  "window_repr initialized latest seen A \<longleftrightarrow>
    (if initialized
     then latest \<in> A \<and> (\<forall>a \<in> A. a \<le> latest) \<and>
          (\<forall>d < 64. bit seen d \<longleftrightarrow> (\<exists>a \<in> A. unat a + d = unat latest))
     else A = {})"

definition window_open :: "U64 set \<Rightarrow> U64 \<Rightarrow> bool" where
  "window_open A k \<longleftrightarrow> (\<forall>a \<in> A. unat a < unat k + 64)"

lemma window_repr_le: "window_repr i l s A \<Longrightarrow> a \<in> A \<Longrightarrow> i \<and> a \<le> l"
  by (simp add: window_repr_def split: if_splits)

lemma window_repr_first: "window_repr True x 1 {x}"
  by (auto simp: window_repr_def bit_1_iff)

lemma unat_sub_le: "b \<le> a \<Longrightarrow> unat (a - b :: 'a::len word) = unat a - unat b"
  by (simp add: unat_sub)

lemma window_repr_newer:
  assumes "window_repr True l s A" "l < x"
  shows "window_repr True x ((if 64 \<le> x - l then 0 else push_bit (unat (x - l)) s) OR 1) (insert x A)"
proof -
  let ?s = "(if 64 \<le> x - l then 0 else push_bit (unat (x - l)) s) OR 1"
  define n where "n = unat (x - l)"
  have x: "unat x = unat l + n" "0 < n"
    using assms(2) unat_sub_le [of l x] by (auto simp: n_def word_less_nat_alt word_le_nat_alt)
  have big: "64 \<le> x - l \<longleftrightarrow> 64 \<le> n" by (simp add: n_def word_le_nat_alt)
  have A: "\<forall>a \<in> A. unat a \<le> unat l" "\<And>d. d < 64 \<Longrightarrow> bit s d \<longleftrightarrow> (\<exists>a \<in> A. unat a + d = unat l)"
    using assms(1) by (auto simp: window_repr_def word_le_nat_alt)
  have "bit ?s d \<longleftrightarrow> (\<exists>a \<in> insert x A. unat a + d = unat x)" if d: "d < 64" for d
  proof (cases "d = 0")
    case True
    then show ?thesis by (auto simp: bit_simps)
  next
    case False
    have "bit ?s d \<longleftrightarrow> n \<le> d \<and> bit s (d - n)"
      using d False by (auto simp: bit_simps big n_def [symmetric])
    also have "\<dots> \<longleftrightarrow> n \<le> d \<and> (\<exists>a \<in> A. unat a + (d - n) = unat l)"
      using A(2) [of "d - n"] d by auto
    also have "\<dots> \<longleftrightarrow> (\<exists>a \<in> A. unat a + d = unat x)"
    proof -
      have "n \<le> d \<and> unat a + (d - n) = unat l \<longleftrightarrow> unat a + d = unat x" if "a \<in> A" for a
        using A(1) that x by auto
      then show ?thesis by blast
    qed
    finally show ?thesis using False by auto
  qed
  moreover have "\<forall>a \<in> insert x A. a \<le> x" using A(1) x by (auto simp: word_le_nat_alt)
  ultimately show ?thesis by (simp add: window_repr_def)
qed

lemma window_repr_older:
  assumes "window_repr True l s A" "x \<le> l" "\<not> 64 \<le> l - x"
  shows "s AND push_bit (unat (l - x)) 1 \<noteq> 0 \<longleftrightarrow> x \<in> A"
    and "window_repr True l (s OR push_bit (unat (l - x)) 1) (insert x A)"
proof -
  define n where "n = unat (l - x)"
  have n: "n < 64" "unat x + n = unat l"
    using assms(2,3) by (auto simp: n_def word_le_nat_alt unat_sub_le)
  have uniq: "unat a + n = unat l \<longleftrightarrow> a = x" for a using n(2) by (auto simp: word_unat_eq_iff)
  have "s AND push_bit n 1 \<noteq> 0 \<longleftrightarrow> bit s n"
    using n(1) by (simp add: and_exp_eq_0_iff_not_bit)
  also have "\<dots> \<longleftrightarrow> x \<in> A" using assms(1) n(1) by (auto simp: window_repr_def uniq)
  finally show "s AND push_bit (unat (l - x)) 1 \<noteq> 0 \<longleftrightarrow> x \<in> A" by (simp add: n_def)
  have "unat x + d = unat l \<longleftrightarrow> d = n" for d using n(2) by auto
  then show "window_repr True l (s OR push_bit (unat (l - x)) 1) (insert x A)"
    using assms(1,2) n(1) unfolding n_def [symmetric]
    by (auto simp: window_repr_def bit_simps)
qed

text \<open>The step that both sliding windows of the library take.\<close>

definition window_step :: "bool \<times> U64 \<times> U64 \<Rightarrow> U64 \<Rightarrow> bool \<times> bool \<times> U64 \<times> U64" where
  "window_step w x = (case w of (i, l, s) \<Rightarrow>
    if \<not> i then (True, True, x, 1)
    else if l < x then (True, True, x, (if 64 \<le> x - l then 0 else push_bit (unat (x - l)) s) OR 1)
    else if 64 \<le> l - x then (False, i, l, s)
    else (s AND push_bit (unat (l - x)) 1 = 0, i, l, s OR push_bit (unat (l - x)) 1))"

lemma window_step_correct:
  assumes "window_repr i l s A" "window_step (i, l, s) x = (b, i', l', s')"
  shows "b \<longleftrightarrow> x \<notin> A \<and> window_open A x" "window_repr i' l' s' (if b then insert x A else A)"
proof -
  consider (first) "\<not> i" | (newer) "i" "l < x" | (old) "i" "x \<le> l" "64 \<le> l - x" | (older) "i" "x \<le> l" "\<not> 64 \<le> l - x"
    by (meson not_le)
  then have "(b \<longleftrightarrow> x \<notin> A \<and> window_open A x) \<and> window_repr i' l' s' (if b then insert x A else A)"
  proof cases
    case first
    then have "A = {}" using assms(1) by (simp add: window_repr_def)
    then show ?thesis using first assms(2) window_repr_first [of x] by (auto simp: window_step_def window_open_def)
  next
    case newer
    have "x \<notin> A" "window_open A x"
      using assms(1) newer
      by (auto simp: window_repr_def window_open_def word_less_nat_alt word_le_nat_alt dest: bspec intro: le_less_trans)
    then show ?thesis
      using newer assms window_repr_newer [of l s A x] by (auto simp: window_step_def)
  next
    case old
    have "\<not> window_open A x"
      using assms(1) old unat_sub_le [of x l] by (auto simp: window_repr_def window_open_def word_le_nat_alt intro!: bexI [of _ l])
    moreover have "\<not> l < x" using old by simp
    ultimately show ?thesis using old assms by (auto simp: window_step_def)
  next
    case older
    have "window_open A x"
      using assms(1) older unat_sub_le [of x l] by (auto simp: window_repr_def window_open_def word_le_nat_alt)
    moreover have "\<not> l < x" using older by simp
    ultimately show ?thesis
      using older assms window_repr_older [of l s A x] by (auto simp: window_step_def insert_absorb)
  qed
  then show "b \<longleftrightarrow> x \<notin> A \<and> window_open A x" "window_repr i' l' s' (if b then insert x A else A)" by blast+
qed

definition replay_repr :: "ReplayWindow \<Rightarrow> U64 set \<Rightarrow> bool" where
  "replay_repr w A \<longleftrightarrow> window_repr (rw_initialized w) (rw_latest w) (rw_seen w) A"

lemma replay_accept_step:
  "window_step (rw_initialized w, rw_latest w, rw_seen w) x =
   (fst (replay_accept w x), rw_initialized (snd (replay_accept w x)), rw_latest (snd (replay_accept w x)),
    rw_seen (snd (replay_accept w x)))"
  by (simp add: window_step_def replay_accept_def Let_def)

interpretation replay: dedup_window replay_accept ReplayWindow_default replay_repr window_open
proof
  show "replay_repr ReplayWindow_default {}"
    by (simp add: replay_repr_def ReplayWindow_default_def window_repr_def)
qed (use window_step_correct [OF _ replay_accept_step] in \<open>auto simp: replay_repr_def\<close>)

text \<open>
  C3: replay protection. Whatever packet numbers arrive, in whatever order and however often, the
  window accepts each number at most once, and after any history it accepts a number exactly when
  it was not accepted before and no accepted number is 64 or more ahead of it.
\<close>

theorem replay_window_exact:
  assumes "accept_all replay_accept ReplayWindow_default arrivals = (accepted, w)"
  shows "distinct accepted \<and> set accepted \<subseteq> set arrivals \<and>
    (fst (replay_accept w seq) \<longleftrightarrow> seq \<notin> set accepted \<and> list_all (\<lambda>a. unat a < unat seq + 64) accepted)"
  using replay.run_exact [OF assms] by (auto simp: window_open_def list_all_iff)

theorem replay_window_exact_witness:
  "distinct (fst (accept_all replay_accept ReplayWindow_default [1, 3, 3, 2, 100, 3, 36, 37])) \<and>
   fst (accept_all replay_accept ReplayWindow_default [1, 3, 3, 2, 100, 3, 36, 37]) = [1, 3, 2, 100, 37]"
proof -
  have r: "accept_all replay_accept ReplayWindow_default [1, 3, 3, 2, 100, 3, 36, 37] = ([1, 3, 2, 100, 37],
      snd (accept_all replay_accept ReplayWindow_default [1, 3, 3, 2, 100, 3, 36, 37]))"
    by (simp add: replay_accept_def ReplayWindow_default_def Let_def)
  show ?thesis using replay_window_exact [OF r] r by (metis fst_conv)
qed

end
