(* ===== verification/Scn_Message.thy ===== *)
theory Scn_Message
  imports Scn_Packet
begin

text \<open>
  Messages (\<^verbatim>\<open>message.hpp\<close>): the channels, the per-channel size budgets, and the framing
  \<^verbatim>\<open>[ch][type][len][bytes]\<close> of the messages inside a packet payload.

  A \<^verbatim>\<open>Channel\<close> is an enumeration with underlying type \<^verbatim>\<open>U8\<close>, so an application can
  pass a value that is no enumerator; \<open>Channel_other\<close> stands for such a value.
\<close>

section \<open>Channels and budgets\<close>

datatype Channel =
  Unreliable | Reliable | ReliableOrdered | SequencedUnreliable | Control | Channel_other U8

fun channel_value :: "Channel \<Rightarrow> U8" where
  "channel_value Channel.Unreliable = 0"
| "channel_value Channel.Reliable = 1"
| "channel_value Channel.ReliableOrdered = 2"
| "channel_value Channel.SequencedUnreliable = 3"
| "channel_value Channel.Control = 4"
| "channel_value (Channel_other v) = v"

text \<open>\<^verbatim>\<open>static_cast<Channel>(v)\<close>.\<close>

definition channel_of_value :: "U8 \<Rightarrow> Channel" where
  "channel_of_value v =
    (if v = 0 then Channel.Unreliable else if v = 1 then Channel.Reliable
     else if v = 2 then Channel.ReliableOrdered else if v = 3 then Channel.SequencedUnreliable
     else if v = 4 then Channel.Control else Channel_other v)"

record SendOptions =
  so_channel :: Channel
  so_priority :: SendPriority
  so_lifetime_ms :: U64

definition SendOptions_default :: SendOptions where
  "SendOptions_default = \<lparr>so_channel = Channel.Unreliable, so_priority = SendPriority.Normal, so_lifetime_ms = 0\<rparr>"

record BackpressureInfo =
  bp_code :: errc
  bp_channel :: Channel
  bp_type :: U8
  bp_queued_packets :: ST
  bp_queued_bytes :: ST
  bp_send_budget_bytes :: U64

definition max_inline_payload_size :: "Channel \<Rightarrow> ST" where
  "max_inline_payload_size channel =
    (case channel of
       Channel.Reliable \<Rightarrow> MaxReliableMessageBytes
     | Channel.ReliableOrdered \<Rightarrow> MaxOrderedMessageBytes
     | Channel.SequencedUnreliable \<Rightarrow> MaxSequencedMessageBytes
     | _ \<Rightarrow> MaxMessageBytes)"

text \<open>\<^verbatim>\<open>fits_inline<T>\<close>, at \<^verbatim>\<open>sizeof(T)\<close>.\<close>

definition fits_inline :: "ST \<Rightarrow> Channel \<Rightarrow> bool" where
  "fits_inline sizeof_T channel \<longleftrightarrow> sizeof_T \<le> max_inline_payload_size channel"

record MsgView =
  mv_channel :: Channel
  mv_type :: U8
  mv_data :: "U8 list option"
  mv_len :: U16

text \<open>\<^verbatim>\<open>MsgView::bytes\<close> and its siblings \<^verbatim>\<open>u8span\<close>, \<^verbatim>\<open>byte_span\<close>, \<^verbatim>\<open>text\<close>.\<close>

definition msg_bytes :: "MsgView \<Rightarrow> U8 list" where
  "msg_bytes m =
    (case mv_data m of None \<Rightarrow> [] | Some d \<Rightarrow> if mv_len m = 0 then [] else take (unat (mv_len m)) d)"

text \<open>\<^verbatim>\<open>MsgView::as<T>\<close>: the object representation of the value, for a type of the given size.\<close>

definition msg_as :: "ST \<Rightarrow> MsgView \<Rightarrow> U8 list result" where
  "msg_as sizeof_T m =
    (if unat (mv_len m) \<noteq> sizeof_T then Inl errc.BadPacket
     else if 0 < mv_len m \<and> mv_data m = None then Inl errc.BadPacket
     else Inr (case mv_data m of None \<Rightarrow> [] | Some d \<Rightarrow> take sizeof_T d))"

definition channel_is_reliable :: "Channel \<Rightarrow> bool" where
  "channel_is_reliable c \<longleftrightarrow> c = Channel.Reliable \<or> c = Channel.ReliableOrdered"

definition channel_valid :: "Channel \<Rightarrow> bool" where
  "channel_valid c \<longleftrightarrow>
     c = Channel.Unreliable \<or> c = Channel.Reliable \<or> c = Channel.ReliableOrdered \<or>
     c = Channel.SequencedUnreliable \<or> c = Channel.Control"

definition channel_is_application :: "Channel \<Rightarrow> bool" where
  "channel_is_application c \<longleftrightarrow> channel_valid c \<and> c \<noteq> Channel.Control"

definition channel_is_ordered :: "Channel \<Rightarrow> bool" where
  "channel_is_ordered c \<longleftrightarrow> c = Channel.ReliableOrdered"

definition channel_is_sequenced :: "Channel \<Rightarrow> bool" where
  "channel_is_sequenced c \<longleftrightarrow> c = Channel.SequencedUnreliable"

definition max_inline_payload_for_channel :: "Channel \<Rightarrow> U16" where
  "max_inline_payload_for_channel c = of_nat (max_inline_payload_size c)"

section \<open>Framing\<close>

definition write_message ::
  "ByteWriter \<Rightarrow> Channel \<Rightarrow> U8 \<Rightarrow> U8 list option \<Rightarrow> U16 \<Rightarrow> ByteWriter result" where
  "write_message w ch type data len =
    (if \<not> channel_valid ch then Inl errc.InvalidArg
     else if of_nat MaxMessageBytes < len then Inl errc.InvalidArg
     else if 0 < len \<and> data = None then Inl errc.InvalidArg
     else
       rbind (write_u8 w (channel_value ch)) (\<lambda>w.
       rbind (write_u8 w type) (\<lambda>w.
       rbind (write_u16 w len) (\<lambda>w.
       if 0 < len then write_bytes w data (unat len) else Inr w))))"

definition read_message :: "ByteReader \<Rightarrow> (MsgView \<times> ByteReader) result" where
  "read_message r =
    (if remaining_r r = 0 then Inl errc.EndOfStream
     else if remaining_r r < MessageHeaderBytes then Inl errc.BadPacket
     else
       rbind (read_u8 r) (\<lambda>(ch, r).
       rbind (read_u8 r) (\<lambda>(type, r).
       rbind (read_u16 r) (\<lambda>(len, r).
       if channel_value Channel.Control < ch then Inl errc.BadPacket
       else if remaining_r r < unat len then Inl errc.BadPacket
       else
         let out = \<lparr>mv_channel = channel_of_value ch, mv_type = type,
                    mv_data = (if len = 0 then None else peek_ptr r (unat len)), mv_len = len\<rparr>
         in rbind (skip r (unat len)) (\<lambda>r. Inr (out, r))))))"

section \<open>Correctness of the framing\<close>

definition enc_message :: "MsgView \<Rightarrow> U8 list" where
  "enc_message m = enc_u8 (channel_value (mv_channel m)) @ enc_u8 (mv_type m) @ be_bytes 2 (mv_len m) @
     (case mv_data m of None \<Rightarrow> [] | Some d \<Rightarrow> d)"

definition valid_message :: "MsgView \<Rightarrow> bool" where
  "valid_message m \<longleftrightarrow> channel_valid (mv_channel m) \<and> mv_data m \<noteq> Some [] \<and>
     unat (mv_len m) = (case mv_data m of None \<Rightarrow> 0 | Some d \<Rightarrow> length d)"

lemma channel_valid_value: "channel_valid c \<Longrightarrow> channel_value c \<le> 4"
  by (auto simp: channel_valid_def)

lemma channel_of_value_valid [simp]: "channel_valid c \<Longrightarrow> channel_of_value (channel_value c) = c"
  by (auto simp: channel_valid_def channel_of_value_def)

lemma channel_value_of_value [simp]: "channel_value (channel_of_value v) = v"
  by (simp add: channel_of_value_def)

lemma word_le_4_cases: "v \<le> 4 \<longleftrightarrow> v = 0 \<or> v = 1 \<or> v = 2 \<or> v = 3 \<or> v = (4 :: U8)"
proof -
  have "unat v \<le> 4 \<longleftrightarrow> unat v = 0 \<or> unat v = 1 \<or> unat v = 2 \<or> unat v = 3 \<or> unat v = 4" by linarith
  then show ?thesis unfolding word_le_nat_alt word_unat_eq_iff by simp
qed

lemma channel_valid_of_value: "channel_valid (channel_of_value v) \<longleftrightarrow> v \<le> 4"
  by (auto simp: channel_valid_def channel_of_value_def word_le_4_cases)

lemma length_enc_message: "valid_message m \<Longrightarrow> length (enc_message m) = 4 + unat (mv_len m)"
  by (auto simp: enc_message_def valid_message_def split: option.splits)

lemma write_message_emit:
  assumes "writer_wf w" "valid_message m" "mv_len m \<le> of_nat MaxMessageBytes"
  shows "write_message w (mv_channel m) (mv_type m) (mv_data m) (mv_len m) = emit (enc_message m) w"
proof -
  have data: "(if 0 < mv_len m then write_bytes w' (mv_data m) (unat (mv_len m)) else Inr w') =
      emit (case mv_data m of None \<Rightarrow> [] | Some d \<Rightarrow> d) w'" if "writer_wf w'" for w'
    using assms(2) that by (auto simp: valid_message_def write_rules word_less_nat_alt split: option.splits)
  have "write_message w (mv_channel m) (mv_type m) (mv_data m) (mv_len m) =
      rbind (write_u8 w (channel_value (mv_channel m))) (\<lambda>w. rbind (write_u8 w (mv_type m)) (\<lambda>w.
      rbind (write_u16 w (mv_len m)) (\<lambda>w.
      if 0 < mv_len m then write_bytes w (mv_data m) (unat (mv_len m)) else Inr w)))"
    using assms(2,3) by (auto simp: write_message_def valid_message_def word_less_nat_alt word_le_nat_alt split: option.splits)
  also have "\<dots> = emit (enc_message m) w"
    unfolding enc_message_def using assms(1) by (intro rbind_emit write_rules data)
  finally show ?thesis .
qed

lemma read_message_rd:
  assumes "k \<le> length bs"
  shows "read_message (rd bs k) =
    (if k = length bs then Inl errc.EndOfStream
     else if length bs < k + 4 then Inl errc.BadPacket
     else let len = be_value (take 2 (drop (k + 2) bs)) :: U16 in
       if 4 < bs ! k \<or> length bs < k + 4 + unat len then Inl errc.BadPacket
       else Inr (\<lparr>mv_channel = channel_of_value (bs ! k), mv_type = bs ! (k + 1),
                  mv_data = (if len = 0 then None else Some (take (unat len) (drop (k + 4) bs))), mv_len = len\<rparr>,
                 rd bs (k + 4 + unat len)))"
  using assms by (auto simp: read_message_def read_evals Let_def numeral_eq_Suc add.assoc less_diff_conv unat_eq_zero)

lemma read_enc_message:
  assumes "valid_message m"
  shows "read_message (rd (pre @ enc_message m @ rest) (length pre)) =
         Inr (m, rd (pre @ enc_message m @ rest) (length pre + length (enc_message m)))"
proof -
  let ?d = "case mv_data m of None \<Rightarrow> [] | Some d \<Rightarrow> d"
  have l: "unat (mv_len m) = length ?d" "channel_value (mv_channel m) \<le> 4"
    using assms by (auto simp: valid_message_def channel_valid_value split: option.splits)
  have v: "channel_of_value (channel_value (mv_channel m)) = mv_channel m"
    "(if mv_len m = 0 then None else Some ?d) = mv_data m"
    using assms by (auto simp: valid_message_def unat_eq_0 split: option.splits)
  have h: "(pre @ enc_message m @ rest) ! length pre = channel_value (mv_channel m)"
    "(pre @ enc_message m @ rest) ! (length pre + 1) = mv_type m"
    "take 2 (drop (length pre + 2) (pre @ enc_message m @ rest)) = be_bytes 2 (mv_len m)"
    "drop (length pre + 4) (pre @ enc_message m @ rest) = ?d @ rest"
    "length (pre @ enc_message m @ rest) = length pre + (4 + length ?d + length rest)"
    by (simp_all add: enc_message_def enc_u8_def nth_append)
  show ?thesis
    by (subst read_message_rd)
      (use l v in \<open>simp_all only: h be_value_be_bytes_full Let_def, auto simp: length_enc_message [OF assms] not_less\<close>)
qed

text \<open>Every frame that is read moves the cursor, so the frame loops terminate.\<close>

lemma read_message_progress:
  assumes "read_message r = Inr (m, r')"
  shows "remaining_r r' < remaining_r r"
proof -
  have need: "need_r q n = Inr () \<longleftrightarrow> \<not> (0 < n \<and> br_src q = None) \<and> n \<le> remaining_r q" for q n
    by (simp add: need_r_def)
  show ?thesis
    using assms
    by (auto simp: read_message_def Let_def rbind_Inr_iff read_u8_def read_u16_def skip_def need
        remaining_r_def split: if_splits)
qed

text \<open>
  The frames of a payload, read until the end of the stream: the loop with which a client and a
  server walk a message packet, without the handling of each frame.
\<close>

function read_messages :: "ByteReader \<Rightarrow> MsgView list result" where
  "read_messages r =
    (case read_message r of
       Inl e \<Rightarrow> if e = errc.EndOfStream then Inr [] else Inl e
     | Inr (m, r') \<Rightarrow> rbind (read_messages r') (\<lambda>ms. Inr (m # ms)))"
  by pat_completeness auto

termination
  by (relation "measure remaining_r") (auto dest: read_message_progress)

declare read_messages.simps [simp del]

lemma read_messages_enc:
  "(\<forall>m \<in> set ms. valid_message m) \<Longrightarrow>
   read_messages (rd (pre @ concat (map enc_message ms)) (length pre)) = Inr ms"
proof (induction ms arbitrary: pre)
  case Nil
  then show ?case by (simp add: read_messages.simps [of "rd pre (length pre)"] read_message_rd)
next
  case (Cons m ms)
  have "read_messages (rd ((pre @ enc_message m) @ concat (map enc_message ms)) (length (pre @ enc_message m))) = Inr ms"
    using Cons.prems by (intro Cons.IH) simp
  moreover have "read_message (rd (pre @ enc_message m @ concat (map enc_message ms)) (length pre)) =
      Inr (m, rd (pre @ enc_message m @ concat (map enc_message ms)) (length pre + length (enc_message m)))"
    using Cons.prems by (intro read_enc_message) simp
  ultimately show ?case by (simp add: read_messages.simps [of "rd _ (length pre)"])
qed

lemma read_message_sound:
  assumes "read_message (rd bs k) = Inr (m, r)" "k \<le> length bs"
  shows "valid_message m" "r = rd bs (k + length (enc_message m))"
    "drop k bs = enc_message m @ drop (k + length (enc_message m)) bs" "k + length (enc_message m) \<le> length bs"
proof -
  define len where "len = (be_value (take 2 (drop (k + 2) bs)) :: U16)"
  have c: "k + 4 + unat len \<le> length bs" "bs ! k \<le> 4" "r = rd bs (k + 4 + unat len)"
    and m: "m = \<lparr>mv_channel = channel_of_value (bs ! k), mv_type = bs ! (k + 1),
      mv_data = (if len = 0 then None else Some (take (unat len) (drop (k + 4) bs))), mv_len = len\<rparr>"
    using assms by (auto simp: read_message_rd Let_def len_def split: if_splits)
  have "unat len = length (take (unat len) (drop (k + 4) bs))" using c(1) by simp
  then show v: "valid_message m"
    using c(2) by (auto simp: m valid_message_def channel_valid_of_value unat_gt_0
        simp flip: length_0_conv simp del: length_take length_drop)
  then have l: "length (enc_message m) = 4 + unat len" by (simp add: length_enc_message m)
  show "r = rd bs (k + length (enc_message m))" "k + length (enc_message m) \<le> length bs"
    using c l by (simp_all add: add.assoc)
  have "enc_message m = take 1 (drop k bs) @ take 1 (drop (k + 1) bs) @ take 2 (drop (k + 2) bs) @
      take (unat len) (drop (k + 4) bs)"
    using c(1) by (auto simp: m enc_message_def enc_u8_def len_def be_bytes_take take_nth_drop)
  also have "\<dots> = take (4 + unat len) (drop k bs)"
    using take_drop_join [of 1 k bs "3 + unat len"] take_drop_join [of 1 "k + 1" bs "2 + unat len"]
      take_drop_join [of 2 "k + 2" bs "unat len"] by (simp add: eval_nat_numeral)
  finally show "drop k bs = enc_message m @ drop (k + length (enc_message m)) bs"
    using l by (metis add.commute append_take_drop_id drop_drop)
qed

lemma read_messages_sound:
  "read_messages (rd bs k) = Inr ms \<Longrightarrow> k \<le> length bs \<Longrightarrow>
   (\<forall>m \<in> set ms. valid_message m) \<and> drop k bs = concat (map enc_message ms)"
proof (induction ms arbitrary: k)
  case Nil
  then show ?case
    by (subst (asm) read_messages.simps)
      (auto simp: read_message_rd Let_def rbind_Inr_iff split: if_splits sum.splits prod.splits)
next
  case (Cons m ms)
  then obtain r where r: "read_message (rd bs k) = Inr (m, r)" "read_messages r = Inr ms"
    by (subst (asm) read_messages.simps) (auto simp: rbind_Inr_iff split: if_splits sum.splits prod.splits)
  note * = read_message_sound [OF r(1) Cons.prems(2)]
  show ?case using Cons.IH [of "k + length (enc_message m)"] * r(2) by auto
qed

text \<open>
  C24: walking a message payload. The frame loop accepts exactly the concatenations of well-formed
  frames and returns those frames in order, for every payload; in particular no payload is split
  into frames in two ways.
\<close>

theorem read_messages_exact:
  "read_messages (rd bs 0) = Inr ms \<longleftrightarrow>
   list_all valid_message ms \<and> bs = concat (map enc_message ms)"
  using read_messages_enc [of ms "[]"] read_messages_sound [of bs 0 ms]
  by (auto simp: list_all_iff)



end
