(* ===== verification/Scn_Reliability.thy ===== *)
theory Scn_Reliability
  imports Scn_Message Scn_Protocol
begin

text \<open>
  Reliable delivery (\<^verbatim>\<open>reliability.hpp\<close>): the delivery envelopes and acknowledgement frames,
  the receive windows of the reliable, ordered and sequenced channels, and the sender's queue of
  unacknowledged messages with its retransmission timer.

  The callback that \<^verbatim>\<open>resend_due\<close> calls for each message, and the one to which the ordered
  window delivers, are function arguments that transform a caller state and may fail.
\<close>

section \<open>Envelopes\<close>

datatype ControlType = ReliableAck | Fragment

fun control_type_value :: "ControlType \<Rightarrow> U8" where
  "control_type_value ControlType.ReliableAck = 1"
| "control_type_value ControlType.Fragment = 2"

record ReliablePayloadView =
  rp_message_id :: U64
  rp_data :: "U8 list option"
  rp_len :: U16

record OrderedPayloadView =
  op_delivery_sequence :: U64
  op_data :: "U8 list option"
  op_len :: U16

record SequencedPayloadView =
  sp_delivery_sequence :: U64
  sp_data :: "U8 list option"
  sp_len :: U16

definition reliable_bytes :: "ReliablePayloadView \<Rightarrow> U8 list" where
  "reliable_bytes v =
    (case rp_data v of None \<Rightarrow> [] | Some d \<Rightarrow> if rp_len v = 0 then [] else take (unat (rp_len v)) d)"

definition write_reliable_payload :: "ByteWriter \<Rightarrow> U64 \<Rightarrow> U8 list option \<Rightarrow> U16 \<Rightarrow> ByteWriter result" where
  "write_reliable_payload w message_id data len =
    (if message_id = 0 then Inl errc.InvalidArg
     else if of_nat MaxReliableMessageBytes < len then Inl errc.InvalidArg
     else if 0 < len \<and> data = None then Inl errc.InvalidArg
     else rbind (write_u64 w message_id) (\<lambda>w.
       if 0 < len then write_bytes w data (unat len) else Inr w))"

definition read_reliable_payload :: "ByteReader \<Rightarrow> (ReliablePayloadView \<times> ByteReader) result" where
  "read_reliable_payload r =
    (if remaining_r r < 8 then Inl errc.BadPacket
     else rbind (read_u64 r) (\<lambda>(message_id, r).
       if message_id = 0 then Inl errc.BadPacket
       else let rem = remaining_r r in
         if U16_MAX < rem then Inl errc.BadPacket
         else let data = (if rem = 0 then None else peek_ptr r rem) in
           rbind (skip r rem) (\<lambda>r.
           Inr (\<lparr>rp_message_id = message_id, rp_data = data, rp_len = of_nat rem\<rparr>, r))))"

definition write_ordered_payload :: "ByteWriter \<Rightarrow> U64 \<Rightarrow> U8 list option \<Rightarrow> U16 \<Rightarrow> ByteWriter result" where
  "write_ordered_payload w delivery_sequence data len =
    (if delivery_sequence = 0 then Inl errc.InvalidArg
     else if of_nat MaxOrderedMessageBytes < len then Inl errc.InvalidArg
     else if 0 < len \<and> data = None then Inl errc.InvalidArg
     else rbind (write_u64 w delivery_sequence) (\<lambda>w.
       if 0 < len then write_bytes w data (unat len) else Inr w))"

definition read_ordered_payload :: "ByteReader \<Rightarrow> (OrderedPayloadView \<times> ByteReader) result" where
  "read_ordered_payload r =
    (if remaining_r r < 8 then Inl errc.BadPacket
     else rbind (read_u64 r) (\<lambda>(delivery_sequence, r).
       if delivery_sequence = 0 then Inl errc.BadPacket
       else let rem = remaining_r r in
         if U16_MAX < rem then Inl errc.BadPacket
         else let data = (if rem = 0 then None else peek_ptr r rem) in
           rbind (skip r rem) (\<lambda>r.
           Inr (\<lparr>op_delivery_sequence = delivery_sequence, op_data = data, op_len = of_nat rem\<rparr>, r))))"

definition write_sequenced_payload :: "ByteWriter \<Rightarrow> U64 \<Rightarrow> U8 list option \<Rightarrow> U16 \<Rightarrow> ByteWriter result" where
  "write_sequenced_payload w delivery_sequence data len =
    (if delivery_sequence = 0 then Inl errc.InvalidArg
     else if of_nat MaxSequencedMessageBytes < len then Inl errc.InvalidArg
     else if 0 < len \<and> data = None then Inl errc.InvalidArg
     else rbind (write_u64 w delivery_sequence) (\<lambda>w.
       if 0 < len then write_bytes w data (unat len) else Inr w))"

definition read_sequenced_payload :: "ByteReader \<Rightarrow> (SequencedPayloadView \<times> ByteReader) result" where
  "read_sequenced_payload r =
    (if remaining_r r < 8 then Inl errc.BadPacket
     else rbind (read_u64 r) (\<lambda>(delivery_sequence, r).
       if delivery_sequence = 0 then Inl errc.BadPacket
       else let rem = remaining_r r in
         if U16_MAX < rem then Inl errc.BadPacket
         else let data = (if rem = 0 then None else peek_ptr r rem) in
           rbind (skip r rem) (\<lambda>r.
           Inr (\<lparr>sp_delivery_sequence = delivery_sequence, sp_data = data, sp_len = of_nat rem\<rparr>, r))))"

definition write_reliable_ack :: "ByteWriter \<Rightarrow> Channel \<Rightarrow> U64 \<Rightarrow> ByteWriter result" where
  "write_reliable_ack w channel message_id =
    (if \<not> channel_is_reliable channel then Inl errc.InvalidArg
     else if message_id = 0 then Inl errc.InvalidArg
     else rbind (write_u8 w (channel_value channel)) (\<lambda>w. write_u64 w message_id))"

definition read_reliable_ack :: "ByteReader \<Rightarrow> ((Channel \<times> U64) \<times> ByteReader) result" where
  "read_reliable_ack r =
    rbind (read_u8 r) (\<lambda>(raw_channel, r).
    if raw_channel \<noteq> channel_value Channel.Reliable \<and> raw_channel \<noteq> channel_value Channel.ReliableOrdered
      then Inl errc.BadPacket
    else rbind (read_u64 r) (\<lambda>(message_id, r).
      if message_id = 0 then Inl errc.BadPacket
      else if remaining_r r \<noteq> 0 then Inl errc.BadPacket
      else Inr ((channel_of_value raw_channel, message_id), r)))"

text \<open>The overloads of the acknowledgement functions without a channel.\<close>

definition write_reliable_ack_legacy :: "ByteWriter \<Rightarrow> U64 \<Rightarrow> ByteWriter result" where
  "write_reliable_ack_legacy w message_id = write_reliable_ack w Channel.Reliable message_id"

definition read_reliable_ack_legacy :: "ByteReader \<Rightarrow> (U64 \<times> ByteReader) result" where
  "read_reliable_ack_legacy r =
    rbind (read_reliable_ack r) (\<lambda>((channel, message_id), r).
    if channel \<noteq> Channel.Reliable then Inl errc.BadPacket else Inr (message_id, r))"

section \<open>Receive windows\<close>

record ReliableReceiveWindow =
  rrw_initialized :: bool
  rrw_latest :: U64
  rrw_seen :: U64

definition ReliableReceiveWindow_default :: ReliableReceiveWindow where
  "ReliableReceiveWindow_default = \<lparr>rrw_initialized = False, rrw_latest = 0, rrw_seen = 0\<rparr>"

definition rrw_accept :: "ReliableReceiveWindow \<Rightarrow> U64 \<Rightarrow> bool \<times> ReliableReceiveWindow" where
  "rrw_accept w message_id =
    (if message_id = 0 then (False, w)
     else if \<not> rrw_initialized w
     then (True, w\<lparr>rrw_initialized := True, rrw_latest := message_id, rrw_seen := 1\<rparr>)
     else if rrw_latest w < message_id
     then let delta = message_id - rrw_latest w;
              seen = (if 64 \<le> delta then 0 else push_bit (unat delta) (rrw_seen w))
          in (True, w\<lparr>rrw_seen := seen OR 1, rrw_latest := message_id\<rparr>)
     else let delta = rrw_latest w - message_id in
       if 64 \<le> delta then (False, w)
       else let mask = push_bit (unat delta) 1;
                duplicate = (rrw_seen w AND mask \<noteq> 0)
            in (\<not> duplicate, w\<lparr>rrw_seen := rrw_seen w OR mask\<rparr>))"

definition rrw_seen_id :: "ReliableReceiveWindow \<Rightarrow> U64 \<Rightarrow> bool" where
  "rrw_seen_id w message_id =
    (if message_id = 0 then False
     else if \<not> rrw_initialized w \<or> rrw_latest w < message_id then False
     else let delta = rrw_latest w - message_id in
       if 64 \<le> delta then False
       else rrw_seen w AND push_bit (unat delta) 1 \<noteq> 0)"

definition rrw_reset :: "ReliableReceiveWindow \<Rightarrow> ReliableReceiveWindow" where
  "rrw_reset w = w\<lparr>rrw_initialized := False, rrw_latest := 0, rrw_seen := 0\<rparr>"

record BufferedMessage =
  bm_type :: U8
  bm_payload :: "U8 list"

text \<open>The \<^verbatim>\<open>std::map\<close> of buffered messages is an association list with distinct keys.\<close>

record OrderedReceiveWindow =
  ow_next_expected :: U64
  ow_max_buffered :: U32
  ow_buffer :: "(U64 \<times> BufferedMessage) list"

definition OrderedReceiveWindow_new :: "U32 \<Rightarrow> OrderedReceiveWindow" where
  "OrderedReceiveWindow_new max_buffered =
    \<lparr>ow_next_expected = 1, ow_max_buffered = max_buffered, ow_buffer = []\<rparr>"

definition ow_set_max_buffered :: "U32 \<Rightarrow> OrderedReceiveWindow \<Rightarrow> OrderedReceiveWindow" where
  "ow_set_max_buffered n w = w\<lparr>ow_max_buffered := n\<rparr>"

type_synonym 'c deliver_fn = "'c \<Rightarrow> U8 \<Rightarrow> U8 list option \<Rightarrow> U16 \<Rightarrow> unit result \<times> 'c"

text \<open>The loop that delivers the buffered successors of the message just delivered.\<close>

function ow_drain :: "'c deliver_fn \<Rightarrow> OrderedReceiveWindow \<Rightarrow> 'c \<Rightarrow> unit result \<times> OrderedReceiveWindow \<times> 'c" where
  "ow_drain deliver w c =
    (case map_of (ow_buffer w) (ow_next_expected w) of
       None \<Rightarrow> (Inr (), w, c)
     | Some m \<Rightarrow>
       (case deliver c (bm_type m) (if bm_payload m = [] then None else Some (bm_payload m))
               (of_nat (length (bm_payload m))) of
          (Inl e, c') \<Rightarrow> (Inl e, w, c')
        | (Inr _, c') \<Rightarrow>
          ow_drain deliver
            (w\<lparr>ow_buffer := filter (\<lambda>(k, _). k \<noteq> ow_next_expected w) (ow_buffer w),
               ow_next_expected := ow_next_expected w + 1\<rparr>) c'))"
  by pat_completeness auto

termination
proof (relation "measure (\<lambda>(deliver, w, c). length (ow_buffer w))", goal_cases)
  case (2 deliver w c m r c' e)
  then have "(ow_next_expected w, m) \<in> set (ow_buffer w)" by (auto dest: map_of_SomeD)
  then have "length (filter (\<lambda>(k, _). k \<noteq> ow_next_expected w) (ow_buffer w)) < length (ow_buffer w)"
    by (rule length_filter_less) simp
  then show ?case by simp
qed simp

declare ow_drain.simps [simp del]

text \<open>
  \<^verbatim>\<open>OrderedReceiveWindow::accept\<close>: the result with the flags \<^verbatim>\<open>buffered\<close> and
  \<^verbatim>\<open>stale\<close>, the window and the state of the delivery callback.
\<close>

definition ow_accept ::
  "'c deliver_fn \<Rightarrow> OrderedReceiveWindow \<Rightarrow> 'c \<Rightarrow> U64 \<Rightarrow> U8 \<Rightarrow> U8 list option \<Rightarrow> U16 \<Rightarrow>
   (bool \<times> bool) result \<times> OrderedReceiveWindow \<times> 'c" where
  "ow_accept deliver w c delivery_sequence type data len =
    (if delivery_sequence = 0 then (Inl errc.BadPacket, w, c)
     else let w = (if ow_next_expected w = 0 then w\<lparr>ow_next_expected := 1\<rparr> else w) in
       if delivery_sequence < ow_next_expected w then (Inr (False, True), w, c)
       else if delivery_sequence = ow_next_expected w
       then (case deliver c type data len of
               (Inl e, c) \<Rightarrow> (Inl e, w, c)
             | (Inr _, c) \<Rightarrow>
               (case ow_drain deliver (w\<lparr>ow_next_expected := ow_next_expected w + 1\<rparr>) c of
                  (Inl e, w, c) \<Rightarrow> (Inl e, w, c)
                | (Inr _, w, c) \<Rightarrow> (Inr (False, False), w, c)))
       else if map_of (ow_buffer w) delivery_sequence \<noteq> None then (Inr (False, True), w, c)
       else if unat (ow_max_buffered w) \<le> length (ow_buffer w) then (Inl errc.QueueFull, w, c)
       else let entry = \<lparr>bm_type = type,
                         bm_payload = (if 0 < len then take (unat len) (case data of None \<Rightarrow> [] | Some d \<Rightarrow> d) else [])\<rparr>
            in (Inr (True, False), w\<lparr>ow_buffer := (delivery_sequence, entry) # ow_buffer w\<rparr>, c))"

definition ow_clear :: "OrderedReceiveWindow \<Rightarrow> OrderedReceiveWindow" where
  "ow_clear w = w\<lparr>ow_next_expected := 1, ow_buffer := []\<rparr>"

record SequencedReceiveWindow =
  sw_initialized :: bool
  sw_latest :: U64

definition SequencedReceiveWindow_default :: SequencedReceiveWindow where
  "SequencedReceiveWindow_default = \<lparr>sw_initialized = False, sw_latest = 0\<rparr>"

definition sw_accept :: "SequencedReceiveWindow \<Rightarrow> U64 \<Rightarrow> bool \<times> SequencedReceiveWindow" where
  "sw_accept w delivery_sequence =
    (if delivery_sequence = 0 then (False, w)
     else if \<not> sw_initialized w then (True, w\<lparr>sw_initialized := True, sw_latest := delivery_sequence\<rparr>)
     else if delivery_sequence \<le> sw_latest w then (False, w)
     else (True, w\<lparr>sw_latest := delivery_sequence\<rparr>))"

definition sw_clear :: "SequencedReceiveWindow \<Rightarrow> SequencedReceiveWindow" where
  "sw_clear w = w\<lparr>sw_initialized := False, sw_latest := 0\<rparr>"

section \<open>Correctness of the envelopes\<close>

definition opt_bytes :: "U8 list option \<Rightarrow> U8 list" where
  "opt_bytes d = (case d of None \<Rightarrow> [] | Some p \<Rightarrow> p)"

lemma opt_bytes_of_list [simp]: "opt_bytes (if d = [] then None else Some d) = d"
  by (simp add: opt_bytes_def)

text \<open>An envelope is a non-zero number followed by the message bytes.\<close>

definition enc_envelope :: "U64 \<Rightarrow> U8 list option \<Rightarrow> U8 list" where
  "enc_envelope n d = be_bytes 8 n @ opt_bytes d"

definition valid_envelope :: "U64 \<Rightarrow> U8 list option \<Rightarrow> U16 \<Rightarrow> bool" where
  "valid_envelope n d l \<longleftrightarrow> n \<noteq> 0 \<and> d \<noteq> Some [] \<and> length (opt_bytes d) \<le> U16_MAX \<and> l = of_nat (length (opt_bytes d))"

lemma valid_envelope_len: "valid_envelope n d l \<Longrightarrow> unat l = length (opt_bytes d)"
  by (simp add: valid_envelope_def U16_MAX_def unat_of_nat_small)

lemma envelope_writer:
  assumes "writer_wf w" "valid_envelope n d l"
  shows "rbind (write_u64 w n) (\<lambda>w. if 0 < l then write_bytes w d (unat l) else Inr w) = emit (enc_envelope n d) w"
proof -
  have "(if 0 < l then write_bytes w' d (unat l) else Inr w') = emit (opt_bytes d) w'" if "writer_wf w'" for w'
    using that assms(2) valid_envelope_len [OF assms(2)]
    by (cases d) (auto simp: opt_bytes_def valid_envelope_def write_rules word_less_nat_alt)
  then show ?thesis unfolding enc_envelope_def using assms(1) by (intro rbind_emit write_rules)
qed

lemma write_reliable_payload_emit:
  "writer_wf w \<Longrightarrow> valid_envelope n d l \<Longrightarrow> l \<le> of_nat MaxReliableMessageBytes \<Longrightarrow>
   write_reliable_payload w n d l = emit (enc_envelope n d) w"
  using envelope_writer [of w n d l] valid_envelope_len [of n d l]
  by (cases d) (auto simp: write_reliable_payload_def valid_envelope_def opt_bytes_def)

lemma write_ordered_payload_emit:
  "writer_wf w \<Longrightarrow> valid_envelope n d l \<Longrightarrow> l \<le> of_nat MaxOrderedMessageBytes \<Longrightarrow>
   write_ordered_payload w n d l = emit (enc_envelope n d) w"
  using envelope_writer [of w n d l] valid_envelope_len [of n d l]
  by (cases d) (auto simp: write_ordered_payload_def valid_envelope_def opt_bytes_def)

lemma write_sequenced_payload_emit:
  "writer_wf w \<Longrightarrow> valid_envelope n d l \<Longrightarrow> l \<le> of_nat MaxSequencedMessageBytes \<Longrightarrow>
   write_sequenced_payload w n d l = emit (enc_envelope n d) w"
  using envelope_writer [of w n d l] valid_envelope_len [of n d l]
  by (cases d) (auto simp: write_sequenced_payload_def valid_envelope_def opt_bytes_def)

text \<open>What the three envelope readers return from a whole payload.\<close>

lemma envelope_iff:
  "(8 \<le> length bs \<and> n \<noteq> 0 \<and> length bs - 8 \<le> U16_MAX \<and> n = be_value (take 8 bs) \<and>
    d = (if length bs - 8 = 0 then None else Some (drop 8 bs)) \<and> l = of_nat (length bs - 8)) \<longleftrightarrow>
   valid_envelope n d l \<and> bs = enc_envelope n d"
proof
  assume a: "8 \<le> length bs \<and> n \<noteq> 0 \<and> length bs - 8 \<le> U16_MAX \<and> n = be_value (take 8 bs) \<and>
    d = (if length bs - 8 = 0 then None else Some (drop 8 bs)) \<and> l = of_nat (length bs - 8)"
  then have "be_bytes 8 n = take 8 bs" using be_bytes_take(3) [of 0 bs] by simp
  then have "enc_envelope n d = bs" using a by (auto simp: enc_envelope_def opt_bytes_def)
  moreover have "valid_envelope n d l" using a by (auto simp: valid_envelope_def opt_bytes_def)
  ultimately show "valid_envelope n d l \<and> bs = enc_envelope n d" by simp
next
  assume "valid_envelope n d l \<and> bs = enc_envelope n d"
  then show "8 \<le> length bs \<and> n \<noteq> 0 \<and> length bs - 8 \<le> U16_MAX \<and> n = be_value (take 8 bs) \<and>
    d = (if length bs - 8 = 0 then None else Some (drop 8 bs)) \<and> l = of_nat (length bs - 8)"
    by (cases d) (auto simp: valid_envelope_def enc_envelope_def opt_bytes_def)
qed

lemma read_reliable_payload_iff:
  "decode_with read_reliable_payload bs = Inr v \<longleftrightarrow>
   valid_envelope (rp_message_id v) (rp_data v) (rp_len v) \<and> bs = enc_envelope (rp_message_id v) (rp_data v)"
  unfolding envelope_iff [symmetric]
  by (cases v) (auto simp: decode_with_def read_reliable_payload_def read_evals Let_def split: if_splits)

lemma read_ordered_payload_iff:
  "decode_with read_ordered_payload bs = Inr v \<longleftrightarrow>
   valid_envelope (op_delivery_sequence v) (op_data v) (op_len v) \<and> bs = enc_envelope (op_delivery_sequence v) (op_data v)"
  unfolding envelope_iff [symmetric]
  by (cases v) (auto simp: decode_with_def read_ordered_payload_def read_evals Let_def split: if_splits)

lemma read_sequenced_payload_iff:
  "decode_with read_sequenced_payload bs = Inr v \<longleftrightarrow>
   valid_envelope (sp_delivery_sequence v) (sp_data v) (sp_len v) \<and> bs = enc_envelope (sp_delivery_sequence v) (sp_data v)"
  unfolding envelope_iff [symmetric]
  by (cases v) (auto simp: decode_with_def read_sequenced_payload_def read_evals Let_def split: if_splits)

interpretation reliable_payload: wire_codec "\<lambda>v. enc_envelope (rp_message_id v) (rp_data v)"
  "decode_with read_reliable_payload" "\<lambda>v. valid_envelope (rp_message_id v) (rp_data v) (rp_len v)"
  by unfold_locales (simp_all add: read_reliable_payload_iff)

interpretation ordered_payload: wire_codec "\<lambda>v. enc_envelope (op_delivery_sequence v) (op_data v)"
  "decode_with read_ordered_payload" "\<lambda>v. valid_envelope (op_delivery_sequence v) (op_data v) (op_len v)"
  by unfold_locales (simp_all add: read_ordered_payload_iff)

interpretation sequenced_payload: wire_codec "\<lambda>v. enc_envelope (sp_delivery_sequence v) (sp_data v)"
  "decode_with read_sequenced_payload" "\<lambda>v. valid_envelope (sp_delivery_sequence v) (sp_data v) (sp_len v)"
  by unfold_locales (simp_all add: read_sequenced_payload_iff)

definition enc_ack :: "Channel \<times> U64 \<Rightarrow> U8 list" where
  "enc_ack a = enc_u8 (channel_value (fst a)) @ be_bytes 8 (snd a)"

definition valid_ack :: "Channel \<times> U64 \<Rightarrow> bool" where
  "valid_ack a \<longleftrightarrow> channel_is_reliable (fst a) \<and> snd a \<noteq> 0"

lemma write_reliable_ack_emit:
  "writer_wf w \<Longrightarrow> valid_ack (c, n) \<Longrightarrow> write_reliable_ack w c n = emit (enc_ack (c, n)) w"
  unfolding enc_ack_def fst_conv snd_conv
  by (simp add: write_reliable_ack_def valid_ack_def) (intro rbind_emit write_rules)

lemma read_reliable_ack_iff:
  "read_reliable_ack (rd bs 0) = Inr (a, r) \<longleftrightarrow> valid_ack a \<and> bs = enc_ack a \<and> r = rd bs (length bs)"
  (is "?L \<longleftrightarrow> ?R")
proof -
  have "?L \<longleftrightarrow> valid_ack a \<and> (bytes_at bs 0 (enc_ack a) \<and> length bs - length (enc_ack a) = 0) \<and> r = rd bs (length (enc_ack a))"
    by (cases a) (auto simp: read_reliable_ack_def rbind_Inr_iff2 read_iffs valid_ack_def enc_ack_def bytes_at_append
        channel_is_reliable_def channel_of_value_def intro: exI [of _ "1 :: U8"])
  also have "\<dots> \<longleftrightarrow> ?R" using bytes_at_all [of bs "enc_ack a"] by metis
  finally show ?thesis .
qed

interpretation ack: wire_codec enc_ack "decode_with read_reliable_ack" valid_ack
  by unfold_locales (auto simp: decode_with_def rbind_Inr_iff2 read_reliable_ack_iff)


section \<open>Receive windows accept each number once\<close>

definition rrw_repr :: "ReliableReceiveWindow \<Rightarrow> U64 set \<Rightarrow> bool" where
  "rrw_repr w A \<longleftrightarrow> window_repr (rrw_initialized w) (rrw_latest w) (rrw_seen w) A \<and> 0 \<notin> A"

definition rrw_open :: "U64 set \<Rightarrow> U64 \<Rightarrow> bool" where
  "rrw_open A k \<longleftrightarrow> k \<noteq> 0 \<and> window_open A k"

lemma rrw_accept_step:
  "x \<noteq> 0 \<Longrightarrow> window_step (rrw_initialized w, rrw_latest w, rrw_seen w) x =
   (fst (rrw_accept w x), rrw_initialized (snd (rrw_accept w x)), rrw_latest (snd (rrw_accept w x)),
    rrw_seen (snd (rrw_accept w x)))"
  by (simp add: window_step_def rrw_accept_def Let_def)

lemma rrw_accept_zero [simp]: "rrw_accept w 0 = (False, w)"
  by (simp add: rrw_accept_def)

interpretation reliable_window: dedup_window rrw_accept ReliableReceiveWindow_default rrw_repr rrw_open
proof
  show "rrw_repr ReliableReceiveWindow_default {}"
    by (simp add: rrw_repr_def ReliableReceiveWindow_default_def window_repr_def)
next
  fix s A k assume "rrw_repr s A"
  then show "fst (rrw_accept s k) \<longleftrightarrow> k \<notin> A \<and> rrw_open A k"
    and "rrw_repr (snd (rrw_accept s k)) (if fst (rrw_accept s k) then insert k A else A)"
    using window_step_correct [OF _ rrw_accept_step [of k s], of A]
    by (cases "k = 0"; auto simp: rrw_repr_def rrw_open_def)+
qed

lemma rrw_seen_id_iff:
  assumes "rrw_repr w A"
  shows "rrw_seen_id w k \<longleftrightarrow> k \<in> A \<and> window_open A k"
proof (cases "k = 0 \<or> \<not> rrw_initialized w \<or> rrw_latest w < k")
  case True
  then have "\<not> rrw_seen_id w k" by (auto simp: rrw_seen_id_def)
  moreover have "k \<notin> A"
    using assms True window_repr_le [of "rrw_initialized w" "rrw_latest w" "rrw_seen w" A k]
    by (auto simp: rrw_repr_def)
  ultimately show ?thesis by blast
next
  case False
  then have i: "k \<noteq> 0" "rrw_initialized w" "k \<le> rrw_latest w" by auto
  let ?l = "rrw_latest w"
  have r: "window_repr True ?l (rrw_seen w) A" using assms i(2) by (simp add: rrw_repr_def)
  show ?thesis
  proof (cases "64 \<le> ?l - k")
    case True
    then have "\<not> window_open A k"
      using r i unat_sub_le [of k ?l]
      by (auto simp: window_repr_def window_open_def word_le_nat_alt intro!: bexI [of _ ?l])
    then show ?thesis using True i by (auto simp: rrw_seen_id_def)
  next
    case far: False
    then have "window_open A k"
      using r i unat_sub_le [of k ?l] by (auto simp: window_repr_def window_open_def word_le_nat_alt)
    moreover have "\<not> ?l < k" using i by simp
    ultimately show ?thesis
      using far i window_repr_older(1) [OF r i(3) far] by (simp add: rrw_seen_id_def)
  qed
qed

definition sw_repr :: "SequencedReceiveWindow \<Rightarrow> U64 set \<Rightarrow> bool" where
  "sw_repr w A \<longleftrightarrow> (if sw_initialized w then sw_latest w \<in> A \<and> (\<forall>a \<in> A. a \<le> sw_latest w) else A = {})"

definition sw_open :: "U64 set \<Rightarrow> U64 \<Rightarrow> bool" where
  "sw_open A k \<longleftrightarrow> k \<noteq> 0 \<and> (\<forall>a \<in> A. a < k)"

interpretation sequenced_window: dedup_window sw_accept SequencedReceiveWindow_default sw_repr sw_open
  by unfold_locales
    (fastforce simp: sw_repr_def sw_open_def sw_accept_def SequencedReceiveWindow_default_def split: if_splits)+

lemma sw_accept_all_sorted:
  "accept_all sw_accept w ks = (acc, w') \<Longrightarrow> sorted_wrt (<) acc \<and> (sw_initialized w \<longrightarrow> (\<forall>a \<in> set acc. sw_latest w < a))"
proof (induction ks arbitrary: w acc)
  case (Cons k ks)
  obtain b w1 acc1 where 1: "sw_accept w k = (b, w1)" "accept_all sw_accept w1 ks = (acc1, w')"
    "acc = (if b then k # acc1 else acc1)"
    using Cons.prems by (auto split: prod.splits)
  note IH = Cons.IH [OF 1(2)]
  show ?case
    using IH 1(1,3) by (fastforce simp: sw_accept_def split: if_splits)
qed simp

text \<open>
  C10: duplicate suppression of the reliable channels. For every sequence of arriving message
  numbers, each number is accepted at most once; a non-zero number is accepted exactly when it is
  new and no accepted number is 64 or more ahead, and \<^verbatim>\<open>seen\<close> then reports exactly the accepted
  numbers of the window.
\<close>

theorem reliable_window_exact:
  assumes "accept_all rrw_accept ReliableReceiveWindow_default arrivals = (accepted, w)"
  shows "distinct accepted \<and> set accepted \<subseteq> set arrivals - {0} \<and>
    (fst (rrw_accept w k) \<longleftrightarrow> k \<noteq> 0 \<and> k \<notin> set accepted \<and> list_all (\<lambda>a. unat a < unat k + 64) accepted) \<and>
    (rrw_seen_id w k \<longleftrightarrow> k \<in> set accepted \<and> list_all (\<lambda>a. unat a < unat k + 64) accepted)"
proof -
  have r: "rrw_repr w (set accepted)"
    using reliable_window.accept_all_repr [OF reliable_window.repr_init assms] by simp
  show ?thesis
    using reliable_window.run_exact [OF assms] rrw_seen_id_iff [OF r, of k] r
    by (auto simp: rrw_open_def window_open_def list_all_iff rrw_repr_def)
qed

theorem reliable_window_exact_witness:
  "distinct (fst (accept_all rrw_accept ReliableReceiveWindow_default [0, 2, 1, 2, 80, 15, 17])) \<and>
   fst (accept_all rrw_accept ReliableReceiveWindow_default [0, 2, 1, 2, 80, 15, 17]) = [2, 1, 80, 17]"
proof -
  have r: "accept_all rrw_accept ReliableReceiveWindow_default [0, 2, 1, 2, 80, 15, 17] = ([2, 1, 80, 17],
      snd (accept_all rrw_accept ReliableReceiveWindow_default [0, 2, 1, 2, 80, 15, 17]))"
    by (simp add: rrw_accept_def ReliableReceiveWindow_default_def Let_def)
  show ?thesis using reliable_window_exact [OF r] r by (metis fst_conv)
qed

text \<open>
  C32: the sequenced channel delivers only news. The accepted sequence numbers are strictly
  increasing, whatever arrives, and after any history a number is accepted exactly when it is
  non-zero and newer than everything accepted before.
\<close>

theorem sequenced_window_newest:
  assumes "accept_all sw_accept SequencedReceiveWindow_default arrivals = (accepted, w)"
  shows "sorted_wrt (<) accepted \<and> set accepted \<subseteq> set arrivals \<and>
    (fst (sw_accept w k) \<longleftrightarrow> k \<noteq> 0 \<and> list_all (\<lambda>a. a < k) accepted)"
  using sequenced_window.run_exact [OF assms] sw_accept_all_sorted [OF assms]
  by (auto simp: sw_open_def list_all_iff)

theorem sequenced_window_newest_witness:
  "sorted_wrt (<) (fst (accept_all sw_accept SequencedReceiveWindow_default [3, 2, 5, 5, 4, 9])) \<and>
   fst (accept_all sw_accept SequencedReceiveWindow_default [3, 2, 5, 5, 4, 9]) = [3, 5, 9]"
proof -
  have r: "accept_all sw_accept SequencedReceiveWindow_default [3, 2, 5, 5, 4, 9] = ([3, 5, 9],
      snd (accept_all sw_accept SequencedReceiveWindow_default [3, 2, 5, 5, 4, 9]))"
    by (simp add: sw_accept_def SequencedReceiveWindow_default_def)
  show ?thesis using sequenced_window_newest [OF r] r by (metis fst_conv)
qed

section \<open>Ordered delivery\<close>

text \<open>
  A delivery callback that always succeeds and records what it is given, and the run of a window
  over a list of arrivals (sequence number, type, message bytes).
\<close>

definition log_deliver :: "(U8 \<times> U8 list) list deliver_fn" where
  "log_deliver log ty data len = (Inr (), log @ [(ty, opt_bytes data)])"

fun ow_run :: "OrderedReceiveWindow \<times> (U8 \<times> U8 list) list \<Rightarrow> (U64 \<times> U8 \<times> U8 list) list \<Rightarrow>
    OrderedReceiveWindow \<times> (U8 \<times> U8 list) list" where
  "ow_run s [] = s"
| "ow_run (w, log) ((k, ty, d) # as) =
    ow_run (snd (ow_accept log_deliver w log k ty (if d = [] then None else Some d) (of_nat (length d)))) as"

text \<open>
  The window invariant, for a sender that numbers its messages \<open>msg 1, msg 2, \<dots>\<close>: the log is the
  prefix of the stream below the next expected number, and the buffer holds later messages of the
  stream. \<open>lo\<close> is the least number that may be buffered.
\<close>

definition ow_log_ok :: "(nat \<Rightarrow> U8 \<times> U8 list) \<Rightarrow> U64 \<Rightarrow> (U8 \<times> U8 list) list \<Rightarrow> bool" where
  "ow_log_ok msg n log \<longleftrightarrow> unat n = length log + 1 \<and> log = map msg [1..<unat n]"

definition ow_buf_ok :: "(nat \<Rightarrow> U8 \<times> U8 list) \<Rightarrow> nat \<Rightarrow> (U64 \<times> BufferedMessage) list \<Rightarrow> bool" where
  "ow_buf_ok msg lo buf \<longleftrightarrow> distinct (map fst buf) \<and>
     (\<forall>(k, m) \<in> set buf. lo \<le> unat k \<and> unat k + 1 < 2 ^ 64 \<and> (bm_type m, bm_payload m) = msg (unat k))"

definition ow_inv :: "(nat \<Rightarrow> U8 \<times> U8 list) \<Rightarrow> OrderedReceiveWindow \<Rightarrow> (U8 \<times> U8 list) list \<Rightarrow> bool" where
  "ow_inv msg w log \<longleftrightarrow> ow_log_ok msg (ow_next_expected w) log \<and>
     ow_buf_ok msg (Suc (unat (ow_next_expected w))) (ow_buffer w)"

abbreviation buffered_keys :: "OrderedReceiveWindow \<Rightarrow> U64 set" where
  "buffered_keys w \<equiv> fst ` set (ow_buffer w)"

lemma ow_log_ok_snoc:
  assumes "ow_log_ok msg n log" "unat n + 1 < 2 ^ 64"
  shows "ow_log_ok msg (n + 1) (log @ [msg (unat n)])"
proof -
  have u: "unat (n + 1) = Suc (unat n)" using unat_plus_one [of n] assms(2) by simp
  have l: "unat n = length log + 1" "log = map msg [1..<unat n]" using assms(1) unfolding ow_log_ok_def by blast+
  have "map msg [1..<Suc (unat n)] = log @ [msg (unat n)]"
    using l by (metis Suc_eq_plus1 le_add2 list.simps(8,9) map_append upt_Suc_append)
  then show ?thesis unfolding ow_log_ok_def u using l(1) by simp
qed

lemma ow_log_ok_nonzero: "ow_log_ok msg n log \<Longrightarrow> n \<noteq> 0"
  unfolding ow_log_ok_def by (metis Suc_eq_plus1 nat.distinct(1) unsigned_0)

lemma ow_buf_ok_filter:
  assumes "ow_buf_ok msg (unat n) buf"
  shows "ow_buf_ok msg (Suc (unat n)) (filter (\<lambda>(k, _). k \<noteq> n) buf)"
proof -
  have "Suc (unat n) \<le> unat k" if "(k, m) \<in> set buf" "k \<noteq> n" for k m
    using assms that by (auto simp: ow_buf_ok_def Suc_le_eq le_less word_unat_eq_iff)
  then show ?thesis using assms by (auto simp: ow_buf_ok_def distinct_map_filter)
qed

lemma filter_absent_key: "n \<notin> fst ` set buf \<Longrightarrow> filter (\<lambda>(k, _). k \<noteq> n) buf = buf"
  by (rule filter_True) force

lemma ow_drain_inv:
  assumes "ow_log_ok msg (ow_next_expected w) log" "ow_buf_ok msg (unat (ow_next_expected w)) (ow_buffer w)"
  shows "\<exists>w' log'. ow_drain log_deliver w log = (Inr (), w', log') \<and> ow_inv msg w' log' \<and>
     ow_max_buffered w' = ow_max_buffered w \<and> buffered_keys w' \<subseteq> buffered_keys w \<and>
     unat (ow_next_expected w) \<le> unat (ow_next_expected w') \<and>
     (\<forall>k \<in> buffered_keys w. k \<in> buffered_keys w' \<or> unat k < unat (ow_next_expected w'))"
  using assms
proof (induction "length (ow_buffer w)" arbitrary: w log rule: less_induct)
  case less
  let ?n = "ow_next_expected w"
  let ?w = "w\<lparr>ow_buffer := filter (\<lambda>(k, _). k \<noteq> ?n) (ow_buffer w), ow_next_expected := ?n + 1\<rparr>"
  have buf: "ow_buf_ok msg (Suc (unat ?n)) (filter (\<lambda>(k, _). k \<noteq> ?n) (ow_buffer w))"
    using less.prems(2) by (rule ow_buf_ok_filter)
  show ?case
  proof (cases "map_of (ow_buffer w) ?n")
    case None
    then have "filter (\<lambda>(k, _). k \<noteq> ?n) (ow_buffer w) = ow_buffer w"
      by (intro filter_absent_key) (simp add: map_of_eq_None_iff)
    then show ?thesis using None buf less.prems(1) by (subst ow_drain.simps) (auto simp: ow_inv_def)
  next
    case (Some m)
    let ?log = "log @ [msg (unat ?n)]"
    have mem: "(?n, m) \<in> set (ow_buffer w)" using Some by (rule map_of_SomeD)
    then have n: "unat ?n + 1 < 2 ^ 64" "msg (unat ?n) = (bm_type m, bm_payload m)"
      using less.prems(2) by (auto simp: ow_buf_ok_def)
    have shorter: "length (ow_buffer ?w) < length (ow_buffer w)"
      using length_filter_less [OF mem, of "\<lambda>(k, _). k \<noteq> ?n"] by simp
    have log: "ow_log_ok msg (ow_next_expected ?w) ?log"
      using ow_log_ok_snoc [OF less.prems(1) n(1)] by simp
    have buf': "ow_buf_ok msg (unat (ow_next_expected ?w)) (ow_buffer ?w)"
      using buf n(1) by (simp add: unat_plus_one)
    have step: "ow_drain log_deliver w log = ow_drain log_deliver ?w ?log"
      using Some n(2) by (subst ow_drain.simps) (auto simp: log_deliver_def opt_bytes_def)
    have keys: "buffered_keys w = insert ?n (buffered_keys ?w)" using mem by force
    obtain w' log' where IH: "ow_drain log_deliver ?w ?log = (Inr (), w', log')" "ow_inv msg w' log'"
      "ow_max_buffered w' = ow_max_buffered ?w" "buffered_keys w' \<subseteq> buffered_keys ?w"
      "unat (ow_next_expected ?w) \<le> unat (ow_next_expected w')"
      "\<forall>k \<in> buffered_keys ?w. k \<in> buffered_keys w' \<or> unat k < unat (ow_next_expected w')"
      using less.hyps [OF shorter log buf'] by blast
    have "unat ?n < unat (ow_next_expected w')" using IH(5) n(1) by (simp add: unat_plus_one)
    then show ?thesis unfolding step keys using IH by (intro exI [of _ w'] exI [of _ log']) auto
  qed
qed

definition covered :: "OrderedReceiveWindow \<Rightarrow> U64 \<Rightarrow> bool" where
  "covered w k \<longleftrightarrow> k \<in> buffered_keys w \<or> unat k < unat (ow_next_expected w)"

definition arrival_ok :: "(nat \<Rightarrow> U8 \<times> U8 list) \<Rightarrow> nat \<Rightarrow> U64 \<times> U8 \<times> U8 list \<Rightarrow> bool" where
  "arrival_ok msg n a \<longleftrightarrow>
    (case a of (k, ty, d) \<Rightarrow> 0 < unat k \<and> unat k \<le> n \<and> (ty, d) = msg (unat k) \<and> length d \<le> U16_MAX)"

text \<open>The branches of \<^verbatim>\<open>accept\<close> for a well-formed arrival.\<close>

abbreviation ow_arrive :: "OrderedReceiveWindow \<Rightarrow> (U8 \<times> U8 list) list \<Rightarrow> U64 \<times> U8 \<times> U8 list \<Rightarrow>
    (bool \<times> bool) result \<times> OrderedReceiveWindow \<times> (U8 \<times> U8 list) list" where
  "ow_arrive w log a \<equiv> (case a of (k, ty, d) \<Rightarrow>
     ow_accept log_deliver w log k ty (if d = [] then None else Some d) (of_nat (length d)))"

lemma ow_accept_next:
  assumes "k = ow_next_expected w" "k \<noteq> 0"
    "ow_drain log_deliver (w\<lparr>ow_next_expected := k + 1\<rparr>) (log @ [(ty, d)]) = (Inr (), w', log')"
  shows "ow_arrive w log (k, ty, d) = (Inr (False, False), w', log')"
  using assms by (simp add: ow_accept_def Let_def log_deliver_def)

lemma ow_accept_stale:
  "unat k < unat (ow_next_expected w) \<Longrightarrow> k \<noteq> 0 \<Longrightarrow> ow_next_expected w \<noteq> 0 \<Longrightarrow>
   ow_arrive w log (k, ty, d) = (Inr (False, True), w, log)"
  by (simp add: ow_accept_def Let_def word_less_nat_alt)

lemma ow_accept_later:
  assumes "unat (ow_next_expected w) < unat k" "ow_next_expected w \<noteq> 0" "length d \<le> U16_MAX"
  shows "ow_arrive w log (k, ty, d) =
    (if k \<in> buffered_keys w then (Inr (False, True), w, log)
     else if unat (ow_max_buffered w) \<le> length (ow_buffer w) then (Inl errc.QueueFull, w, log)
     else (Inr (True, False), w\<lparr>ow_buffer := (k, \<lparr>bm_type = ty, bm_payload = d\<rparr>) # ow_buffer w\<rparr>, log))"
proof -
  have "k \<noteq> 0" "k \<noteq> ow_next_expected w" "\<not> k < ow_next_expected w"
    using assms by (auto simp: word_less_nat_alt)
  moreover have "unat (of_nat (length d) :: U16) = length d"
    using assms(3) by (simp add: U16_MAX_def unat_of_nat_small)
  moreover have "map_of (ow_buffer w) k = None \<longleftrightarrow> k \<notin> buffered_keys w" by (simp add: map_of_eq_None_iff)
  ultimately show ?thesis using assms(2) by (cases d) (auto simp: ow_accept_def Let_def word_less_nat_alt)
qed

lemma ow_accept_inv_next:
  assumes inv: "ow_inv msg w log" and k: "k = ow_next_expected w" "unat k + 1 < 2 ^ 64" and m: "(ty, d) = msg (unat k)"
  shows "\<exists>r w' log'. ow_arrive w log (k, ty, d) = (r, w', log') \<and> ow_inv msg w' log' \<and>
    ow_max_buffered w' = ow_max_buffered w \<and> buffered_keys w' \<subseteq> buffered_keys w \<and>
    (\<forall>j. covered w j \<longrightarrow> covered w' j) \<and> covered w' k"
proof -
  let ?w = "w\<lparr>ow_next_expected := k + 1\<rparr>"
  have log: "ow_log_ok msg k log" and buf: "ow_buf_ok msg (Suc (unat k)) (ow_buffer w)"
    using inv k(1) by (auto simp: ow_inv_def)
  have u: "unat (k + 1) = Suc (unat k)" using unat_plus_one [of k] k(2) by simp
  have k0: "k \<noteq> 0" using log by (rule ow_log_ok_nonzero)
  have "ow_log_ok msg (ow_next_expected ?w) (log @ [(ty, d)])" using ow_log_ok_snoc [OF log k(2)] m by simp
  moreover have "ow_buf_ok msg (unat (ow_next_expected ?w)) (ow_buffer ?w)" using buf u by simp
  ultimately obtain w1 log1 where d: "ow_drain log_deliver ?w (log @ [(ty, d)]) = (Inr (), w1, log1)"
    "ow_inv msg w1 log1" "ow_max_buffered w1 = ow_max_buffered ?w" "buffered_keys w1 \<subseteq> buffered_keys ?w"
    "unat (ow_next_expected ?w) \<le> unat (ow_next_expected w1)"
    "\<forall>j \<in> buffered_keys ?w. j \<in> buffered_keys w1 \<or> unat j < unat (ow_next_expected w1)"
    using ow_drain_inv by blast
  have "covered w1 j" if "covered w j" for j
    using that d(5,6) u k(1) by (auto simp: covered_def)
  moreover have "covered w1 k" using d(5) u by (simp add: covered_def)
  ultimately show ?thesis using ow_accept_next [OF k(1) k0 d(1)] d(2,3,4) by auto
qed

lemma ow_accept_inv:
  assumes inv: "ow_inv msg w log" and ok: "arrival_ok msg n (k, ty, d)" and n: "n + 1 < 2 ^ 64"
  shows "\<exists>r w' log'. ow_arrive w log (k, ty, d) = (r, w', log') \<and> ow_inv msg w' log' \<and>
    ow_max_buffered w' = ow_max_buffered w \<and> buffered_keys w' \<subseteq> insert k (buffered_keys w) \<and>
    (\<forall>j. covered w j \<longrightarrow> covered w' j) \<and>
    (k = ow_next_expected w \<or> length (ow_buffer w) < unat (ow_max_buffered w) \<longrightarrow> covered w' k)"
proof -
  let ?n = "ow_next_expected w"
  have k: "unat k + 1 < 2 ^ 64" "k \<noteq> 0" "(ty, d) = msg (unat k)" "length d \<le> U16_MAX"
    using ok n by (auto simp: arrival_ok_def)
  have n0: "?n \<noteq> 0" using inv by (auto simp: ow_inv_def dest: ow_log_ok_nonzero)
  consider "k = ?n" | "unat k < unat ?n" | "unat ?n < unat k"
    using less_linear [of "unat k" "unat ?n"] word_unat_eq_iff [of k ?n] by blast
  then show ?thesis
  proof cases
    case 1
    obtain r w' log' where "ow_arrive w log (k, ty, d) = (r, w', log') \<and> ow_inv msg w' log' \<and>
      ow_max_buffered w' = ow_max_buffered w \<and> buffered_keys w' \<subseteq> buffered_keys w \<and>
      (\<forall>j. covered w j \<longrightarrow> covered w' j) \<and> covered w' k"
      using ow_accept_inv_next [OF inv 1 k(1,3)] by (elim exE)
    then show ?thesis by (intro exI [of _ r] exI [of _ w'] exI [of _ log']) auto
  next
    case 2
    then show ?thesis using ow_accept_stale [OF 2 k(2) n0] inv by (auto simp: covered_def)
  next
    case 3
    have "ow_buf_ok msg (Suc (unat ?n)) ((k, \<lparr>bm_type = ty, bm_payload = d\<rparr>) # ow_buffer w)" if "k \<notin> buffered_keys w"
      using inv 3 k that by (auto simp: ow_inv_def ow_buf_ok_def)
    then show ?thesis using ow_accept_later [OF 3 n0 k(4)] inv 3 by (auto simp: covered_def ow_inv_def)
  qed
qed

text \<open>A message that is neither delivered nor buffered finds room, if the stream fits the window.\<close>

lemma ow_room:
  assumes "ow_inv msg w log" "\<forall>k \<in> buffered_keys w. unat k \<le> n" "n \<le> unat (ow_max_buffered w) + 1"
    and k: "\<not> covered w k" "k \<noteq> ow_next_expected w" "unat k \<le> n"
  shows "length (ow_buffer w) < unat (ow_max_buffered w)"
proof -
  let ?K = "unat ` buffered_keys w"
  have buf: "ow_buf_ok msg (Suc (unat (ow_next_expected w))) (ow_buffer w)"
    and "ow_next_expected w \<noteq> 0"
    using assms(1) by (auto simp: ow_inv_def dest: ow_log_ok_nonzero)
  then have n: "0 < unat (ow_next_expected w)" by (simp add: unat_gt_0)
  have "unat (ow_next_expected w) < unat k"
    using k(1,2) by (auto simp: covered_def not_less le_less word_unat_eq_iff)
  then have k2: "unat k \<in> {2..n}" using n k(3) by auto
  have "unat j \<in> {2..n} - {unat k}" if "j \<in> buffered_keys w" for j
  proof -
    have "Suc (unat (ow_next_expected w)) \<le> unat j" using that buf by (auto simp: ow_buf_ok_def)
    moreover have "j \<noteq> k" using that k(1) by (auto simp: covered_def)
    ultimately show ?thesis using that n assms(2) by (auto simp: word_unat_eq_iff)
  qed
  then have "?K \<subseteq> {2..n} - {unat k}" by (rule image_subsetI)
  then have "card ?K \<le> card ({2..n} - {unat k})" by (rule card_mono [rotated]) simp
  moreover have "card ?K = length (ow_buffer w)"
    using buf distinct_card [of "map fst (ow_buffer w)"] card_image [of unat "buffered_keys w"]
    by (simp add: ow_buf_ok_def inj_on_def word_unat_eq_iff)
  moreover have "card ({2..n} - {unat k}) = n - 2" using k2 by (simp add: card_Diff_singleton)
  ultimately show ?thesis using assms(3) k2 by auto
qed

lemma ow_run_inv:
  assumes "ow_inv msg w log" "\<forall>a \<in> set as. arrival_ok msg n a" "n + 1 < 2 ^ 64" "\<forall>k \<in> buffered_keys w. unat k \<le> n"
    and "ow_run (w, log) as = (w', log')"
  shows "ow_inv msg w' log' \<and> (n \<le> unat (ow_max_buffered w) + 1 \<longrightarrow>
      (\<forall>j. covered w j \<or> j \<in> fst ` set as \<longrightarrow> covered w' j))"
  using assms
proof (induction as arbitrary: w log)
  case (Cons a as)
  obtain k ty d where a: "a = (k, ty, d)" by (cases a)
  have ok: "arrival_ok msg n (k, ty, d)" using Cons.prems(2) a by simp
  obtain r w1 log1 where s: "ow_arrive w log (k, ty, d) = (r, w1, log1)" "ow_inv msg w1 log1"
    "ow_max_buffered w1 = ow_max_buffered w" "buffered_keys w1 \<subseteq> insert k (buffered_keys w)"
    "\<forall>j. covered w j \<longrightarrow> covered w1 j"
    "k = ow_next_expected w \<or> length (ow_buffer w) < unat (ow_max_buffered w) \<longrightarrow> covered w1 k"
    using ow_accept_inv [OF Cons.prems(1) ok Cons.prems(3)] by blast
  have k: "unat k \<le> n" using ok by (simp add: arrival_ok_def)
  have c: "covered w1 k" if "n \<le> unat (ow_max_buffered w) + 1"
    using ow_room [OF Cons.prems(1,4) that _ _ k] s(5,6) by blast
  have "ow_run (w1, log1) as = (w', log')" using Cons.prems(5) s(1) a by simp
  moreover have "\<forall>j \<in> buffered_keys w1. unat j \<le> n" using s(4) Cons.prems(4) k by blast
  ultimately have "ow_inv msg w' log' \<and> (n \<le> unat (ow_max_buffered w1) + 1 \<longrightarrow>
      (\<forall>j. covered w1 j \<or> j \<in> fst ` set as \<longrightarrow> covered w' j))"
    using Cons.IH [OF s(2)] Cons.prems(2,3) by simp
  then show ?case using s(3,5) c a by auto
qed simp

text \<open>
  C6: ordered delivery is exact. If the peer numbers its messages \<open>msg 1, msg 2, \<dots>\<close> and these
  arrive in any order, with any number of duplicates and losses, the window delivers exactly the
  messages below its next expected number, each once and in order. If moreover all of \<open>1..n\<close> arrive
  and the window can hold \<open>n - 1\<close> messages, then all of them are delivered.
\<close>

theorem ordered_delivery_exact:
  assumes "list_all (arrival_ok msg n) arrivals" "n + 1 < 2 ^ 64"
    and "ow_run (OrderedReceiveWindow_new buffered, []) arrivals = (w, log)"
  shows "log = map msg [1..<unat (ow_next_expected w)] \<and>
    (n \<le> unat buffered + 1 \<and> {1..n} \<subseteq> unat ` fst ` set arrivals \<longrightarrow> map msg [1..<n + 1] = take n log)"
proof -
  let ?w = "OrderedReceiveWindow_new buffered"
  have init: "ow_inv msg ?w []" "buffered_keys ?w = {}" "ow_max_buffered ?w = buffered"
    by (simp_all add: ow_inv_def ow_log_ok_def ow_buf_ok_def OrderedReceiveWindow_new_def)
  have run: "ow_inv msg w log"
    "n \<le> unat buffered + 1 \<Longrightarrow> \<forall>j. covered ?w j \<or> j \<in> fst ` set arrivals \<longrightarrow> covered w j"
    using ow_run_inv [OF init(1) _ assms(2) _ assms(3)] assms(1) init by (auto simp: list_all_iff)
  have log: "log = map msg [1..<unat (ow_next_expected w)]" "unat (ow_next_expected w) = length log + 1"
    and buf: "ow_buf_ok msg (Suc (unat (ow_next_expected w))) (ow_buffer w)"
    using run(1) unfolding ow_inv_def ow_log_ok_def by blast+
  have "n < unat (ow_next_expected w)" if fits: "n \<le> unat buffered + 1" and all: "{1..n} \<subseteq> unat ` fst ` set arrivals"
  proof (rule ccontr)
    assume "\<not> n < unat (ow_next_expected w)"
    then have "unat (ow_next_expected w) \<in> {1..n}" using log(2) by auto
    then obtain j where "j \<in> fst ` set arrivals" "unat j = unat (ow_next_expected w)" using all by force
    then have "covered w (ow_next_expected w)" using run(2) [OF fits] by (simp add: word_unat_eq_iff [symmetric])
    then show False using buf by (fastforce simp: covered_def ow_buf_ok_def)
  qed
  then have "n \<le> unat buffered + 1 \<and> {1..n} \<subseteq> unat ` fst ` set arrivals \<longrightarrow>
      take n [1..<unat (ow_next_expected w)] = [1..<n + 1]" using take_upt [of 1 n "unat (ow_next_expected w)"] by auto
  then have "n \<le> unat buffered + 1 \<and> {1..n} \<subseteq> unat ` fst ` set arrivals \<longrightarrow>
      map msg [1..<n + 1] = take n (map msg [1..<unat (ow_next_expected w)])" unfolding take_map by simp
  then show ?thesis using log(1) by (intro conjI) (assumption, simp only:)
qed

theorem ordered_delivery_exact_witness:
  "map (\<lambda>i. (of_nat i, [of_nat i])) [1..<3 + 1] =
   take 3 (snd (ow_run (OrderedReceiveWindow_new 2, []) [(3, 3, [3]), (2, 2, [2]), (3, 3, [3]), (1, 1, [1])]))"
proof -
  let ?as = "[(3, 3, [3]), (2, 2, [2]), (3, 3, [3]), (1, 1, [1])] :: (U64 \<times> U8 \<times> U8 list) list"
  have "list_all (arrival_ok (\<lambda>i. (of_nat i, [of_nat i])) 3) ?as"
    by (simp add: arrival_ok_def U16_MAX_def)
  moreover have "{1..3} \<subseteq> unat ` fst ` set ?as"
    by (simp add: subset_iff) presburger
  ultimately show ?thesis
    using ordered_delivery_exact [OF _ _ prod.collapse [symmetric], of "\<lambda>i. (of_nat i, [of_nat i])" 3 ?as 2] by simp
qed

end
