(* ===== verification/Scn_Secure.thy ===== *)
theory Scn_Secure
  imports Scn_Crypto Scn_Protocol Scn_Reliability
begin

text \<open>
  The secure path that the client and the server have in common: the sealing of a packet in
  \<^verbatim>\<open>queue_packet\<close>, the opening of a packet in \<^verbatim>\<open>handle_established_packet\<close> and
  \<^verbatim>\<open>handle_session_packet\<close>, and the transcript of a handshake that both sides authenticate.
\<close>

section \<open>Buffers\<close>

text \<open>The bytes that a writing function leaves in a zeroed local array of \<open>n\<close> bytes.\<close>

definition run_writer :: "nat \<Rightarrow> (ByteWriter \<Rightarrow> ByteWriter result) \<Rightarrow> U8 list result" where
  "run_writer n f = rbind (f (writer_on (replicate n 0) n)) (\<lambda>w. Inr (written w))"

definition reader_at :: "U8 list option \<Rightarrow> ST \<Rightarrow> ByteReader" where
  "reader_at p n = \<lparr>br_src = p, br_len = n, br_off = 0\<rparr>"

lemma reader_at_rd: "reader_at (Some bs) (length bs) = rd bs 0"
  by (simp add: reader_at_def rd_def)

section \<open>Sealing and opening\<close>

definition seal_payload ::
  "'w Sodium \<Rightarrow> U8 list \<Rightarrow> PacketHeader \<Rightarrow> U8 list option \<Rightarrow> ST \<Rightarrow> U8 list result" where
  "seal_payload S tx header payload payload_len =
    rbind (run_writer PacketHeaderBytes (\<lambda>w. write_packet_header w header)) (\<lambda>aad.
      crypto_aead_encrypt S (Some tx)
        (Some (crypto_make_packet_nonce (ph_conn_id header) (ph_seq header)))
        (Some aad) (length aad) payload payload_len MaxPayloadBytes)"

definition open_payload :: "'w Sodium \<Rightarrow> U8 list \<Rightarrow> U8 list \<Rightarrow> PacketView \<Rightarrow> U8 list result" where
  "open_payload S rx aad packet =
    crypto_aead_decrypt S (Some rx)
      (Some (crypto_make_packet_nonce (ph_conn_id (pv_h packet)) (ph_seq (pv_h packet))))
      (Some aad) (length aad) (pv_payload packet) (unat (ph_payload_len (pv_h packet)))
      MaxEncryptedPlaintextBytes"

text \<open>
  The packet of a header and a payload, sealed when \<open>encrypted\<close>: the bytes of the pending packet, as
  the body of \<^verbatim>\<open>queue_packet\<close> computes them from the header without its length field.  The client checks
  its keys on the way, the server before it starts.
\<close>

definition assemble_packet ::
  "'w Sodium \<Rightarrow> U8 list \<Rightarrow> PacketHeader \<Rightarrow> bool \<Rightarrow> U8 list option \<Rightarrow> ST \<Rightarrow> (U8 list \<times> ST) result" where
  "assemble_packet S tx header encrypted payload payload_len =
    rbind (if encrypted then
             let header = header\<lparr>ph_payload_len := of_nat (payload_len + AeadTagBytes)\<rparr>
             in rbind (seal_payload S tx header payload payload_len) (\<lambda>body. Inr (header, body))
           else Inr (header\<lparr>ph_payload_len := of_nat payload_len\<rparr>, at_ptr payload payload_len))
      (\<lambda>(header, body).
        pack_packet header (if length body = 0 then None else Some body) (length body)
          (Some (replicate MaxPacketBytes 0)) MaxPacketBytes)"

definition build_packet ::
  "'w Sodium \<Rightarrow> SessionKeys \<Rightarrow> PacketHeader \<Rightarrow> bool \<Rightarrow> U8 list option \<Rightarrow> ST \<Rightarrow> (U8 list \<times> ST) result" where
  "build_packet S keys header encrypted payload payload_len =
    (if encrypted \<and> (sk_empty keys \<or> ph_conn_id header = 0) then Inl StateError
     else assemble_packet S (sk_tx keys) header encrypted payload payload_len)"

section \<open>The handshake transcript\<close>

definition build_transcript_mac_input :: "ClientHello \<Rightarrow> ServerHello \<Rightarrow> ST \<Rightarrow> U8 list result" where
  "build_transcript_mac_input hello server_hello out_cap =
    run_writer out_cap (\<lambda>w.
      rbind (write_u16 w ProtocolVersion) (\<lambda>w.
      rbind (write_bytes w (Some (ch_client_public_key hello)) (length (ch_client_public_key hello))) (\<lambda>w.
      rbind (write_bytes w (Some (ch_client_nonce hello)) (length (ch_client_nonce hello))) (\<lambda>w.
      rbind (write_u8 w (if ch_has_retry_token hello then 1 else 0)) (\<lambda>w.
      rbind (if ch_has_retry_token hello then write_retry_token w (ch_retry_token hello) else Inr w) (\<lambda>w.
      rbind (write_u8 w (if ch_has_resumption_token hello then 1 else 0)) (\<lambda>w.
      rbind (if ch_has_resumption_token hello then write_resumption_token w (ch_resumption_token hello) else Inr w) (\<lambda>w.
      rbind (write_u64 w (sh_server_conn_id server_hello)) (\<lambda>w.
      rbind (write_bytes w (Some (sh_server_public_key server_hello)) (length (sh_server_public_key server_hello))) (\<lambda>w.
      rbind (write_bytes w (Some (sh_server_nonce server_hello)) (length (sh_server_nonce server_hello))) (\<lambda>w.
      rbind (write_u8 w (if sh_has_resumption_token server_hello then 1 else 0)) (\<lambda>w.
      if sh_has_resumption_token server_hello then write_resumption_token w (sh_resumption_token server_hello)
      else Inr w))))))))))))"

section \<open>What a sealed packet opens to\<close>

lemma run_writer_emit:
  "(\<And>w. writer_wf w \<Longrightarrow> f w = emit bs w) \<Longrightarrow>
   run_writer n f = (if length bs \<le> n then Inr bs else Inl errc.Truncated)"
  by (simp add: run_writer_def emit_writer_on written_def)

lemma run_writer_header: "run_writer PacketHeaderBytes (\<lambda>w. write_packet_header w h) = Inr (enc_packet_header h)"
  by (simp add: run_writer_emit [OF write_packet_header_emit])

lemma seal_payload_Inr:
  "seal_payload S tx h payload n = Inr body \<Longrightarrow>
   crypto_aead_encrypt S (Some tx) (Some (crypto_make_packet_nonce (ph_conn_id h) (ph_seq h)))
     (Some (enc_packet_header h)) 28 payload n MaxPayloadBytes = Inr body"
  unfolding seal_payload_def run_writer_header by simp

lemma open_sealed:
  assumes S: "aead_correct S" and seal: "seal_payload S tx h (Some p) (length p) = Inr body"
    and n: "length p \<le> MaxEncryptedPlaintextBytes" and len: "unat (ph_payload_len h) = length body"
  shows "open_payload S tx (enc_packet_header h) \<lparr>pv_h = h, pv_payload = Some body\<rparr> = Inr p"
  using aead_roundtrip [OF S seal_payload_Inr [OF seal] n] len by (simp add: open_payload_def)

lemma seal_payload_length:
  assumes "aead_correct S" "seal_payload S tx h (Some p) (length p) = Inr body"
  shows "length body = length p + AeadTagBytes"
  using aead_encrypt_Inr [OF seal_payload_Inr [OF assms(2)]] aead_correctD [OF assms(1)]
  by (metis at_ptr_def option.simps(5) order_refl take_all)

lemma build_packet_ok:
  assumes S: "aead_correct S" "0 \<le> sodium_init S" and "\<not> sk_empty keys" "length (sk_tx keys) = AeadKeyBytes"
    and "ph_conn_id h \<noteq> 0" and n: "length p \<le> MaxEncryptedPlaintextBytes"
    and v: "validate_packet_header (h\<lparr>ph_payload_len := of_nat (length p + AeadTagBytes)\<rparr>) = Inr ()"
  shows "\<exists>buf. build_packet S keys h True (Some p) (length p) = Inr (buf, PacketHeaderBytes + length p + AeadTagBytes)"
proof -
  let ?h = "h\<lparr>ph_payload_len := of_nat (length p + AeadTagBytes)\<rparr>"
  let ?nonce = "crypto_make_packet_nonce (ph_conn_id h) (ph_seq h)"
  obtain c where c: "xchacha_encrypt S p (enc_packet_header ?h) ?nonce (sk_tx keys) = Some c"
    using S(1) assms(4) unfolding aead_correct_def by (metis length_packet_nonce)
  have b: "seal_payload S (sk_tx keys) ?h (Some p) (length p) = Inr c"
    unfolding seal_payload_def run_writer_header
    using S(2) assms(4) n c by (simp add: crypto_aead_encrypt_def ensure_crypto_ready_def at_ptr_def)
  have l: "length c = length p + AeadTagBytes" by (rule seal_payload_length [OF S(1) b])
  have "pack_packet ?h (Some c) (length c) (Some (replicate MaxPacketBytes 0)) MaxPacketBytes =
     Inr (enc_packet_header ?h @ c @ drop (28 + length c) (replicate MaxPacketBytes 0), 28 + length c)"
    by (rule pack_packet_emit) (use l n v in \<open>simp_all add: max_payload_bytes_def packet_header_bytes_def\<close>)
  moreover have "c \<noteq> []" using l by auto
  ultimately show ?thesis using b assms(3,5) l by (simp add: build_packet_def assemble_packet_def)
qed

text \<open>
  C1: a packet that is built encrypted, put on the wire and parsed by a receiver whose receiving key is
  the sender's transmitting key opens to the payload that was sent, under the header that was sent.
  The hypothesis on libsodium is that decryption inverts encryption.
\<close>

theorem sealed_packet_opens:
  assumes S: "aead_correct S" and "build_packet S keys h True (Some p) (length p) = Inr (buf, len)"
    and "ph_version h = ProtocolVersion" and n: "length p \<le> MaxEncryptedPlaintextBytes"
  shows "\<exists>v. parse_packet (Some (take len buf)) = Inr v
    \<and> pv_h v = h\<lparr>ph_payload_len := of_nat (length p + AeadTagBytes)\<rparr>
    \<and> len \<le> MaxPacketBytes
    \<and> open_payload S (sk_tx keys) (enc_packet_header (pv_h v)) v = Inr p"
proof -
  let ?h = "h\<lparr>ph_payload_len := of_nat (length p + AeadTagBytes)\<rparr>"
  obtain body where b: "seal_payload S (sk_tx keys) ?h (Some p) (length p) = Inr body"
    and pk: "pack_packet ?h (if length body = 0 then None else Some body) (length body)
        (Some (replicate MaxPacketBytes 0)) MaxPacketBytes = Inr (buf, len)"
    using assms(2) by (auto simp: build_packet_def assemble_packet_def Let_def rbind_Inr_iff split: if_splits)
  have l: "length body = length p + AeadTagBytes" by (rule seal_payload_length [OF S b])
  have pk': "pack_packet ?h (Some body) (length body) (Some (replicate MaxPacketBytes 0)) MaxPacketBytes = Inr (buf, len)"
    using pk l by simp
  have "parse_packet (Some (take len buf)) = Inr \<lparr>pv_h = ?h, pv_payload = Some body\<rparr>" "len \<le> MaxPacketBytes"
    using packet_roundtrip [OF pk'] assms(3) l by auto
  moreover have "unat (of_nat (length p + AeadTagBytes) :: U32) = length p + AeadTagBytes"
    by (rule unat_of_nat_small) (use n in simp)
  then have "unat (ph_payload_len ?h) = length body"
    using l by simp
  then have "open_payload S (sk_tx keys) (enc_packet_header ?h) \<lparr>pv_h = ?h, pv_payload = Some body\<rparr> = Inr p"
    by (rule open_sealed [OF S b n])
  ultimately show ?thesis by auto
qed

theorem sealed_packet_opens_witness:
  "\<exists>buf len v. build_packet sample_sodium \<lparr>sk_rx = replicate 32 4, sk_tx = replicate 32 5\<rparr>
      (PacketHeader_default\<lparr>ph_conn_id := 9, ph_seq := 1\<rparr>) True (Some [1, 2, 3]) (length [1 :: U8, 2, 3]) = Inr (buf, len)
    \<and> parse_packet (Some (take len buf)) = Inr v
    \<and> open_payload sample_sodium (replicate 32 5) (enc_packet_header (pv_h v)) v = Inr [1, 2, 3]"
proof -
  let ?k = "\<lparr>sk_rx = replicate 32 4, sk_tx = replicate 32 5\<rparr>"
  let ?h = "PacketHeader_default\<lparr>ph_conn_id := 9, ph_seq := 1\<rparr>"
  have "\<exists>buf. build_packet sample_sodium ?k ?h True (Some [1, 2, 3]) (length [1 :: U8, 2, 3])
      = Inr (buf, PacketHeaderBytes + length [1 :: U8, 2, 3] + AeadTagBytes)"
    by (rule build_packet_ok) (auto simp: sample_sodium_init sk_empty_iff list_all_iff validate_packet_header_def
        PacketHeader_default_def packet_kind_valid_def max_payload_bytes_def packet_header_bytes_def)
  then obtain buf len where b: "build_packet sample_sodium ?k ?h True (Some [1, 2, 3]) (length [1 :: U8, 2, 3]) = Inr (buf, len)"
    by blast
  show ?thesis
    using sealed_packet_opens [OF sample_aead b] b by (auto simp: PacketHeader_default_def)
qed

lemma pack_packet_body:
  "pack_packet h (if length body = 0 then None else Some body) (length body) out cap =
   pack_packet h (Some body) (length body) out cap"
  by (cases body) (simp_all add: pack_packet_def Let_def split: option.split)

lemma pack_packet_size:
  assumes "pack_packet h (Some p) (length p) (Some buf) cap = Inr (out, n)" "cap \<le> length buf"
  shows "length out = length buf \<and> n = PacketHeaderBytes + length p \<and> n \<le> cap"
proof -
  note * = pack_packet_Inr [OF assms]
  have "28 + length p \<le> cap" using *(1,5) by simp
  then have "out = enc_packet_header h @ p @ drop (28 + length p) buf"
    using assms(1) pack_packet_emit [OF assms(2) *(3,4,6)] by auto
  then show ?thesis using *(1,5) assms(2) by simp
qed

lemma assemble_packet_size:
  assumes "assemble_packet S tx h enc payload n = Inr (bytes, len)"
  shows "length bytes = MaxPacketBytes \<and> PacketHeaderBytes \<le> len \<and> len \<le> MaxPacketBytes"
proof -
  obtain h' body where "pack_packet h' (if length body = 0 then None else Some body) (length body)
      (Some (replicate MaxPacketBytes 0)) MaxPacketBytes = Inr (bytes, len)"
    using assms by (auto simp: assemble_packet_def rbind_Inr_iff)
  then have "pack_packet h' (Some body) (length body) (Some (replicate MaxPacketBytes 0)) MaxPacketBytes = Inr (bytes, len)"
    unfolding pack_packet_body .
  from pack_packet_size [OF this] show ?thesis by simp
qed

lemma build_packet_size:
  "build_packet S keys h enc payload n = Inr (bytes, len) \<Longrightarrow>
   length bytes = MaxPacketBytes \<and> PacketHeaderBytes \<le> len \<and> len \<le> MaxPacketBytes"
  by (auto simp: build_packet_def dest: assemble_packet_size split: if_splits)

section \<open>The transcript\<close>

definition opt_token :: "bool \<Rightarrow> U8 list \<Rightarrow> U8 list" where
  "opt_token b t = enc_u8 (if b then 1 else 0) @ (if b then t else [])"

definition enc_transcript :: "ClientHello \<Rightarrow> ServerHello \<Rightarrow> U8 list" where
  "enc_transcript h s =
     be_bytes 2 ProtocolVersion @ ch_client_public_key h @ ch_client_nonce h @
     opt_token (ch_has_retry_token h) (enc_retry_token (ch_retry_token h)) @
     opt_token (ch_has_resumption_token h) (enc_resumption_token (ch_resumption_token h)) @
     be_bytes 8 (sh_server_conn_id s) @ sh_server_public_key s @ sh_server_nonce s @
     opt_token (sh_has_resumption_token s) (enc_resumption_token (sh_resumption_token s))"

lemma transcript_emit:
  "build_transcript_mac_input h s n =
    (if length (enc_transcript h s) \<le> n then Inr (enc_transcript h s) else Inl errc.Truncated)"
  unfolding build_transcript_mac_input_def
proof (rule run_writer_emit)
  fix w assume "writer_wf w"
  then show "rbind (write_u16 w ProtocolVersion) (\<lambda>w.
      rbind (write_bytes w (Some (ch_client_public_key h)) (length (ch_client_public_key h))) (\<lambda>w.
      rbind (write_bytes w (Some (ch_client_nonce h)) (length (ch_client_nonce h))) (\<lambda>w.
      rbind (write_u8 w (if ch_has_retry_token h then 1 else 0)) (\<lambda>w.
      rbind (if ch_has_retry_token h then write_retry_token w (ch_retry_token h) else Inr w) (\<lambda>w.
      rbind (write_u8 w (if ch_has_resumption_token h then 1 else 0)) (\<lambda>w.
      rbind (if ch_has_resumption_token h then write_resumption_token w (ch_resumption_token h) else Inr w) (\<lambda>w.
      rbind (write_u64 w (sh_server_conn_id s)) (\<lambda>w.
      rbind (write_bytes w (Some (sh_server_public_key s)) (length (sh_server_public_key s))) (\<lambda>w.
      rbind (write_bytes w (Some (sh_server_nonce s)) (length (sh_server_nonce s))) (\<lambda>w.
      rbind (write_u8 w (if sh_has_resumption_token s then 1 else 0)) (\<lambda>w.
      if sh_has_resumption_token s then write_resumption_token w (sh_resumption_token s)
      else Inr w))))))))))) = emit (enc_transcript h s) w"
    unfolding enc_transcript_def opt_token_def append_assoc
    by (intro rbind_emit write_rules) (simp_all add: write_rules)
qed

lemma length_opt_token [simp]: "length (opt_token b t) = 1 + (if b then length t else 0)"
  by (simp add: opt_token_def enc_u8_def)

lemma length_enc_transcript:
  "valid_client_hello h \<Longrightarrow> valid_server_hello s \<Longrightarrow> length (enc_transcript h s) \<le> 213"
  by (auto simp: enc_transcript_def valid_client_hello_def valid_server_hello_def length_enc_tokens)

lemma opt_token_inj:
  assumes "opt_token b t @ x = opt_token b' t' @ y" "b \<Longrightarrow> b' \<Longrightarrow> length t = length t'"
  shows "b = b' \<and> (b \<longrightarrow> t = t') \<and> x = y"
  using assms by (cases b; cases b') (auto simp: opt_token_def enc_u8_def)

lemma enc_retry_token_inj:
  "enc_retry_token t = enc_retry_token t' \<Longrightarrow> t = t'"
  by (simp add: enc_retry_token_def be_bytes_8_inj)

lemma enc_resumption_token_inj:
  "enc_resumption_token t = enc_resumption_token t' \<Longrightarrow> t = t'"
  by (simp add: enc_resumption_token_def be_bytes_8_inj)

lemma opt_retry_inj:
  assumes "opt_token b (enc_retry_token t) @ x = opt_token b' (enc_retry_token t') @ y"
    and "if b then valid_retry_token t else t = d" "if b' then valid_retry_token t' else t' = d"
  shows "b = b' \<and> t = t' \<and> x = y"
  using opt_token_inj [OF assms(1)] assms(2,3) enc_retry_token_inj by (auto simp: length_enc_tokens split: if_splits)

lemma opt_resumption_inj:
  assumes "opt_token b (enc_resumption_token t) @ x = opt_token b' (enc_resumption_token t') @ y"
    and "if b then valid_resumption_token t else t = d" "if b' then valid_resumption_token t' else t' = d"
  shows "b = b' \<and> t = t' \<and> x = y"
  using opt_token_inj [OF assms(1)] assms(2,3) enc_resumption_token_inj
  by (auto simp: length_enc_tokens split: if_splits)

lemma enc_transcript_inj:
  assumes e: "enc_transcript h s = enc_transcript h' s'"
    and h: "valid_client_hello h" "valid_client_hello h'" and s: "valid_server_hello s" "valid_server_hello s'"
  shows "h = h' \<and> s\<lparr>sh_transcript_mac := []\<rparr> = s'\<lparr>sh_transcript_mac := []\<rparr>"
proof -
  note v = h [unfolded valid_client_hello_def] s [unfolded valid_server_hello_def]
  have 1: "ch_client_public_key h = ch_client_public_key h'" "ch_client_nonce h = ch_client_nonce h'"
    and r1: "opt_token (ch_has_retry_token h) (enc_retry_token (ch_retry_token h)) @
       opt_token (ch_has_resumption_token h) (enc_resumption_token (ch_resumption_token h)) @
       be_bytes 8 (sh_server_conn_id s) @ sh_server_public_key s @ sh_server_nonce s @
       opt_token (sh_has_resumption_token s) (enc_resumption_token (sh_resumption_token s)) =
       opt_token (ch_has_retry_token h') (enc_retry_token (ch_retry_token h')) @
       opt_token (ch_has_resumption_token h') (enc_resumption_token (ch_resumption_token h')) @
       be_bytes 8 (sh_server_conn_id s') @ sh_server_public_key s' @ sh_server_nonce s' @
       opt_token (sh_has_resumption_token s') (enc_resumption_token (sh_resumption_token s'))"
    using e v by (simp_all add: enc_transcript_def)
  note o1 = opt_retry_inj [OF r1, of RetryToken_default]
  have o2: "ch_has_retry_token h = ch_has_retry_token h' \<and> ch_retry_token h = ch_retry_token h'"
    using o1 v by blast
  have r2: "opt_token (ch_has_resumption_token h) (enc_resumption_token (ch_resumption_token h)) @
       be_bytes 8 (sh_server_conn_id s) @ sh_server_public_key s @ sh_server_nonce s @
       opt_token (sh_has_resumption_token s) (enc_resumption_token (sh_resumption_token s)) =
       opt_token (ch_has_resumption_token h') (enc_resumption_token (ch_resumption_token h')) @
       be_bytes 8 (sh_server_conn_id s') @ sh_server_public_key s' @ sh_server_nonce s' @
       opt_token (sh_has_resumption_token s') (enc_resumption_token (sh_resumption_token s'))"
    using o1 v by blast
  note o3 = opt_resumption_inj [OF r2, of ResumptionToken_default]
  have o4: "ch_has_resumption_token h = ch_has_resumption_token h' \<and> ch_resumption_token h = ch_resumption_token h'"
    using o3 v by blast
  have "be_bytes 8 (sh_server_conn_id s) @ sh_server_public_key s @ sh_server_nonce s @
       opt_token (sh_has_resumption_token s) (enc_resumption_token (sh_resumption_token s)) =
       be_bytes 8 (sh_server_conn_id s') @ sh_server_public_key s' @ sh_server_nonce s' @
       opt_token (sh_has_resumption_token s') (enc_resumption_token (sh_resumption_token s'))"
    using o3 v by blast
  then have 3: "sh_server_conn_id s = sh_server_conn_id s'" "sh_server_public_key s = sh_server_public_key s'"
      "sh_server_nonce s = sh_server_nonce s'"
    and r3: "opt_token (sh_has_resumption_token s) (enc_resumption_token (sh_resumption_token s)) @ [] =
       opt_token (sh_has_resumption_token s') (enc_resumption_token (sh_resumption_token s')) @ []"
    using v by (simp_all add: be_bytes_8_inj)
  have "sh_has_resumption_token s = sh_has_resumption_token s' \<and> sh_resumption_token s = sh_resumption_token s'"
    using opt_resumption_inj [OF r3, of ResumptionToken_default] v by blast
  with 1 o2 o4 3 show ?thesis by simp
qed

text \<open>
  C11: the transcript of a handshake always fits the array of 320 bytes, and it is unambiguous: two
  handshakes with the same transcript have the same client hello and the same server hello up to the
  authentication code itself.  So the code that the client checks commits to every field of both hellos.
\<close>

theorem transcript_binds_handshake:
  assumes "valid_client_hello h" "valid_client_hello h'" "valid_server_hello s" "valid_server_hello s'"
  shows "ok (build_transcript_mac_input h s 320)
    \<and> (build_transcript_mac_input h s 320 = build_transcript_mac_input h' s' 320 \<longleftrightarrow>
         h = h' \<and> s\<lparr>sh_transcript_mac := []\<rparr> = s'\<lparr>sh_transcript_mac := []\<rparr>)"
proof -
  have b: "build_transcript_mac_input a c 320 = Inr (enc_transcript a c)"
    if "valid_client_hello a" "valid_server_hello c" for a c
    using length_enc_transcript [OF that] by (simp add: transcript_emit)
  have c: "enc_transcript a c = enc_transcript a (c\<lparr>sh_transcript_mac := []\<rparr>)" for a c
    by (simp add: enc_transcript_def)
  show ?thesis
    using b [OF assms(1,3)] b [OF assms(2,4)] enc_transcript_inj [OF _ assms] c [of h s] c [of h' s'] by (auto simp: ok_def)
qed

theorem transcript_binds_handshake_witness:
  "(let h = \<lparr>ch_client_public_key = replicate 32 1, ch_client_nonce = replicate 16 2, ch_has_retry_token = False,
        ch_retry_token = RetryToken_default, ch_has_resumption_token = False, ch_resumption_token = ResumptionToken_default\<rparr>;
      s = \<lparr>sh_server_conn_id = 5, sh_server_public_key = replicate 32 3, sh_server_nonce = replicate 16 4,
        sh_transcript_mac = replicate TranscriptMacBytes 0, sh_has_resumption_token = False, sh_resumption_token = ResumptionToken_default\<rparr>
    in build_transcript_mac_input h s 320 \<noteq> build_transcript_mac_input h (s\<lparr>sh_server_conn_id := 6\<rparr>) 320)"
proof -
  let ?h = "\<lparr>ch_client_public_key = replicate 32 1, ch_client_nonce = replicate 16 2, ch_has_retry_token = False,
        ch_retry_token = RetryToken_default, ch_has_resumption_token = False, ch_resumption_token = ResumptionToken_default\<rparr>"
  let ?s = "\<lparr>sh_server_conn_id = 5, sh_server_public_key = replicate 32 3, sh_server_nonce = replicate 16 4,
        sh_transcript_mac = replicate TranscriptMacBytes 0, sh_has_resumption_token = False, sh_resumption_token = ResumptionToken_default\<rparr>"
  have "valid_client_hello ?h" "valid_server_hello ?s" "valid_server_hello (?s\<lparr>sh_server_conn_id := 6\<rparr>)"
    by (simp_all add: valid_client_hello_def valid_server_hello_def)
  then show ?thesis
    using transcript_binds_handshake [of ?h ?h ?s "?s\<lparr>sh_server_conn_id := 6\<rparr>"] by (simp add: Let_def)
qed

end
