(* ===== verification/Scn_Endpoint.thy ===== *)
theory Scn_Endpoint
  imports Scn_Packet
begin

text \<open>
  Socket endpoints (\<^verbatim>\<open>endpoint.hpp\<close>, \<^verbatim>\<open>endpoint.cpp\<close>).

  A \<^verbatim>\<open>sockaddr_storage\<close> is a value of \<open>SockAddr\<close>: the family tag is the constructor and the
  fields are those the code reads through its casts.  Ports are kept in host order (what
  \<^verbatim>\<open>ntohs\<close> gives), addresses as the bytes in memory.  Any other family keeps its tag and the raw bytes
  of the storage after it.
\<close>

section \<open>Addresses\<close>

datatype SockAddr =
    Inet (sin_port: U16) (sin_addr: "U8 list")
  | Inet6 (sin6_port: U16) (sin6_flowinfo: U32) (sin6_addr: "U8 list") (sin6_scope_id: U32)
  | OtherAddr (sa_other_family: U16) (sa_other_data: "U8 list")

definition AF_UNSPEC :: U16 where "AF_UNSPEC = 0"
definition AF_INET :: U16 where "AF_INET = 2"
definition AF_INET6 :: U16 where "AF_INET6 = 10"

definition sizeof_sockaddr_in :: nat where "sizeof_sockaddr_in = 16"
definition sizeof_sockaddr_in6 :: nat where "sizeof_sockaddr_in6 = 28"
definition sizeof_sockaddr_storage :: nat where "sizeof_sockaddr_storage = 128"

lemmas af_defs = AF_UNSPEC_def AF_INET_def AF_INET6_def
lemmas sockaddr_sizes = sizeof_sockaddr_in_def sizeof_sockaddr_in6_def sizeof_sockaddr_storage_def

fun sa_family :: "SockAddr \<Rightarrow> U16" where
  "sa_family (Inet p a) = AF_INET"
| "sa_family (Inet6 p f a s) = AF_INET6"
| "sa_family (OtherAddr f bs) = f"

text \<open>The shape the storage has: 4 and 16 address bytes, and a foreign family tag.\<close>

fun addr_wf :: "SockAddr \<Rightarrow> bool" where
  "addr_wf (Inet p a) \<longleftrightarrow> length a = 4"
| "addr_wf (Inet6 p f a s) \<longleftrightarrow> length a = 16"
| "addr_wf (OtherAddr f bs) \<longleftrightarrow> f \<noteq> AF_INET \<and> f \<noteq> AF_INET6 \<and> length bs = sizeof_sockaddr_storage - 2"

record Endpoint =
  ep_addr :: SockAddr
  ep_len :: nat

definition Endpoint_default :: Endpoint where
  "Endpoint_default = \<lparr>ep_addr = OtherAddr AF_UNSPEC (replicate (sizeof_sockaddr_storage - 2) 0), ep_len = 0\<rparr>"

definition ep_wf :: "Endpoint \<Rightarrow> bool" where
  "ep_wf e \<longleftrightarrow> addr_wf (ep_addr e) \<and> ep_len e \<le> sizeof_sockaddr_storage"

definition ep_port :: "Endpoint \<Rightarrow> U16" where
  "ep_port e =
    (if ep_len e = 0 then 0
     else case ep_addr e of
       Inet p a \<Rightarrow> p
     | Inet6 p f a s \<Rightarrow> p
     | OtherAddr f bs \<Rightarrow> 0)"

definition get_in_addr :: "SockAddr \<Rightarrow> U8 list" where
  "get_in_addr sa =
    (case sa of
       Inet p a \<Rightarrow> a
     | Inet6 p f a s \<Rightarrow> a
     | OtherAddr f bs \<Rightarrow> take 16 (drop 6 bs))"

text \<open>\<^verbatim>\<open>std::to_string\<close> of an unsigned number.\<close>

fun dec_digits :: "nat \<Rightarrow> string" where
  "dec_digits n = (if n < 10 then [char_of (48 + n)] else dec_digits (n div 10) @ [char_of (48 + n mod 10)])"

declare dec_digits.simps [simp del]

text \<open>\<^verbatim>\<open>inet_ntop\<close> of the platform is the parameter \<open>ntop\<close>: a family and the address bytes, or no result.\<close>

definition ep_to_string :: "(U16 \<Rightarrow> U8 list \<Rightarrow> string option) \<Rightarrow> Endpoint \<Rightarrow> string" where
  "ep_to_string ntop e =
    (let fam = sa_family (ep_addr e) in
     if ep_len e = 0 \<or> (fam \<noteq> AF_INET \<and> fam \<noteq> AF_INET6) then ''<uninitialized>:0''
     else case ntop fam (get_in_addr (ep_addr e)) of
       None \<Rightarrow> ''<invalid>:'' @ dec_digits (unat (ep_port e))
     | Some ipstr \<Rightarrow>
         if fam = AF_INET6 then ''['' @ ipstr @ '']:'' @ dec_digits (unat (ep_port e))
         else ipstr @ '':'' @ dec_digits (unat (ep_port e)))"

text \<open>The first \<open>n\<close> bytes of the storage of a foreign family, its tag first (little endian).\<close>

definition storage_bytes :: "U16 \<Rightarrow> U8 list \<Rightarrow> nat \<Rightarrow> U8 list" where
  "storage_bytes f bs n = take n (ucast f # ucast (drop_bit 8 f) # bs)"

fun addr_eq :: "nat \<Rightarrow> SockAddr \<Rightarrow> nat \<Rightarrow> SockAddr \<Rightarrow> bool" where
  "addr_eq m (Inet p a) n (Inet p' a') \<longleftrightarrow> p = p' \<and> a = a'"
| "addr_eq m (Inet6 p f a s) n (Inet6 p' f' a' s') \<longleftrightarrow> p = p' \<and> s = s' \<and> a = a'"
| "addr_eq m (OtherAddr f bs) n (OtherAddr f' bs') \<longleftrightarrow>
     f = f' \<and> m = n \<and> storage_bytes f bs m = storage_bytes f' bs' m"
| "addr_eq m _ n _ \<longleftrightarrow> False"

definition ep_eq :: "Endpoint \<Rightarrow> Endpoint \<Rightarrow> bool" where
  "ep_eq l r \<longleftrightarrow>
    (if ep_len l = 0 \<or> ep_len r = 0 then ep_len l = ep_len r
     else addr_eq (ep_len l) (ep_addr l) (ep_len r) (ep_addr r))"

definition ep_neq :: "Endpoint \<Rightarrow> Endpoint \<Rightarrow> bool" where
  "ep_neq l r \<longleftrightarrow> \<not> ep_eq l r"

text \<open>
  The hash of an endpoint.  \<^verbatim>\<open>std::hash\<close> of an integer is left to the implementation by the language:
  it is the parameter \<open>h\<close>, on the value converted to 64 bits.
\<close>

definition hash_combine :: "U64 \<Rightarrow> U64 \<Rightarrow> U64" where
  "hash_combine seed value =
    xor seed (value + 0x9e3779b97f4a7c15 + push_bit 6 seed + drop_bit 2 seed)"

fun addr_hash :: "(U64 \<Rightarrow> U64) \<Rightarrow> nat \<Rightarrow> SockAddr \<Rightarrow> U64" where
  "addr_hash h n (Inet p a) =
     hash_combine (hash_combine (h (ucast AF_INET)) (h (ucast p))) (h (be_value (rev a)))"
| "addr_hash h n (Inet6 p f a s) =
     fold (\<lambda>b seed. hash_combine seed (h (ucast b))) a
       (hash_combine (hash_combine (h (ucast AF_INET6)) (h (ucast p))) (h (ucast s)))"
| "addr_hash h n (OtherAddr f bs) =
     fold (\<lambda>b seed. hash_combine seed (h (ucast b))) (storage_bytes f bs n) (h (ucast f))"

definition EndpointHash :: "(U64 \<Rightarrow> U64) \<Rightarrow> Endpoint \<Rightarrow> U64" where
  "EndpointHash h e = (if ep_len e = 0 then 0 else addr_hash h (ep_len e) (ep_addr e))"

section \<open>Endpoints as keys\<close>

text \<open>
  An unordered container needs its key equality to be an equivalence and its hash to respect it.
  The contract is a locale, interpreted on the endpoint operations.
\<close>

locale hashed_key =
  fixes eq :: "'k \<Rightarrow> 'k \<Rightarrow> bool" and hash :: "'k \<Rightarrow> 'h"
  assumes key_refl: "eq a a"
    and key_sym: "eq a b \<Longrightarrow> eq b a"
    and key_trans: "eq a b \<Longrightarrow> eq b c \<Longrightarrow> eq a c"
    and key_hash: "eq a b \<Longrightarrow> hash a = hash b"
begin

text \<open>A table as the list of its entries, looked up by the key equality.\<close>

lemma eq_right: "eq a b \<Longrightarrow> eq a c = eq b c"
  using key_sym key_trans by blast

lemma eq_left: "eq a b \<Longrightarrow> eq c a = eq c b"
  using key_sym key_trans by blast

lemma find_same: "find (\<lambda>(k, v). eq a k) xs = find (\<lambda>(k, v). eq b k) xs" if "eq a b"
  by (simp add: eq_right [OF that])

lemma other_hash: "hash a \<noteq> hash b \<Longrightarrow> \<not> eq a b"
  using key_hash by blast

end

lemma addr_eq_refl: "addr_eq n a n a"
  by (cases a) auto

lemma addr_eq_sym: "addr_eq m a n b \<Longrightarrow> addr_eq n b m a"
  by (cases "(m, a, n, b)" rule: addr_eq.cases) auto

lemma addr_eq_trans: "addr_eq m a n b \<Longrightarrow> addr_eq n b k c \<Longrightarrow> addr_eq m a k c"
  by (cases "(m, a, n, b)" rule: addr_eq.cases; cases c) auto

lemma addr_eq_hash: "addr_eq m a n b \<Longrightarrow> addr_hash h m a = addr_hash h n b"
  by (cases "(m, a, n, b)" rule: addr_eq.cases) auto

interpretation ep_key: hashed_key ep_eq "EndpointHash h" for h
proof
  fix a b c :: Endpoint
  show "ep_eq a a" by (simp add: ep_eq_def addr_eq_refl)
  show "ep_eq b a" if "ep_eq a b"
    using that by (auto simp: ep_eq_def split: if_splits dest: addr_eq_sym)
  show "ep_eq a c" if "ep_eq a b" "ep_eq b c"
    using that by (auto simp: ep_eq_def split: if_splits) (blast intro: addr_eq_trans)
  show "EndpointHash h a = EndpointHash h b" if "ep_eq a b"
    using that by (auto simp: ep_eq_def EndpointHash_def split: if_splits dest: addr_eq_hash)
qed

lemma ep_eq_refl [simp]: "ep_eq e e"
  by (rule ep_key.key_refl)

lemma ep_eq_sym: "ep_eq a b \<Longrightarrow> ep_eq b a"
  by (rule ep_key.key_sym)

lemma ep_eq_trans: "ep_eq a b \<Longrightarrow> ep_eq b c \<Longrightarrow> ep_eq a c"
  by (rule ep_key.key_trans)

lemma addr_eq_port: "addr_eq m a n b \<Longrightarrow>
    (case a of Inet p x \<Rightarrow> p | Inet6 p f x s \<Rightarrow> p | OtherAddr f bs \<Rightarrow> 0) =
    (case b of Inet p x \<Rightarrow> p | Inet6 p f x s \<Rightarrow> p | OtherAddr f bs \<Rightarrow> 0)"
  by (cases "(m, a, n, b)" rule: addr_eq.cases) auto

lemma addr_eq_family: "addr_eq m a n b \<Longrightarrow> sa_family a = sa_family b"
  by (cases "(m, a, n, b)" rule: addr_eq.cases) auto

lemma addr_eq_in_addr:
  "addr_eq m a n b \<Longrightarrow> sa_family a = AF_INET \<or> sa_family a = AF_INET6 \<Longrightarrow> addr_wf a \<Longrightarrow> addr_wf b \<Longrightarrow>
   get_in_addr a = get_in_addr b"
  by (cases "(m, a, n, b)" rule: addr_eq.cases) (auto simp: get_in_addr_def)

lemma ep_eq_port: "ep_eq a b \<Longrightarrow> ep_port a = ep_port b"
  by (auto simp: ep_eq_def ep_port_def split: if_splits dest: addr_eq_port)

text \<open>
  C35: endpoint equality is an equivalence relation, equal endpoints have equal hashes whatever
  \<^verbatim>\<open>std::hash\<close> is, and equal well-formed endpoints have the same port and the same printed form.
\<close>

theorem endpoint_key_laws:
  "ep_eq a a
   \<and> (ep_eq a b \<longrightarrow> ep_eq b a)
   \<and> (ep_eq a b \<longrightarrow> ep_eq b c \<longrightarrow> ep_eq a c)
   \<and> (ep_eq a b \<longrightarrow> EndpointHash h a = EndpointHash h b \<and> ep_port a = ep_port b)
   \<and> (ep_eq a b \<longrightarrow> ep_wf a \<longrightarrow> ep_wf b \<longrightarrow> ep_to_string ntop a = ep_to_string ntop b)
   \<and> ep_neq a b = (\<not> ep_eq a b)"
proof (intro conjI impI)
  assume eq: "ep_eq a b" and wf: "ep_wf a" "ep_wf b"
  show "ep_to_string ntop a = ep_to_string ntop b"
  proof (cases "ep_len a = 0")
    case False
    then have ad: "addr_eq (ep_len a) (ep_addr a) (ep_len b) (ep_addr b)" and n: "ep_len b \<noteq> 0"
      using eq by (auto simp: ep_eq_def split: if_splits)
    have "sa_family (ep_addr b) = AF_INET \<or> sa_family (ep_addr b) = AF_INET6 \<Longrightarrow>
        get_in_addr (ep_addr a) = get_in_addr (ep_addr b)"
      using addr_eq_in_addr [OF ad] wf addr_eq_family [OF ad] by (simp add: ep_wf_def)
    then show ?thesis
      using n False addr_eq_family [OF ad] ep_eq_port [OF eq]
      by (auto simp: ep_to_string_def Let_def split: option.split)
  qed (use eq in \<open>auto simp: ep_eq_def ep_to_string_def split: if_splits\<close>)
next
  assume "ep_eq a b" "ep_eq b c"
  then show "ep_eq a c" by (rule ep_eq_trans)
qed (auto simp: ep_neq_def ep_eq_sym ep_eq_port ep_key.key_hash)

theorem endpoint_key_laws_witness:
  "(let a = \<lparr>ep_addr = Inet6 7 1 (replicate 16 3) 2, ep_len = 28\<rparr>;
        b = \<lparr>ep_addr = Inet6 7 9 (replicate 16 3) 2, ep_len = 28\<rparr>
    in a \<noteq> b \<and> ep_eq a b \<and> EndpointHash id a = EndpointHash id b)"
  using endpoint_key_laws [of "\<lparr>ep_addr = Inet6 7 1 (replicate 16 3) 2, ep_len = 28\<rparr>"
      "\<lparr>ep_addr = Inet6 7 9 (replicate 16 3) 2, ep_len = 28\<rparr>" Endpoint_default id "\<lambda>f a. None"]
  by (simp add: Let_def ep_eq_def)

end
