(* ===== verification/Scn_Effects.thy ===== *)
theory Scn_Effects
  imports Scn_Prelude "HOL-Library.State_Monad" "HOL-Library.Monad_Syntax"
begin

text \<open>
  Stateful code: a method of a class is a state monad action on a record of the object's fields, and
  a method that returns a \<^verbatim>\<open>Result\<close> is an action with a value in \<open>'a result\<close>.  This theory has the
  combinators the components share and the proof rules for properties every action keeps.
\<close>

section \<open>Actions\<close>

type_synonym ('s, 'a) act = "('s, 'a) state"

abbreviation ret :: "'a \<Rightarrow> ('s, 'a) act" where
  "ret \<equiv> State_Monad.return"

definition gets :: "('s \<Rightarrow> 'a) \<Rightarrow> ('s, 'a) act" where
  "gets f = State (\<lambda>s. (f s, s))"

definition modify :: "('s \<Rightarrow> 's) \<Rightarrow> ('s, unit) act" where
  "modify f = State (\<lambda>s. ((), f s))"

text \<open>An early return on failure: \<^verbatim>\<open>rc = m; if (!rc.ok()) return rc;\<close>\<close>

definition check :: "('s, 'a result) act \<Rightarrow> ('a \<Rightarrow> ('s, 'b result) act) \<Rightarrow> ('s, 'b result) act" where
  "check m k = do { r \<leftarrow> m; case r of Inl e \<Rightarrow> ret (Inl e) | Inr x \<Rightarrow> k x }"

definition whenM :: "bool \<Rightarrow> ('s, unit) act \<Rightarrow> ('s, unit) act" where
  "whenM c m = (if c then m else ret ())"

text \<open>An action on a part of the state, given by its reader and its writer.\<close>

definition on_part :: "('s \<Rightarrow> 'p) \<Rightarrow> ('p \<Rightarrow> 's \<Rightarrow> 's) \<Rightarrow> ('p \<Rightarrow> 'a \<times> 'p) \<Rightarrow> ('s, 'a) act" where
  "on_part get put f = State (\<lambda>s. let (a, p) = f (get s) in (a, put p s))"

text \<open>The same for a component whose callbacks act on the whole state.\<close>

definition with_part :: "('s \<Rightarrow> 'p) \<Rightarrow> ('p \<Rightarrow> 's \<Rightarrow> 's) \<Rightarrow> ('p \<Rightarrow> 's \<Rightarrow> 'a \<times> 'p \<times> 's) \<Rightarrow> ('s, 'a) act" where
  "with_part get put f = State (\<lambda>s. let (a, p, s') = f (get s) s in (a, put p s'))"

text \<open>A callback that may be unset.\<close>

definition notify :: "'f option \<Rightarrow> ('f \<Rightarrow> 's \<Rightarrow> 's) \<Rightarrow> ('s, unit) act" where
  "notify cb call = (case cb of None \<Rightarrow> ret () | Some f \<Rightarrow> modify (call f))"

text \<open>A range-based loop over a list that is fixed when the loop starts.\<close>

fun for_each :: "('x \<Rightarrow> ('s, unit) act) \<Rightarrow> 'x list \<Rightarrow> ('s, unit) act" where
  "for_each f [] = ret ()"
| "for_each f (x # xs) = do { f x; for_each f xs }"

text \<open>The same with an early return on failure.\<close>

fun each_check :: "('x \<Rightarrow> ('s, unit result) act) \<Rightarrow> 'x list \<Rightarrow> ('s, unit result) act" where
  "each_check f [] = ret (Inr ())"
| "each_check f (x # xs) = check (f x) (\<lambda>_. each_check f xs)"

text \<open>
  A loop that may run forever has a bound on its iterations and the value \<^term>\<open>None\<close> when it is still
  running at the bound; then its caller does not return either.
\<close>

definition returns :: "('s, 'a option) act \<Rightarrow> ('a \<Rightarrow> ('s, 'b option) act) \<Rightarrow> ('s, 'b option) act" where
  "returns m k = do { r \<leftarrow> m; case r of None \<Rightarrow> ret None | Some x \<Rightarrow> k x }"

section \<open>Running actions\<close>

lemma run_ret [simp]: "run_state (ret x) s = (x, s)"
  by (simp add: State_Monad.return_def)

lemma run_gets [simp]: "run_state (gets f) s = (f s, s)"
  by (simp add: gets_def)

lemma run_modify [simp]: "run_state (modify f) s = ((), f s)"
  by (simp add: modify_def)

lemma run_bind: "run_state (State_Monad.bind m k) s = (case run_state m s of (x, s') \<Rightarrow> run_state (k x) s')"
  by (simp add: State_Monad.bind_def)

lemma run_check:
  "run_state (check m k) s = (case run_state m s of (Inl e, s') \<Rightarrow> (Inl e, s') | (Inr x, s') \<Rightarrow> run_state (k x) s')"
  by (auto simp: check_def run_bind split: prod.splits sum.splits)

lemma run_returns:
  "run_state (returns m k) s = (case run_state m s of (None, s') \<Rightarrow> (None, s') | (Some x, s') \<Rightarrow> run_state (k x) s')"
  by (auto simp: returns_def run_bind split: prod.splits option.splits)

lemma run_whenM: "run_state (whenM c m) s = (if c then run_state m s else ((), s))"
  by (simp add: whenM_def)

lemma run_on_part: "run_state (on_part get put f) s = (let (a, p) = f (get s) in (a, put p s))"
  by (simp add: on_part_def)

lemma run_with_part:
  "run_state (with_part get put f) s = (let (a, p, s') = f (get s) s in (a, put p s'))"
  by (simp add: with_part_def)

lemma run_notify: "run_state (notify cb call) s = ((), case cb of None \<Rightarrow> s | Some f \<Rightarrow> call f s)"
  by (simp add: notify_def split: option.split)

lemma run_if [simp]: "run_state (if c then m else n) s = (if c then run_state m s else run_state n s)"
  by simp

lemmas run_simps = run_bind run_check run_returns run_whenM run_on_part run_with_part run_notify

lemma check_ret: "check (ret v) k = (case v of Inl e \<Rightarrow> ret (Inl e) | Inr x \<Rightarrow> k x)"
  by (simp add: check_def)

section \<open>What every action keeps\<close>

text \<open>
  \<open>keeps R m\<close> says that \<open>m\<close> relates its start state to its final state by \<open>R\<close>.  When \<open>R\<close> is reflexive and
  transitive the property composes along the combinators.  Invariants (\<open>R s s'\<close>: if the invariant
  holds of \<open>s\<close> it holds of \<open>s'\<close>) and frame conditions (some fields are equal) are instances.
\<close>

definition keeps :: "('s \<Rightarrow> 's \<Rightarrow> bool) \<Rightarrow> ('s, 'a) act \<Rightarrow> bool" where
  "keeps R m \<longleftrightarrow> (\<forall>s. R s (snd (run_state m s)))"

lemma keepsI: "(\<And>s. R s (snd (run_state m s))) \<Longrightarrow> keeps R m"
  by (simp add: keeps_def)

lemma keeps_run: "keeps R m \<Longrightarrow> R s (snd (run_state m s))"
  by (simp add: keeps_def)

lemma keepsD: "keeps R m \<Longrightarrow> run_state m s = (x, s') \<Longrightarrow> R s s'"
  by (metis keeps_def snd_conv)

locale kept =
  fixes R :: "'s \<Rightarrow> 's \<Rightarrow> bool"
  assumes kept_refl: "R s s"
    and kept_trans: "R s t \<Longrightarrow> R t u \<Longrightarrow> R s u"
begin

lemma keeps_ret: "keeps R (ret x)"
  by (simp add: keeps_def kept_refl)

lemma keeps_gets: "keeps R (gets f)"
  by (simp add: keeps_def kept_refl)

lemma keeps_modify: "(\<And>s. R s (f s)) \<Longrightarrow> keeps R (modify f)"
  by (simp add: keeps_def)

lemma keeps_bind: "keeps R m \<Longrightarrow> (\<And>x. keeps R (k x)) \<Longrightarrow> keeps R (State_Monad.bind m k)"
  unfolding keeps_def run_bind by (auto split: prod.split) (metis kept_trans snd_conv)

lemma keeps_gets_bind: "(\<And>s. R s (snd (run_state (k (f s)) s))) \<Longrightarrow> keeps R (State_Monad.bind (gets f) k)"
  unfolding keeps_def run_bind by simp

lemma keeps_check: "keeps R m \<Longrightarrow> (\<And>x. keeps R (k x)) \<Longrightarrow> keeps R (check m k)"
  unfolding check_def by (intro keeps_bind) (auto split: sum.split intro: keeps_ret)

lemma keeps_whenM: "(c \<Longrightarrow> keeps R m) \<Longrightarrow> keeps R (whenM c m)"
  by (simp add: whenM_def keeps_ret)

lemma keeps_if: "(c \<Longrightarrow> keeps R m) \<Longrightarrow> (\<not> c \<Longrightarrow> keeps R n) \<Longrightarrow> keeps R (if c then m else n)"
  by simp

lemma keeps_sum: "(\<And>e. r = Inl e \<Longrightarrow> keeps R (f e)) \<Longrightarrow> (\<And>x. r = Inr x \<Longrightarrow> keeps R (g x)) \<Longrightarrow>
    keeps R (case r of Inl e \<Rightarrow> f e | Inr x \<Rightarrow> g x)"
  by (cases r) auto

lemma keeps_option: "(r = None \<Longrightarrow> keeps R f) \<Longrightarrow> (\<And>x. r = Some x \<Longrightarrow> keeps R (g x)) \<Longrightarrow>
    keeps R (case r of None \<Rightarrow> f | Some x \<Rightarrow> g x)"
  by (cases r) auto

lemma keeps_prod: "(\<And>x y. p = (x, y) \<Longrightarrow> keeps R (f x y)) \<Longrightarrow> keeps R (case p of (x, y) \<Rightarrow> f x y)"
  by (cases p) auto

lemma keeps_let: "(\<And>x. x = v \<Longrightarrow> keeps R (f x)) \<Longrightarrow> keeps R (let x = v in f x)"
  by simp

lemma keeps_on_part: "(\<And>s a p. f (get s) = (a, p) \<Longrightarrow> R s (put p s)) \<Longrightarrow> keeps R (on_part get put f)"
  by (auto simp: keeps_def run_on_part split: prod.split)

lemma keeps_with_part:
  "(\<And>s a p t. f (get s) s = (a, p, t) \<Longrightarrow> R s (put p t)) \<Longrightarrow> keeps R (with_part get put f)"
  by (auto simp: keeps_def run_with_part split: prod.split)

lemma keeps_notify: "(\<And>f s. cb = Some f \<Longrightarrow> R s (call f s)) \<Longrightarrow> keeps R (notify cb call)"
  by (auto simp: keeps_def run_notify kept_refl split: option.split)

lemma keeps_for_each: "(\<And>x. keeps R (f x)) \<Longrightarrow> keeps R (for_each f xs)"
  by (induction xs) (auto intro: keeps_ret keeps_bind)

lemma keeps_each_check: "(\<And>x. keeps R (f x)) \<Longrightarrow> keeps R (each_check f xs)"
  by (induction xs) (auto intro: keeps_ret keeps_check)

lemma keeps_returns: "keeps R m \<Longrightarrow> (\<And>x. keeps R (k x)) \<Longrightarrow> keeps R (returns m k)"
  unfolding returns_def by (intro keeps_bind) (auto split: option.split intro: keeps_ret)

lemmas keeps_rules = keeps_ret keeps_gets keeps_bind keeps_check keeps_whenM keeps_if keeps_sum keeps_option
  keeps_prod keeps_let keeps_for_each keeps_each_check keeps_returns

end

section \<open>Pre- and postconditions\<close>

definition hoare :: "('s \<Rightarrow> bool) \<Rightarrow> ('s, 'a) act \<Rightarrow> ('a \<Rightarrow> 's \<Rightarrow> bool) \<Rightarrow> bool" where
  "hoare P m Q \<longleftrightarrow> (\<forall>s. P s \<longrightarrow> (case run_state m s of (x, t) \<Rightarrow> Q x t))"

lemma hoareI: "(\<And>s x t. P s \<Longrightarrow> run_state m s = (x, t) \<Longrightarrow> Q x t) \<Longrightarrow> hoare P m Q"
  by (auto simp: hoare_def split: prod.split)

lemma hoareD: "hoare P m Q \<Longrightarrow> P s \<Longrightarrow> run_state m s = (x, t) \<Longrightarrow> Q x t"
  by (auto simp: hoare_def)

lemma hoareD': "hoare P m (\<lambda>_. Q) \<Longrightarrow> P s \<Longrightarrow> Q (snd (run_state m s))"
  by (cases "run_state m s") (auto simp: hoare_def)

lemma hoare_pre: "hoare P m Q \<Longrightarrow> (\<And>s. P' s \<Longrightarrow> P s) \<Longrightarrow> hoare P' m Q"
  by (simp add: hoare_def)

lemma hoare_post: "hoare P m Q \<Longrightarrow> (\<And>x s. Q x s \<Longrightarrow> Q' x s) \<Longrightarrow> hoare P m Q'"
  by (fastforce simp: hoare_def)

lemma hoare_ret: "(\<And>s. P s \<Longrightarrow> Q x s) \<Longrightarrow> hoare P (ret x) Q"
  by (simp add: hoare_def)

lemma hoare_gets: "(\<And>s. P s \<Longrightarrow> Q (f s) s) \<Longrightarrow> hoare P (gets f) Q"
  by (simp add: hoare_def)

lemma hoare_modify: "(\<And>s. P s \<Longrightarrow> Q () (f s)) \<Longrightarrow> hoare P (modify f) Q"
  by (simp add: hoare_def)

lemma hoare_bind: "hoare P m T \<Longrightarrow> (\<And>x. hoare (T x) (k x) Q) \<Longrightarrow> hoare P (State_Monad.bind m k) Q"
  by (fastforce simp: hoare_def run_bind split: prod.splits)

lemma hoare_check:
  "hoare P m T \<Longrightarrow> (\<And>e s. T (Inl e) s \<Longrightarrow> Q (Inl e) s) \<Longrightarrow> (\<And>x. hoare (T (Inr x)) (k x) Q) \<Longrightarrow> hoare P (check m k) Q"
  unfolding check_def by (rule hoare_bind, assumption) (auto split: sum.split intro: hoare_ret)

lemma hoare_returns:
  "hoare P m T \<Longrightarrow> (\<And>s. T None s \<Longrightarrow> Q None s) \<Longrightarrow> (\<And>x. hoare (T (Some x)) (k x) Q) \<Longrightarrow> hoare P (returns m k) Q"
  unfolding returns_def by (rule hoare_bind, assumption) (auto split: option.split intro: hoare_ret)

lemma hoare_whenM: "hoare (\<lambda>s. P s \<and> c) m Q \<Longrightarrow> (\<And>s. P s \<Longrightarrow> \<not> c \<Longrightarrow> Q () s) \<Longrightarrow> hoare P (whenM c m) Q"
  by (auto simp: hoare_def run_whenM)

lemma hoare_if: "(c \<Longrightarrow> hoare P m Q) \<Longrightarrow> (\<not> c \<Longrightarrow> hoare P n Q) \<Longrightarrow> hoare P (if c then m else n) Q"
  by simp

lemma hoare_sum: "(\<And>e. r = Inl e \<Longrightarrow> hoare P (f e) Q) \<Longrightarrow> (\<And>x. r = Inr x \<Longrightarrow> hoare P (g x) Q) \<Longrightarrow>
    hoare P (case r of Inl e \<Rightarrow> f e | Inr x \<Rightarrow> g x) Q"
  by (cases r) auto

lemma hoare_option: "(r = None \<Longrightarrow> hoare P f Q) \<Longrightarrow> (\<And>x. r = Some x \<Longrightarrow> hoare P (g x) Q) \<Longrightarrow>
    hoare P (case r of None \<Rightarrow> f | Some x \<Rightarrow> g x) Q"
  by (cases r) auto

lemma hoare_prod: "(\<And>x y. p = (x, y) \<Longrightarrow> hoare P (f x y) Q) \<Longrightarrow> hoare P (case p of (x, y) \<Rightarrow> f x y) Q"
  by (cases p) auto

lemma hoare_conj: "hoare P m Q \<Longrightarrow> hoare P m Q' \<Longrightarrow> hoare P m (\<lambda>x s. Q x s \<and> Q' x s)"
  by (auto simp: hoare_def split: prod.splits)

lemma hoare_assume: "(A \<Longrightarrow> hoare P m Q) \<Longrightarrow> hoare (\<lambda>s. P s \<and> A) m Q"
  by (auto simp: hoare_def)

lemma keeps_hoare: "keeps R m \<longleftrightarrow> (\<forall>s. hoare (\<lambda>t. t = s) m (\<lambda>_ t. R s t))"
  by (auto simp: keeps_def hoare_def split_beta)

lemma hoare_keepsI: "(\<And>s. hoare (\<lambda>t. t = s) m (\<lambda>_ t. R s t)) \<Longrightarrow> keeps R m"
  by (simp add: keeps_hoare)

text \<open>What is known of the value of an action, whatever the state.\<close>

definition yields :: "('a \<Rightarrow> bool) \<Rightarrow> ('s, 'a) act \<Rightarrow> bool" where
  "yields P m \<longleftrightarrow> (\<forall>s. P (fst (run_state m s)))"

lemma yieldsD: "yields P m \<Longrightarrow> run_state m s = (x, t) \<Longrightarrow> P x"
  by (metis yields_def fst_conv)

lemma yields_ret: "P x \<Longrightarrow> yields P (ret x)"
  by (simp add: yields_def)

lemma yields_bind: "(\<And>x. yields P (k x)) \<Longrightarrow> yields P (State_Monad.bind m k)"
  by (auto simp: yields_def run_bind split: prod.split)

lemma yields_if: "(c \<Longrightarrow> yields P m) \<Longrightarrow> (\<not> c \<Longrightarrow> yields P n) \<Longrightarrow> yields P (if c then m else n)"
  by simp

lemma yields_sum: "(\<And>e. r = Inl e \<Longrightarrow> yields P (f e)) \<Longrightarrow> (\<And>x. r = Inr x \<Longrightarrow> yields P (g x)) \<Longrightarrow>
    yields P (case r of Inl e \<Rightarrow> f e | Inr x \<Rightarrow> g x)"
  by (cases r) auto

lemma yields_hoare: "yields P m \<Longrightarrow> hoare X m (\<lambda>x _. P x)"
  by (auto simp: yields_def hoare_def split: prod.splits) (metis fst_conv)

lemmas yields_rules = yields_ret yields_bind yields_if yields_sum

text \<open>An action that keeps an equation on a reader of the state.\<close>

definition frames :: "('s \<Rightarrow> 'a) \<Rightarrow> ('s, 'b) act \<Rightarrow> bool" where
  "frames f m \<longleftrightarrow> keeps (\<lambda>s t. f t = f s) m"

context kept
begin

lemma hoare_keeps: "keeps R m \<Longrightarrow> hoare (\<lambda>t. R s t) m (\<lambda>_ t. R s t)"
  unfolding hoare_def keeps_def by (auto split: prod.splits) (metis kept_trans snd_conv)

lemma hoare_keeps_weak: "keeps R m \<Longrightarrow> hoare (\<lambda>t. R s t \<and> X t) m (\<lambda>_ t. R s t)"
  by (rule hoare_pre [OF hoare_keeps]) simp_all

lemma keeps_gets_hoare:
  assumes "\<And>s x. hoare (\<lambda>t. R s t \<and> f t = x) (k x) (\<lambda>_ t. R s t)"
  shows "keeps R (State_Monad.bind (gets f) k)"
  by (rule hoare_keepsI, rule hoare_bind [OF hoare_gets assms]) (simp add: kept_refl)

lemma hoare_keeps_frame:
  "keeps R m \<Longrightarrow> frames f m \<Longrightarrow> hoare (\<lambda>t. R s t \<and> f t = a) m (\<lambda>_ t. R s t \<and> f t = a)"
  unfolding hoare_def keeps_def frames_def by (auto split: prod.splits) (metis kept_trans snd_conv)+

end

interpretation frame: kept "\<lambda>s t. f t = f s" for f
  by unfold_locales auto

lemma frames_gets: "frames f (gets g)"
  by (simp add: frames_def keeps_def)

end
