(* ===== verification/Scn_Socket.thy ===== *)
theory Scn_Socket
  imports Scn_Endpoint Scn_Effects "HOL-Library.Char_ord"
begin

text \<open>
  The UDP socket of udp_socket.hpp and udp_socket.cpp, in the branches compiled on Linux.

  The operating system is a parameter: a record \<open>Os\<close> with one field per system call, each a function
  on a world \<open>'w\<close>.  Return values and \<^verbatim>\<open>errno\<close> are integers as in the C interface.  A socket is its
  descriptor; the methods are actions on the descriptor and the world.
\<close>

record 'w Os =
  os_now_ms :: "'w \<Rightarrow> U64 \<times> 'w"
  os_socket :: "U16 \<Rightarrow> 'w \<Rightarrow> int \<times> 'w"
  os_close :: "int \<Rightarrow> 'w \<Rightarrow> 'w"
  os_bind :: "int \<Rightarrow> Endpoint \<Rightarrow> 'w \<Rightarrow> int \<times> 'w"
  os_connect :: "int \<Rightarrow> Endpoint \<Rightarrow> 'w \<Rightarrow> int \<times> 'w"
  os_getfl :: "int \<Rightarrow> 'w \<Rightarrow> int \<times> 'w"
  os_setfl :: "int \<Rightarrow> int \<Rightarrow> 'w \<Rightarrow> int \<times> 'w"
  os_send :: "int \<Rightarrow> U8 list \<Rightarrow> 'w \<Rightarrow> (int \<times> int) \<times> 'w"
  os_sendto :: "int \<Rightarrow> U8 list \<Rightarrow> Endpoint \<Rightarrow> 'w \<Rightarrow> (int \<times> int) \<times> 'w"
  os_recv :: "int \<Rightarrow> nat \<Rightarrow> 'w \<Rightarrow> (int \<times> int \<times> U8 list) \<times> 'w"
  os_recvfrom :: "int \<Rightarrow> nat \<Rightarrow> 'w \<Rightarrow> (int \<times> int \<times> U8 list \<times> Endpoint) \<times> 'w"
  os_getsockname :: "int \<Rightarrow> 'w \<Rightarrow> (int \<times> Endpoint) \<times> 'w"
  os_getaddrinfo :: "string option \<Rightarrow> string \<Rightarrow> int \<Rightarrow> 'w \<Rightarrow> (int \<times> Endpoint list) \<times> 'w"
  os_ntop :: "U16 \<Rightarrow> U8 list \<Rightarrow> string option"

definition kInvalidSocket :: int where "kInvalidSocket = -1"
definition EAGAIN :: int where "EAGAIN = 11"
definition EWOULDBLOCK :: int where "EWOULDBLOCK = 11"
definition O_NONBLOCK :: int where "O_NONBLOCK = 2048"
definition AI_PASSIVE :: int where "AI_PASSIVE = 1"
definition AI_NUMERICSERV :: int where "AI_NUMERICSERV = 0x400"
definition INT_MAX :: int where "INT_MAX = 2147483647"

type_synonym 'w sockw = "int \<times> 'w"

definition os_call :: "('w \<Rightarrow> 'a \<times> 'w) \<Rightarrow> ('w sockw, 'a) act" where
  "os_call f = on_part snd (\<lambda>w (s, _). (s, w)) f"

definition is_would_block :: "int \<Rightarrow> bool" where
  "is_would_block e \<longleftrightarrow> e = EWOULDBLOCK \<or> e = EAGAIN"

definition check_socket_len :: "ST \<Rightarrow> unit result" where
  "check_socket_len len = (if nat INT_MAX < len then Inl InvalidArg else Inr ())"

text \<open>The runtime status of socket_init.cpp, which has nothing to start outside Windows.\<close>

definition socket_init_status :: "unit result" where
  "socket_init_status = Inr ()"

definition ensure_socket_runtime :: "unit result" where
  "ensure_socket_runtime = socket_init_status"

definition ipv6_unspecified :: "U8 list" where "ipv6_unspecified = replicate 16 0"
definition ipv6_loopback :: "U8 list" where "ipv6_loopback = replicate 15 0 @ [1]"
definition ipv4_any :: "U8 list" where "ipv4_any = [0, 0, 0, 0]"
definition ipv4_loopback :: "U8 list" where "ipv4_loopback = [127, 0, 0, 1]"

definition normalize_send_endpoint :: "Endpoint \<Rightarrow> Endpoint" where
  "normalize_send_endpoint ep =
    (if ep_len ep = 0 then ep
     else case ep_addr ep of
       Inet p a \<Rightarrow> if a = ipv4_any then ep\<lparr>ep_addr := Inet p ipv4_loopback\<rparr> else ep
     | Inet6 p f a s \<Rightarrow> if a = ipv6_unspecified then ep\<lparr>ep_addr := Inet6 p f ipv6_loopback s\<rparr> else ep
     | OtherAddr f bs \<Rightarrow> ep)"

definition send_datagram_common ::
  "'w Os \<Rightarrow> U8 list option \<Rightarrow> ST \<Rightarrow> Endpoint \<Rightarrow> bool \<Rightarrow> ('w sockw, unit result) act" where
  "send_datagram_common os data len to connected = do {
     s \<leftarrow> gets fst;
     if s = kInvalidSocket then ret (Inl InvalidArg)
     else if data = None \<and> len > 0 then ret (Inl InvalidArg)
     else case check_socket_len len of
       Inl e \<Rightarrow> ret (Inl e)
     | Inr _ \<Rightarrow> do {
         let bytes = (case data of None \<Rightarrow> [] | Some bs \<Rightarrow> take len bs);
         (sent, e) \<leftarrow> os_call (if connected then os_send os s bytes else os_sendto os s bytes to);
         ret (if sent < 0 then (if is_would_block e then Inl WouldBlock else Inl SocketError)
              else if nat sent \<noteq> len then Inl SocketError
              else Inr ())
       }
   }"

text \<open>The datagram received, and with \<open>want_from\<close> where it came from.\<close>

definition recv_datagram_common ::
  "'w Os \<Rightarrow> ST \<Rightarrow> bool \<Rightarrow> ('w sockw, (U8 list \<times> Endpoint) result) act" where
  "recv_datagram_common os out_cap want_from = do {
     s \<leftarrow> gets fst;
     if s = kInvalidSocket then ret (Inl InvalidArg)
     else case check_socket_len out_cap of
       Inl e \<Rightarrow> ret (Inl e)
     | Inr _ \<Rightarrow> do {
         (n, e, bytes, from) \<leftarrow> os_call (if want_from then os_recvfrom os s out_cap
                                         else (\<lambda>w. case os_recv os s out_cap w of
                                                ((n, e, bs), w) \<Rightarrow> ((n, e, bs, Endpoint_default), w)));
         ret (if n < 0 then (if is_would_block e then Inl WouldBlock else Inl SocketError)
              else if int out_cap < n then Inl Truncated
              else Inr (take (nat n) bytes, from))
       }
   }"

definition udp_is_open :: "('w sockw, bool) act" where
  "udp_is_open = gets (\<lambda>(s, _). s \<noteq> kInvalidSocket)"

definition udp_open :: "'w Os \<Rightarrow> U16 \<Rightarrow> ('w sockw, unit result) act" where
  "udp_open os family = do {
     opened \<leftarrow> udp_is_open;
     if opened then ret (Inr ())
     else case ensure_socket_runtime of
       Inl e \<Rightarrow> ret (Inl e)
     | Inr _ \<Rightarrow> do {
         fd \<leftarrow> os_call (os_socket os family);
         modify (\<lambda>(_, w). (fd, w));
         ret (if fd = kInvalidSocket then Inl SocketError else Inr ())
       }
   }"

definition udp_close :: "'w Os \<Rightarrow> ('w sockw, unit) act" where
  "udp_close os = do {
     opened \<leftarrow> udp_is_open;
     whenM opened (do {
       s \<leftarrow> gets fst;
       os_call (\<lambda>w. ((), os_close os s w));
       modify (\<lambda>(_, w). (kInvalidSocket, w))
     })
   }"

definition udp_bind :: "'w Os \<Rightarrow> Endpoint \<Rightarrow> ('w sockw, unit result) act" where
  "udp_bind os loc = do {
     opened \<leftarrow> udp_is_open;
     check (if opened then ret (Inr ()) else udp_open os (sa_family (ep_addr loc))) (\<lambda>_. do {
       s \<leftarrow> gets fst;
       rc \<leftarrow> os_call (os_bind os s loc);
       ret (if rc \<noteq> 0 then Inl SocketError else Inr ())
     })
   }"

definition udp_connect :: "'w Os \<Rightarrow> Endpoint \<Rightarrow> ('w sockw, unit result) act" where
  "udp_connect os remote = do {
     opened \<leftarrow> udp_is_open;
     check (if opened then ret (Inr ()) else udp_open os (sa_family (ep_addr remote))) (\<lambda>_. do {
       s \<leftarrow> gets fst;
       rc \<leftarrow> os_call (os_connect os s remote);
       ret (if rc \<noteq> 0 then Inl SocketError else Inr ())
     })
   }"

definition udp_set_nonblocking :: "'w Os \<Rightarrow> bool \<Rightarrow> ('w sockw, unit result) act" where
  "udp_set_nonblocking os on = do {
     s \<leftarrow> gets fst;
     if s = kInvalidSocket then ret (Inl InvalidArg)
     else do {
       flags \<leftarrow> os_call (os_getfl os s);
       if flags < 0 then ret (Inl SocketError)
       else do {
         rc \<leftarrow> os_call (os_setfl os s (if on then flags OR O_NONBLOCK else flags AND NOT O_NONBLOCK));
         ret (if rc \<noteq> 0 then Inl SocketError else Inr ())
       }
     }
   }"

definition udp_send_to :: "'w Os \<Rightarrow> Endpoint \<Rightarrow> U8 list option \<Rightarrow> ST \<Rightarrow> ('w sockw, unit result) act" where
  "udp_send_to os to data len = send_datagram_common os data len (normalize_send_endpoint to) False"

definition udp_send :: "'w Os \<Rightarrow> U8 list option \<Rightarrow> ST \<Rightarrow> ('w sockw, unit result) act" where
  "udp_send os data len = send_datagram_common os data len Endpoint_default True"

definition udp_recv_from :: "'w Os \<Rightarrow> ST \<Rightarrow> ('w sockw, (U8 list \<times> Endpoint) result) act" where
  "udp_recv_from os out_cap = recv_datagram_common os out_cap True"

definition udp_recv :: "'w Os \<Rightarrow> ST \<Rightarrow> ('w sockw, U8 list result) act" where
  "udp_recv os out_cap = do {
     r \<leftarrow> recv_datagram_common os out_cap False;
     ret (rbind r (\<lambda>(bytes, _). Inr bytes))
   }"

definition udp_local_endpoint :: "'w Os \<Rightarrow> ('w sockw, Endpoint result) act" where
  "udp_local_endpoint os = do {
     s \<leftarrow> gets fst;
     if s = kInvalidSocket then ret (Inl InvalidArg)
     else do {
       (rc, ep) \<leftarrow> os_call (os_getsockname os s);
       ret (if rc \<noteq> 0 then Inl SocketError else Inr ep)
     }
   }"

section \<open>Name resolution\<close>

definition is_digits :: "string \<Rightarrow> bool" where
  "is_digits s \<longleftrightarrow> s \<noteq> [] \<and> list_all (\<lambda>c. CHR ''0'' \<le> c \<and> c \<le> CHR ''9'') s"

text \<open>
  resolve_endpoints of address.cpp.  \<^verbatim>\<open>getaddrinfo\<close> is asked for UDP addresses of any family and its
  list of results is the list of endpoints; an empty list stands for the null result.
\<close>

definition resolve_endpoints :: "'w Os \<Rightarrow> string \<Rightarrow> string \<Rightarrow> bool \<Rightarrow> 'w \<Rightarrow> Endpoint list result \<times> 'w" where
  "resolve_endpoints os host port passive w =
    (case socket_init_status of
       Inl e \<Rightarrow> (Inl e, w)
     | Inr _ \<Rightarrow>
         let flags = (if passive then AI_PASSIVE else 0);
             flags = (if is_digits port then flags OR AI_NUMERICSERV else flags);
             node = (if host = [] then None else Some host);
             ((rc, res), w) = os_getaddrinfo os node port flags w
         in if rc \<noteq> 0 then (Inl ResolveError, w)
            else if res = [] then (Inl ResolveError, w)
            else (Inr res, w))"

text \<open>Of the addresses a name resolves to, the client and the server take the first IPv4 address if there is one.\<close>

definition prefer_ipv4 :: "Endpoint list \<Rightarrow> Endpoint option" where
  "prefer_ipv4 eps =
    (case eps of
       [] \<Rightarrow> None
     | e # _ \<Rightarrow>
         (case find (\<lambda>ep. sa_family (ep_addr ep) = AF_INET) eps of
            Some ep \<Rightarrow> Some ep
          | None \<Rightarrow> Some e))"

text \<open>A small operating system for concrete inputs: a clock, and a network that takes every datagram and has none to give.\<close>

definition sample_os :: "nat Os" where
  "sample_os =
    \<lparr>os_now_ms = (\<lambda>w. (of_nat w, w + 1)), os_socket = (\<lambda>f w. (3, w)), os_close = (\<lambda>s w. w),
     os_bind = (\<lambda>s e w. (0, w)), os_connect = (\<lambda>s e w. (0, w)), os_getfl = (\<lambda>s w. (0, w)),
     os_setfl = (\<lambda>s f w. (0, w)), os_send = (\<lambda>s bs w. ((int (length bs), 0), w)),
     os_sendto = (\<lambda>s bs e w. ((int (length bs), 0), w)), os_recv = (\<lambda>s n w. ((-1, EAGAIN, []), w)),
     os_recvfrom = (\<lambda>s n w. ((-1, EAGAIN, [], Endpoint_default), w)),
     os_getsockname = (\<lambda>s w. ((0, Endpoint_default), w)),
     os_getaddrinfo = (\<lambda>h p f w. ((0, [\<lparr>ep_addr = Inet 80 ipv4_loopback, ep_len = 16\<rparr>]), w)),
     os_ntop = (\<lambda>f a. Some (map (\<lambda>b. char_of (unat b)) a))\<rparr>"

section \<open>Properties\<close>

lemma run_os_call [simp]: "run_state (os_call f) (s, w) = (case f w of (a, w') \<Rightarrow> (a, (s, w')))"
  by (simp add: os_call_def run_on_part split: prod.split)

lemmas udp_defs = udp_is_open_def udp_open_def udp_close_def udp_bind_def udp_connect_def
  udp_set_nonblocking_def udp_send_to_def udp_send_def udp_recv_from_def udp_recv_def
  udp_local_endpoint_def send_datagram_common_def recv_datagram_common_def

lemma run_udp_close:
  "run_state (udp_close os) (s, w) =
    (if s = kInvalidSocket then ((), (s, w)) else ((), (kInvalidSocket, os_close os s w)))"
  by (simp add: udp_defs run_simps)

lemma run_udp_send:
  "run_state (udp_send os (Some bs) (length bs)) (s, w) =
    (if s = kInvalidSocket \<or> nat INT_MAX < length bs then (Inl InvalidArg, (s, w))
     else case os_send os s bs w of ((sent, e), w') \<Rightarrow>
       (if sent < 0 then (if is_would_block e then Inl WouldBlock else Inl SocketError)
        else if nat sent \<noteq> length bs then Inl SocketError else Inr (), (s, w')))"
  by (auto simp: udp_defs run_simps check_socket_len_def Let_def split: prod.splits)

text \<open>
  C40: a closed socket makes no system call.  Sending, receiving, changing the blocking mode and asking for
  the local address fail with an invalid-argument error and leave the world as it is, closing again
  does nothing, and after a close the socket is closed.
\<close>

theorem closed_socket_inert:
  "run_state (udp_send os data n) (kInvalidSocket, w) = (Inl InvalidArg, (kInvalidSocket, w))
   \<and> run_state (udp_send_to os ep data n) (kInvalidSocket, w) = (Inl InvalidArg, (kInvalidSocket, w))
   \<and> run_state (udp_recv os n) (kInvalidSocket, w) = (Inl InvalidArg, (kInvalidSocket, w))
   \<and> run_state (udp_recv_from os n) (kInvalidSocket, w) = (Inl InvalidArg, (kInvalidSocket, w))
   \<and> run_state (udp_set_nonblocking os b) (kInvalidSocket, w) = (Inl InvalidArg, (kInvalidSocket, w))
   \<and> run_state (udp_local_endpoint os) (kInvalidSocket, w) = (Inl InvalidArg, (kInvalidSocket, w))
   \<and> run_state (udp_close os) (kInvalidSocket, w) = ((), (kInvalidSocket, w))
   \<and> fst (snd (run_state (udp_close os) (s, w))) = kInvalidSocket"
  by (simp add: udp_defs run_simps)


end
