(* ===== verification/Scn_Stats.thy ===== *)
theory Scn_Stats
  imports Scn_Prelude
begin

text \<open>
  The counters of transport_stats.hpp: one field per counter, in the order of the source.  The
  client and the server update them through the field updates.
\<close>

record TransportStats =
  ts_packets_sent :: U64
  ts_packets_received :: U64
  ts_message_frames_sent :: U64
  ts_message_frames_received :: U64
  ts_bytes_sent :: U64
  ts_bytes_received :: U64
  ts_reliable_message_enqueued :: U64
  ts_reliable_messages_delivered :: U64
  ts_reliable_messages_dropped :: U64
  ts_reliable_acks_sent :: U64
  ts_reliable_acks_received :: U64
  ts_reliable_retransmits :: U64
  ts_reliable_expired :: U64
  ts_reliable_loss_events :: U64
  ts_ordered_messages_received :: U64
  ts_ordered_messages_released :: U64
  ts_ordered_messages_buffered :: U64
  ts_ordered_messages_dropped :: U64
  ts_sequenced_messages_received :: U64
  ts_sequenced_messages_dropped :: U64
  ts_fragmented_messages_sent :: U64
  ts_fragmented_messages_received :: U64
  ts_fragments_sent :: U64
  ts_fragments_received :: U64
  ts_fragment_duplicates :: U64
  ts_fragment_invalid_sets :: U64
  ts_reassemblies_completed :: U64
  ts_reassemblies_expired :: U64
  ts_reassembly_drops :: U64
  ts_reassembly_memory_rejections :: U64
  ts_handshake_attempts :: U64
  ts_handshake_successes :: U64
  ts_handshake_failures :: U64
  ts_handshake_retries_sent :: U64
  ts_handshake_retries_received :: U64
  ts_sessions_established :: U64
  ts_session_resumptions_attempted :: U64
  ts_session_resumptions_accepted :: U64
  ts_session_resumptions_rejected :: U64
  ts_keepalives_sent :: U64
  ts_keepalives_received :: U64
  ts_closes_sent :: U64
  ts_closes_received :: U64
  ts_idle_timeouts :: U64
  ts_establish_timeouts :: U64
  ts_peers_evicted :: U64
  ts_state_transitions :: U64
  ts_auth_failures :: U64
  ts_decrypt_failures :: U64
  ts_replays_dropped :: U64
  ts_unsupported_version_packets :: U64
  ts_bad_packets :: U64
  ts_protocol_errors :: U64
  ts_truncated_datagrams :: U64
  ts_socket_errors :: U64
  ts_queue_full_events :: U64
  ts_would_block_events :: U64
  ts_dropped_packets :: U64
  ts_rate_limited_packets :: U64
  ts_invalid_packet_penalties :: U64
  ts_amplification_drops :: U64
  ts_backpressure_events :: U64
  ts_send_budget_refills :: U64
  ts_send_budget_throttles :: U64
  ts_rtt_latest_ms :: U64
  ts_rtt_smoothed_ms :: U64
  ts_rtt_variance_ms :: U64
  ts_current_retransmit_timeout_ms :: U64
  ts_current_peer_count :: U64
  ts_current_pending_packets :: U64
  ts_current_reliable_pending :: U64
  ts_current_reliable_inflight :: U64
  ts_current_reassembly_count :: U64
  ts_current_reassembly_memory_bytes :: U64
  ts_current_send_budget_bytes :: U64
  ts_estimated_loss_per_mille :: U64
  ts_congestion_current_rate_bytes_per_second :: U64
  ts_congestion_current_window_bytes :: U64
  ts_congestion_ack_events :: U64
  ts_congestion_loss_events :: U64
  ts_congestion_backpressure_events :: U64

definition TransportStats_default :: TransportStats where
  "TransportStats_default =
    \<lparr>ts_packets_sent = 0,
     ts_packets_received = 0,
     ts_message_frames_sent = 0,
     ts_message_frames_received = 0,
     ts_bytes_sent = 0,
     ts_bytes_received = 0,
     ts_reliable_message_enqueued = 0,
     ts_reliable_messages_delivered = 0,
     ts_reliable_messages_dropped = 0,
     ts_reliable_acks_sent = 0,
     ts_reliable_acks_received = 0,
     ts_reliable_retransmits = 0,
     ts_reliable_expired = 0,
     ts_reliable_loss_events = 0,
     ts_ordered_messages_received = 0,
     ts_ordered_messages_released = 0,
     ts_ordered_messages_buffered = 0,
     ts_ordered_messages_dropped = 0,
     ts_sequenced_messages_received = 0,
     ts_sequenced_messages_dropped = 0,
     ts_fragmented_messages_sent = 0,
     ts_fragmented_messages_received = 0,
     ts_fragments_sent = 0,
     ts_fragments_received = 0,
     ts_fragment_duplicates = 0,
     ts_fragment_invalid_sets = 0,
     ts_reassemblies_completed = 0,
     ts_reassemblies_expired = 0,
     ts_reassembly_drops = 0,
     ts_reassembly_memory_rejections = 0,
     ts_handshake_attempts = 0,
     ts_handshake_successes = 0,
     ts_handshake_failures = 0,
     ts_handshake_retries_sent = 0,
     ts_handshake_retries_received = 0,
     ts_sessions_established = 0,
     ts_session_resumptions_attempted = 0,
     ts_session_resumptions_accepted = 0,
     ts_session_resumptions_rejected = 0,
     ts_keepalives_sent = 0,
     ts_keepalives_received = 0,
     ts_closes_sent = 0,
     ts_closes_received = 0,
     ts_idle_timeouts = 0,
     ts_establish_timeouts = 0,
     ts_peers_evicted = 0,
     ts_state_transitions = 0,
     ts_auth_failures = 0,
     ts_decrypt_failures = 0,
     ts_replays_dropped = 0,
     ts_unsupported_version_packets = 0,
     ts_bad_packets = 0,
     ts_protocol_errors = 0,
     ts_truncated_datagrams = 0,
     ts_socket_errors = 0,
     ts_queue_full_events = 0,
     ts_would_block_events = 0,
     ts_dropped_packets = 0,
     ts_rate_limited_packets = 0,
     ts_invalid_packet_penalties = 0,
     ts_amplification_drops = 0,
     ts_backpressure_events = 0,
     ts_send_budget_refills = 0,
     ts_send_budget_throttles = 0,
     ts_rtt_latest_ms = 0,
     ts_rtt_smoothed_ms = 0,
     ts_rtt_variance_ms = 0,
     ts_current_retransmit_timeout_ms = 0,
     ts_current_peer_count = 0,
     ts_current_pending_packets = 0,
     ts_current_reliable_pending = 0,
     ts_current_reliable_inflight = 0,
     ts_current_reassembly_count = 0,
     ts_current_reassembly_memory_bytes = 0,
     ts_current_send_budget_bytes = 0,
     ts_estimated_loss_per_mille = 0,
     ts_congestion_current_rate_bytes_per_second = 0,
     ts_congestion_current_window_bytes = 0,
     ts_congestion_ack_events = 0,
     ts_congestion_loss_events = 0,
     ts_congestion_backpressure_events = 0\<rparr>"

definition ts_reset :: "TransportStats \<Rightarrow> TransportStats" where
  "ts_reset s = TransportStats_default"

text \<open>The levels of a log line (logging.hpp).\<close>

datatype LogLevel = Error | Warning | Info | Trace | Debug

end
