(* ===== verification/Scn_Reliable_Session.thy ===== *)
theory Scn_Reliable_Session
  imports Scn_Reliability
begin

text \<open>
  The sender side of the reliable channels (\<^verbatim>\<open>class ReliableSession\<close> of
  \<^verbatim>\<open>reliability.hpp\<close>): the priority queue of unacknowledged messages, the limits on messages,
  bytes and messages in flight, the retransmission timer and the loss estimate.

  The main result is the session invariant \<open>rs_inv\<close>: the two counters agree with the queue, the
  limits of the configuration hold, the queue is sorted by priority with distinct message numbers,
  and every timer stays within its configured bounds. Every operation keeps it.
\<close>

section \<open>State\<close>

record PendingReliableMessage =
  pm_message_id :: U64
  pm_user_type :: U8
  pm_encoded_payload :: "U8 list"
  pm_priority :: SendPriority
  pm_lifetime_ms :: U64
  pm_enqueued_ms :: U64
  pm_first_send_ms :: U64
  pm_last_send_ms :: U64
  pm_rto_ms :: U64
  pm_send_count :: U32
  pm_inflight :: bool

record ReliableAckEvent =
  ae_removed :: bool
  ae_rtt_sample_valid :: bool
  ae_rtt_sample_ms :: U64
  ae_retransmitted :: bool

definition ReliableAckEvent_default :: ReliableAckEvent where
  "ReliableAckEvent_default =
    \<lparr>ae_removed = False, ae_rtt_sample_valid = False, ae_rtt_sample_ms = 0, ae_retransmitted = False\<rparr>"

record ReliableSession =
  rs_cfg :: ReliabilityConfig
  rs_next_message_id :: U64
  rs_pending :: "PendingReliableMessage list"
  rs_pending_bytes :: U32
  rs_inflight_count :: U32
  rs_received :: ReliableReceiveWindow
  rs_have_rtt :: bool
  rs_latest_rtt_ms :: U64
  rs_srtt_ms :: U64
  rs_rttvar_ms :: U64
  rs_rto_ms :: U64
  rs_loss_events :: U64
  rs_retransmit_events :: U64
  rs_loss_per_mille :: U64

definition ReliableSession_default :: ReliableSession where
  "ReliableSession_default =
    \<lparr>rs_cfg = ReliabilityConfig_default, rs_next_message_id = 1, rs_pending = [], rs_pending_bytes = 0,
     rs_inflight_count = 0, rs_received = ReliableReceiveWindow_default, rs_have_rtt = False,
     rs_latest_rtt_ms = 0, rs_srtt_ms = 0, rs_rttvar_ms = 0, rs_rto_ms = 120, rs_loss_events = 0,
     rs_retransmit_events = 0, rs_loss_per_mille = 0\<rparr>"

section \<open>Operations\<close>

definition reset_rtt :: "ReliableSession \<Rightarrow> ReliableSession" where
  "reset_rtt s = s\<lparr>rs_have_rtt := False, rs_latest_rtt_ms := 0, rs_srtt_ms := 0, rs_rttvar_ms := 0,
     rs_rto_ms := rel_initial_rto_ms (rs_cfg s)\<rparr>"

definition rs_configure :: "ReliabilityConfig \<Rightarrow> ReliableSession \<Rightarrow> ReliableSession" where
  "rs_configure cfg s = reset_rtt (s\<lparr>rs_cfg := cfg\<rparr>)"

definition update_rtt :: "U64 \<Rightarrow> ReliableSession \<Rightarrow> ReliableSession" where
  "update_rtt sample_ms s =
    (let s = s\<lparr>rs_latest_rtt_ms := sample_ms\<rparr>;
         s = (if \<not> rs_have_rtt s
              then s\<lparr>rs_have_rtt := True, rs_srtt_ms := sample_ms, rs_rttvar_ms := max 1 (sample_ms div 2)\<rparr>
              else let abs_delta = (if sample_ms < rs_srtt_ms s then rs_srtt_ms s - sample_ms
                                    else sample_ms - rs_srtt_ms s)
                   in s\<lparr>rs_rttvar_ms := (rs_rttvar_ms s * 3 + abs_delta) div 4,
                        rs_srtt_ms := (rs_srtt_ms s * 7 + sample_ms) div 8\<rparr>);
         penalty = max 1 (rs_rttvar_ms s * 4)
     in s\<lparr>rs_rto_ms := clamp (rs_srtt_ms s + penalty) (rel_min_rto_ms (rs_cfg s)) (rel_max_rto_ms (rs_cfg s))\<rparr>)"

definition update_loss_estimate :: "ReliableSession \<Rightarrow> ReliableSession" where
  "update_loss_estimate s =
    (let denom = max 1 (rs_loss_events s + (rs_next_message_id s - 1))
     in s\<lparr>rs_loss_per_mille := min 1000 ((rs_loss_events s * 1000) div denom)\<rparr>)"

text \<open>
  \<^verbatim>\<open>enqueue\<close>: the queued message or the error, and the session. The message number is consumed
  before the payload is encoded, so an encoding error leaves a gap in the numbering.
\<close>

definition rs_enqueue ::
  "U8 \<Rightarrow> U8 list option \<Rightarrow> U16 \<Rightarrow> SendPriority \<Rightarrow> U64 \<Rightarrow> U64 \<Rightarrow> ReliableSession \<Rightarrow>
   PendingReliableMessage result \<times> ReliableSession" where
  "rs_enqueue user_type data len priority lifetime_ms now_ms s =
    (if unat (rel_max_pending_messages (rs_cfg s)) \<le> length (rs_pending s) then (Inl errc.QueueFull, s)
     else let new_bytes = of_nat (8 + unat len) in
       if rel_max_pending_bytes (rs_cfg s) < rs_pending_bytes s + new_bytes then (Inl errc.QueueFull, s)
       else let s1 = s\<lparr>rs_next_message_id := rs_next_message_id s + 1\<rparr>;
                message_id = rs_next_message_id s;
                buf = replicate (8 + unat len) 0
            in case write_reliable_payload (writer_on buf (length buf)) message_id data len of
                 Inl e \<Rightarrow> (Inl e, s1)
               | Inr w \<Rightarrow>
                 let out = \<lparr>pm_message_id = message_id, pm_user_type = user_type,
                            pm_encoded_payload = the (bw_dst w), pm_priority = priority,
                            pm_lifetime_ms = lifetime_ms, pm_enqueued_ms = now_ms, pm_first_send_ms = 0,
                            pm_last_send_ms = 0, pm_rto_ms = rs_rto_ms s, pm_send_count = 0, pm_inflight = False\<rparr>
                 in (Inr out, s1\<lparr>rs_pending := insert_prio (\<lambda>m. priority_value (pm_priority m)) out (rs_pending s),
                                 rs_pending_bytes := rs_pending_bytes s + new_bytes\<rparr>))"

text \<open>\<^verbatim>\<open>acknowledge\<close>: search for the message, take the round-trip sample, remove it.\<close>

definition dec_inflight :: "PendingReliableMessage \<Rightarrow> ReliableSession \<Rightarrow> ReliableSession" where
  "dec_inflight p s =
    (if pm_inflight p \<and> 0 < rs_inflight_count s then s\<lparr>rs_inflight_count := rs_inflight_count s - 1\<rparr> else s)"

fun split_first :: "('a \<Rightarrow> bool) \<Rightarrow> 'a list \<Rightarrow> ('a list \<times> 'a \<times> 'a list) option" where
  "split_first P [] = None"
| "split_first P (x # xs) =
    (if P x then Some ([], x, xs)
     else case split_first P xs of None \<Rightarrow> None | Some (a, y, b) \<Rightarrow> Some (x # a, y, b))"

definition rs_acknowledge :: "U64 \<Rightarrow> U64 \<Rightarrow> ReliableSession \<Rightarrow> ReliableAckEvent \<times> ReliableSession" where
  "rs_acknowledge message_id now_ms s =
    (case split_first (\<lambda>p. pm_message_id p = message_id) (rs_pending s) of
       None \<Rightarrow> (ReliableAckEvent_default, s)
     | Some (before, p, after) \<Rightarrow>
       let event = ReliableAckEvent_default\<lparr>ae_removed := True, ae_retransmitted := 1 < pm_send_count p\<rparr>;
           s = dec_inflight p s;
           sample = (pm_send_count p = 1 \<and> pm_first_send_ms p \<noteq> 0 \<and> pm_first_send_ms p \<le> now_ms);
           rtt = now_ms - pm_first_send_ms p;
           event = (if sample then event\<lparr>ae_rtt_sample_valid := True, ae_rtt_sample_ms := rtt\<rparr> else event);
           s = (if sample then update_rtt rtt s else s)
       in (event, s\<lparr>rs_pending_bytes := rs_pending_bytes s - of_nat (length (pm_encoded_payload p)),
                    rs_pending := before @ after\<rparr>))"

definition pm_expired :: "U64 \<Rightarrow> PendingReliableMessage \<Rightarrow> bool" where
  "pm_expired now_ms p \<longleftrightarrow> 0 < pm_lifetime_ms p \<and> pm_enqueued_ms p + pm_lifetime_ms p \<le> now_ms"

definition mark_sent :: "U64 \<Rightarrow> PendingReliableMessage \<Rightarrow> PendingReliableMessage" where
  "mark_sent now_ms p =
    p\<lparr>pm_first_send_ms := (if pm_first_send_ms p = 0 then now_ms else pm_first_send_ms p),
      pm_last_send_ms := now_ms, pm_send_count := pm_send_count p + 1\<rparr>"

text \<open>
  The loop of \<^verbatim>\<open>resend_due\<close> over the queue, with the callback \<open>fn\<close> on a caller state: its
  result, the updated messages, the session counters and the caller state.
\<close>

fun resend_loop ::
  "('c \<Rightarrow> PendingReliableMessage \<Rightarrow> unit result \<times> 'c) \<Rightarrow> U64 \<Rightarrow> ReliableSession \<Rightarrow> 'c \<Rightarrow> PendingReliableMessage list \<Rightarrow>
   unit result \<times> PendingReliableMessage list \<times> ReliableSession \<times> 'c" where
  "resend_loop fn now_ms s c [] = (Inr (), [], s, c)"
| "resend_loop fn now_ms s c (p # ps) =
    (if pm_expired now_ms p \<or>
        (pm_inflight p \<and> (pm_last_send_ms p = 0 \<or> now_ms - pm_last_send_ms p < pm_rto_ms p))
     then (case resend_loop fn now_ms s c ps of (r, ps, s, c) \<Rightarrow> (r, p # ps, s, c))
     else let lost = pm_inflight p;
              s = (if lost then dec_inflight p (s\<lparr>rs_loss_events := rs_loss_events s + 1,
                                                   rs_retransmit_events := rs_retransmit_events s + 1\<rparr>) else s);
              p = (if lost then p\<lparr>pm_inflight := False,
                     pm_rto_ms := min (rel_max_rto_ms (rs_cfg s)) (max (rel_min_rto_ms (rs_cfg s)) (pm_rto_ms p * 2))\<rparr> else p)
          in if rel_max_inflight_messages (rs_cfg s) \<le> rs_inflight_count s then (Inr (), p # ps, s, c)
             else (case fn c p of
                     (Inl e, c) \<Rightarrow> (Inl e, p # ps, s, c)
                   | (Inr _, c) \<Rightarrow>
                     let s = (if \<not> pm_inflight p then s\<lparr>rs_inflight_count := rs_inflight_count s + 1\<rparr> else s);
                         p = (mark_sent now_ms p)\<lparr>pm_inflight := True\<rparr>
                     in (case resend_loop fn now_ms s c ps of (r, ps, s, c) \<Rightarrow> (r, p # ps, s, c))))"

definition rs_resend_due ::
  "U64 \<Rightarrow> ('c \<Rightarrow> PendingReliableMessage \<Rightarrow> unit result \<times> 'c) \<Rightarrow> ReliableSession \<Rightarrow> 'c \<Rightarrow> unit result \<times> ReliableSession \<times> 'c" where
  "rs_resend_due now_ms fn s c =
    (case resend_loop fn now_ms s c (rs_pending s) of
       (Inl e, ps, s, c) \<Rightarrow> (Inl e, s\<lparr>rs_pending := ps\<rparr>, c)
     | (Inr _, ps, s, c) \<Rightarrow> (Inr (), update_loss_estimate (s\<lparr>rs_pending := ps\<rparr>), c))"

text \<open>The overload with a fixed delay.\<close>

fun resend_loop_legacy ::
  "('c \<Rightarrow> PendingReliableMessage \<Rightarrow> unit result \<times> 'c) \<Rightarrow> U64 \<Rightarrow> U64 \<Rightarrow> 'c \<Rightarrow> PendingReliableMessage list \<Rightarrow>
   unit result \<times> PendingReliableMessage list \<times> 'c" where
  "resend_loop_legacy fn now_ms delay c [] = (Inr (), [], c)"
| "resend_loop_legacy fn now_ms delay c (p # ps) =
    (if pm_expired now_ms p \<or> (pm_last_send_ms p \<noteq> 0 \<and> now_ms - pm_last_send_ms p < delay)
     then (case resend_loop_legacy fn now_ms delay c ps of (r, ps, c) \<Rightarrow> (r, p # ps, c))
     else (case fn c p of
             (Inl e, c) \<Rightarrow> (Inl e, p # ps, c)
           | (Inr _, c) \<Rightarrow>
             (case resend_loop_legacy fn now_ms delay c ps of (r, ps, c) \<Rightarrow> (r, mark_sent now_ms p # ps, c))))"

definition rs_resend_due_legacy ::
  "U64 \<Rightarrow> U64 \<Rightarrow> ('c \<Rightarrow> PendingReliableMessage \<Rightarrow> unit result \<times> 'c) \<Rightarrow> ReliableSession \<Rightarrow> 'c \<Rightarrow>
   unit result \<times> ReliableSession \<times> 'c" where
  "rs_resend_due_legacy now_ms delay fn s c =
    (case resend_loop_legacy fn now_ms delay c (rs_pending s) of (r, ps, c) \<Rightarrow> (r, s\<lparr>rs_pending := ps\<rparr>, c))"

fun expire_loop :: "U64 \<Rightarrow> ReliableSession \<Rightarrow> PendingReliableMessage list \<Rightarrow> U32 \<times> PendingReliableMessage list \<times> ReliableSession" where
  "expire_loop now_ms s [] = (0, [], s)"
| "expire_loop now_ms s (p # ps) =
    (if pm_lifetime_ms p = 0 \<or> now_ms < pm_enqueued_ms p + pm_lifetime_ms p
     then (case expire_loop now_ms s ps of (n, ps, s) \<Rightarrow> (n, p # ps, s))
     else let s = dec_inflight p s;
              s = s\<lparr>rs_pending_bytes := rs_pending_bytes s - of_nat (length (pm_encoded_payload p))\<rparr>
          in (case expire_loop now_ms s ps of (n, ps, s) \<Rightarrow> (n + 1, ps, s)))"

definition rs_expire_old :: "U64 \<Rightarrow> ReliableSession \<Rightarrow> U32 \<times> ReliableSession" where
  "rs_expire_old now_ms s =
    (case expire_loop now_ms s (rs_pending s) of (n, ps, s) \<Rightarrow> (n, s\<lparr>rs_pending := ps\<rparr>))"

definition rs_note_sent :: "U64 \<Rightarrow> U64 \<Rightarrow> ReliableSession \<Rightarrow> bool \<times> ReliableSession" where
  "rs_note_sent message_id now_ms s =
    (case split_first (\<lambda>p. pm_message_id p = message_id) (rs_pending s) of
       None \<Rightarrow> (False, s)
     | Some (before, p, after) \<Rightarrow>
       if \<not> pm_inflight p \<and> rel_max_inflight_messages (rs_cfg s) \<le> rs_inflight_count s then (False, s)
       else let s = (if \<not> pm_inflight p then s\<lparr>rs_inflight_count := rs_inflight_count s + 1\<rparr> else s);
                p = (mark_sent now_ms p)\<lparr>pm_inflight := True\<rparr>
            in (True, s\<lparr>rs_pending := before @ p # after\<rparr>))"

definition rs_clear :: "ReliableSession \<Rightarrow> ReliableSession" where
  "rs_clear s =
    (reset_rtt (s\<lparr>rs_next_message_id := 1, rs_pending := [], rs_pending_bytes := 0, rs_inflight_count := 0,
        rs_received := rrw_reset (rs_received s)\<rparr>))
    \<lparr>rs_loss_events := 0, rs_retransmit_events := 0, rs_loss_per_mille := 0\<rparr>"

definition rs_accept_incoming :: "U64 \<Rightarrow> ReliableSession \<Rightarrow> bool \<times> ReliableSession" where
  "rs_accept_incoming message_id s =
    (case rrw_accept (rs_received s) message_id of (b, w) \<Rightarrow> (b, s\<lparr>rs_received := w\<rparr>))"

definition rs_seen_incoming :: "U64 \<Rightarrow> ReliableSession \<Rightarrow> bool" where
  "rs_seen_incoming message_id s = rrw_seen_id (rs_received s) message_id"

section \<open>The session invariant\<close>

abbreviation bytes_in :: "PendingReliableMessage list \<Rightarrow> nat" where
  "bytes_in ps \<equiv> sum_list (map (\<lambda>p. length (pm_encoded_payload p)) ps)"

abbreviation inflight_in :: "PendingReliableMessage list \<Rightarrow> nat" where
  "inflight_in ps \<equiv> length (filter pm_inflight ps)"

abbreviation pm_prio :: "PendingReliableMessage \<Rightarrow> nat" where
  "pm_prio p \<equiv> priority_value (pm_priority p)"

definition rto_ok :: "ReliabilityConfig \<Rightarrow> U64 \<Rightarrow> bool" where
  "rto_ok cfg t \<longleftrightarrow> rel_min_rto_ms cfg \<le> t \<and> t \<le> rel_max_rto_ms cfg"

text \<open>
  A configuration that \<^verbatim>\<open>validate_reliability_config\<close> accepts and whose byte budget leaves room
  for one message below \<open>2\<^sup>3\<^sup>2\<close>, so that the 32-bit sum in \<^verbatim>\<open>enqueue\<close> does not wrap around.
\<close>

definition rs_cfg_ok :: "ReliabilityConfig \<Rightarrow> bool" where
  "rs_cfg_ok cfg \<longleftrightarrow> validate_reliability_config cfg = Inr () \<and> unat (rel_max_pending_bytes cfg) + (8 + U16_MAX) < 2 ^ 32"

definition rs_counts_ok :: "ReliableSession \<Rightarrow> bool" where
  "rs_counts_ok s \<longleftrightarrow>
     unat (rs_pending_bytes s) = bytes_in (rs_pending s) \<and>
     unat (rs_inflight_count s) = inflight_in (rs_pending s) \<and>
     bytes_in (rs_pending s) \<le> unat (rel_max_pending_bytes (rs_cfg s)) \<and>
     inflight_in (rs_pending s) \<le> unat (rel_max_inflight_messages (rs_cfg s)) \<and>
     length (rs_pending s) \<le> unat (rel_max_pending_messages (rs_cfg s))"

definition rs_queue_ok :: "ReliableSession \<Rightarrow> bool" where
  "rs_queue_ok s \<longleftrightarrow>
     distinct (map pm_message_id (rs_pending s)) \<and>
     sorted_wrt (\<lambda>a b. pm_prio b \<le> pm_prio a) (rs_pending s) \<and>
     (\<forall>p \<in> set (rs_pending s). pm_message_id p \<noteq> 0 \<and> pm_message_id p < rs_next_message_id s \<and>
        take 8 (pm_encoded_payload p) = be_bytes 8 (pm_message_id p))"

definition rs_timers_ok :: "ReliableSession \<Rightarrow> bool" where
  "rs_timers_ok s \<longleftrightarrow> rto_ok (rs_cfg s) (rs_rto_ms s) \<and> (\<forall>p \<in> set (rs_pending s). rto_ok (rs_cfg s) (pm_rto_ms p))"

definition rs_inv :: "ReliableSession \<Rightarrow> bool" where
  "rs_inv s \<longleftrightarrow> rs_cfg_ok (rs_cfg s) \<and> rs_counts_ok s \<and> rs_queue_ok s \<and> rs_timers_ok s"

lemma rs_cfg_ok_rto: "rs_cfg_ok cfg \<Longrightarrow> rel_min_rto_ms cfg \<le> rel_initial_rto_ms cfg \<and> rel_initial_rto_ms cfg \<le> rel_max_rto_ms cfg"
  by (auto simp: rs_cfg_ok_def validate_reliability_config_def split: if_splits)

lemma rs_clear_inv: "rs_cfg_ok (rs_cfg s) \<Longrightarrow> rs_inv (rs_clear s)"
  using rs_cfg_ok_rto [of "rs_cfg s"]
  by (simp add: rs_inv_def rs_clear_def reset_rtt_def rs_counts_ok_def rs_queue_ok_def rs_timers_ok_def rto_ok_def)

lemma rs_configure_inv: "rs_cfg_ok cfg \<Longrightarrow> rs_inv (rs_configure cfg ReliableSession_default)"
  using rs_cfg_ok_rto [of cfg]
  by (simp add: rs_inv_def rs_configure_def ReliableSession_default_def reset_rtt_def rs_counts_ok_def rs_queue_ok_def
      rs_timers_ok_def rto_ok_def)

lemma update_rtt_frame:
  "rs_cfg (update_rtt t s) = rs_cfg s" "rs_pending (update_rtt t s) = rs_pending s"
  "rs_next_message_id (update_rtt t s) = rs_next_message_id s" "rs_pending_bytes (update_rtt t s) = rs_pending_bytes s"
  "rs_inflight_count (update_rtt t s) = rs_inflight_count s"
  by (simp_all add: update_rtt_def Let_def)

lemma update_rtt_rto:
  assumes "rs_cfg_ok (rs_cfg s)"
  shows "rto_ok (rs_cfg s) (rs_rto_ms (update_rtt t s))"
proof -
  have "rel_min_rto_ms (rs_cfg s) \<le> rel_max_rto_ms (rs_cfg s)" using rs_cfg_ok_rto [OF assms] by (blast intro: order_trans)
  then show ?thesis by (simp add: update_rtt_def Let_def rto_ok_def clamp_bounds)
qed

lemma split_first_Some:
  "split_first P xs = Some (a, y, b) \<Longrightarrow> xs = a @ y # b \<and> P y \<and> (\<forall>x \<in> set a. \<not> P x)"
  by (induction xs arbitrary: a) (auto split: if_splits option.splits prod.splits)

lemma split_first_None: "split_first P xs = None \<longleftrightarrow> (\<forall>x \<in> set xs. \<not> P x)"
  by (induction xs) (auto split: option.splits prod.splits)

subsection \<open>Enqueue\<close>

text \<open>The caller's buffer really holds \<open>len\<close> bytes.\<close>

definition data_ok :: "U8 list option \<Rightarrow> U16 \<Rightarrow> bool" where
  "data_ok data len \<longleftrightarrow> (case data of None \<Rightarrow> True | Some d \<Rightarrow> unat len \<le> length d)"

lemma write_reliable_payload_ok:
  assumes "write_reliable_payload (writer_on (replicate (8 + unat len) 0) (8 + unat len)) mid data len = Inr w"
    and "data_ok data len"
  shows "the (bw_dst w) = be_bytes 8 mid @ take (unat len) (opt_bytes data)" "mid \<noteq> 0"
proof -
  have c: "mid \<noteq> 0" "0 < len \<longrightarrow> data \<noteq> None"
    using assms(1) by (auto simp: write_reliable_payload_def split: if_splits)
  let ?w = "writer_on (replicate (8 + unat len) 0) (8 + unat len)"
  have "(if 0 < len then write_bytes w' data (unat len) else Inr w') = emit (take (unat len) (opt_bytes data)) w'"
    if "writer_wf w'" for w'
    using that assms(2) c(2) by (auto simp: write_bytes_emit opt_bytes_def data_ok_def word_less_nat_alt split: option.splits)
  then have e: "emit (be_bytes 8 mid @ take (unat len) (opt_bytes data)) ?w = Inr w"
    using assms(1) rbind_emit [OF write_u64_emit, of ?w] by (auto simp: write_reliable_payload_def split: if_splits)
  have "length (take (unat len) (opt_bytes data)) = unat len"
    using assms(2) c(2) by (auto simp: opt_bytes_def data_ok_def word_less_nat_alt split: option.splits)
  then show "the (bw_dst w) = be_bytes 8 mid @ take (unat len) (opt_bytes data)" "mid \<noteq> 0"
    using e c by (auto simp: emit_writer_on split: if_splits)
qed

text \<open>The three outcomes of \<^verbatim>\<open>enqueue\<close>.\<close>

lemma rs_enqueue_cases:
  assumes "rs_enqueue ty data len prio life now s = (r, s')" "data_ok data len"
  obtains (full) "r = Inl errc.QueueFull" "s' = s"
  | (refused) e where "r = Inl e" "s' = s\<lparr>rs_next_message_id := rs_next_message_id s + 1\<rparr>"
  | (queued) out where "r = Inr out" "rs_next_message_id s \<noteq> 0"
    "length (rs_pending s) < unat (rel_max_pending_messages (rs_cfg s))"
    "rs_pending_bytes s + of_nat (8 + unat len) \<le> rel_max_pending_bytes (rs_cfg s)"
    "pm_message_id out = rs_next_message_id s" "pm_user_type out = ty" "pm_priority out = prio"
    "pm_encoded_payload out = be_bytes 8 (rs_next_message_id s) @ take (unat len) (opt_bytes data)"
    "length (pm_encoded_payload out) = 8 + unat len" "pm_rto_ms out = rs_rto_ms s" "\<not> pm_inflight out"
    "s' = s\<lparr>rs_next_message_id := rs_next_message_id s + 1, rs_pending := insert_prio pm_prio out (rs_pending s),
        rs_pending_bytes := rs_pending_bytes s + of_nat (8 + unat len)\<rparr>"
proof -
  let ?buf = "replicate (8 + unat len) 0 :: U8 list" and ?mid = "rs_next_message_id s"
  let ?wr = "write_reliable_payload (writer_on ?buf (length ?buf)) ?mid data len"
  show thesis
  proof (cases "unat (rel_max_pending_messages (rs_cfg s)) \<le> length (rs_pending s) \<or>
      rel_max_pending_bytes (rs_cfg s) < rs_pending_bytes s + of_nat (8 + unat len)")
    case True
    then show thesis using assms(1) by (intro full) (auto simp: rs_enqueue_def Let_def split: if_splits)
  next
    case False
    then have c: "\<not> unat (rel_max_pending_messages (rs_cfg s)) \<le> length (rs_pending s)"
      "\<not> rel_max_pending_bytes (rs_cfg s) < rs_pending_bytes s + of_nat (8 + unat len)" by auto
    show thesis
    proof (cases ?wr)
      case (Inl e)
      then show thesis using assms(1) c by (intro refused [of e]) (auto simp: rs_enqueue_def Let_def)
    next
      case (Inr w)
      note p = write_reliable_payload_ok [OF _ assms(2), of ?mid w]
      have "0 < len \<longrightarrow> data \<noteq> None" using Inr by (auto simp: write_reliable_payload_def split: if_splits)
      then have "length (take (unat len) (opt_bytes data)) = unat len"
        using assms(2) by (auto simp: opt_bytes_def data_ok_def word_less_nat_alt split: option.splits)
      then show thesis
        using assms(1) c p Inr by (intro queued) (auto simp: rs_enqueue_def Let_def)
    qed
  qed
qed

lemma rs_enqueue_inv:
  assumes inv: "rs_inv s" and d: "data_ok data len" and id: "unat (rs_next_message_id s) + 1 < 2 ^ 64"
    and res: "rs_enqueue ty data len prio life now s = (r, s')"
  shows "rs_inv s'"
proof -
  let ?mid = "rs_next_message_id s"
  have nxt: "x < ?mid + 1" if "x \<le> ?mid" for x
    using that unat_plus_one [of ?mid] id by (simp add: word_less_nat_alt word_le_nat_alt)
  show ?thesis
    using res d
  proof (cases rule: rs_enqueue_cases)
    case full
    then show ?thesis using inv by simp
  next
    case (refused e)
    then show ?thesis
      using inv nxt by (auto simp: rs_inv_def rs_counts_ok_def rs_queue_ok_def rs_timers_ok_def)
  next
    case (queued out)
    have i: "rs_cfg_ok (rs_cfg s)" "rs_counts_ok s" "rs_queue_ok s" "rs_timers_ok s" using inv by (auto simp: rs_inv_def)
    have small: "unat len \<le> U16_MAX" using unat_less_pow [of len] by (simp add: U16_MAX_def)
    then have "unat (rs_pending_bytes s) + (8 + unat len) < 2 ^ 32"
      using i(1,2) by (simp add: rs_cfg_ok_def rs_counts_ok_def)
    then have bytes: "unat (rs_pending_bytes s + of_nat (8 + unat len)) = unat (rs_pending_bytes s) + (8 + unat len)"
      using small by (simp add: unat_word_ariths unat_of_nat_small U16_MAX_def del: of_nat_add)
    have "rs_counts_ok s'"
      using i(2) queued bytes by (auto simp: rs_counts_ok_def word_le_nat_alt filter_insert_prio)
    moreover have "rs_queue_ok s'"
      using i(3) queued nxt insert_prio_sorted [of pm_prio "rs_pending s" out]
      by (auto simp: rs_queue_ok_def distinct_insert_prio less_imp_le)
    moreover have "rs_timers_ok s'" using i(4) queued by (auto simp: rs_timers_ok_def)
    ultimately show ?thesis using i(1) queued by (simp add: rs_inv_def)
  qed
qed

subsection \<open>Acknowledgement and expiry\<close>

lemma dec_inflight_exact:
  assumes "unat (rs_inflight_count s) = (if pm_inflight p then 1 else 0) + n"
  shows "dec_inflight p s = s\<lparr>rs_inflight_count := of_nat n\<rparr>"
proof -
  have c: "rs_inflight_count s = of_nat ((if pm_inflight p then 1 else 0) + n)"
    unfolding assms [symmetric] by simp
  have "0 < rs_inflight_count s \<longleftrightarrow> pm_inflight p \<or> 0 < n" using assms by (auto simp: word_less_nat_alt)
  then have "dec_inflight p s = s\<lparr>rs_inflight_count := (if pm_inflight p then rs_inflight_count s - 1 else rs_inflight_count s)\<rparr>"
    by (simp add: dec_inflight_def)
  then show ?thesis using c by (simp split: if_splits)
qed

lemma unat_of_nat_le: "unat (x :: 'a::len word) = m \<Longrightarrow> n \<le> m \<Longrightarrow> unat (of_nat n :: 'a word) = n"
  using unat_less_pow [of x] by (intro unat_of_nat_small) simp

lemma bytes_sub:
  assumes "unat (b :: U32) = k + n"
  shows "b - of_nat k = of_nat n"
proof -
  have "b = of_nat (k + n)" unfolding assms [symmetric] by simp
  then show ?thesis by simp
qed

text \<open>Removing one message from an invariant session.\<close>

lemma rs_inv_remove:
  assumes inv: "rs_inv s" and ps: "rs_pending s = a @ p # b"
    and s': "rs_pending s' = a @ b" "rs_cfg s' = rs_cfg s" "rs_next_message_id s' = rs_next_message_id s"
      "rs_pending_bytes s' = rs_pending_bytes s - of_nat (length (pm_encoded_payload p))"
      "rs_inflight_count s' = rs_inflight_count (dec_inflight p s)" "rto_ok (rs_cfg s) (rs_rto_ms s')"
  shows "rs_inv s'"
proof -
  have i: "rs_cfg_ok (rs_cfg s)" "rs_counts_ok s" "rs_queue_ok s" "rs_timers_ok s" using inv by (auto simp: rs_inv_def)
  have n: "unat (rs_inflight_count s) = (if pm_inflight p then 1 else 0) + inflight_in (a @ b)"
    "unat (rs_pending_bytes s) = length (pm_encoded_payload p) + bytes_in (a @ b)"
    using i(2) ps by (auto simp: rs_counts_ok_def)
  have "rs_inflight_count s' = of_nat (inflight_in (a @ b))" "rs_pending_bytes s' = of_nat (bytes_in (a @ b))"
    using s'(4,5) dec_inflight_exact [OF n(1)] bytes_sub [OF n(2)] by simp_all
  moreover have "unat (of_nat (inflight_in (a @ b)) :: U32) = inflight_in (a @ b)"
    by (rule unat_of_nat_le [OF n(1)]) simp
  moreover have "unat (of_nat (bytes_in (a @ b)) :: U32) = bytes_in (a @ b)"
    by (rule unat_of_nat_le [OF n(2)]) simp
  ultimately have "unat (rs_inflight_count s') = inflight_in (a @ b)" "unat (rs_pending_bytes s') = bytes_in (a @ b)"
    by (simp_all only:)
  then have "rs_counts_ok s'" using i(2) s' ps by (auto simp: rs_counts_ok_def split: if_splits)
  moreover have "rs_queue_ok s'" using i(3) s' ps by (auto simp: rs_queue_ok_def sorted_wrt_append)
  moreover have "rs_timers_ok s'" using i(4) s' ps by (auto simp: rs_timers_ok_def)
  ultimately show ?thesis using i(1) s' by (simp add: rs_inv_def)
qed

lemma dec_inflight_frame:
  "rs_cfg (dec_inflight p s) = rs_cfg s" "rs_pending (dec_inflight p s) = rs_pending s"
  "rs_next_message_id (dec_inflight p s) = rs_next_message_id s"
  "rs_pending_bytes (dec_inflight p s) = rs_pending_bytes s" "rs_rto_ms (dec_inflight p s) = rs_rto_ms s"
  by (simp_all add: dec_inflight_def)

lemma rs_acknowledge_inv:
  assumes "rs_inv s" "rs_acknowledge mid now s = (e, s')"
  shows "rs_inv s'"
proof (cases "split_first (\<lambda>p. pm_message_id p = mid) (rs_pending s)")
  case None
  then show ?thesis using assms by (simp add: rs_acknowledge_def)
next
  case (Some x)
  obtain a p b where x: "x = (a, p, b)" by (cases x)
  have ps: "rs_pending s = a @ p # b" using split_first_Some [OF Some [unfolded x]] by simp
  let ?d = "dec_inflight p s"
  have "rto_ok (rs_cfg s) (rs_rto_ms s)" "rs_cfg_ok (rs_cfg s)" using assms(1) by (auto simp: rs_inv_def rs_timers_ok_def)
  then have rto: "rto_ok (rs_cfg s) (rs_rto_ms ?d)" "\<And>t. rto_ok (rs_cfg s) (rs_rto_ms (update_rtt t ?d))"
    using update_rtt_rto [of ?d] by (simp_all add: dec_inflight_frame)
  define s1 where "s1 = (if pm_send_count p = 1 \<and> pm_first_send_ms p \<noteq> 0 \<and> pm_first_send_ms p \<le> now
    then update_rtt (now - pm_first_send_ms p) ?d else ?d)"
  have s': "s' = s1\<lparr>rs_pending_bytes := rs_pending_bytes s1 - of_nat (length (pm_encoded_payload p)), rs_pending := a @ b\<rparr>"
    using assms(2) Some x unfolding s1_def by (auto simp: rs_acknowledge_def Let_def)
  have "rs_cfg s1 = rs_cfg s" "rs_next_message_id s1 = rs_next_message_id s" "rs_pending_bytes s1 = rs_pending_bytes s"
    "rs_inflight_count s1 = rs_inflight_count ?d" "rto_ok (rs_cfg s) (rs_rto_ms s1)"
    using rto by (simp_all add: s1_def update_rtt_frame dec_inflight_frame)
  then show ?thesis by (intro rs_inv_remove [OF assms(1) ps]) (simp_all add: s')
qed

text \<open>\<^verbatim>\<open>expire_old\<close> removes exactly the messages whose lifetime has passed.\<close>

lemma pm_expired_iff: "pm_lifetime_ms p = 0 \<or> now < pm_enqueued_ms p + pm_lifetime_ms p \<longleftrightarrow> \<not> pm_expired now p"
  using word_gt_0 [of "pm_lifetime_ms p"] by (auto simp: pm_expired_def)

lemma expire_loop_exact:
  "unat (rs_pending_bytes s) = k + bytes_in ps \<Longrightarrow> unat (rs_inflight_count s) = j + inflight_in ps \<Longrightarrow>
   expire_loop now s ps = (n, ps', s') \<Longrightarrow>
   ps' = filter (\<lambda>p. \<not> pm_expired now p) ps \<and>
   unat (rs_pending_bytes s') = k + bytes_in ps' \<and> unat (rs_inflight_count s') = j + inflight_in ps' \<and>
   s' = s\<lparr>rs_pending_bytes := rs_pending_bytes s', rs_inflight_count := rs_inflight_count s'\<rparr>"
proof (induction ps arbitrary: s k j n ps')
  case (Cons p ps)
  show ?case
  proof (cases "pm_expired now p")
    case False
    then show ?thesis
      using Cons.prems Cons.IH [of s "k + length (pm_encoded_payload p)" "j + (if pm_inflight p then 1 else 0)"]
      by (auto simp: pm_expired_iff algebra_simps split: prod.splits if_splits)
  next
    case True
    define s1 where "s1 = (dec_inflight p s)\<lparr>rs_pending_bytes := rs_pending_bytes s - of_nat (length (pm_encoded_payload p))\<rparr>"
    have c: "unat (rs_inflight_count s) = (if pm_inflight p then 1 else 0) + (j + inflight_in ps)"
      "unat (rs_pending_bytes s) = length (pm_encoded_payload p) + (k + bytes_in ps)"
      using Cons.prems(1,2) by auto
    have s1: "s1 = s\<lparr>rs_inflight_count := of_nat (j + inflight_in ps), rs_pending_bytes := of_nat (k + bytes_in ps)\<rparr>"
      unfolding s1_def dec_inflight_exact [OF c(1)] bytes_sub [OF c(2)] by simp
    have u: "unat (of_nat (j + inflight_in ps) :: U32) = j + inflight_in ps" "unat (of_nat (k + bytes_in ps) :: U32) = k + bytes_in ps"
      by (rule unat_of_nat_le [OF c(1)], simp) (rule unat_of_nat_le [OF c(2)], simp)
    obtain n1 where e: "expire_loop now s1 ps = (n1, ps', s')"
      using Cons.prems(3) True by (auto simp: s1_def pm_expired_iff dec_inflight_frame Let_def split: prod.splits)
    have "unat (rs_pending_bytes s1) = k + bytes_in ps" "unat (rs_inflight_count s1) = j + inflight_in ps"
      unfolding s1 using u by (simp_all del: of_nat_add)
    then show ?thesis using Cons.IH [OF _ _ e] True unfolding s1 by auto
  qed
qed auto

lemma sum_list_filter_le: "sum_list (map f (filter P xs)) \<le> sum_list (map f xs)" for f :: "'a \<Rightarrow> nat"
  by (induction xs) auto

lemma inflight_filter_le: "inflight_in (filter P ps) \<le> inflight_in ps"
  by (induction ps) auto

lemma rs_expire_old_inv:
  assumes "rs_inv s" "rs_expire_old now s = (n, s')"
  shows "rs_inv s' \<and> rs_pending s' = filter (\<lambda>p. \<not> pm_expired now p) (rs_pending s)"
proof -
  have i: "rs_cfg_ok (rs_cfg s)" "rs_counts_ok s" "rs_queue_ok s" "rs_timers_ok s" using assms(1) by (auto simp: rs_inv_def)
  obtain ps1 s1 where e: "expire_loop now s (rs_pending s) = (n, ps1, s1)" "s' = s1\<lparr>rs_pending := ps1\<rparr>"
    using assms(2) by (auto simp: rs_expire_old_def split: prod.splits)
  have x: "ps1 = filter (\<lambda>p. \<not> pm_expired now p) (rs_pending s)"
    "unat (rs_pending_bytes s1) = bytes_in ps1" "unat (rs_inflight_count s1) = inflight_in ps1"
    "s1 = s\<lparr>rs_pending_bytes := rs_pending_bytes s1, rs_inflight_count := rs_inflight_count s1\<rparr>"
    using expire_loop_exact [OF _ _ e(1), of 0 0] i(2) by (auto simp: rs_counts_ok_def)
  have f: "rs_cfg s' = rs_cfg s" "rs_next_message_id s' = rs_next_message_id s" "rs_rto_ms s' = rs_rto_ms s"
    "rs_pending s' = ps1"
    unfolding e(2) by (subst x(4), simp)+
  have "bytes_in ps1 \<le> bytes_in (rs_pending s)" "inflight_in ps1 \<le> inflight_in (rs_pending s)" "length ps1 \<le> length (rs_pending s)"
    unfolding x(1) by (rule sum_list_filter_le inflight_filter_le length_filter_le)+
  then have "rs_counts_ok s'" using i(2) x(2,3) f by (auto simp: rs_counts_ok_def e(2))
  moreover have "rs_queue_ok s'"
    using i(3) x(1) f by (auto simp: rs_queue_ok_def distinct_map_filter sorted_wrt_filter)
  moreover have "rs_timers_ok s'" using i(4) x(1) f by (auto simp: rs_timers_ok_def)
  ultimately show ?thesis using i(1) x(1) f by (simp add: rs_inv_def)
qed

subsection \<open>Sending and retransmission\<close>

text \<open>What a pass over the queue keeps of each message.\<close>

definition same_message :: "ReliabilityConfig \<Rightarrow> PendingReliableMessage \<Rightarrow> PendingReliableMessage \<Rightarrow> bool" where
  "same_message cfg p q \<longleftrightarrow>
     pm_message_id q = pm_message_id p \<and> pm_encoded_payload q = pm_encoded_payload p \<and>
     pm_priority q = pm_priority p \<and> pm_user_type q = pm_user_type p \<and> (rto_ok cfg (pm_rto_ms p) \<longrightarrow> rto_ok cfg (pm_rto_ms q))"

lemma same_message_refl [simp]: "same_message cfg p p"
  by (simp add: same_message_def)

lemma list_all2_same_refl [simp]: "list_all2 (same_message cfg) ps ps"
  by (simp add: list_all2_conv_all_nth)

lemma same_messages_map:
  assumes "list_all2 (same_message cfg) ps qs"
  shows "map pm_message_id qs = map pm_message_id ps" "map pm_prio qs = map pm_prio ps"
    "map pm_encoded_payload qs = map pm_encoded_payload ps" "length qs = length ps"
    "(\<forall>p \<in> set ps. rto_ok cfg (pm_rto_ms p)) \<longrightarrow> (\<forall>q \<in> set qs. rto_ok cfg (pm_rto_ms q))"
    "\<forall>q \<in> set qs. \<exists>p \<in> set ps. pm_message_id q = pm_message_id p \<and> pm_encoded_payload q = pm_encoded_payload p"
  using assms by (induction rule: list_all2_induct) (auto simp: same_message_def)

text \<open>Replacing the queue by one with the same messages.\<close>

lemma rs_inv_same:
  assumes inv: "rs_inv s" and same: "list_all2 (same_message (rs_cfg s)) (rs_pending s) (rs_pending s')"
    and s': "rs_cfg s' = rs_cfg s" "rs_next_message_id s' = rs_next_message_id s" "rs_pending_bytes s' = rs_pending_bytes s"
      "rs_rto_ms s' = rs_rto_ms s" "unat (rs_inflight_count s') = inflight_in (rs_pending s')"
      "inflight_in (rs_pending s') \<le> unat (rel_max_inflight_messages (rs_cfg s))"
  shows "rs_inv s'"
proof -
  note m = same_messages_map [OF same]
  have i: "rs_cfg_ok (rs_cfg s)" "rs_counts_ok s" "rs_queue_ok s" "rs_timers_ok s" using inv by (auto simp: rs_inv_def)
  have "bytes_in (rs_pending s') = bytes_in (rs_pending s)"
    using arg_cong [OF m(3), of "\<lambda>xs. sum_list (map length xs)"] by (simp add: comp_def)
  then have "rs_counts_ok s'" using i(2) s' m(4) by (simp add: rs_counts_ok_def)
  moreover have "rs_queue_ok s'"
  proof -
    have "sorted_wrt (\<lambda>a b. b \<le> a) (map pm_prio (rs_pending s'))"
      using i(3) m(2) by (simp add: rs_queue_ok_def sorted_wrt_map)
    moreover have "pm_message_id q \<noteq> 0 \<and> pm_message_id q < rs_next_message_id s \<and>
        take 8 (pm_encoded_payload q) = be_bytes 8 (pm_message_id q)" if "q \<in> set (rs_pending s')" for q
      using m(6) that i(3) by (fastforce simp: rs_queue_ok_def)
    ultimately show ?thesis
      using i(3) m(1) s'(2) by (simp add: rs_queue_ok_def sorted_wrt_map)
  qed
  moreover have "rs_timers_ok s'" using i(4) m(5) s' by (auto simp: rs_timers_ok_def)
  ultimately show ?thesis using i(1) s' by (simp add: rs_inv_def)
qed

lemma mark_sent_same: "same_message cfg p ((mark_sent now p)\<lparr>pm_inflight := b\<rparr>)"
  by (simp add: same_message_def mark_sent_def)

lemma rs_note_sent_inv:
  assumes "rs_inv s" "rs_note_sent mid now s = (b, s')"
  shows "rs_inv s'"
proof (cases "split_first (\<lambda>p. pm_message_id p = mid) (rs_pending s)")
  case None
  then show ?thesis using assms by (simp add: rs_note_sent_def)
next
  case (Some x)
  obtain a p c where x: "x = (a, p, c)" by (cases x)
  have ps: "rs_pending s = a @ p # c" using split_first_Some [OF Some [unfolded x]] by simp
  let ?q = "(mark_sent now p)\<lparr>pm_inflight := True\<rparr>"
  have n: "unat (rs_inflight_count s) = inflight_in (rs_pending s)" "inflight_in (rs_pending s) \<le> unat (rel_max_inflight_messages (rs_cfg s))"
    using assms(1) by (auto simp: rs_inv_def rs_counts_ok_def)
  have "inflight_in (a @ ?q # c) = (if pm_inflight p then 0 else 1) + inflight_in (rs_pending s)" by (simp add: ps)
  moreover have "unat (rs_inflight_count s + 1) = unat (rs_inflight_count s) + 1"
    if "\<not> rel_max_inflight_messages (rs_cfg s) \<le> rs_inflight_count s"
    using that unat_less_pow [of "rel_max_inflight_messages (rs_cfg s)"] by (intro unat_plus_one) (simp add: word_le_nat_alt)
  moreover have "list_all2 (same_message (rs_cfg s)) (rs_pending s) (a @ ?q # c)"
    by (simp add: ps list_all2_append mark_sent_same)
  ultimately show ?thesis
    using assms Some x n by (auto simp: rs_note_sent_def Let_def word_le_nat_alt split: if_splits intro!: rs_inv_same [OF assms(1)])
qed

text \<open>
  The retransmission loop, entered with \<open>j\<close> messages in flight outside the rest of the queue: it
  changes timers, send counts and in-flight marks only, and keeps the count of messages in flight.
\<close>

lemma resend_rto_ok:
  "rs_cfg_ok cfg \<Longrightarrow> rto_ok cfg (min (rel_max_rto_ms cfg) (max (rel_min_rto_ms cfg) t))"
  using rs_cfg_ok_rto [of cfg] by (auto simp: rto_ok_def min_def max_def)

definition lost_msg :: "ReliabilityConfig \<Rightarrow> PendingReliableMessage \<Rightarrow> PendingReliableMessage" where
  "lost_msg cfg p = (if pm_inflight p then p\<lparr>pm_inflight := False,
     pm_rto_ms := min (rel_max_rto_ms cfg) (max (rel_min_rto_ms cfg) (pm_rto_ms p * 2))\<rparr> else p)"

definition lost_session :: "PendingReliableMessage \<Rightarrow> ReliableSession \<Rightarrow> ReliableSession" where
  "lost_session p s = (if pm_inflight p then dec_inflight p (s\<lparr>rs_loss_events := rs_loss_events s + 1,
     rs_retransmit_events := rs_retransmit_events s + 1\<rparr>) else s)"

lemma lost_session_frame:
  "rs_cfg (lost_session p s) = rs_cfg s" "rs_next_message_id (lost_session p s) = rs_next_message_id s"
  "rs_pending_bytes (lost_session p s) = rs_pending_bytes s" "rs_rto_ms (lost_session p s) = rs_rto_ms s"
  by (simp_all add: lost_session_def dec_inflight_def)

lemma lost_session_count:
  assumes "unat (rs_inflight_count s) = j + inflight_in (p # ps)"
  shows "unat (rs_inflight_count (lost_session p s)) = j + inflight_in ps"
proof (cases "pm_inflight p")
  case True
  then have c: "unat (rs_inflight_count s) = (if pm_inflight p then 1 else 0) + (j + inflight_in ps)" using assms by simp
  then have "rs_inflight_count (lost_session p s) = of_nat (j + inflight_in ps)"
    using True dec_inflight_exact [of "s\<lparr>rs_loss_events := rs_loss_events s + 1, rs_retransmit_events := rs_retransmit_events s + 1\<rparr>" p]
    by (simp add: lost_session_def)
  then show ?thesis using unat_of_nat_le [OF c, of "j + inflight_in ps"] by (simp only: le_add2)
qed (use assms in \<open>simp add: lost_session_def\<close>)

lemma lost_msg_same: "rs_cfg_ok cfg \<Longrightarrow> same_message cfg p (lost_msg cfg p)" "\<not> pm_inflight (lost_msg cfg p)"
  by (auto simp: same_message_def lost_msg_def resend_rto_ok)

text \<open>The loop body over these two functions.\<close>

lemma resend_loop_Cons:
  "resend_loop fn now s c (p # ps) =
    (if pm_expired now p \<or> (pm_inflight p \<and> (pm_last_send_ms p = 0 \<or> now - pm_last_send_ms p < pm_rto_ms p))
     then (case resend_loop fn now s c ps of (r, ps, s, c) \<Rightarrow> (r, p # ps, s, c))
     else let s = lost_session p s; p = lost_msg (rs_cfg s) p in
       if rel_max_inflight_messages (rs_cfg s) \<le> rs_inflight_count s then (Inr (), p # ps, s, c)
       else (case fn c p of
               (Inl e, c) \<Rightarrow> (Inl e, p # ps, s, c)
             | (Inr _, c) \<Rightarrow> (case resend_loop fn now (s\<lparr>rs_inflight_count := rs_inflight_count s + 1\<rparr>) c ps of
                 (r, ps, s, c) \<Rightarrow> (r, (mark_sent now p)\<lparr>pm_inflight := True\<rparr> # ps, s, c))))"
  by (auto simp: Let_def lost_session_def lost_msg_def dec_inflight_frame split: prod.splits sum.splits)

definition session_frame :: "ReliableSession \<Rightarrow> ReliableSession \<Rightarrow> bool" where
  "session_frame s s' \<longleftrightarrow> rs_cfg s' = rs_cfg s \<and> rs_next_message_id s' = rs_next_message_id s \<and>
     rs_pending_bytes s' = rs_pending_bytes s \<and> rs_rto_ms s' = rs_rto_ms s"

lemma resend_loop_inv:
  assumes "rs_cfg_ok (rs_cfg s)" "unat (rs_inflight_count s) = j + inflight_in ps"
    "j + inflight_in ps \<le> unat (rel_max_inflight_messages (rs_cfg s))" "resend_loop fn now s c ps = (r, ps', s', c')"
  shows "list_all2 (same_message (rs_cfg s)) ps ps' \<and> session_frame s s' \<and>
    unat (rs_inflight_count s') = j + inflight_in ps' \<and> j + inflight_in ps' \<le> unat (rel_max_inflight_messages (rs_cfg s))"
  using assms
proof (induction ps arbitrary: j s c ps')
  case Nil
  then show ?case by (simp add: session_frame_def)
next
  case (Cons p ps)
  let ?s1 = "lost_session p s" and ?p1 = "lost_msg (rs_cfg s) p"
  let ?s2 = "?s1\<lparr>rs_inflight_count := rs_inflight_count ?s1 + 1\<rparr>"
  let ?p2 = "(mark_sent now ?p1)\<lparr>pm_inflight := True\<rparr>"
  note f1 = lost_session_frame [of p s]
  have n1: "unat (rs_inflight_count ?s1) = j + inflight_in ps" using lost_session_count [OF Cons.prems(2)] .
  have same: "same_message (rs_cfg s) p ?p1" "\<not> pm_inflight ?p1" using lost_msg_same(1) [OF Cons.prems(1)] lost_msg_same(2) by auto
  have le1: "j + inflight_in ps \<le> unat (rel_max_inflight_messages (rs_cfg s))" using Cons.prems(3) by (simp split: if_splits)
  consider (skip) ps1 where "resend_loop fn now s c ps = (r, ps1, s', c')" "ps' = p # ps1"
    | (stop) "ps' = ?p1 # ps" "s' = ?s1"
    | (sent) ps2 c2 where "\<not> rel_max_inflight_messages (rs_cfg s) \<le> rs_inflight_count ?s1"
      "resend_loop fn now ?s2 c2 ps = (r, ps2, s', c')" "ps' = ?p2 # ps2"
    using Cons.prems(4) unfolding resend_loop_Cons Let_def f1(1)
    by (auto split: if_splits prod.splits sum.splits)
  then show ?case
  proof cases
    case skip
    then show ?thesis
      using Cons.IH [of s "j + (if pm_inflight p then 1 else 0)" c ps1] Cons.prems by (auto split: if_splits)
  next
    case stop
    then show ?thesis using same n1 le1 f1 by (simp add: session_frame_def)
  next
    case sent
    have n2: "unat (rs_inflight_count ?s2) = (j + 1) + inflight_in ps" "(j + 1) + inflight_in ps \<le> unat (rel_max_inflight_messages (rs_cfg s))"
      using sent(1) n1 unat_plus_one [of "rs_inflight_count ?s1"] unat_less_pow [of "rel_max_inflight_messages (rs_cfg s)"]
      by (simp_all add: word_le_nat_alt)
    have "same_message (rs_cfg s) p ?p2"
      using same(1) by (simp add: same_message_def mark_sent_def)
    then show ?thesis
      using Cons.IH [OF _ n2(1) _ sent(2)] Cons.prems(1) n2(2) sent(3) f1 by (auto simp: session_frame_def)
  qed
qed

lemma update_loss_frame:
  "session_frame s (update_loss_estimate s)" "rs_pending (update_loss_estimate s) = rs_pending s"
  "rs_inflight_count (update_loss_estimate s) = rs_inflight_count s"
  by (simp_all add: session_frame_def update_loss_estimate_def Let_def)

lemma rs_resend_due_inv:
  assumes inv: "rs_inv s" and res: "rs_resend_due now fn s c = (r, s', c')"
  shows "rs_inv s' \<and> list_all2 (same_message (rs_cfg s)) (rs_pending s) (rs_pending s')"
proof -
  have i: "rs_cfg_ok (rs_cfg s)" "unat (rs_inflight_count s) = 0 + inflight_in (rs_pending s)"
    "0 + inflight_in (rs_pending s) \<le> unat (rel_max_inflight_messages (rs_cfg s))"
    using inv by (auto simp: rs_inv_def rs_counts_ok_def)
  obtain r1 ps1 s1 where l: "resend_loop fn now s c (rs_pending s) = (r1, ps1, s1, c')"
    and s': "s' = s1\<lparr>rs_pending := ps1\<rparr> \<or> s' = update_loss_estimate (s1\<lparr>rs_pending := ps1\<rparr>)"
    using res by (auto simp: rs_resend_due_def split: prod.splits sum.splits)
  note x = resend_loop_inv [OF i l]
  have "rs_pending s' = ps1" "rs_inflight_count s' = rs_inflight_count s1" "session_frame s s'"
    using s' x update_loss_frame [of "s1\<lparr>rs_pending := ps1\<rparr>"] by (auto simp: session_frame_def)
  then show ?thesis using x by (auto simp: session_frame_def intro!: rs_inv_same [OF inv])
qed

section \<open>Every run of a session keeps the invariant\<close>

text \<open>
  The operations of a session as values. The callback of a retransmission pass is given by the list
  of its outcomes, in the order of its calls.
\<close>

datatype rs_op =
    Enqueue U8 "U8 list" SendPriority U64 U64
  | Acknowledge U64 U64
  | ResendDue U64 "unit result list"
  | ExpireOld U64
  | NoteSent U64 U64
  | AcceptIncoming U64
  | Clear

definition scripted :: "unit result list \<Rightarrow> PendingReliableMessage \<Rightarrow> unit result \<times> unit result list" where
  "scripted rs p = (case rs of [] \<Rightarrow> (Inr (), []) | r # rs \<Rightarrow> (r, rs))"

fun rs_exec :: "rs_op \<Rightarrow> ReliableSession \<Rightarrow> ReliableSession" where
  "rs_exec (Enqueue ty d prio life now) s =
     snd (rs_enqueue ty (if d = [] then None else Some d) (of_nat (length d)) prio life now s)"
| "rs_exec (Acknowledge mid now) s = snd (rs_acknowledge mid now s)"
| "rs_exec (ResendDue now rs) s = fst (snd (rs_resend_due now scripted s rs))"
| "rs_exec (ExpireOld now) s = snd (rs_expire_old now s)"
| "rs_exec (NoteSent mid now) s = snd (rs_note_sent mid now s)"
| "rs_exec (AcceptIncoming mid) s = snd (rs_accept_incoming mid s)"
| "rs_exec Clear s = rs_clear s"

lemma data_ok_list: "data_ok (if d = [] then None else Some d) (of_nat (length d))"
  using unat_word_ariths by (simp add: data_ok_def unat_of_nat take_bit_nat_less_eq_self)

lemma rs_exec_inv:
  assumes "rs_inv s" "unat (rs_next_message_id s) + 1 < 2 ^ 64"
  shows "rs_inv (rs_exec x s)"
proof (cases x)
  case (Enqueue ty d prio life now)
  then show ?thesis using rs_enqueue_inv [OF assms(1) data_ok_list assms(2) prod.collapse [symmetric]] by simp
next
  case (Acknowledge mid now)
  then show ?thesis using rs_acknowledge_inv [OF assms(1) prod.collapse [symmetric]] by simp
next
  case (ResendDue now rs)
  obtain r s' c' where e: "rs_resend_due now scripted s rs = (r, s', c')" by (cases "rs_resend_due now scripted s rs")
  then show ?thesis using ResendDue rs_resend_due_inv [OF assms(1) e] by simp
next
  case (ExpireOld now)
  then show ?thesis using rs_expire_old_inv [OF assms(1) prod.collapse [symmetric]] by simp
next
  case (NoteSent mid now)
  then show ?thesis using rs_note_sent_inv [OF assms(1) prod.collapse [symmetric]] by simp
next
  case (AcceptIncoming mid)
  then show ?thesis
    using assms(1)
    by (simp add: rs_accept_incoming_def rs_inv_def rs_counts_ok_def rs_queue_ok_def rs_timers_ok_def split: prod.splits)
next
  case Clear
  have "rs_cfg_ok (rs_cfg s)" using assms(1) by (simp add: rs_inv_def)
  then show ?thesis using Clear by (simp add: rs_clear_inv)
qed

lemma rs_acknowledge_next: "rs_next_message_id (snd (rs_acknowledge mid now s)) = rs_next_message_id s"
  by (simp add: rs_acknowledge_def Let_def update_rtt_frame dec_inflight_frame split: option.splits prod.splits)

lemma expire_loop_next: "expire_loop now s ps = (n, ps', s') \<Longrightarrow> rs_next_message_id s' = rs_next_message_id s"
  by (induction ps arbitrary: s n ps') (auto simp: Let_def dec_inflight_frame split: if_splits prod.splits)

lemma resend_loop_next: "resend_loop fn now s c ps = (r, ps', s', c') \<Longrightarrow> rs_next_message_id s' = rs_next_message_id s"
proof (induction ps arbitrary: s c ps')
  case (Cons p ps)
  then show ?case
    unfolding resend_loop_Cons
    by (fastforce simp: Let_def lost_session_frame split: if_splits prod.splits sum.splits)
qed simp

lemma rs_exec_next:
  assumes "unat (rs_next_message_id s) + 1 < 2 ^ 64"
  shows "unat (rs_next_message_id (rs_exec x s)) \<le> unat (rs_next_message_id s) + 1"
proof (cases x)
  case (Enqueue ty d prio life now)
  then show ?thesis
    using assms unat_plus_one [of "rs_next_message_id s"] by (auto simp: rs_enqueue_def Let_def split: sum.splits)
next
  case (ResendDue now rs)
  obtain r s' c' where e: "rs_resend_due now scripted s rs = (r, s', c')" by (cases "rs_resend_due now scripted s rs")
  then have "rs_next_message_id s' = rs_next_message_id s"
    using update_loss_frame(1)
    by (auto simp: rs_resend_due_def session_frame_def split: prod.splits sum.splits dest!: resend_loop_next)
  then show ?thesis using ResendDue e by simp
qed (auto simp: rs_acknowledge_next rs_expire_old_def rs_note_sent_def rs_accept_incoming_def rs_clear_def reset_rtt_def Let_def
    split: prod.splits option.splits dest: expire_loop_next)

lemma rs_run_inv:
  "rs_inv s \<Longrightarrow> unat (rs_next_message_id s) + length ops < 2 ^ 64 \<Longrightarrow> rs_inv (fold rs_exec ops s)"
proof (induction ops arbitrary: s)
  case (Cons x xs)
  have "unat (rs_next_message_id s) + 1 < 2 ^ 64" using Cons.prems(2) by simp
  then show ?case
    using Cons.IH [of "rs_exec x s"] rs_exec_inv [OF Cons.prems(1), of x] rs_exec_next [of s x] Cons.prems(2) by simp
qed simp



lemma rs_acknowledge_pending:
  assumes "distinct (map pm_message_id (rs_pending s))"
  shows "rs_pending (snd (rs_acknowledge mid t s)) = filter (\<lambda>p. pm_message_id p \<noteq> mid) (rs_pending s)"
proof (cases "split_first (\<lambda>p. pm_message_id p = mid) (rs_pending s)")
  case None
  then have "filter (\<lambda>p. pm_message_id p \<noteq> mid) (rs_pending s) = rs_pending s"
    unfolding split_first_None by (rule filter_True)
  then show ?thesis using None by (simp add: rs_acknowledge_def)
next
  case (Some x)
  obtain a p b where x: "x = (a, p, b)" by (cases x)
  have ps: "rs_pending s = a @ p # b" "pm_message_id p = mid" using split_first_Some [OF Some [unfolded x]] by auto
  then have "\<forall>q \<in> set (a @ b). pm_message_id q \<noteq> mid" using assms by (auto simp: image_iff)
  then have "filter (\<lambda>p. pm_message_id p \<noteq> mid) (a @ b) = a @ b" by (rule filter_True)
  then show ?thesis using Some x ps by (simp add: rs_acknowledge_def Let_def)
qed



end
