(* ===== verification/Scn_Fragmentation.thy ===== *)
theory Scn_Fragmentation
  imports Scn_Reliability
begin

text \<open>
  Fragmentation (\<^verbatim>\<open>fragmentation.hpp\<close>): splitting a message of up to 65535 bytes into fragments
  of 1212 bytes, the fragment format, and the reassembler of a peer with its limits on concurrent
  messages and memory.

  The callbacks of \<^verbatim>\<open>accept\<close> (a message is complete) and \<^verbatim>\<open>expire_old\<close> transform a caller
  state. The hash map of partial messages is an association list with distinct keys.
\<close>

section \<open>Fragments\<close>

record FragmentView =
  fv_message_id :: U64
  fv_delivery_sequence :: U64
  fv_channel :: Channel
  fv_type :: U8
  fv_fragment_index :: U16
  fv_fragment_count :: U16
  fv_original_length :: U16
  fv_data :: "U8 list option"
  fv_len :: U16

record FragmentedMessage =
  fm_message_id :: U64
  fm_delivery_sequence :: U64
  fm_channel :: Channel
  fm_type :: U8
  fm_payload :: "U8 list"

definition fragment_count_for_length :: "U16 \<Rightarrow> U16" where
  "fragment_count_for_length original_length =
    (if original_length = 0 then 0
     else of_nat ((unat original_length + MaxFragmentDataBytes - 1) div MaxFragmentDataBytes))"

definition fragment_size_for_index :: "U16 \<Rightarrow> U16 \<Rightarrow> U16" where
  "fragment_size_for_index original_length fragment_index =
    (let count = fragment_count_for_length original_length in
     if count = 0 \<or> count \<le> fragment_index then 0
     else let offset = of_nat (unat fragment_index * MaxFragmentDataBytes) :: U16;
              remaining = original_length - offset
          in min remaining (of_nat MaxFragmentDataBytes))"

definition write_fragment_payload ::
  "ByteWriter \<Rightarrow> U64 \<Rightarrow> U64 \<Rightarrow> Channel \<Rightarrow> U8 \<Rightarrow> U16 \<Rightarrow> U16 \<Rightarrow> U16 \<Rightarrow> U8 list option \<Rightarrow> U16 \<Rightarrow> ByteWriter result" where
  "write_fragment_payload w message_id delivery_sequence channel type fragment_index fragment_count original_length data len =
    (if message_id = 0 then Inl errc.InvalidArg
     else if \<not> channel_is_application channel then Inl errc.InvalidArg
     else if original_length = 0 then Inl errc.InvalidArg
     else if fragment_count = 0 \<or> fragment_count \<noteq> fragment_count_for_length original_length then Inl errc.InvalidArg
     else if fragment_count \<le> fragment_index then Inl errc.InvalidArg
     else if len \<noteq> fragment_size_for_index original_length fragment_index then Inl errc.InvalidArg
     else if 0 < len \<and> data = None then Inl errc.InvalidArg
     else
       rbind (write_u64 w message_id) (\<lambda>w.
       rbind (write_u64 w delivery_sequence) (\<lambda>w.
       rbind (write_u8 w (channel_value channel)) (\<lambda>w.
       rbind (write_u8 w type) (\<lambda>w.
       rbind (write_u16 w fragment_index) (\<lambda>w.
       rbind (write_u16 w fragment_count) (\<lambda>w.
       rbind (write_u16 w original_length) (\<lambda>w.
       if 0 < len then write_bytes w data (unat len) else Inr w))))))))"

definition read_fragment_payload :: "ByteReader \<Rightarrow> (FragmentView \<times> ByteReader) result" where
  "read_fragment_payload r =
    (if remaining_r r < FragmentHeaderBytes then Inl errc.BadPacket
     else
       rbind (read_u64 r) (\<lambda>(mid, r).
       rbind (read_u64 r) (\<lambda>(ds, r).
       rbind (read_u8 r) (\<lambda>(raw_channel, r).
       rbind (read_u8 r) (\<lambda>(ty, r).
       rbind (read_u16 r) (\<lambda>(idx, r).
       rbind (read_u16 r) (\<lambda>(cnt, r).
       rbind (read_u16 r) (\<lambda>(orig, r).
       if mid = 0 \<or> channel_value Channel.SequencedUnreliable < raw_channel then Inl errc.BadPacket
       else if cnt = 0 \<or> cnt \<le> idx \<or> orig = 0 then Inl errc.BadPacket
       else if fragment_count_for_length orig = 0 \<or> cnt \<noteq> fragment_count_for_length orig then Inl errc.BadPacket
       else let expected_len = fragment_size_for_index orig idx in
         if expected_len = 0 then Inl errc.BadPacket
         else if remaining_r r \<noteq> unat expected_len then Inl errc.BadPacket
         else let len = of_nat (remaining_r r);
                  data = (if len = 0 then None else peek_ptr r (unat len)) in
           rbind (skip r (unat len)) (\<lambda>r.
           Inr (\<lparr>fv_message_id = mid, fv_delivery_sequence = ds, fv_channel = channel_of_value raw_channel,
                 fv_type = ty, fv_fragment_index = idx, fv_fragment_count = cnt, fv_original_length = orig,
                 fv_data = data, fv_len = len\<rparr>, r))))))))))"

section \<open>The reassembler\<close>

record Entry =
  en_message_id :: U64
  en_delivery_sequence :: U64
  en_channel :: Channel
  en_type :: U8
  en_fragment_count :: U16
  en_original_length :: U16
  en_received_count :: U16
  en_created_ms :: U64
  en_last_update_ms :: U64
  en_payload :: "U8 list"
  en_received :: "bool list"

record FragmentReassembler =
  fr_cfg :: FragmentationConfig
  fr_entries :: "(U64 \<times> Entry) list"
  fr_memory_bytes :: U64

definition FragmentReassembler_default :: FragmentReassembler where
  "FragmentReassembler_default = \<lparr>fr_cfg = FragmentationConfig_default, fr_entries = [], fr_memory_bytes = 0\<rparr>"

definition fr_clear :: "FragmentReassembler \<Rightarrow> FragmentReassembler" where
  "fr_clear f = f\<lparr>fr_entries := [], fr_memory_bytes := 0\<rparr>"

definition fr_configure :: "FragmentationConfig \<Rightarrow> FragmentReassembler \<Rightarrow> FragmentReassembler" where
  "fr_configure cfg f = fr_clear (f\<lparr>fr_cfg := cfg\<rparr>)"

text \<open>The checks of \<^verbatim>\<open>accept\<close> before the table of partial messages is consulted.\<close>

definition fragment_check :: "FragmentationConfig \<Rightarrow> FragmentView \<Rightarrow> unit result" where
  "fragment_check cfg v =
    (if \<not> frag_enabled cfg then Inl errc.StateError
     else if frag_max_fragments_per_message cfg < fv_fragment_count v \<or>
             frag_max_reassembled_message_bytes cfg < ucast (fv_original_length v) then Inl errc.TooLarge
     else if fv_fragment_count v = 0 \<or> fv_fragment_count v \<le> fv_fragment_index v then Inl errc.BadPacket
     else if fv_len v \<noteq> fragment_size_for_index (fv_original_length v) (fv_fragment_index v) then Inl errc.BadPacket
     else if 0 < fv_len v \<and> fv_data v = None then Inl errc.BadPacket
     else if \<not> channel_is_application (fv_channel v) then Inl errc.BadPacket
     else Inr ())"

definition new_entry :: "U64 \<Rightarrow> FragmentView \<Rightarrow> Entry" where
  "new_entry now_ms v =
    \<lparr>en_message_id = fv_message_id v, en_delivery_sequence = fv_delivery_sequence v, en_channel = fv_channel v,
     en_type = fv_type v, en_fragment_count = fv_fragment_count v, en_original_length = fv_original_length v,
     en_received_count = 0, en_created_ms = now_ms, en_last_update_ms = now_ms,
     en_payload = replicate (unat (fv_original_length v)) 0, en_received = replicate (unat (fv_fragment_count v)) False\<rparr>"

text \<open>Find the partial message of a fragment, or start one within the limits.\<close>

definition fr_find_or_insert :: "U64 \<Rightarrow> FragmentView \<Rightarrow> FragmentReassembler \<Rightarrow> (Entry \<times> FragmentReassembler) result" where
  "fr_find_or_insert now_ms v f =
    (case map_of (fr_entries f) (fv_message_id v) of
       Some e \<Rightarrow> Inr (e, f)
     | None \<Rightarrow>
       if unat (frag_max_concurrent_reassemblies_per_peer (fr_cfg f)) \<le> length (fr_entries f) then Inl errc.QueueFull
       else if frag_max_total_reassembly_memory_per_peer (fr_cfg f) < fr_memory_bytes f + ucast (fv_original_length v)
         then Inl errc.QueueFull
       else let e = new_entry now_ms v in
         Inr (e, f\<lparr>fr_entries := (fv_message_id v, e) # fr_entries f,
                   fr_memory_bytes := fr_memory_bytes f + ucast (fv_original_length v)\<rparr>))"

definition upd_entry :: "U64 \<Rightarrow> Entry \<Rightarrow> (U64 \<times> Entry) list \<Rightarrow> (U64 \<times> Entry) list" where
  "upd_entry mid e es = map (\<lambda>(k, x). (k, if k = mid then e else x)) es"

definition set_entry :: "U64 \<Rightarrow> Entry \<Rightarrow> FragmentReassembler \<Rightarrow> FragmentReassembler" where
  "set_entry mid e f = f\<lparr>fr_entries := upd_entry mid e (fr_entries f)\<rparr>"

definition erase_entry :: "U64 \<Rightarrow> Entry \<Rightarrow> FragmentReassembler \<Rightarrow> FragmentReassembler" where
  "erase_entry mid e f =
    f\<lparr>fr_entries := filter (\<lambda>(k, _). k \<noteq> mid) (fr_entries f),
      fr_memory_bytes := fr_memory_bytes f - ucast (en_original_length e)\<rparr>"

definition entry_mismatch :: "Entry \<Rightarrow> FragmentView \<Rightarrow> bool" where
  "entry_mismatch e v \<longleftrightarrow>
     en_delivery_sequence e \<noteq> fv_delivery_sequence v \<or> en_channel e \<noteq> fv_channel v \<or> en_type e \<noteq> fv_type v \<or>
     en_fragment_count e \<noteq> fv_fragment_count v \<or> en_original_length e \<noteq> fv_original_length v"

definition store_fragment :: "U64 \<Rightarrow> FragmentView \<Rightarrow> ST \<Rightarrow> Entry \<Rightarrow> Entry" where
  "store_fragment now_ms v offset e =
    e\<lparr>en_payload := (if 0 < fv_len v
        then take offset (en_payload e) @ take (unat (fv_len v)) (opt_bytes (fv_data v)) @ drop (offset + unat (fv_len v)) (en_payload e)
        else en_payload e),
      en_received := (en_received e)[unat (fv_fragment_index v) := True],
      en_received_count := en_received_count e + 1, en_last_update_ms := now_ms\<rparr>"

text \<open>
  \<^verbatim>\<open>FragmentReassembler::accept\<close>: the result with the flags \<^verbatim>\<open>duplicate\<close> and
  \<^verbatim>\<open>completed\<close>, the reassembler and the state of the completion callback.
\<close>

definition fr_accept ::
  "U64 \<Rightarrow> FragmentView \<Rightarrow> ('c \<Rightarrow> FragmentedMessage \<Rightarrow> unit result \<times> 'c) \<Rightarrow> FragmentReassembler \<Rightarrow> 'c \<Rightarrow>
   (bool \<times> bool) result \<times> FragmentReassembler \<times> 'c" where
  "fr_accept now_ms v on_complete f c =
    (case fragment_check (fr_cfg f) v of
       Inl e \<Rightarrow> (Inl e, f, c)
     | Inr _ \<Rightarrow>
       (case fr_find_or_insert now_ms v f of
          Inl e \<Rightarrow> (Inl e, f, c)
        | Inr (en, f) \<Rightarrow>
          let mid = fv_message_id v; idx = unat (fv_fragment_index v); offset = idx * MaxFragmentDataBytes in
          if entry_mismatch en v then (Inl errc.BadPacket, f, c)
          else if en_received en ! idx
          then (Inr (True, False), set_entry mid (en\<lparr>en_last_update_ms := now_ms\<rparr>) f, c)
          else if length (en_payload en) < offset + unat (fv_len v) then (Inl errc.BadPacket, f, c)
          else let en = store_fragment now_ms v offset en; f = set_entry mid en f in
            if en_received_count en = en_fragment_count en
            then (case on_complete c \<lparr>fm_message_id = en_message_id en, fm_delivery_sequence = en_delivery_sequence en,
                                      fm_channel = en_channel en, fm_type = en_type en, fm_payload = en_payload en\<rparr> of
                    (Inl e, c) \<Rightarrow> (Inl e, f, c)
                  | (Inr _, c) \<Rightarrow> (Inr (False, True), erase_entry mid en f, c))
            else (Inr (False, False), f, c)))"

definition en_expired :: "FragmentationConfig \<Rightarrow> U64 \<Rightarrow> Entry \<Rightarrow> bool" where
  "en_expired cfg now_ms e \<longleftrightarrow> en_last_update_ms e + frag_reassembly_timeout_ms cfg \<le> now_ms"

fun fr_expire_loop :: "U64 \<Rightarrow> ('c \<Rightarrow> U64 \<Rightarrow> 'c) \<Rightarrow> FragmentReassembler \<Rightarrow> 'c \<Rightarrow> (U64 \<times> Entry) list \<Rightarrow>
    (U64 \<times> Entry) list \<times> U64 \<times> 'c" where
  "fr_expire_loop now_ms on_expire f c [] = ([], fr_memory_bytes f, c)"
| "fr_expire_loop now_ms on_expire f c ((k, e) # es) =
    (if \<not> en_expired (fr_cfg f) now_ms e
     then (case fr_expire_loop now_ms on_expire f c es of (es', m, c) \<Rightarrow> ((k, e) # es', m, c))
     else fr_expire_loop now_ms on_expire (f\<lparr>fr_memory_bytes := fr_memory_bytes f - ucast (en_original_length e)\<rparr>)
            (on_expire c k) es)"

definition fr_expire_old :: "U64 \<Rightarrow> ('c \<Rightarrow> U64 \<Rightarrow> 'c) \<Rightarrow> FragmentReassembler \<Rightarrow> 'c \<Rightarrow> FragmentReassembler \<times> 'c" where
  "fr_expire_old now_ms on_expire f c =
    (case fr_expire_loop now_ms on_expire f c (fr_entries f) of
       (es, m, c) \<Rightarrow> (f\<lparr>fr_entries := es, fr_memory_bytes := m\<rparr>, c))"

definition fr_contains :: "U64 \<Rightarrow> FragmentReassembler \<Rightarrow> bool" where
  "fr_contains mid f \<longleftrightarrow> map_of (fr_entries f) mid \<noteq> None"


section \<open>Fragment sizes\<close>

lemma fragment_count_unat:
  "unat (fragment_count_for_length n) = (unat n + 1211) div 1212"
proof -
  have "unat n < 65536" using unat_less_pow [of n] by simp
  then have "(unat n + 1211) div 1212 < 2 ^ LENGTH(16)" by simp
  then have "unat (of_nat ((unat n + 1211) div 1212) :: U16) = (unat n + 1211) div 1212" by (rule unat_of_nat_small)
  then show ?thesis by (simp add: fragment_count_for_length_def MaxFragmentDataBytes_def add.commute)
qed

lemma fragment_count_pos: "n \<noteq> 0 \<Longrightarrow> 0 < unat (fragment_count_for_length n)"
  by (simp add: fragment_count_unat unat_gt_0 [symmetric] div_greater_zero_iff del: unat_gt_0)

lemma fragment_offset_less:
  "i < unat (fragment_count_for_length n) \<Longrightarrow> i * 1212 < unat n"
  by (simp add: fragment_count_unat)

lemma fragment_offset_inside:
  "i * 1212 < unat n \<Longrightarrow> i < unat (fragment_count_for_length n)"
  by (simp add: fragment_count_unat)

lemma fragment_size_unat:
  assumes "i < fragment_count_for_length n"
  shows "unat (fragment_size_for_index n i) = min (unat n - unat i * 1212) 1212"
proof -
  have i: "unat i < unat (fragment_count_for_length n)" using assms by (simp add: word_less_nat_alt)
  have off: "unat i * 1212 < unat n" by (rule fragment_offset_less [OF i])
  have n: "unat n < 65536" using unat_less_pow [of n] by simp
  define off where "off = (of_nat (unat i * 1212) :: U16)"
  have o: "unat off = unat i * 1212" unfolding off_def by (rule unat_of_nat_small) (use off n in simp)
  then have r: "unat (n - off) = unat n - unat i * 1212" using off by (simp add: unat_sub_le word_le_nat_alt)
  have "fragment_size_for_index n i = min (n - off) 1212"
    using assms i by (auto simp: fragment_size_for_index_def Let_def off_def MaxFragmentDataBytes_def)
  then show ?thesis by (simp add: min_def word_le_nat_alt r)
qed

definition fragment_slice :: "U8 list \<Rightarrow> nat \<Rightarrow> U8 list" where
  "fragment_slice p i = take 1212 (drop (i * 1212) p)"

lemma concat_fragment_slices:
  "concat (map (fragment_slice p) [0..<k]) = take (k * 1212) p"
  by (induction k) (simp_all add: fragment_slice_def add.commute [of 1212] take_add)

lemma length_fragment_slice: "length (fragment_slice p i) = min (length p - i * 1212) 1212"
  by (simp add: fragment_slice_def min.commute)

lemma fragment_slices_all:
  assumes "length p = unat n"
  shows "concat (map (fragment_slice p) [0..<unat (fragment_count_for_length n)]) = p"
proof -
  have "length p \<le> unat (fragment_count_for_length n) * 1212"
    using assms by (simp add: fragment_count_unat)
  then show ?thesis by (simp add: concat_fragment_slices)
qed

section \<open>The fragment format\<close>

definition valid_fragment :: "FragmentView \<Rightarrow> bool" where
  "valid_fragment v \<longleftrightarrow>
     fv_message_id v \<noteq> 0 \<and> channel_is_application (fv_channel v) \<and> fv_original_length v \<noteq> 0 \<and>
     fv_fragment_count v = fragment_count_for_length (fv_original_length v) \<and>
     fv_fragment_index v < fv_fragment_count v \<and>
     fv_len v = fragment_size_for_index (fv_original_length v) (fv_fragment_index v) \<and>
     (\<exists>d. fv_data v = Some d \<and> length d = unat (fv_len v))"

definition enc_fragment :: "FragmentView \<Rightarrow> U8 list" where
  "enc_fragment v =
     be_bytes 8 (fv_message_id v) @ be_bytes 8 (fv_delivery_sequence v) @ enc_u8 (channel_value (fv_channel v)) @
     enc_u8 (fv_type v) @ be_bytes 2 (fv_fragment_index v) @ be_bytes 2 (fv_fragment_count v) @
     be_bytes 2 (fv_original_length v) @ opt_bytes (fv_data v)"

lemma fragment_size_pos:
  assumes "i < fragment_count_for_length n"
  shows "0 < fragment_size_for_index n i"
proof -
  have "unat i * 1212 < unat n" using assms by (intro fragment_offset_less) (simp add: word_less_nat_alt)
  then show ?thesis using fragment_size_unat [OF assms] by (simp add: word_less_nat_alt)
qed

lemma write_fragment_payload_emit:
  assumes "writer_wf w" and "valid_fragment v"
  shows "write_fragment_payload w (fv_message_id v) (fv_delivery_sequence v) (fv_channel v) (fv_type v)
      (fv_fragment_index v) (fv_fragment_count v) (fv_original_length v) (fv_data v) (fv_len v) = emit (enc_fragment v) w"
proof -
  obtain d where d: "fv_data v = Some d" "unat (fv_len v) = length d"
    using assms(2) by (auto simp: valid_fragment_def)
  have pos: "0 < fv_len v" using assms(2) fragment_size_pos by (auto simp: valid_fragment_def)
  have c: "fv_fragment_count v \<noteq> 0" using assms(2) by (auto simp: valid_fragment_def)
  have i: "\<not> fv_fragment_count v \<le> fv_fragment_index v" using assms(2) by (auto simp: valid_fragment_def)
  have "write_fragment_payload w (fv_message_id v) (fv_delivery_sequence v) (fv_channel v) (fv_type v)
      (fv_fragment_index v) (fv_fragment_count v) (fv_original_length v) (fv_data v) (fv_len v) =
     rbind (write_u64 w (fv_message_id v)) (\<lambda>w. rbind (write_u64 w (fv_delivery_sequence v)) (\<lambda>w.
     rbind (write_u8 w (channel_value (fv_channel v))) (\<lambda>w. rbind (write_u8 w (fv_type v)) (\<lambda>w.
     rbind (write_u16 w (fv_fragment_index v)) (\<lambda>w. rbind (write_u16 w (fv_fragment_count v)) (\<lambda>w.
     rbind (write_u16 w (fv_original_length v)) (\<lambda>w. write_bytes w (Some d) (length d))))))))"
    using pos i c assms(2) by (simp add: write_fragment_payload_def valid_fragment_def d(1) d(2) [symmetric])
  also have "\<dots> = emit (enc_fragment v) w"
    unfolding enc_fragment_def d(1) opt_bytes_def option.case using assms(1) by (intro rbind_emit write_rules)
  finally show ?thesis .
qed

lemma application_channel_value: "channel_is_application (channel_of_value v) \<longleftrightarrow> \<not> 3 < v"
proof -
  have "\<not> 3 < v \<longleftrightarrow> v \<le> 4 \<and> v \<noteq> 4" by (auto simp: word_less_nat_alt word_le_nat_alt word_unat_eq_iff)
  then show ?thesis
    by (auto simp: channel_is_application_def channel_valid_of_value) (auto simp: channel_of_value_def split: if_splits)
qed

lemma application_channel_of_value: "channel_is_application c \<Longrightarrow> channel_of_value (channel_value c) = c"
  by (simp add: channel_is_application_def)

lemma fragment_tail:
  assumes "24 \<le> length bs" "len \<noteq> (0 :: U16)" "length bs - 24 = unat len"
  shows "(of_nat (length bs - 24) :: U16) = len" "peek_ptr (rd bs 24) (unat len) = Some (drop 24 bs)"
    "skip (rd bs 24) (unat len) = Inr (rd bs (length bs))"
  using assms by (auto simp: read_evals simp del: of_nat_diff)

lemma fragment_header_split:
  "bytes_at bs 0 (be_bytes 8 a) \<Longrightarrow> bytes_at bs 8 (be_bytes 8 b) \<Longrightarrow> bytes_at bs 16 (enc_u8 c) \<Longrightarrow>
   bytes_at bs 17 (enc_u8 d) \<Longrightarrow> bytes_at bs 18 (be_bytes 2 e) \<Longrightarrow> bytes_at bs 20 (be_bytes 2 f) \<Longrightarrow>
   bytes_at bs 22 (be_bytes 2 g) \<Longrightarrow>
   be_bytes 8 a @ be_bytes 8 b @ enc_u8 c @ enc_u8 d @ be_bytes 2 e @ be_bytes 2 f @ be_bytes 2 g @ drop 24 bs = bs"
  using bytes_at_split [of bs "be_bytes 8 a @ be_bytes 8 b @ enc_u8 c @ enc_u8 d @ be_bytes 2 e @ be_bytes 2 f @ be_bytes 2 g"]
  by (simp add: bytes_at_append)

lemma read_fragment_payload_iff:
  "read_fragment_payload (rd bs 0) = Inr (v, r) \<longleftrightarrow> valid_fragment v \<and> bs = enc_fragment v \<and> r = rd bs (length bs)"
  (is "?L \<longleftrightarrow> ?R")
proof
  assume ?L
  then show ?R
    by (auto simp: read_fragment_payload_def rbind_Inr_iff rbind_Inr_iff2 read_iffs Let_def fragment_tail simp del: of_nat_diff)
       (simp_all add: valid_fragment_def application_channel_value enc_fragment_def opt_bytes_def bytes_at_append
         fragment_header_split not_le)
next
  assume ?R
  then have v: "valid_fragment v" and bs: "bs = enc_fragment v" and r: "r = rd bs (length bs)" by auto
  obtain d where d: "fv_data v = Some d" "length d = unat (fv_len v)" using v by (auto simp: valid_fragment_def)
  have len: "length bs = 24 + unat (fv_len v)" using d by (simp add: bs enc_fragment_def opt_bytes_def)
  have at: "bytes_at bs 0 (enc_fragment v)" by (simp add: bs bytes_at_def)
  have pos: "fv_len v \<noteq> 0" using v fragment_size_pos [of "fv_fragment_index v" "fv_original_length v"] by (auto simp: valid_fragment_def)
  have reads: "read_u64 (rd bs 0) = Inr (fv_message_id v, rd bs 8)" "read_u64 (rd bs 8) = Inr (fv_delivery_sequence v, rd bs 16)"
    "read_u8 (rd bs 16) = Inr (channel_value (fv_channel v), rd bs 17)" "read_u8 (rd bs 17) = Inr (fv_type v, rd bs 18)"
    "read_u16 (rd bs 18) = Inr (fv_fragment_index v, rd bs 20)" "read_u16 (rd bs 20) = Inr (fv_fragment_count v, rd bs 22)"
    "read_u16 (rd bs 22) = Inr (fv_original_length v, rd bs 24)"
    using at by (simp_all add: read_iffs enc_fragment_def bytes_at_append)
  have dr: "drop 24 bs = d" using d by (simp add: bs enc_fragment_def opt_bytes_def)
  have ch: "channel_of_value (channel_value (fv_channel v)) = fv_channel v"
    using v by (simp add: valid_fragment_def application_channel_of_value)
  then have ch3: "\<not> 3 < channel_value (fv_channel v)"
    using v application_channel_value [of "channel_value (fv_channel v)"] by (simp add: valid_fragment_def)
  have fc: "fv_fragment_count v = fragment_count_for_length (fv_original_length v)"
    "fv_len v = fragment_size_for_index (fv_original_length v) (fv_fragment_index v)"
    "fv_original_length v \<noteq> 0" "fv_message_id v \<noteq> 0" "fv_fragment_index v < fv_fragment_count v"
    using v unfolding valid_fragment_def by blast+
  have fc0: "fv_fragment_count v \<noteq> 0" "\<not> fv_fragment_count v \<le> fv_fragment_index v" using fc(5) by auto
  show ?L
    using fragment_tail [of bs "fv_len v"] len fc(3,4) fc0 pos ch3
    by (simp add: read_fragment_payload_def reads Let_def fc(1) [symmetric] fc(2) [symmetric] ch dr d(1) [symmetric] r)
qed


interpretation fragment: wire_codec enc_fragment "decode_with read_fragment_payload" valid_fragment
  by unfold_locales (auto simp: decode_with_def rbind_Inr_iff2 read_fragment_payload_iff)

section \<open>Limits of the reassembler\<close>

text \<open>A partial message is well formed, and the reassembler accounts for every partial message.\<close>

definition entry_wf :: "Entry \<Rightarrow> bool" where
  "entry_wf e \<longleftrightarrow> length (en_payload e) = unat (en_original_length e) \<and>
     length (en_received e) = unat (en_fragment_count e) \<and>
     unat (en_received_count e) = length (filter id (en_received e))"

definition fr_bytes :: "(U64 \<times> Entry) list \<Rightarrow> nat" where
  "fr_bytes es = sum_list (map (\<lambda>(k, e). unat (en_original_length e)) es)"

definition fr_inv :: "FragmentReassembler \<Rightarrow> bool" where
  "fr_inv f \<longleftrightarrow> distinct (map fst (fr_entries f)) \<and> list_all (\<lambda>(k, e). entry_wf e \<and> en_message_id e = k) (fr_entries f) \<and>
     unat (fr_memory_bytes f) = fr_bytes (fr_entries f) \<and>
     fr_bytes (fr_entries f) \<le> unat (frag_max_total_reassembly_memory_per_peer (fr_cfg f)) \<and>
     length (fr_entries f) \<le> unat (frag_max_concurrent_reassemblies_per_peer (fr_cfg f))"

lemma fr_inv_clear: "fr_inv (fr_clear f)" "fr_inv (fr_configure cfg f)" "fr_inv FragmentReassembler_default"
  by (simp_all add: fr_inv_def fr_clear_def fr_configure_def FragmentReassembler_default_def fr_bytes_def)

lemma new_entry_wf: "entry_wf (new_entry now v)"
  by (simp add: new_entry_def entry_wf_def)

lemma fr_bytes_Cons [simp]: "fr_bytes ((k, e) # es) = unat (en_original_length e) + fr_bytes es"
  by (simp add: fr_bytes_def)

lemma fr_bytes_Nil [simp]: "fr_bytes [] = 0"
  by (simp add: fr_bytes_def)

lemma fr_bytes_remove:
  "distinct (map fst es) \<Longrightarrow> map_of es k = Some e \<Longrightarrow>
   fr_bytes es = unat (en_original_length e) + fr_bytes (filter (\<lambda>(j, _). j \<noteq> k) es)"
proof (induction es)
  case (Cons a es)
  have "k \<notin> fst ` set es \<Longrightarrow> filter (\<lambda>(j, _). j \<noteq> k) es = es" by (force simp: filter_id_conv)
  with Cons show ?case by (cases a) (auto split: if_splits)
qed simp

lemma unat_plus_ucast16:
  assumes "unat (m :: U64) + unat (n :: U16) < 2 ^ 64"
  shows "unat (m + ucast n) = unat m + unat n"
  using assms by (simp add: unat_word_ariths unsigned_ucast_eq take_bit_nat_eq_self unat_less_pow [of n, simplified])


definition fragment_limits :: "FragmentReassembler \<Rightarrow> bool" where
  "fragment_limits f \<longleftrightarrow> unat (frag_max_total_reassembly_memory_per_peer (fr_cfg f)) + U16_MAX < 2 ^ 64"

definition fragment_buffer :: "FragmentView \<Rightarrow> bool" where
  "fragment_buffer v \<longleftrightarrow> unat (fv_len v) \<le> length (opt_bytes (fv_data v))"

lemma fr_inv_memory:
  assumes "fr_inv f" "fragment_limits f"
  shows "unat (fr_memory_bytes f + ucast (n :: U16)) = unat (fr_memory_bytes f) + unat n"
  using assms unat_less_pow [of n]
  by (intro unat_plus_ucast16) (simp add: fr_inv_def fragment_limits_def U16_MAX_def)

lemma fr_find_or_insert_inv:
  assumes "fr_inv f" "fragment_limits f" "fr_find_or_insert now v f = Inr (e, f')"
  shows "fr_inv f' \<and> map_of (fr_entries f') (fv_message_id v) = Some e \<and> fr_cfg f' = fr_cfg f"
proof (cases "map_of (fr_entries f) (fv_message_id v)")
  case None
  then have notin: "fv_message_id v \<notin> fst ` set (fr_entries f)" by (simp add: map_of_eq_None_iff)
  have ol: "en_original_length (new_entry now v) = fv_original_length v" "en_message_id (new_entry now v) = fv_message_id v"
    by (simp_all add: new_entry_def)
  show ?thesis
    using assms None notin fr_inv_memory [OF assms(1,2), of "fv_original_length v"] new_entry_wf [of now v]
    by (auto simp: fr_find_or_insert_def fr_inv_def Let_def word_less_nat_alt ol)
qed (use assms in \<open>simp add: fr_find_or_insert_def\<close>)

lemma map_of_entries_inv:
  "fr_inv f \<Longrightarrow> map_of (fr_entries f) k = Some e \<Longrightarrow> entry_wf e \<and> en_message_id e = k"
  by (auto simp: fr_inv_def list_all_iff dest: map_of_SomeD)

lemma upd_entry_simps [simp]:
  "upd_entry k e [] = []" "upd_entry k e ((j, x) # es) = (j, if j = k then e else x) # upd_entry k e es"
  "length (upd_entry k e es) = length es" "map fst (upd_entry k e es) = map fst es"
  by (auto simp: upd_entry_def)

lemma upd_entry_id: "k \<notin> fst ` set es \<Longrightarrow> upd_entry k e es = es"
  by (induction es) auto

lemma map_of_upd_entry:
  "map_of (upd_entry k e es) j = (if j = k \<and> map_of es k \<noteq> None then Some e else map_of es j)"
  by (induction es) auto

lemma list_all_upd_entry: "list_all (\<lambda>(k, x). P k x) es \<Longrightarrow> P k e \<Longrightarrow> list_all (\<lambda>(k, x). P k x) (upd_entry k e es)"
  by (induction es) auto

lemma fr_bytes_upd_entry:
  "distinct (map fst es) \<Longrightarrow> map_of es k = Some e \<Longrightarrow> en_original_length e' = en_original_length e \<Longrightarrow>
   fr_bytes (upd_entry k e' es) = fr_bytes es"
  by (induction es) (auto simp: upd_entry_id split: if_splits)

lemma set_entry_inv:
  assumes "fr_inv f" "map_of (fr_entries f) k = Some e"
    and "entry_wf e'" "en_original_length e' = en_original_length e" "en_message_id e' = k"
  shows "fr_inv (set_entry k e' f)"
  using assms fr_bytes_upd_entry [of "fr_entries f" k e e'] list_all_upd_entry [of "\<lambda>k e. entry_wf e \<and> en_message_id e = k" "fr_entries f" k e']
  by (simp add: fr_inv_def set_entry_def)

lemma map_of_set_entry:
  "map_of (fr_entries f) k = Some e \<Longrightarrow> map_of (fr_entries (set_entry k e' f)) k = Some e'"
  by (simp add: set_entry_def map_of_upd_entry)

lemma length_filter_id_update:
  "i < length bs \<Longrightarrow> \<not> bs ! i \<Longrightarrow> length (filter id (bs[i := True])) = Suc (length (filter id bs))"
proof (induction bs arbitrary: i)
  case (Cons b bs)
  then show ?case by (cases i) auto
qed simp

lemma store_fragment_wf:
  assumes "entry_wf e" "unat (fv_fragment_index v) < unat (en_fragment_count e)" "\<not> en_received e ! unat (fv_fragment_index v)"
    and "off + unat (fv_len v) \<le> length (en_payload e)" "fragment_buffer v"
  shows "entry_wf (store_fragment now v off e)"
proof -
  let ?i = "unat (fv_fragment_index v)"
  have len: "?i < length (en_received e)" using assms by (simp add: entry_wf_def)
  have "length (filter id (en_received e)) < length (en_received e)"
    using length_filter_id_update [OF len assms(3)] length_filter_le [of id "(en_received e)[?i := True]"] by simp
  then have "unat (en_received_count e) + 1 < 2 ^ LENGTH(16)"
    using assms(1) unat_less_pow [of "en_fragment_count e"] by (simp add: entry_wf_def)
  then show ?thesis
    using assms(1,4,5) length_filter_id_update [OF len assms(3)]
    by (auto simp: entry_wf_def store_fragment_def fragment_buffer_def unat_plus_one)
qed

lemma erase_entry_inv:
  assumes "fr_inv f" "map_of (fr_entries f) k = Some e" "en_original_length e' = en_original_length e"
  shows "fr_inv (erase_entry k e' f)"
proof -
  have b: "fr_bytes (fr_entries f) = unat (en_original_length e) + fr_bytes (filter (\<lambda>(j, _). j \<noteq> k) (fr_entries f))"
    using assms by (intro fr_bytes_remove) (simp_all add: fr_inv_def)
  have "unat (ucast (en_original_length e) :: U64) = unat (en_original_length e)"
    using unat_less_pow [of "en_original_length e"] by (simp add: unsigned_ucast_eq take_bit_nat_eq_self)
  then have m: "unat (fr_memory_bytes f - ucast (en_original_length e)) = fr_bytes (filter (\<lambda>(j, _). j \<noteq> k) (fr_entries f))"
    using assms(1) b by (simp add: fr_inv_def unat_sub_le word_le_nat_alt)
  have "distinct (map fst (filter (\<lambda>(j, _). j \<noteq> k) (fr_entries f)))"
    using assms(1) by (simp add: fr_inv_def distinct_map_filter)
  moreover have "length (filter (\<lambda>(j, _). j \<noteq> k) (fr_entries f)) \<le> unat (frag_max_concurrent_reassemblies_per_peer (fr_cfg f))"
    using assms(1) by (intro order_trans [OF length_filter_le]) (simp add: fr_inv_def)
  ultimately show ?thesis
    using assms b m by (auto simp: fr_inv_def erase_entry_def list_all_iff)
qed


lemma entry_not_mismatch:
  "\<not> entry_mismatch e v \<Longrightarrow> en_fragment_count e = fv_fragment_count v \<and> en_original_length e = fv_original_length v"
  by (simp add: entry_mismatch_def)

lemma store_fragment_fields [simp]:
  "en_original_length (store_fragment now v off e) = en_original_length e"
  "en_message_id (store_fragment now v off e) = en_message_id e"
  "en_fragment_count (store_fragment now v off e) = en_fragment_count e"
  "en_delivery_sequence (store_fragment now v off e) = en_delivery_sequence e"
  "en_channel (store_fragment now v off e) = en_channel e"
  "en_type (store_fragment now v off e) = en_type e"
  "en_received (store_fragment now v off e) = (en_received e)[unat (fv_fragment_index v) := True]"
  "en_received_count (store_fragment now v off e) = en_received_count e + 1"
  by (simp_all add: store_fragment_def)

text \<open>The part of \<^verbatim>\<open>accept\<close> after the checks, for a fragment whose partial message is \<open>en\<close>.\<close>

lemma fr_accept_inv:
  assumes inv: "fr_inv f" and lim: "fragment_limits f" and buf: "fragment_buffer v"
    and acc: "fr_accept now v cb f c = (res, f', c')"
  shows "fr_inv f' \<and> fr_cfg f' = fr_cfg f"
proof (cases "fragment_check (fr_cfg f) v")
  case (Inr u)
  then have idx: "unat (fv_fragment_index v) < unat (fv_fragment_count v)"
    by (auto simp: fragment_check_def word_less_nat_alt word_le_nat_alt split: if_splits)
  show ?thesis
  proof (cases "fr_find_or_insert now v f")
    case (Inr p)
    obtain en g where p: "p = (en, g)" by (cases p)
    let ?k = "fv_message_id v" and ?off = "unat (fv_fragment_index v) * MaxFragmentDataBytes"
    let ?en = "store_fragment now v ?off en"
    have g: "fr_inv g" "map_of (fr_entries g) ?k = Some en" "fr_cfg g = fr_cfg f"
      using fr_find_or_insert_inv [OF inv lim Inr [unfolded p]] by auto
    have wf: "entry_wf en" "en_message_id en = ?k" using map_of_entries_inv [OF g(1,2)] by auto
    have dup: "fr_inv (set_entry ?k (en\<lparr>en_last_update_ms := now\<rparr>) g)"
      using wf by (intro set_entry_inv [OF g(1,2)]) (simp_all add: entry_wf_def)
    have store: "fr_inv (set_entry ?k ?en g) \<and> fr_inv (erase_entry ?k ?en (set_entry ?k ?en g))"
      if "\<not> entry_mismatch en v" "\<not> en_received en ! unat (fv_fragment_index v)"
         "\<not> length (en_payload en) < ?off + unat (fv_len v)"
    proof -
      have "entry_wf ?en"
        using that entry_not_mismatch [OF that(1)] idx buf by (intro store_fragment_wf [OF wf(1)]) simp_all
      then have "fr_inv (set_entry ?k ?en g)" using wf by (intro set_entry_inv [OF g(1,2)]) simp_all
      then show ?thesis using erase_entry_inv [OF _ map_of_set_entry [OF g(2)]] by blast
    qed
    have cfg: "fr_cfg (set_entry ?k e g) = fr_cfg f" "fr_cfg (erase_entry ?k e' (set_entry ?k e g)) = fr_cfg f" for e e'
      using g(3) by (simp_all add: set_entry_def erase_entry_def)
    show ?thesis
      using acc Inr p g(1,3) dup store cfg \<open>fragment_check (fr_cfg f) v = Inr u\<close>
      by (auto simp: fr_accept_def Let_def split: if_splits prod.splits sum.splits)
  qed (use acc inv Inr in \<open>simp add: fr_accept_def\<close>)
qed (use acc inv in \<open>simp add: fr_accept_def\<close>)

lemma fr_expire_loop_inv:
  "distinct (map fst es) \<Longrightarrow> unat (fr_memory_bytes f) = n + fr_bytes es \<Longrightarrow>
   fr_expire_loop now cb f c es = (es', m, c') \<Longrightarrow>
   unat m = n + fr_bytes es' \<and> es' = filter (\<lambda>(k, e). \<not> en_expired (fr_cfg f) now e) es"
proof (induction now cb f c es arbitrary: n es' m c' rule: fr_expire_loop.induct)
  case (2 now cb f c k e es)
  have "unat (ucast (en_original_length e) :: U64) = unat (en_original_length e)"
    using unat_less_pow [of "en_original_length e"] by (simp add: unsigned_ucast_eq take_bit_nat_eq_self)
  then have m: "unat (fr_memory_bytes f - ucast (en_original_length e)) = n + fr_bytes es"
    using "2.prems"(2) by (simp add: unat_sub_le word_le_nat_alt)
  show ?case
  proof (cases "en_expired (fr_cfg f) now e")
    case True
    then show ?thesis using 2(2) [of n es' m c'] 2(3-5) m by simp
  next
    case False
    obtain es1 where es1: "fr_expire_loop now cb f c es = (es1, m, c')" "es' = (k, e) # es1"
      using 2(5) False by (auto split: prod.splits)
    then show ?thesis using 2(1) [OF False, of "n + unat (en_original_length e)" es1 m c'] 2(3,4) False by simp
  qed
qed simp


lemma fr_expire_old_eq:
  assumes "fr_inv f"
  shows "fr_entries (fst (fr_expire_old now cb f c)) = filter (\<lambda>(k, e). \<not> en_expired (fr_cfg f) now e) (fr_entries f)"
    and "fr_inv (fst (fr_expire_old now cb f c))"
proof -
  obtain es m c' where l: "fr_expire_loop now cb f c (fr_entries f) = (es, m, c')" by (metis prod_cases3)
  have e: "unat m = fr_bytes es" "es = filter (\<lambda>(k, e). \<not> en_expired (fr_cfg f) now e) (fr_entries f)"
    using fr_expire_loop_inv [of "fr_entries f" f 0 now cb c es m c'] assms l by (simp_all add: fr_inv_def)
  show "fr_entries (fst (fr_expire_old now cb f c)) = filter (\<lambda>(k, e). \<not> en_expired (fr_cfg f) now e) (fr_entries f)"
    using e by (simp add: fr_expire_old_def l)
  have sub: "fr_bytes (filter P xs) \<le> fr_bytes xs" for P and xs :: "(U64 \<times> Entry) list"
    by (induction xs) auto
  have "length es \<le> unat (frag_max_concurrent_reassemblies_per_peer (fr_cfg f))"
    using assms e(2) by (auto simp: fr_inv_def intro: order_trans [OF length_filter_le])
  moreover have "fr_bytes es \<le> unat (frag_max_total_reassembly_memory_per_peer (fr_cfg f))"
    using assms e(2) by (auto simp: fr_inv_def intro: order_trans [OF sub])
  moreover have "distinct (map fst es)" using assms e(2) by (simp add: fr_inv_def distinct_map_filter)
  moreover have "list_all (\<lambda>(k, e). entry_wf e \<and> en_message_id e = k) es" using assms e(2) by (auto simp: fr_inv_def list_all_iff)
  ultimately show "fr_inv (fst (fr_expire_old now cb f c))"
    using e(1) by (simp add: fr_expire_old_def l fr_inv_def)
qed

section \<open>Reassembly in any order\<close>

text \<open>The fragments of a message: every field as \<^verbatim>\<open>write_fragment_payload\<close> demands it.\<close>

definition fragment_of :: "FragmentedMessage \<Rightarrow> nat \<Rightarrow> FragmentView" where
  "fragment_of m i =
    (let p = fm_payload m; n = of_nat (length p) in
     \<lparr>fv_message_id = fm_message_id m, fv_delivery_sequence = fm_delivery_sequence m, fv_channel = fm_channel m,
      fv_type = fm_type m, fv_fragment_index = of_nat i, fv_fragment_count = fragment_count_for_length n,
      fv_original_length = n, fv_data = Some (fragment_slice p i), fv_len = of_nat (length (fragment_slice p i))\<rparr>)"

definition fragment_total :: "FragmentedMessage \<Rightarrow> nat" where
  "fragment_total m = (length (fm_payload m) + 1211) div 1212"

definition sendable :: "FragmentedMessage \<Rightarrow> bool" where
  "sendable m \<longleftrightarrow> fm_message_id m \<noteq> 0 \<and> channel_is_application (fm_channel m) \<and>
     0 < length (fm_payload m) \<and> length (fm_payload m) \<le> U16_MAX"

lemma sendable_length: "sendable m \<Longrightarrow> unat (of_nat (length (fm_payload m)) :: U16) = length (fm_payload m)"
  by (rule unat_of_nat_small) (simp add: sendable_def U16_MAX_def)

lemma fragment_of_simps [simp]:
  "fv_message_id (fragment_of m i) = fm_message_id m" "fv_delivery_sequence (fragment_of m i) = fm_delivery_sequence m"
  "fv_channel (fragment_of m i) = fm_channel m" "fv_type (fragment_of m i) = fm_type m"
  "fv_fragment_index (fragment_of m i) = of_nat i" "fv_original_length (fragment_of m i) = of_nat (length (fm_payload m))"
  "fv_fragment_count (fragment_of m i) = fragment_count_for_length (of_nat (length (fm_payload m)))"
  "fv_data (fragment_of m i) = Some (fragment_slice (fm_payload m) i)"
  "fv_len (fragment_of m i) = of_nat (length (fragment_slice (fm_payload m) i))"
  by (simp_all add: fragment_of_def Let_def)

lemma fragment_total_unat:
  "sendable m \<Longrightarrow> unat (fragment_count_for_length (of_nat (length (fm_payload m)))) = fragment_total m"
  by (simp add: fragment_count_unat sendable_length fragment_total_def)

lemma fragment_total_less: "sendable m \<Longrightarrow> fragment_total m < 56"
  by (auto simp: sendable_def fragment_total_def U16_MAX_def)

lemma fragment_index_unat:
  assumes "sendable m" "i < fragment_total m"
  shows "unat (of_nat i :: U16) = i"
  using assms fragment_total_less [OF assms(1)] by (intro unat_of_nat_small) simp

lemma fragment_of_valid:
  assumes "sendable m" "i < fragment_total m"
  shows "valid_fragment (fragment_of m i)"
proof -
  let ?n = "of_nat (length (fm_payload m)) :: U16"
  have n: "unat ?n = length (fm_payload m)" "?n \<noteq> 0"
    using sendable_length [OF assms(1)] assms(1) by (auto simp: sendable_def)
  have i: "(of_nat i :: U16) < fragment_count_for_length ?n"
    using fragment_total_unat [OF assms(1)] fragment_index_unat [OF assms] assms(2) by (simp add: word_less_nat_alt)
  have l: "unat (of_nat (length (fragment_slice (fm_payload m) i)) :: U16) = length (fragment_slice (fm_payload m) i)"
    by (rule unat_of_nat_small) (simp add: fragment_slice_def)
  have "unat (fragment_size_for_index ?n (of_nat i)) = length (fragment_slice (fm_payload m) i)"
    by (simp add: fragment_size_unat [OF i] n fragment_index_unat [OF assms] length_fragment_slice)
  then show ?thesis
    using assms(1) n i l by (auto simp: valid_fragment_def sendable_def word_unat_eq_iff)
qed


lemma fragment_of_buffer: "sendable m \<Longrightarrow> i < fragment_total m \<Longrightarrow> fragment_buffer (fragment_of m i)"
  using fragment_of_valid [of m i] by (auto simp: fragment_buffer_def valid_fragment_def opt_bytes_def)

lemma fragment_of_check:
  assumes "sendable m" "i < fragment_total m" "frag_enabled cfg"
    and "fragment_total m \<le> unat (frag_max_fragments_per_message cfg)"
    and "length (fm_payload m) \<le> unat (frag_max_reassembled_message_bytes cfg)"
  shows "fragment_check cfg (fragment_of m i) = Inr ()"
proof -
  have v: "valid_fragment (fragment_of m i)" by (rule fragment_of_valid [OF assms(1,2)])
  have "unat (ucast (of_nat (length (fm_payload m)) :: U16) :: U32) = length (fm_payload m)"
    using sendable_length [OF assms(1)] unat_less_pow [of "of_nat (length (fm_payload m)) :: U16"]
    by (simp add: unsigned_ucast_eq take_bit_nat_eq_self)
  then have "\<not> frag_max_reassembled_message_bytes cfg < ucast (fv_original_length (fragment_of m i))"
    using assms(5) by (simp add: word_less_nat_alt)
  moreover have "\<not> frag_max_fragments_per_message cfg < fv_fragment_count (fragment_of m i)"
    using assms(4) fragment_total_unat [OF assms(1)] by (simp add: word_less_nat_alt)
  ultimately show ?thesis
    using v assms(3) unfolding fragment_check_def valid_fragment_def
    by (simp del: fragment_of_simps add: not_le) auto
qed

text \<open>The partial message after the fragments of \<open>S\<close> have arrived.\<close>

definition entry_for :: "FragmentedMessage \<Rightarrow> nat set \<Rightarrow> Entry \<Rightarrow> bool" where
  "entry_for m S e \<longleftrightarrow> entry_wf e \<and> \<not> entry_mismatch e (fragment_of m 0) \<and> en_message_id e = fm_message_id m \<and>
     (\<forall>i < fragment_total m. en_received e ! i \<longleftrightarrow> i \<in> S) \<and>
     (\<forall>x < length (fm_payload m). x div 1212 \<in> S \<longrightarrow> en_payload e ! x = fm_payload m ! x)"

lemma entry_for_new: "sendable m \<Longrightarrow> entry_for m {} (new_entry now (fragment_of m i))"
  using new_entry_wf [of now "fragment_of m i"]
  by (simp add: entry_for_def entry_mismatch_def) (simp add: new_entry_def fragment_total_unat)

lemma entry_for_mismatch: "entry_for m S e \<Longrightarrow> \<not> entry_mismatch e (fragment_of m i)"
  by (simp add: entry_for_def entry_mismatch_def)

lemma entry_for_lengths:
  assumes "sendable m" "entry_for m S e"
  shows "length (en_payload e) = length (fm_payload m)" "length (en_received e) = fragment_total m"
    "unat (en_fragment_count e) = fragment_total m"
  using assms by (auto simp: entry_for_def entry_wf_def entry_mismatch_def sendable_length fragment_total_unat)

lemma length_filter_id_set:
  "length (filter id bs) = card {i. i < length bs \<and> bs ! i}"
  by (simp add: length_filter_conv_card)

lemma entry_for_count:
  assumes "sendable m" "entry_for m S e" "S \<subseteq> {..<fragment_total m}"
  shows "unat (en_received_count e) = card S"
proof -
  have "{i. i < length (en_received e) \<and> en_received e ! i} = S"
    using assms entry_for_lengths [OF assms(1,2)] by (auto simp: entry_for_def)
  then show ?thesis using assms(2) by (simp add: entry_for_def entry_wf_def length_filter_id_set)
qed

lemma entry_for_complete:
  assumes "sendable m" "entry_for m {..<fragment_total m} e"
  shows "en_payload e = fm_payload m"
proof (rule nth_equalityI)
  show "length (en_payload e) = length (fm_payload m)" using entry_for_lengths [OF assms] by simp
next
  fix x assume "x < length (en_payload e)"
  then have x: "x < length (fm_payload m)" using entry_for_lengths [OF assms] by simp
  then have "x div 1212 < fragment_total m" by (simp add: fragment_total_def)
  then show "en_payload e ! x = fm_payload m ! x" using assms(2) x by (simp add: entry_for_def)
qed

lemma nth_overlay:
  assumes "off + length d \<le> length xs" "x < length xs"
  shows "(take off xs @ d @ drop (off + length d) xs) ! x =
    (if off \<le> x \<and> x < off + length d then d ! (x - off) else xs ! x)"
  using assms by (auto simp: nth_append min_def)


lemma fragment_fits:
  assumes "i < fragment_total m"
  shows "i * 1212 + length (fragment_slice (fm_payload m) i) \<le> length (fm_payload m)"
  using assms by (auto simp: fragment_total_def length_fragment_slice)

lemma fragment_len_unat: "sendable m \<Longrightarrow> i < fragment_total m \<Longrightarrow>
   unat (fv_len (fragment_of m i)) = length (fragment_slice (fm_payload m) i)"
  using fragment_of_valid [of m i] by (auto simp: valid_fragment_def)

lemma fragment_slice_nth:
  assumes "i * 1212 \<le> x" "x < i * 1212 + length (fragment_slice p i)"
  shows "fragment_slice p i ! (x - i * 1212) = p ! x"
proof -
  have "x - i * 1212 < 1212" "i * 1212 \<le> length p" using assms by (auto simp: fragment_slice_def)
  then show ?thesis using assms(1) by (simp add: fragment_slice_def)
qed

lemma entry_for_store:
  assumes "sendable m" "i < fragment_total m" "entry_for m S e" "i \<notin> S"
  shows "entry_for m (insert i S) (store_fragment now (fragment_of m i) (i * 1212) e)"
proof -
  let ?v = "fragment_of m i" and ?d = "fragment_slice (fm_payload m) i" and ?e = "store_fragment now (fragment_of m i) (i * 1212) e"
  note len = entry_for_lengths [OF assms(1,3)]
  have i: "unat (of_nat i :: U16) = i" by (rule fragment_index_unat [OF assms(1,2)])
  have fl: "unat (fv_len ?v) = length ?d" by (rule fragment_len_unat [OF assms(1,2)])
  have fits: "i * 1212 + length ?d \<le> length (en_payload e)" using fragment_fits [OF assms(2)] len by simp
  have wf: "entry_wf ?e"
    using assms fl fits i len fragment_of_buffer [OF assms(1,2)]
    by (intro store_fragment_wf) (simp_all add: entry_for_def del: fragment_of_simps(9))
  have "0 < length ?d" using assms(2) by (auto simp: fragment_total_def length_fragment_slice)
  then have pos: "0 < fv_len ?v" using fl unfolding word_less_nat_alt by (simp del: fragment_of_simps)
  have pl: "en_payload ?e = take (i * 1212) (en_payload e) @ ?d @ drop (i * 1212 + length ?d) (en_payload e)"
    using pos fl by (simp add: store_fragment_def opt_bytes_def del: fragment_of_simps(9))
  have "en_payload ?e ! x = fm_payload m ! x" if x: "x < length (fm_payload m)" "x div 1212 \<in> insert i S" for x
  proof (cases "i * 1212 \<le> x \<and> x < i * 1212 + length ?d")
    case True
    then have "?d ! (x - i * 1212) = fm_payload m ! x" by (intro fragment_slice_nth) simp_all
    then show ?thesis using pl nth_overlay [OF fits, of x] x(1) len True by simp
  next
    case False
    then have "x div 1212 \<noteq> i" using x(1) by (auto simp: length_fragment_slice)
    then have "x div 1212 \<in> S" using x(2) by simp
    then have "en_payload e ! x = fm_payload m ! x" using assms(3) x(1) by (simp add: entry_for_def)
    then show ?thesis using pl nth_overlay [OF fits, of x] x(1) len False by (simp del: append_assoc)
  qed
  moreover have "(en_received e)[i := True] ! j \<longleftrightarrow> j \<in> insert i S" if "j < fragment_total m" for j
    using that assms(3) len(2) by (cases "j = i") (simp_all add: entry_for_def)
  ultimately show ?thesis
    using wf assms(3) i by (simp add: entry_for_def entry_mismatch_def)
qed

definition with_entry :: "FragmentReassembler \<Rightarrow> Entry \<Rightarrow> FragmentReassembler" where
  "with_entry f e = f\<lparr>fr_entries := (en_message_id e, e) # fr_entries f,
     fr_memory_bytes := fr_memory_bytes f + ucast (en_original_length e)\<rparr>"

lemma set_with_entry:
  "map_of (fr_entries f) k = None \<Longrightarrow> en_message_id e = k \<Longrightarrow> en_message_id e' = k \<Longrightarrow>
   en_original_length e' = en_original_length e \<Longrightarrow> set_entry k e' (with_entry f e) = with_entry f e'"
  by (simp add: set_entry_def with_entry_def upd_entry_id map_of_eq_None_iff)

lemma erase_with_entry:
  assumes "map_of (fr_entries f) k = None" "en_message_id e = k" "en_original_length e' = en_original_length e"
  shows "erase_entry k e' (with_entry f e) = f"
proof -
  have "filter (\<lambda>(j, _). j \<noteq> k) (fr_entries f) = fr_entries f"
    using assms(1) by (force simp: filter_id_conv map_of_eq_None_iff)
  then show ?thesis using assms by (simp add: erase_entry_def with_entry_def)
qed

lemma map_of_with_entry: "map_of (fr_entries (with_entry f e)) (en_message_id e) = Some e"
  by (simp add: with_entry_def)

text \<open>Each fragment of a message is counted once; the last one hands the whole message over.\<close>

text \<open>The count that follows the next fragment tells whether that one was the last.\<close>

lemma entry_for_full:
  assumes "sendable m" "i < fragment_total m" "entry_for m S e" "S \<subseteq> {..<fragment_total m}"
    and "unat (en_received_count (store_fragment now v offset e)) = card (insert i S)"
  shows "en_received_count e + 1 = en_fragment_count e \<longleftrightarrow> insert i S = {..<fragment_total m}"
proof -
  have "insert i S = {..<fragment_total m} \<longleftrightarrow> card (insert i S) = fragment_total m"
    using card_subset_eq [of "{..<fragment_total m}" "insert i S"] assms(2,4) by auto
  then show ?thesis using assms(5) entry_for_lengths [OF assms(1,3)] by (simp add: word_unat_eq_iff store_fragment_def)
qed

lemma fr_accept_step:
  assumes m: "sendable m" "i < fragment_total m" and chk: "fragment_check (fr_cfg f) (fragment_of m i) = Inr ()"
    and f0: "map_of (fr_entries f) (fm_message_id m) = None"
    and foi: "fr_find_or_insert now (fragment_of m i) g = Inr (e, with_entry f e)" "fr_cfg g = fr_cfg f"
    and e: "entry_for m S e" "S \<subseteq> {..<fragment_total m}"
  shows "i \<in> S \<Longrightarrow> \<exists>e'. entry_for m S e' \<and> fr_accept now (fragment_of m i) cb g c = (Inr (True, False), with_entry f e', c)"
    and "i \<notin> S \<Longrightarrow> insert i S \<noteq> {..<fragment_total m} \<Longrightarrow>
      \<exists>e'. entry_for m (insert i S) e' \<and> fr_accept now (fragment_of m i) cb g c = (Inr (False, False), with_entry f e', c)"
    and "i \<notin> S \<Longrightarrow> insert i S = {..<fragment_total m} \<Longrightarrow> cb c m = (Inr u, c') \<Longrightarrow>
      fr_accept now (fragment_of m i) cb g c = (Inr (False, True), f, c')"
    and "i \<notin> S \<Longrightarrow> insert i S = {..<fragment_total m} \<Longrightarrow> cb c m = (Inl er, c') \<Longrightarrow>
      \<exists>e'. entry_for m {..<fragment_total m} e' \<and> fr_accept now (fragment_of m i) cb g c = (Inl er, with_entry f e', c')"
proof -
  let ?v = "fragment_of m i" and ?k = "fm_message_id m"
  let ?e = "store_fragment now ?v (i * 1212) e" and ?d = "e\<lparr>en_last_update_ms := now\<rparr>"
  note len = entry_for_lengths [OF m(1) e(1)]
  have i: "unat (of_nat i :: U16) = i" by (rule fragment_index_unat [OF m])
  have mis: "\<not> entry_mismatch e ?v" by (rule entry_for_mismatch [OF e(1)])
  have mid: "en_message_id e = ?k" using e(1) by (simp add: entry_for_def)
  have fits: "\<not> length (en_payload e) < i * 1212 + unat (fv_len ?v)"
    using fragment_fits [OF m(2)] len fragment_len_unat [OF m] by simp
  have rec: "en_received e ! i \<longleftrightarrow> i \<in> S" using e(1) m(2) by (simp add: entry_for_def)
  have d: "entry_for m S ?d" using e(1) by (simp add: entry_for_def entry_wf_def entry_mismatch_def)
  note acc = fr_accept_def [of now ?v cb g c] foi chk Let_def mis i rec fits [unfolded fragment_of_simps(9)] MaxFragmentDataBytes_def
  show "i \<in> S \<Longrightarrow> \<exists>e'. entry_for m S e' \<and> fr_accept now ?v cb g c = (Inr (True, False), with_entry f e', c)"
    using d set_with_entry [OF f0 mid, of ?d] mid by (intro exI [of _ ?d]) (simp add: acc)
  have cnt: "unat (en_received_count ?e) = card (insert i S)" "entry_for m (insert i S) ?e" if "i \<notin> S"
    using entry_for_count [OF m(1) entry_for_store [OF m e(1) that]] entry_for_store [OF m e(1) that] m(2) e(2)
    by simp_all
  note full = entry_for_full [OF m e cnt(1)]
  show "\<exists>e'. entry_for m (insert i S) e' \<and> fr_accept now ?v cb g c = (Inr (False, False), with_entry f e', c)"
    if "i \<notin> S" "insert i S \<noteq> {..<fragment_total m}"
    using cnt(2) [OF that(1)] full [OF that(1)] that set_with_entry [OF f0 mid, of ?e] mid
    by (intro exI [of _ ?e]) (simp add: acc)
  have msg: "entry_for m {..<fragment_total m} ?e \<and> \<lparr>fm_message_id = en_message_id e, fm_delivery_sequence = en_delivery_sequence e,
      fm_channel = en_channel e, fm_type = en_type e, fm_payload = en_payload ?e\<rparr> = m"
    if "i \<notin> S" "insert i S = {..<fragment_total m}"
  proof -
    have "entry_for m {..<fragment_total m} ?e" using cnt(2) [OF that(1)] that(2) by simp
    moreover from this have "en_payload ?e = fm_payload m" by (rule entry_for_complete [OF m(1)])
    ultimately show ?thesis using mis mid by (simp add: entry_mismatch_def)
  qed
  show "fr_accept now ?v cb g c = (Inr (False, True), f, c')"
    if "i \<notin> S" "insert i S = {..<fragment_total m}" "cb c m = (Inr u, c')"
  proof -
    have ers: "erase_entry ?k ?e (set_entry ?k ?e (with_entry f e)) = f"
      using set_with_entry [OF f0 mid, of ?e] erase_with_entry [OF f0, of ?e ?e] mid by simp
    show ?thesis
      using full [OF that(1)] that msg [OF that(1,2)] ers by (simp add: acc)
  qed
  show "\<exists>e'. entry_for m {..<fragment_total m} e' \<and> fr_accept now ?v cb g c = (Inl er, with_entry f e', c')"
    if "i \<notin> S" "insert i S = {..<fragment_total m}" "cb c m = (Inl er, c')"
    using full [OF that(1)] that msg [OF that(1,2)] set_with_entry [OF f0 mid, of ?e] mid
    by (intro exI [of _ ?e]) (simp add: acc)
qed

text \<open>A sequence of fragments given to \<^verbatim>\<open>accept\<close>, with the results in order.\<close>

fun fr_feed :: "(U64 \<times> FragmentView) list \<Rightarrow> ('c \<Rightarrow> FragmentedMessage \<Rightarrow> unit result \<times> 'c) \<Rightarrow>
    FragmentReassembler \<Rightarrow> 'c \<Rightarrow> (bool \<times> bool) result list \<times> FragmentReassembler \<times> 'c" where
  "fr_feed [] cb f c = ([], f, c)"
| "fr_feed ((now, v) # vs) cb f c =
    (case fr_accept now v cb f c of (r, f, c) \<Rightarrow>
     case fr_feed vs cb f c of (rs, f, c) \<Rightarrow> (r # rs, f, c))"

lemma fr_feed_append:
  "fr_feed (xs @ ys) cb f c =
   (case fr_feed xs cb f c of (rs, f, c) \<Rightarrow> case fr_feed ys cb f c of (rs', f, c) \<Rightarrow> (rs @ rs', f, c))"
  by (induction xs cb f c rule: fr_feed.induct) (auto split: prod.splits)

definition fragments_of :: "FragmentedMessage \<Rightarrow> (U64 \<times> nat) list \<Rightarrow> (U64 \<times> FragmentView) list" where
  "fragments_of m xs = map (\<lambda>(now, i). (now, fragment_of m i)) xs"

definition fits_policy :: "FragmentationConfig \<Rightarrow> FragmentedMessage \<Rightarrow> bool" where
  "fits_policy cfg m \<longleftrightarrow> frag_enabled cfg \<and> fragment_total m \<le> unat (frag_max_fragments_per_message cfg) \<and>
     length (fm_payload m) \<le> unat (frag_max_reassembled_message_bytes cfg)"

definition room_for :: "FragmentReassembler \<Rightarrow> FragmentedMessage \<Rightarrow> bool" where
  "room_for f m \<longleftrightarrow> map_of (fr_entries f) (fm_message_id m) = None \<and>
     length (fr_entries f) < unat (frag_max_concurrent_reassemblies_per_peer (fr_cfg f)) \<and>
     \<not> frag_max_total_reassembly_memory_per_peer (fr_cfg f) < fr_memory_bytes f + of_nat (length (fm_payload m))"

lemma find_or_insert_new:
  assumes "sendable m" "room_for f m"
  shows "fr_find_or_insert now (fragment_of m i) f =
    Inr (new_entry now (fragment_of m i), with_entry f (new_entry now (fragment_of m i)))"
proof -
  have "(ucast (of_nat (length (fm_payload m)) :: U16) :: U64) = of_nat (length (fm_payload m))"
    by (rule word_unat_eq_iff [THEN iffD2])
       (use assms(1) in \<open>simp add: unsigned_ucast_eq take_bit_nat_eq_self unat_of_nat_small sendable_def U16_MAX_def\<close>)
  then show ?thesis
    using assms(2) by (simp add: fr_find_or_insert_def room_for_def Let_def) (simp add: with_entry_def new_entry_def)
qed

lemma find_or_insert_old:
  "entry_for m S e \<Longrightarrow> fr_find_or_insert now (fragment_of m i) (with_entry f e) = Inr (e, with_entry f e)"
  using map_of_with_entry [of f e] by (simp add: fr_find_or_insert_def entry_for_def)

definition all_partial :: "(bool \<times> bool) result list \<Rightarrow> bool" where
  "all_partial rs = list_all (\<lambda>r. \<exists>d. r = Inr (d, False)) rs"

text \<open>What the next fragment finds after a part of the fragments has arrived.\<close>

definition partly_fed :: "FragmentReassembler \<Rightarrow> FragmentedMessage \<Rightarrow> (U64 \<times> nat) list \<Rightarrow> FragmentReassembler \<Rightarrow> bool" where
  "partly_fed f m xs g \<longleftrightarrow> (if xs = [] then g = f else \<exists>e. g = with_entry f e \<and> entry_for m (snd ` set xs) e)"

lemma partly_fed_find:
  assumes "sendable m" "room_for f m" "partly_fed f m xs g"
  shows "\<exists>e. fr_find_or_insert now (fragment_of m i) g = Inr (e, with_entry f e) \<and> fr_cfg g = fr_cfg f \<and> entry_for m (snd ` set xs) e"
proof (cases "xs = []")
  case True
  then show ?thesis
    using find_or_insert_new [OF assms(1,2), of now i] entry_for_new [OF assms(1), of now i] assms(3)
    by (simp add: partly_fed_def)
next
  case False
  then obtain e where "g = with_entry f e" "entry_for m (snd ` set xs) e" using assms(3) by (auto simp: partly_fed_def)
  then show ?thesis using find_or_insert_old [of m "snd ` set xs" e now i f] by (simp add: with_entry_def)
qed

lemma room_for_absent: "room_for f m \<Longrightarrow> map_of (fr_entries f) (fm_message_id m) = None"
  by (simp add: room_for_def)

lemma fits_policy_check:
  "sendable m \<Longrightarrow> fits_policy cfg m \<Longrightarrow> i < fragment_total m \<Longrightarrow> fragment_check cfg (fragment_of m i) = Inr ()"
  by (rule fragment_of_check) (auto simp: fits_policy_def)

lemma fr_feed_partial:
  assumes m: "sendable m" "fits_policy (fr_cfg f) m" "room_for f m"
    and xs: "snd ` set xs \<subset> {..<fragment_total m}"
  shows "\<exists>rs g. fr_feed (fragments_of m xs) cb f c = (rs, g, c) \<and> length rs = length xs \<and> all_partial rs \<and> partly_fed f m xs g"
  using xs
proof (induction xs rule: rev_induct)
  case (snoc x xs)
  obtain now i where x: "x = (now, i)" by (cases x)
  let ?S = "snd ` set xs"
  have i: "i < fragment_total m" and S: "?S \<subset> {..<fragment_total m}" and full: "insert i ?S \<noteq> {..<fragment_total m}"
    using snoc.prems x by auto
  obtain rs g where IH: "fr_feed (fragments_of m xs) cb f c = (rs, g, c)" "length rs = length xs" "all_partial rs"
    "partly_fed f m xs g" using snoc.IH [OF S] by blast
  obtain e where e: "fr_find_or_insert now (fragment_of m i) g = Inr (e, with_entry f e)" "fr_cfg g = fr_cfg f" "entry_for m ?S e"
    using partly_fed_find [OF m(1,3) IH(4)] by blast
  note step = fr_accept_step [OF m(1) i fits_policy_check [OF m(1,2) i] room_for_absent [OF m(3)] e less_imp_le [OF S], of cb c]
  have "\<exists>e' d. entry_for m (insert i ?S) e' \<and> fr_accept now (fragment_of m i) cb g c = (Inr (d, False), with_entry f e', c)"
  proof (cases "i \<in> ?S")
    case True
    then show ?thesis using step(1) [OF True] unfolding insert_absorb [OF True] by blast
  next
    case False
    then show ?thesis using step(2) [OF False full] by blast
  qed
  then show ?case
    using IH(1-3) x by (auto simp: fragments_of_def fr_feed_append all_partial_def partly_fed_def)
qed (simp add: fragments_of_def all_partial_def partly_fed_def)

lemma last_missing:
  assumes "S \<subset> {..<n}" "insert i S = {..<n :: nat}"
  shows "i < n" "i \<notin> S"
proof -
  show "i < n" using assms(2) by (metis insertI1 lessThan_iff)
  show "i \<notin> S" using assms by (metis insert_absorb order_less_irrefl)
qed

lemma fr_feed_snoc:
  "fr_feed (fragments_of m xs) cb f c = (rs, g, c1) \<Longrightarrow> fr_accept now (fragment_of m i) cb g c1 = (r, h, c2) \<Longrightarrow>
   fr_feed (fragments_of m (xs @ [(now, i)])) cb f c = (rs @ [r], h, c2)"
  by (simp add: fragments_of_def fr_feed_append)


section \<open>Properties\<close>

text \<open>
  C30: the fragment format. A fragment whose fields satisfy the checks of the sender is written as
  the 24-byte header and its slice, and the reader accepts exactly the strings written for such
  fragments, giving back every field.
\<close>

theorem fragment_format_exact:
  assumes "valid_fragment v" and "length (enc_fragment v) \<le> n" and "n \<le> length buf"
  shows "(\<exists>w. write_fragment_payload (writer_on buf n) (fv_message_id v) (fv_delivery_sequence v) (fv_channel v) (fv_type v)
           (fv_fragment_index v) (fv_fragment_count v) (fv_original_length v) (fv_data v) (fv_len v) = Inr w \<and>
           written w = enc_fragment v) \<and>
         (\<forall>bs x. decode_with read_fragment_payload bs = Inr x \<longleftrightarrow> valid_fragment x \<and> bs = enc_fragment x)"
  using write_fragment_payload_emit [of "writer_on buf n" v] emit_writer_on [of "enc_fragment v" buf n] assms
  by (simp add: fragment.dec_iff) (auto intro: written_emit_on)

theorem fragment_format_exact_witness:
  "\<exists>w. write_fragment_payload (writer_on (replicate 30 0) 30) 9 4 Channel.ReliableOrdered 5 0 1 3 (Some [1, 2, 3]) 3 = Inr w \<and>
     written w = be_bytes 8 (9 :: U64) @ be_bytes 8 (4 :: U64) @ [2, 5, 0, 0, 0, 1, 0, 3, 1, 2, 3]"
proof -
  let ?v = "\<lparr>fv_message_id = 9, fv_delivery_sequence = 4, fv_channel = Channel.ReliableOrdered, fv_type = 5,
    fv_fragment_index = 0, fv_fragment_count = 1, fv_original_length = 3, fv_data = Some [1, 2, 3], fv_len = 3\<rparr>"
  have "valid_fragment ?v"
    by (simp add: valid_fragment_def fragment_count_for_length_def fragment_size_for_index_def MaxFragmentDataBytes_def
        Let_def channel_is_application_def channel_valid_def)
  then show ?thesis
    using fragment_format_exact [of ?v 30 "replicate 30 0"]
    by (simp add: enc_fragment_def opt_bytes_def enc_u8_def) (simp add: be_bytes_numeral)
qed

text \<open>
  C14: limits of the reassembler. For every fragment with a readable buffer, every callback and
  every clock, accepting the fragment and expiring old messages keep the reassembler within its
  limits: the number of partial messages and the sum of their buffers stay below the configured
  maxima, the byte counter is that sum, every buffer has the announced length, and the counter of
  received fragments is the number of received marks. Expiry keeps exactly the messages whose
  timeout has not passed.
\<close>

theorem reassembler_limits:
  assumes "fr_inv f" and "fragment_limits f" and "fragment_buffer v"
  shows "fr_inv (fst (snd (fr_accept now v cb f c))) \<and>
         fr_inv (fst (fr_expire_old now ex f d)) \<and>
         fr_entries (fst (fr_expire_old now ex f d)) = filter (\<lambda>(k, e). \<not> en_expired (fr_cfg f) now e) (fr_entries f) \<and>
         fr_inv (fr_configure cfg f) \<and>
         length (fr_entries f) \<le> unat (frag_max_concurrent_reassemblies_per_peer (fr_cfg f)) \<and>
         sum_list (map (\<lambda>(k, e). length (en_payload e)) (fr_entries f)) = unat (fr_memory_bytes f) \<and>
         unat (fr_memory_bytes f) \<le> unat (frag_max_total_reassembly_memory_per_peer (fr_cfg f))"
proof -
  have "list_all (\<lambda>(k, e). entry_wf e \<and> en_message_id e = k) es \<Longrightarrow>
     sum_list (map (\<lambda>(k, e). length (en_payload e)) es) = fr_bytes es" for es
    by (induction es) (auto simp: entry_wf_def)
  moreover have "fr_inv (fst (snd (fr_accept now v cb f c)))"
    using fr_accept_inv [OF assms, of now cb c] by (metis prod.collapse)
  ultimately show ?thesis
    using fr_expire_old_eq [OF assms(1), of now ex d] fr_inv_clear(2) [of cfg f] assms(1)
    by (simp add: fr_inv_def [of f])
qed

theorem reassembler_limits_witness:
  "fr_inv (fst (snd (fr_accept 10 (fragment_of \<lparr>fm_message_id = 9, fm_delivery_sequence = 0, fm_channel = Channel.Reliable,
      fm_type = 5, fm_payload = replicate 1300 7\<rparr> 1) (\<lambda>c m. (Inr (), m # c)) FragmentReassembler_default [])))"
proof -
  let ?m = "\<lparr>fm_message_id = 9, fm_delivery_sequence = 0, fm_channel = Channel.Reliable, fm_type = 5, fm_payload = replicate 1300 7\<rparr>"
  have lim: "fragment_limits FragmentReassembler_default"
    by (simp add: fragment_limits_def FragmentReassembler_default_def FragmentationConfig_default_def U16_MAX_def)
  have buf: "fragment_buffer (fragment_of ?m 1)"
    by (simp add: fragment_buffer_def fragment_of_def fragment_slice_def opt_bytes_def Let_def)
  show ?thesis by (rule reassembler_limits [OF fr_inv_clear(3) lim buf, THEN conjunct1])
qed

text \<open>
  C7: reassembly. The fragments of a message of 1 to 65535 bytes, arriving in any order and with
  any duplicates, with other partial messages present: no fragment before the last missing one
  calls the completion callback, the last missing one calls it exactly once with the original
  message, and the reassembler is then as it was before the first fragment.
\<close>

theorem reassembly_any_order:
  assumes "sendable m" and "fits_policy (fr_cfg f) m" and "room_for f m"
    and "snd ` set xs \<subset> {..<fragment_total m}" and "insert i (snd ` set xs) = {..<fragment_total m}"
    and "cb c m = (Inr (), c')"
  shows "\<exists>rs. fr_feed (fragments_of m (xs @ [(now, i)])) cb f c = (rs @ [Inr (False, True)], f, c') \<and>
     length rs = length xs \<and> all_partial rs"
proof -
  note i = last_missing [OF assms(4,5)]
  obtain rs g where r: "fr_feed (fragments_of m xs) cb f c = (rs, g, c)" "length rs = length xs" "all_partial rs" "partly_fed f m xs g"
    using fr_feed_partial [OF assms(1-4), of cb c] by (elim exE conjE)
  obtain e where e: "fr_find_or_insert now (fragment_of m i) g = Inr (e, with_entry f e)" "fr_cfg g = fr_cfg f" "entry_for m (snd ` set xs) e"
    using partly_fed_find [OF assms(1,3) r(4), of now i] by (elim exE conjE)
  have acc: "fr_accept now (fragment_of m i) cb g c = (Inr (False, True), f, c')"
    by (rule fr_accept_step(3) [where cb = cb and c = c and u = "()", OF assms(1) i(1) fits_policy_check [OF assms(1,2) i(1)] room_for_absent [OF assms(3)] e
          less_imp_le [OF assms(4)] i(2) assms(5,6)])
  show ?thesis using fr_feed_snoc [OF r(1) acc] r(2,3) by (intro exI [of _ rs] conjI)
qed

theorem reassembly_any_order_witness:
  "\<exists>rs. fr_feed (fragments_of \<lparr>fm_message_id = 9, fm_delivery_sequence = 0, fm_channel = Channel.Reliable, fm_type = 5,
      fm_payload = replicate 1300 7\<rparr> ([(1, 1), (2, 1)] @ [(3, 0)])) (\<lambda>c m. (Inr (), fm_payload m # c)) FragmentReassembler_default [] =
     (rs @ [Inr (False, True)], FragmentReassembler_default, [replicate 1300 7]) \<and> length rs = 2 \<and> all_partial rs"
proof -
  let ?m = "\<lparr>fm_message_id = 9, fm_delivery_sequence = 0, fm_channel = Channel.Reliable, fm_type = 5, fm_payload = replicate 1300 7\<rparr>"
  let ?f = FragmentReassembler_default
  have t: "fragment_total ?m = 2" by (simp add: fragment_total_def)
  have two: "{..<2} = {0, 1 :: nat}" by auto
  have s: "sendable ?m" by (simp add: sendable_def channel_is_application_def channel_valid_def U16_MAX_def)
  have p: "fits_policy (fr_cfg ?f) ?m" "room_for ?f ?m"
    by (simp_all add: fits_policy_def room_for_def t FragmentReassembler_default_def FragmentationConfig_default_def)
  have "snd ` set [(1 :: U64, 1), (2, 1)] \<subset> {..<fragment_total ?m}" unfolding t two by auto
  moreover have "insert 0 (snd ` set [(1 :: U64, 1), (2, 1)]) = {..<fragment_total ?m}" unfolding t two by auto
  ultimately show ?thesis
    using reassembly_any_order [OF s p, of "[(1, 1), (2, 1)]" 0 "\<lambda>c m. (Inr (), fm_payload m # c)" "[]" "[replicate 1300 7]" 3] by (simp add: numeral_2_eq_2)
qed



end
