(* ===== verification/Scn_Congestion.thy ===== *)
theory Scn_Congestion
  imports Scn_Config
begin

text \<open>
  Congestion control (\<^verbatim>\<open>congestion_control.hpp\<close>): the additive-increase,
  multiplicative-decrease controller that gives the send budget of a connection its rate and its
  window. All quantities are 64-bit words, so products and sums wrap as in the code; the lemmas show
  for which values they do not. \<^verbatim>\<open>std::clamp\<close> is called with ordered bounds in every state that a
  validated configuration reaches.
\<close>

section \<open>The controller\<close>

record CongestionControlSnapshot =
  ccs_enabled :: bool
  ccs_current_rate_bytes_per_second :: U64
  ccs_current_window_bytes :: U64
  ccs_ack_events :: U64
  ccs_loss_events :: U64
  ccs_backpressure_events :: U64

record CongestionController =
  cg_cfg :: CongestionControlConfig
  cg_configured_send_rate :: U64
  cg_current_rate :: U64
  cg_current_window :: U64
  cg_latest_rtt_ms :: U64
  cg_smoothed_rtt_ms :: U64
  cg_last_loss_ms :: U64
  cg_last_backpressure_ms :: U64
  cg_ack_events :: U64
  cg_loss_events :: U64
  cg_backpressure_events :: U64

definition CongestionController_default :: CongestionController where
  "CongestionController_default =
    \<lparr>cg_cfg = CongestionControlConfig_default, cg_configured_send_rate = 1, cg_current_rate = 1,
     cg_current_window = of_nat (MaxPacketBytes * 4), cg_latest_rtt_ms = 0, cg_smoothed_rtt_ms = 100,
     cg_last_loss_ms = 0, cg_last_backpressure_ms = 0, cg_ack_events = 0, cg_loss_events = 0,
     cg_backpressure_events = 0\<rparr>"

definition configured_max_rate :: "CongestionController \<Rightarrow> U64" where
  "configured_max_rate c =
    (if \<not> cc_enabled (cg_cfg c) then cg_configured_send_rate c
     else if cc_max_rate_bytes_per_second (cg_cfg c) = 0 then cg_configured_send_rate c
     else ucast (cc_max_rate_bytes_per_second (cg_cfg c)))"

definition configured_min_rate :: "CongestionController \<Rightarrow> U64 \<Rightarrow> U64" where
  "configured_min_rate c max_rate =
    (if \<not> cc_enabled (cg_cfg c) then cg_configured_send_rate c
     else min (max 1 (ucast (cc_min_rate_bytes_per_second (cg_cfg c)))) max_rate)"

definition configured_max_window :: "CongestionController \<Rightarrow> U64 \<Rightarrow> U64" where
  "configured_max_window c max_rate =
    (if cc_max_window_bytes (cg_cfg c) \<noteq> 0 then ucast (cc_max_window_bytes (cg_cfg c))
     else max (ucast (cc_min_window_bytes (cg_cfg c))) (max_rate * 2))"

definition cg_rate_bytes_per_second :: "CongestionController \<Rightarrow> U64" where
  "cg_rate_bytes_per_second c = (if cc_enabled (cg_cfg c) then cg_current_rate c else cg_configured_send_rate c)"

definition cg_bucket_cap_bytes :: "CongestionController \<Rightarrow> U64" where
  "cg_bucket_cap_bytes c = (let two_seconds = cg_rate_bytes_per_second c * 2 in max (of_nat MaxPacketBytes) two_seconds)"

definition cg_window_bytes :: "CongestionController \<Rightarrow> U64" where
  "cg_window_bytes c = (if cc_enabled (cg_cfg c) then cg_current_window c else cg_bucket_cap_bytes c)"

definition cg_enabled :: "CongestionController \<Rightarrow> bool" where
  "cg_enabled c = cc_enabled (cg_cfg c)"

definition update_window :: "CongestionController \<Rightarrow> CongestionController" where
  "update_window c =
    (if \<not> cc_enabled (cg_cfg c) then c\<lparr>cg_current_window := cg_bucket_cap_bytes c\<rparr>
     else let max_rate = configured_max_rate c;
              rtt_ms = max 25 (if cg_smoothed_rtt_ms c = 0 then 100 else cg_smoothed_rtt_ms c);
              bandwidth_delay_product = max (of_nat MaxPacketBytes) ((cg_current_rate c * rtt_ms) div 1000);
              max_window = configured_max_window c max_rate
          in c\<lparr>cg_current_window := clamp bandwidth_delay_product (ucast (cc_min_window_bytes (cg_cfg c))) max_window\<rparr>)"

definition reset_runtime :: "CongestionController \<Rightarrow> CongestionController" where
  "reset_runtime c =
    (let max_rate = configured_max_rate c;
         min_rate = configured_min_rate c max_rate;
         initial_rate = (if cc_initial_rate_bytes_per_second (cg_cfg c) \<noteq> 0
                         then ucast (cc_initial_rate_bytes_per_second (cg_cfg c))
                         else max min_rate (max_rate div 2))
     in update_window
       (c\<lparr>cg_current_rate := (if cc_enabled (cg_cfg c) then clamp initial_rate min_rate max_rate else cg_configured_send_rate c),
          cg_smoothed_rtt_ms := 100, cg_latest_rtt_ms := 0, cg_last_loss_ms := 0, cg_last_backpressure_ms := 0,
          cg_ack_events := 0, cg_loss_events := 0, cg_backpressure_events := 0\<rparr>))"

definition cg_configure :: "CongestionControlConfig \<Rightarrow> U32 \<Rightarrow> CongestionController \<Rightarrow> CongestionController" where
  "cg_configure cfg configured_send_rate_bytes_per_second c =
    reset_runtime (c\<lparr>cg_cfg := cfg, cg_configured_send_rate := max 1 (ucast configured_send_rate_bytes_per_second)\<rparr>)"

definition cg_on_ack :: "bool \<Rightarrow> U64 \<Rightarrow> bool \<Rightarrow> U64 \<Rightarrow> CongestionController \<Rightarrow> CongestionController" where
  "cg_on_ack rtt_sample_valid rtt_sample_ms retransmitted now_ms c =
    (if \<not> cc_enabled (cg_cfg c) then c
     else let c = c\<lparr>cg_ack_events := cg_ack_events c + 1\<rparr>;
              c = (if rtt_sample_valid \<and> 0 < rtt_sample_ms
                   then c\<lparr>cg_latest_rtt_ms := rtt_sample_ms,
                          cg_smoothed_rtt_ms := (if cg_smoothed_rtt_ms c = 0 then rtt_sample_ms
                                                 else (cg_smoothed_rtt_ms c * 7 + rtt_sample_ms) div 8)\<rparr>
                   else c)
          in if \<not> retransmitted
             then let max_rate = configured_max_rate c;
                      increase = max 1 (ucast (cc_additive_increase_bytes_per_ack (cg_cfg c)))
                  in update_window (c\<lparr>cg_current_rate := min max_rate (cg_current_rate c + increase)\<rparr>)
             else c)"

definition apply_decrease :: "U32 \<Rightarrow> CongestionController \<Rightarrow> CongestionController" where
  "apply_decrease decrease_per_mille c =
    (let max_rate = configured_max_rate c;
         min_rate = configured_min_rate c max_rate;
         decreased = (cg_current_rate c * ucast decrease_per_mille) div 1000
     in update_window (c\<lparr>cg_current_rate := clamp (max 1 decreased) min_rate max_rate\<rparr>))"

definition in_cooldown :: "U64 \<Rightarrow> U64 \<Rightarrow> U64 \<Rightarrow> bool" where
  "in_cooldown last_ms now_ms cooldown \<longleftrightarrow> last_ms \<noteq> 0 \<and> last_ms \<le> now_ms \<and> now_ms - last_ms < cooldown"

definition cg_on_loss :: "U64 \<Rightarrow> U64 \<Rightarrow> CongestionController \<Rightarrow> CongestionController" where
  "cg_on_loss now_ms n c =
    (if \<not> cc_enabled (cg_cfg c) \<or> n = 0 then c
     else let c = c\<lparr>cg_loss_events := cg_loss_events c + n\<rparr> in
       if in_cooldown (cg_last_loss_ms c) now_ms (cc_loss_cooldown_ms (cg_cfg c)) then c
       else apply_decrease (cc_multiplicative_decrease_per_mille (cg_cfg c)) (c\<lparr>cg_last_loss_ms := now_ms\<rparr>))"

definition cg_on_backpressure :: "U64 \<Rightarrow> CongestionController \<Rightarrow> CongestionController" where
  "cg_on_backpressure now_ms c =
    (if \<not> cc_enabled (cg_cfg c) then c
     else let c = c\<lparr>cg_backpressure_events := cg_backpressure_events c + 1\<rparr> in
       if in_cooldown (cg_last_backpressure_ms c) now_ms (cc_backpressure_cooldown_ms (cg_cfg c)) then c
       else apply_decrease (cc_backpressure_decrease_per_mille (cg_cfg c)) (c\<lparr>cg_last_backpressure_ms := now_ms\<rparr>))"

definition cg_snapshot :: "CongestionController \<Rightarrow> CongestionControlSnapshot" where
  "cg_snapshot c =
    \<lparr>ccs_enabled = cc_enabled (cg_cfg c), ccs_current_rate_bytes_per_second = cg_rate_bytes_per_second c,
     ccs_current_window_bytes = cg_window_bytes c, ccs_ack_events = cg_ack_events c, ccs_loss_events = cg_loss_events c,
     ccs_backpressure_events = cg_backpressure_events c\<rparr>"

section \<open>Rate and window stay within the configuration\<close>

datatype cg_event = Ack bool U64 bool U64 | Loss U64 U64 | Pressure U64 | Reset

fun cg_step :: "cg_event \<Rightarrow> CongestionController \<Rightarrow> CongestionController" where
  "cg_step (Ack v r x now) c = cg_on_ack v r x now c"
| "cg_step (Loss now n) c = cg_on_loss now n c"
| "cg_step (Pressure now) c = cg_on_backpressure now c"
| "cg_step Reset c = reset_runtime c"

text \<open>
  The smallest rate that the configuration allows is at most the largest one, both are positive and
  below \<open>2 ^ 32\<close>, and the same for the window.
\<close>

definition cg_bounds_ok :: "CongestionController \<Rightarrow> bool" where
  "cg_bounds_ok c \<longleftrightarrow>
     (let mx = configured_max_rate c; mn = configured_min_rate c mx; lo = ucast (cc_min_window_bytes (cg_cfg c)) in
      0 < unat mn \<and> mn \<le> mx \<and> unat mx < 2 ^ 32 \<and> 0 < unat (cg_configured_send_rate c) \<and>
      unat (cg_configured_send_rate c) < 2 ^ 32 \<and> (cc_enabled (cg_cfg c) \<longrightarrow> lo \<le> configured_max_window c mx))"

definition cg_inv :: "CongestionController \<Rightarrow> bool" where
  "cg_inv c \<longleftrightarrow> cg_bounds_ok c \<and>
     configured_min_rate c (configured_max_rate c) \<le> cg_current_rate c \<and> cg_current_rate c \<le> configured_max_rate c \<and>
     (cc_enabled (cg_cfg c) \<longrightarrow> ucast (cc_min_window_bytes (cg_cfg c)) \<le> cg_current_window c \<and>
        cg_current_window c \<le> configured_max_window c (configured_max_rate c))"

lemmas configured_defs = configured_max_rate_def configured_min_rate_def configured_max_window_def

lemma configured_cong:
  "cg_cfg c' = cg_cfg c \<Longrightarrow> cg_configured_send_rate c' = cg_configured_send_rate c \<Longrightarrow>
   configured_max_rate c' = configured_max_rate c \<and> configured_min_rate c' m = configured_min_rate c m \<and>
   configured_max_window c' m = configured_max_window c m"
  by (simp add: configured_defs)

lemma configured_updates [simp]:
  "configured_max_rate (c\<lparr>cg_current_rate := r\<rparr>) = configured_max_rate c"
  "configured_min_rate (c\<lparr>cg_current_rate := r\<rparr>) m = configured_min_rate c m"
  "configured_max_window (c\<lparr>cg_current_rate := r\<rparr>) m = configured_max_window c m"
  "configured_max_rate (c\<lparr>cg_current_window := w\<rparr>) = configured_max_rate c"
  "configured_min_rate (c\<lparr>cg_current_window := w\<rparr>) m = configured_min_rate c m"
  "configured_max_window (c\<lparr>cg_current_window := w\<rparr>) m = configured_max_window c m"
  by (simp_all add: configured_defs)

lemma unat_ucast32 [simp]: "unat (ucast (x :: U32) :: U64) = unat x"
  using unat_less_pow [of x] by (simp add: unsigned_ucast_eq take_bit_nat_eq_self)

lemma clamp_cases: "lo \<le> hi \<Longrightarrow> lo \<le> clamp v lo hi" "lo \<le> hi \<Longrightarrow> clamp v lo hi \<le> hi"
  by (auto simp: clamp_def)

lemma update_window_inv:
  assumes "cg_bounds_ok c" and "configured_min_rate c (configured_max_rate c) \<le> cg_current_rate c"
    and "cg_current_rate c \<le> configured_max_rate c"
  shows "cg_inv (update_window c)"
  using assms by (auto simp: update_window_def cg_inv_def cg_bounds_ok_def Let_def intro: clamp_cases)

lemma cg_bounds_cong:
  "cg_bounds_ok c \<Longrightarrow> cg_cfg c' = cg_cfg c \<Longrightarrow> cg_configured_send_rate c' = cg_configured_send_rate c \<Longrightarrow> cg_bounds_ok c'"
  by (simp only: cg_bounds_ok_def configured_defs)

lemma cg_inv_bounds: "cg_inv c \<Longrightarrow> cg_bounds_ok c"
  by (simp add: cg_inv_def)

lemma cg_bounds_order: "cg_bounds_ok c \<Longrightarrow> configured_min_rate c (configured_max_rate c) \<le> configured_max_rate c"
  by (simp add: cg_bounds_ok_def Let_def)

lemma cg_inv_counters:
  assumes "cg_inv c" "cg_cfg c' = cg_cfg c" "cg_configured_send_rate c' = cg_configured_send_rate c"
    "cg_current_rate c' = cg_current_rate c" "cg_current_window c' = cg_current_window c"
  shows "cg_inv c'"
  using assms cg_bounds_cong [OF cg_inv_bounds [OF assms(1)] assms(2,3)]
  by (simp add: cg_inv_def configured_cong [OF assms(2,3)])

lemma set_rate_inv:
  assumes "cg_bounds_ok c" and "configured_min_rate c (configured_max_rate c) \<le> r" and "r \<le> configured_max_rate c"
  shows "cg_inv (update_window (c\<lparr>cg_current_rate := r\<rparr>))"
  using assms cg_bounds_cong [OF assms(1), of "c\<lparr>cg_current_rate := r\<rparr>"] by (intro update_window_inv) simp_all

lemma reset_runtime_inv:
  assumes "cg_bounds_ok c"
  shows "cg_inv (reset_runtime c)"
proof -
  let ?d = "\<lambda>r. c\<lparr>cg_current_rate := (if cc_enabled (cg_cfg c)
          then clamp r (configured_min_rate c (configured_max_rate c)) (configured_max_rate c) else cg_configured_send_rate c),
        cg_smoothed_rtt_ms := 100, cg_latest_rtt_ms := 0, cg_last_loss_ms := 0, cg_last_backpressure_ms := 0,
        cg_ack_events := 0, cg_loss_events := 0, cg_backpressure_events := 0\<rparr>"
  have d: "cg_bounds_ok (?d r)" for r by (rule cg_bounds_cong [OF assms]) simp_all
  have eq: "configured_max_rate (?d r) = configured_max_rate c" "configured_min_rate (?d r) m = configured_min_rate c m" for r m
    by (rule configured_cong [THEN conjunct1] configured_cong [THEN conjunct2, THEN conjunct1]; simp)+
  have off: "configured_min_rate c (configured_max_rate c) = cg_configured_send_rate c \<and> configured_max_rate c = cg_configured_send_rate c"
    if "\<not> cc_enabled (cg_cfg c)"
    using that by (simp add: configured_defs)
  have "cg_inv (update_window (?d r))" for r
    using cg_bounds_order [OF assms] off by (intro update_window_inv [OF d]) (auto simp: eq clamp_cases)
  then show ?thesis unfolding reset_runtime_def Let_def by blast
qed

lemma apply_decrease_inv: "cg_bounds_ok c \<Longrightarrow> cg_inv (apply_decrease p c)"
  unfolding apply_decrease_def Let_def
  using cg_bounds_order [of c] by (intro set_rate_inv) (simp_all add: clamp_cases)

text \<open>Adding the increase does not wrap, since both summands are below \<open>2 ^ 32\<close>.\<close>

lemma rate_increase_unat:
  assumes "cg_inv c"
  shows "unat (cg_current_rate c + max 1 (ucast (cc_additive_increase_bytes_per_ack (cg_cfg c)))) =
     unat (cg_current_rate c) + max 1 (unat (cc_additive_increase_bytes_per_ack (cg_cfg c)))"
proof -
  have "unat (cg_current_rate c) < 2 ^ 32"
    using assms by (auto simp: cg_inv_def cg_bounds_ok_def Let_def word_le_nat_alt)
  moreover have "unat (max 1 (ucast (cc_additive_increase_bytes_per_ack (cg_cfg c)) :: U64)) = max 1 (unat (cc_additive_increase_bytes_per_ack (cg_cfg c)))"
    by (simp add: max_def word_le_nat_alt)
  ultimately show ?thesis
    using unat_less_pow [of "cc_additive_increase_bytes_per_ack (cg_cfg c)"] by (simp add: unat_word_ariths)
qed

lemma on_ack_inv:
  assumes "cg_inv c"
  shows "cg_inv (cg_on_ack v r x now c)"
proof -
  have grow: "cg_inv (update_window (d\<lparr>cg_current_rate := min (configured_max_rate d)
       (cg_current_rate d + max 1 (ucast (cc_additive_increase_bytes_per_ack (cg_cfg d))))\<rparr>))" if "cg_inv d" for d
  proof -
    have "cg_current_rate d \<le> cg_current_rate d + max 1 (ucast (cc_additive_increase_bytes_per_ack (cg_cfg d)))"
      using rate_increase_unat [OF that] by (simp add: word_le_nat_alt)
    then show ?thesis
      using that cg_bounds_order [OF cg_inv_bounds [OF that]] by (intro set_rate_inv cg_inv_bounds) (auto simp: cg_inv_def)
  qed
  define d where "d = (let c = c\<lparr>cg_ack_events := cg_ack_events c + 1\<rparr> in
      if v \<and> 0 < r then c\<lparr>cg_latest_rtt_ms := r,
           cg_smoothed_rtt_ms := (if cg_smoothed_rtt_ms c = 0 then r else (cg_smoothed_rtt_ms c * 7 + r) div 8)\<rparr> else c)"
  have "cg_inv d" by (rule cg_inv_counters [OF assms]) (simp_all add: d_def Let_def)
  then have "cg_inv (if \<not> x then update_window (d\<lparr>cg_current_rate := min (configured_max_rate d)
       (cg_current_rate d + max 1 (ucast (cc_additive_increase_bytes_per_ack (cg_cfg d))))\<rparr>) else d)"
    using grow by simp
  then show ?thesis using assms unfolding cg_on_ack_def d_def Let_def by simp
qed

lemma on_loss_inv:
  assumes "cg_inv c"
  shows "cg_inv (cg_on_loss now n c)"
proof -
  have "cg_inv (c\<lparr>cg_loss_events := k\<rparr>)" "cg_bounds_ok (c\<lparr>cg_loss_events := k, cg_last_loss_ms := now\<rparr>)" for k
    by (rule cg_inv_counters [OF assms] cg_bounds_cong [OF cg_inv_bounds [OF assms]]; simp)+
  then show ?thesis using assms apply_decrease_inv by (simp add: cg_on_loss_def Let_def)
qed

lemma on_backpressure_inv:
  assumes "cg_inv c"
  shows "cg_inv (cg_on_backpressure now c)"
proof -
  have "cg_inv (c\<lparr>cg_backpressure_events := k\<rparr>)" "cg_bounds_ok (c\<lparr>cg_backpressure_events := k, cg_last_backpressure_ms := now\<rparr>)" for k
    by (rule cg_inv_counters [OF assms] cg_bounds_cong [OF cg_inv_bounds [OF assms]]; simp)+
  then show ?thesis using assms apply_decrease_inv by (simp add: cg_on_backpressure_def Let_def)
qed

lemma cg_step_inv: "cg_inv c \<Longrightarrow> cg_inv (cg_step e c)"
  by (cases e) (simp_all add: on_ack_inv on_loss_inv on_backpressure_inv reset_runtime_inv cg_inv_bounds)

lemma update_window_frame [simp]:
  "cg_cfg (update_window c) = cg_cfg c" "cg_configured_send_rate (update_window c) = cg_configured_send_rate c"
  "cg_current_rate (update_window c) = cg_current_rate c"
  by (simp_all add: update_window_def Let_def)

lemma apply_decrease_frame [simp]:
  "cg_cfg (apply_decrease p c) = cg_cfg c" "cg_configured_send_rate (apply_decrease p c) = cg_configured_send_rate c"
  by (simp_all add: apply_decrease_def Let_def)

lemma reset_runtime_frame [simp]:
  "cg_cfg (reset_runtime c) = cg_cfg c" "cg_configured_send_rate (reset_runtime c) = cg_configured_send_rate c"
  by (simp_all add: reset_runtime_def Let_def)

lemma cg_step_cfg [simp]:
  "cg_cfg (cg_step e c) = cg_cfg c" "cg_configured_send_rate (cg_step e c) = cg_configured_send_rate c"
  by (cases e; simp add: cg_on_ack_def cg_on_loss_def cg_on_backpressure_def Let_def)+

text \<open>A validated configuration gives ordered bounds.\<close>

lemma validated_bounds:
  assumes "validate_congestion_control_config cfg budget = Inr ()" and "budget \<noteq> 0"
  shows "cg_bounds_ok (c\<lparr>cg_cfg := cfg, cg_configured_send_rate := max 1 (ucast budget)\<rparr>)"
proof -
  have b: "0 < unat budget" "unat budget < 2 ^ 32" using assms(2) unat_less_pow [of budget] by (simp_all add: unat_gt_0)
  then have r: "(max 1 (ucast budget) :: U64) = ucast budget" by (simp add: max_def word_le_nat_alt)
  show ?thesis
  proof (cases "cc_enabled cfg")
    case True
    then show ?thesis
      using assms(1) b r unat_less_pow [of "cc_max_rate_bytes_per_second cfg"] unat_less_pow [of "cc_min_rate_bytes_per_second cfg"]
      by (auto simp: validate_congestion_control_config_def cg_bounds_ok_def configured_defs Let_def word_less_nat_alt
          word_le_nat_alt min_def max_def unat_gt_0 [symmetric] simp del: unat_gt_0 split: if_splits)
  next
    case False
    then show ?thesis using b r by (simp add: cg_bounds_ok_def configured_defs Let_def)
  qed
qed


fun cg_run :: "cg_event list \<Rightarrow> CongestionController \<Rightarrow> CongestionController" where
  "cg_run [] c = c"
| "cg_run (e # es) c = cg_run es (cg_step e c)"

lemma cg_run_inv: "cg_inv c \<Longrightarrow> cg_inv (cg_run es c)"
  by (induction es arbitrary: c) (simp_all add: cg_step_inv)

lemma cg_run_cfg [simp]:
  "cg_cfg (cg_run es c) = cg_cfg c" "cg_configured_send_rate (cg_run es c) = cg_configured_send_rate c"
  by (induction es arbitrary: c) simp_all

lemma cg_configure_inv:
  assumes "validate_congestion_control_config cfg budget = Inr ()" and "budget \<noteq> 0"
  shows "cg_inv (cg_configure cfg budget c)"
  unfolding cg_configure_def by (rule reset_runtime_inv [OF validated_bounds [OF assms]])

lemma cg_rate_bounds:
  assumes "cg_inv c"
  shows "0 < unat (cg_rate_bytes_per_second c)" "unat (cg_rate_bytes_per_second c) < 2 ^ 32"
  using assms by (auto simp: cg_inv_def cg_bounds_ok_def cg_rate_bytes_per_second_def Let_def word_le_nat_alt)

lemma cg_bucket_cap:
  assumes "cg_inv c"
  shows "unat (cg_bucket_cap_bytes c) = max 1300 (2 * unat (cg_rate_bytes_per_second c))"
  using cg_rate_bounds [OF assms]
  by (simp add: cg_bucket_cap_bytes_def Let_def max_def word_le_nat_alt unat_word_ariths MaxPacketBytes_def)


section \<open>Properties\<close>

text \<open>
  C15: rate and window stay within a validated configuration. From any controller, configured with
  validated settings and a non-zero send budget, after any sequence of acknowledgements, losses,
  backpressure signals and resets: the rate is positive and below \<open>2 ^ 32\<close>; the token bucket holds
  two seconds of traffic and never less than one packet of maximal size; and an enabled controller
  has its rate and its window between the configured bounds.
\<close>

theorem congestion_within_configuration:
  assumes "validate_congestion_control_config cfg budget = Inr ()" and "budget \<noteq> 0"
    and "c = cg_run es (cg_configure cfg budget c0)"
  shows "0 < unat (cg_rate_bytes_per_second c) \<and> unat (cg_rate_bytes_per_second c) < 2 ^ 32 \<and>
     unat (cg_bucket_cap_bytes c) = max MaxPacketBytes (2 * unat (cg_rate_bytes_per_second c)) \<and>
     (if cc_enabled cfg
      then configured_min_rate c (configured_max_rate c) \<le> cg_rate_bytes_per_second c \<and>
           cg_rate_bytes_per_second c \<le> configured_max_rate c \<and>
           ucast (cc_min_window_bytes cfg) \<le> cg_window_bytes c \<and>
           cg_window_bytes c \<le> configured_max_window c (configured_max_rate c)
      else cg_rate_bytes_per_second c = ucast budget)"
proof -
  have inv: "cg_inv c" using cg_run_inv [OF cg_configure_inv [OF assms(1,2)]] assms(3) by simp
  have cfg: "cg_cfg c = cfg" "cg_configured_send_rate c = max 1 (ucast budget)"
    using assms(3) by (simp_all add: cg_configure_def)
  have "(max 1 (ucast budget) :: U64) = ucast budget"
    using assms(2) by (simp add: max_def word_le_nat_alt unat_gt_0 [symmetric] del: unat_gt_0)
  moreover have "MaxPacketBytes = 1300" by (simp add: MaxPacketBytes_def)
  ultimately show ?thesis
    using inv cg_rate_bounds [OF inv] cg_bucket_cap [OF inv] cfg
    by (simp add: cg_inv_def cg_rate_bytes_per_second_def cg_window_bytes_def)
qed

theorem congestion_within_configuration_witness:
  "unat (cg_rate_bytes_per_second (cg_run [Loss 10 1, Ack True 40 False 20, Pressure 30]
     (cg_configure (CongestionControlConfig_default\<lparr>cc_enabled := True\<rparr>) (256 * 1024) CongestionController_default))) < 2 ^ 32"
proof -
  let ?cfg = "CongestionControlConfig_default\<lparr>cc_enabled := True\<rparr>"
  have v: "validate_congestion_control_config ?cfg (256 * 1024) = Inr ()"
    by (simp add: validate_congestion_control_config_def CongestionControlConfig_default_def MaxPacketBytes_def Let_def)
  show ?thesis by (rule congestion_within_configuration [OF v _ refl, THEN conjunct2, THEN conjunct1]) simp
qed

text \<open>
  C16: additive increase, multiplicative decrease. An acknowledgement of a message sent once raises
  the rate by the configured increase up to the maximum; one of a retransmitted message leaves it.
  A loss outside the cooldown multiplies the rate by the configured fraction, down to the minimum;
  within the cooldown it changes nothing but the event counter. No product or sum wraps around.
\<close>

theorem congestion_aimd:
  assumes "cg_inv c" and "cc_enabled (cg_cfg c)"
  shows "unat (cg_current_rate (cg_on_ack v r x now c)) =
      (if x then unat (cg_current_rate c)
       else min (unat (configured_max_rate c)) (unat (cg_current_rate c) + max 1 (unat (cc_additive_increase_bytes_per_ack (cg_cfg c))))) \<and>
    (if n = 0 \<or> in_cooldown (cg_last_loss_ms c) now (cc_loss_cooldown_ms (cg_cfg c))
     then cg_current_rate (cg_on_loss now n c) = cg_current_rate c
     else unat (cg_current_rate (cg_on_loss now n c)) =
       clamp (max 1 (unat (cg_current_rate c) * unat (cc_multiplicative_decrease_per_mille (cg_cfg c)) div 1000))
         (unat (configured_min_rate c (configured_max_rate c))) (unat (configured_max_rate c)))"
proof -
  let ?pm = "cc_multiplicative_decrease_per_mille (cg_cfg c)"
  have rate: "unat (cg_current_rate c) < 2 ^ 32"
    using assms(1) by (auto simp: cg_inv_def cg_bounds_ok_def Let_def word_le_nat_alt)
  have "unat (cg_current_rate c) * unat ?pm < 2 ^ 32 * 2 ^ 32"
    using rate unat_less_pow [of ?pm] by (intro mult_strict_mono) simp_all
  then have prod: "unat (cg_current_rate c * ucast ?pm div 1000) = unat (cg_current_rate c) * unat ?pm div 1000"
    by (simp add: unat_div unat_word_ariths)
  have cl: "unat (clamp a lo hi) = clamp (unat a) (unat lo) (unat hi)" for a lo hi :: U64
    by (simp add: clamp_def word_less_nat_alt)
  have mx: "unat (max 1 a) = max 1 (unat a)" for a :: U64 by (simp add: max_def word_le_nat_alt)
  have mn: "unat (min a b) = min (unat a) (unat b)" for a b :: U64 by (simp add: min_def word_le_nat_alt)
  have conf: "configured_max_rate (c\<lparr>cg_ack_events := k\<rparr>) = configured_max_rate c"
    "configured_max_rate (c\<lparr>cg_ack_events := k, cg_latest_rtt_ms := l, cg_smoothed_rtt_ms := s\<rparr>) = configured_max_rate c"
    "configured_max_rate (c\<lparr>cg_loss_events := k, cg_last_loss_ms := l\<rparr>) = configured_max_rate c"
    "configured_min_rate (c\<lparr>cg_loss_events := k, cg_last_loss_ms := l\<rparr>) m = configured_min_rate c m" for k l s m
    by (simp_all add: configured_defs)
  have "unat (cg_current_rate (cg_on_ack v r x now c)) =
      (if x then unat (cg_current_rate c)
       else min (unat (configured_max_rate c)) (unat (cg_current_rate c) + max 1 (unat (cc_additive_increase_bytes_per_ack (cg_cfg c)))))"
    using assms rate_increase_unat [OF assms(1)] by (simp add: cg_on_ack_def Let_def conf mn)
  moreover have "unat (cg_current_rate (cg_on_loss now n c)) =
       clamp (max 1 (unat (cg_current_rate c) * unat ?pm div 1000)) (unat (configured_min_rate c (configured_max_rate c))) (unat (configured_max_rate c))"
    if "\<not> (n = 0 \<or> in_cooldown (cg_last_loss_ms c) now (cc_loss_cooldown_ms (cg_cfg c)))"
    using that assms(2) by (simp add: cg_on_loss_def apply_decrease_def Let_def conf cl mx prod)
  moreover have "cg_current_rate (cg_on_loss now n c) = cg_current_rate c"
    if "n = 0 \<or> in_cooldown (cg_last_loss_ms c) now (cc_loss_cooldown_ms (cg_cfg c))"
    using that assms(2) by (auto simp: cg_on_loss_def Let_def)
  ultimately show ?thesis by auto
qed

theorem congestion_aimd_witness:
  "unat (cg_current_rate (cg_on_loss 10 1
     (cg_configure (CongestionControlConfig_default\<lparr>cc_enabled := True\<rparr>) (256 * 1024) CongestionController_default))) = 91750"
proof -
  let ?cfg = "CongestionControlConfig_default\<lparr>cc_enabled := True\<rparr>"
  define c where "c = cg_configure ?cfg (256 * 1024) CongestionController_default"
  have "validate_congestion_control_config ?cfg (256 * 1024) = Inr ()"
    by (simp add: validate_congestion_control_config_def CongestionControlConfig_default_def MaxPacketBytes_def Let_def)
  then have inv: "cg_inv c" unfolding c_def by (rule cg_configure_inv) simp
  have cfg: "cg_cfg c = ?cfg" "cg_configured_send_rate c = 262144" "cg_last_loss_ms c = 0" "cg_current_rate c = 131072"
    by (simp_all add: c_def cg_configure_def reset_runtime_def update_window_def Let_def configured_defs clamp_def
        CongestionControlConfig_default_def)
  then have b: "configured_max_rate c = 262144" "configured_min_rate c 262144 = 32768"
    by (simp_all add: configured_defs CongestionControlConfig_default_def)
  have "unat (cg_current_rate (cg_on_loss 10 1 c)) = 91750"
    using congestion_aimd [OF inv, of False 0 False 10 1] cfg b
    by (simp add: in_cooldown_def clamp_def CongestionControlConfig_default_def)
  then show ?thesis by (simp only: c_def)
qed

section \<open>The bucket\<close>

lemma bucket_rate:
  assumes "cg_inv g"
  shows "cg_rate_bytes_per_second g \<le> cg_bucket_cap_bytes g"
  using cg_bucket_cap [OF assms] by (simp add: word_le_nat_alt)

lemma ack_rate:
  assumes "cg_inv g"
  shows "cg_rate_bytes_per_second g \<le> cg_rate_bytes_per_second (cg_on_ack v r x now g)"
proof -
  have "cg_current_rate g \<le> min (configured_max_rate g)
      (cg_current_rate g + max 1 (ucast (cc_additive_increase_bytes_per_ack (cg_cfg g))))"
    using rate_increase_unat [OF assms] assms by (auto simp: cg_inv_def word_le_nat_alt)
  then show ?thesis
    by (auto simp: cg_on_ack_def cg_rate_bytes_per_second_def Let_def configured_max_rate_def)
qed

lemma ack_bucket:
  assumes "cg_inv g"
  shows "cg_bucket_cap_bytes g \<le> cg_bucket_cap_bytes (cg_on_ack v r x now g)"
  using cg_bucket_cap [OF assms] cg_bucket_cap [OF on_ack_inv [OF assms, of v r x now]] ack_rate [OF assms, of v r x now]
  by (simp add: word_le_nat_alt)

end
