(* ===== verification/Scn_Client.thy ===== *)
theory Scn_Client
  imports Scn_Secure Scn_Socket Scn_Stats Scn_Reliable_Session Scn_Fragmentation Scn_Congestion
begin

text \<open>
  The client of client.hpp and client.cpp.

  The record \<open>Client\<close> has the data members of the class in their order, without the callbacks, plus the
  world that the clock, the socket and libsodium act on.  A method is an action on this record.  The
  callbacks, the operating system and libsodium are the fields of the parameter \<open>ClientEnv\<close>.  The
  logger and the packet debug hook are called from constant methods and act on the world; every other
  callback may act on the client, for example by sending from inside the message callback.
\<close>

record PendingPacket =
  pp_bytes :: "U8 list"
  pp_len :: ST
  pp_priority :: SendPriority

record 'w Client =
  cl_config :: ClientConfig
  cl_sock :: int
  cl_server :: Endpoint
  cl_state :: ConnectionState
  cl_close_reason :: CloseReason
  cl_conn_id :: U64
  cl_seq :: U64
  cl_handshake_started_ms :: U64
  cl_last_recv_ms :: U64
  cl_last_send_ms :: U64
  cl_send_budget_bytes :: U64
  cl_last_budget_refill_ms :: U64
  cl_congestion :: CongestionController
  cl_pending_bytes :: ST
  cl_next_fragment_message_id :: U64
  cl_next_ordered_sequence :: U64
  cl_next_sequenced_sequence :: U64
  cl_ephemeral :: KeyPair
  cl_session_keys :: SessionKeys
  cl_client_nonce :: "U8 list"
  cl_server_nonce :: "U8 list"
  cl_retry_token :: RetryToken
  cl_have_retry_token :: bool
  cl_resumption_token :: ResumptionToken
  cl_have_resumption_token :: bool
  cl_attempted_resumption_this_connect :: bool
  cl_packet_window :: ReplayWindow
  cl_pending :: "PendingPacket list"
  cl_reliable :: ReliableSession
  cl_ordered_reliable :: ReliableSession
  cl_ordered :: OrderedReceiveWindow
  cl_sequenced :: SequencedReceiveWindow
  cl_reassembler :: FragmentReassembler
  cl_stats :: TransportStats
  cl_world :: 'w

record ('w, 'c) ClientEnv =
  ce_sodium :: "'w Sodium"
  ce_os :: "'w Os"
  ce_logger :: "(LogLevel \<Rightarrow> string \<Rightarrow> 'w \<Rightarrow> 'w) option"
  ce_packet_debug :: "(string \<Rightarrow> PacketView \<Rightarrow> 'w \<Rightarrow> 'w) option"
  ce_on_packet :: "(PacketView \<Rightarrow> 'c \<Rightarrow> 'c) option"
  ce_on_message :: "(MsgView \<Rightarrow> 'c \<Rightarrow> 'c) option"
  ce_text_handlers :: "U8 \<Rightarrow> (U8 list \<Rightarrow> 'c \<Rightarrow> 'c) option"
  ce_binary_handlers :: "U8 \<Rightarrow> (MsgView \<Rightarrow> 'c \<Rightarrow> 'c) option"
  ce_on_state_change :: "(ConnectionState \<Rightarrow> ConnectionState \<Rightarrow> 'c \<Rightarrow> 'c) option"
  ce_on_connected :: "('c \<Rightarrow> 'c) option"
  ce_on_disconnected :: "(CloseReason \<Rightarrow> 'c \<Rightarrow> 'c) option"
  ce_on_error :: "(errc \<Rightarrow> 'c \<Rightarrow> 'c) option"
  ce_on_backpressure :: "(BackpressureInfo \<Rightarrow> 'c \<Rightarrow> 'c) option"

type_synonym 'w cenv = "('w, 'w Client) ClientEnv"
type_synonym ('w, 'a) cact = "('w Client, 'a) act"

section \<open>Endpoints\<close>

definition endpoint_is_unspecified :: "Endpoint \<Rightarrow> bool" where
  "endpoint_is_unspecified ep \<longleftrightarrow>
    (case ep_addr ep of
       Inet p a \<Rightarrow> a = ipv4_any
     | Inet6 p f a s \<Rightarrow> a = ipv6_unspecified
     | OtherAddr f bs \<Rightarrow> False)"

definition normalize_connect_endpoint :: "Endpoint \<Rightarrow> Endpoint" where
  "normalize_connect_endpoint ep =
    (if \<not> endpoint_is_unspecified ep then ep
     else case ep_addr ep of
       Inet p a \<Rightarrow> ep\<lparr>ep_addr := Inet p ipv4_loopback\<rparr>
     | Inet6 p f a s \<Rightarrow> ep\<lparr>ep_addr := Inet6 p f ipv6_loopback s\<rparr>
     | OtherAddr f bs \<Rightarrow> ep)"

section \<open>Statistics, callbacks, time\<close>

definition bump :: "((U64 \<Rightarrow> U64) \<Rightarrow> TransportStats \<Rightarrow> TransportStats) \<Rightarrow> ('w, unit) cact" where
  "bump f = modify (cl_stats_update (f (\<lambda>n. n + 1)))"

definition add_stat :: "((U64 \<Rightarrow> U64) \<Rightarrow> TransportStats \<Rightarrow> TransportStats) \<Rightarrow> U64 \<Rightarrow> ('w, unit) cact" where
  "add_stat f k = modify (cl_stats_update (f (\<lambda>n. n + k)))"

definition cl_on_world :: "('w \<Rightarrow> 'a \<times> 'w) \<Rightarrow> ('w, 'a) cact" where
  "cl_on_world f = on_part cl_world (\<lambda>w. cl_world_update (\<lambda>_. w)) f"

definition cl_on_sock :: "('w sockw, 'a) act \<Rightarrow> ('w, 'a) cact" where
  "cl_on_sock m = on_part (\<lambda>c. (cl_sock c, cl_world c)) (\<lambda>(s, w) c. c\<lparr>cl_sock := s, cl_world := w\<rparr>) (run_state m)"

definition client_now_ms :: "'w cenv \<Rightarrow> ('w, U64) cact" where
  "client_now_ms E = cl_on_world (os_now_ms (ce_os E))"

definition client_emit_log :: "'w cenv \<Rightarrow> LogLevel \<Rightarrow> string \<Rightarrow> ('w, unit) cact" where
  "client_emit_log E level msg = notify (ce_logger E) (\<lambda>f. cl_world_update (f level msg))"

definition client_emit_packet_debug :: "'w cenv \<Rightarrow> string \<Rightarrow> PacketView \<Rightarrow> ('w, unit) cact" where
  "client_emit_packet_debug E direction packet = do {
     cfg \<leftarrow> gets cl_config;
     whenM (ccfg_enable_packet_debug_dumps cfg)
       (notify (ce_packet_debug E) (\<lambda>f. cl_world_update (f direction packet)))
   }"

definition client_emit_backpressure :: "'w cenv \<Rightarrow> Channel \<Rightarrow> U8 \<Rightarrow> errc \<Rightarrow> ('w, unit) cact" where
  "client_emit_backpressure E channel type code =
     notify (ce_on_backpressure E) (\<lambda>f c.
       f \<lparr>bp_code = code, bp_channel = channel, bp_type = type, bp_queued_packets = length (cl_pending c),
          bp_queued_bytes = cl_pending_bytes c, bp_send_budget_bytes = cl_send_budget_bytes c\<rparr> c)"

definition client_runtime_status :: "'w cenv \<Rightarrow> unit result" where
  "client_runtime_status E = rbind socket_init_status (\<lambda>_. crypto_runtime_status (ce_sodium E))"

definition refreshed_stats :: "'w Client \<Rightarrow> TransportStats" where
  "refreshed_stats c =
    (let r = cl_reliable c; o' = cl_ordered_reliable c; congestion = cg_snapshot (cl_congestion c) in
     (cl_stats c)
      \<lparr>ts_current_peer_count := (if cl_state c = Idle \<or> cl_state c = ConnectionState.Closed then 0 else 1),
       ts_current_pending_packets := of_nat (length (cl_pending c)),
       ts_current_reliable_pending := of_nat (length (rs_pending r) + length (rs_pending o')),
       ts_current_reliable_inflight := ucast (rs_inflight_count r + rs_inflight_count o'),
       ts_current_reassembly_count := of_nat (length (fr_entries (cl_reassembler c))),
       ts_current_reassembly_memory_bytes := fr_memory_bytes (cl_reassembler c),
       ts_current_send_budget_bytes := cl_send_budget_bytes c,
       ts_rtt_latest_ms := max (rs_latest_rtt_ms r) (rs_latest_rtt_ms o'),
       ts_rtt_smoothed_ms := max (rs_srtt_ms r) (rs_srtt_ms o'),
       ts_rtt_variance_ms := max (rs_rttvar_ms r) (rs_rttvar_ms o'),
       ts_current_retransmit_timeout_ms := max (rs_rto_ms r) (rs_rto_ms o'),
       ts_estimated_loss_per_mille := max (rs_loss_per_mille r) (rs_loss_per_mille o'),
       ts_congestion_current_rate_bytes_per_second := ccs_current_rate_bytes_per_second congestion,
       ts_congestion_current_window_bytes := ccs_current_window_bytes congestion,
       ts_congestion_ack_events := ccs_ack_events congestion,
       ts_congestion_loss_events := ccs_loss_events congestion,
       ts_congestion_backpressure_events := ccs_backpressure_events congestion\<rparr>)"

definition client_refresh_runtime_stats :: "('w, unit) cact" where
  "client_refresh_runtime_stats = modify (\<lambda>c. cl_stats_update (\<lambda>_. refreshed_stats c) c)"

section \<open>State changes\<close>

definition client_transition_state :: "'w cenv \<Rightarrow> ConnectionState \<Rightarrow> ('w, unit) cact" where
  "client_transition_state E next_state = do {
     previous \<leftarrow> gets cl_state;
     whenM (previous \<noteq> next_state) (do {
       modify (cl_state_update (\<lambda>_. next_state));
       bump ts_state_transitions_update;
       client_refresh_runtime_stats;
       client_emit_log E Trace ''client state transition'';
       notify (ce_on_state_change E) (\<lambda>f. f previous next_state);
       whenM (previous \<noteq> Established \<and> next_state = Established) (notify (ce_on_connected E) (\<lambda>f. f));
       whenM (previous \<noteq> ConnectionState.Closed \<and> next_state = ConnectionState.Closed)
         (notify (ce_on_disconnected E) (\<lambda>f c. f (cl_close_reason c) c))
     })
   }"

text \<open>
  The assignments of \<^verbatim>\<open>reset_session\<close>, with the time that \<^verbatim>\<open>_last_budget_refill_ms\<close> is set to.
\<close>

definition client_session_reset :: "U64 \<Rightarrow> 'w Client \<Rightarrow> 'w Client" where
  "client_session_reset now c =
    (let congestion = reset_runtime (cl_congestion c); rel = ccfg_reliability (cl_config c) in
     c\<lparr>cl_conn_id := 0, cl_seq := 1, cl_handshake_started_ms := 0, cl_last_recv_ms := 0, cl_last_send_ms := 0,
       cl_pending_bytes := 0, cl_congestion := congestion,
       cl_send_budget_bytes := cg_rate_bytes_per_second congestion, cl_last_budget_refill_ms := now,
       cl_next_fragment_message_id := 1, cl_next_ordered_sequence := 1, cl_next_sequenced_sequence := 1,
       cl_attempted_resumption_this_connect := False, cl_have_retry_token := False,
       cl_retry_token := RetryToken_default,
       cl_client_nonce := replicate ClientNonceBytes 0, cl_server_nonce := replicate ServerNonceBytes 0,
       cl_packet_window := replay_reset (cl_packet_window c), cl_pending := [],
       cl_reliable := rs_clear (rs_configure rel (cl_reliable c)),
       cl_ordered_reliable := rs_clear (rs_configure rel (cl_ordered_reliable c)),
       cl_ordered := ow_clear (ow_set_max_buffered (rel_ordered_receive_window rel) (cl_ordered c)),
       cl_sequenced := sw_clear (cl_sequenced c),
       cl_reassembler := fr_clear (fr_configure (ccfg_fragmentation (cl_config c)) (cl_reassembler c)),
       cl_session_keys := sk_clear (cl_session_keys c), cl_ephemeral := kp_clear (cl_ephemeral c)\<rparr>)"

definition client_reset_session :: "'w cenv \<Rightarrow> ('w, unit) cact" where
  "client_reset_session E = do {
     now \<leftarrow> client_now_ms E;
     modify (client_session_reset now);
     client_refresh_runtime_stats
   }"

definition client_session_failed :: "CloseReason \<Rightarrow> 'w Client \<Rightarrow> 'w Client" where
  "client_session_failed reason c =
     c\<lparr>cl_close_reason := reason, cl_pending := [], cl_pending_bytes := 0,
       cl_reliable := rs_clear (cl_reliable c), cl_ordered_reliable := rs_clear (cl_ordered_reliable c),
       cl_ordered := ow_clear (cl_ordered c), cl_sequenced := sw_clear (cl_sequenced c),
       cl_reassembler := fr_clear (cl_reassembler c), cl_session_keys := sk_clear (cl_session_keys c),
       cl_ephemeral := kp_clear (cl_ephemeral c), cl_packet_window := replay_reset (cl_packet_window c)\<rparr>"

definition client_fail_connection :: "'w cenv \<Rightarrow> CloseReason \<Rightarrow> string \<Rightarrow> ('w, unit) cact" where
  "client_fail_connection E reason msg = do {
     st \<leftarrow> gets cl_state;
     whenM (st = Handshaking) (bump ts_handshake_failures_update);
     client_emit_log E Error msg;
     notify (ce_on_error E) (\<lambda>f. f errc.Closed);
     modify (client_session_failed reason);
     cl_on_sock (udp_close (ce_os E));
     client_transition_state E ConnectionState.Closed;
     client_refresh_runtime_stats
   }"

definition client_stop :: "'w cenv \<Rightarrow> ('w, unit) cact" where
  "client_stop E = do {
     cl_on_sock (udp_close (ce_os E));
     client_reset_session E;
     client_transition_state E Idle;
     modify (cl_close_reason_update (\<lambda>_. CloseReason.Normal));
     client_refresh_runtime_stats
   }"

definition client_reset_for_connect :: "'w cenv \<Rightarrow> ('w, unit result) cact" where
  "client_reset_for_connect E = do {
     cfg \<leftarrow> gets cl_config;
     check (ret (validate_client_config cfg)) (\<lambda>_. do {
       client_stop E;
       client_reset_session E;
       modify (cl_close_reason_update (\<lambda>_. CloseReason.Normal));
       client_transition_state E Idle;
       ret (Inr ())
     })
   }"

section \<open>Queueing packets\<close>

definition client_enqueue_pending_packet :: "PendingPacket \<Rightarrow> ('w, unit result) cact" where
  "client_enqueue_pending_packet pending = do {
     c \<leftarrow> gets id;
     if unat (ccfg_max_pending_packets (cl_config c)) \<le> length (cl_pending c) then do {
       bump ts_queue_full_events_update;
       ret (Inl QueueFull)
     } else do {
       modify (\<lambda>c. c\<lparr>cl_pending_bytes := cl_pending_bytes c + pp_len pending,
                      cl_pending := insert_prio (\<lambda>p. priority_value (pp_priority p)) pending (cl_pending c)\<rparr>);
       client_refresh_runtime_stats;
       ret (Inr ())
     }
   }"

definition client_queue_packet ::
  "'w cenv \<Rightarrow> PacketKind \<Rightarrow> bool \<Rightarrow> U8 list option \<Rightarrow> ST \<Rightarrow> SendPriority \<Rightarrow> U64 \<Rightarrow> ('w, unit result) cact" where
  "client_queue_packet E kind encrypted payload payload_len priority conn_id_override =
    (if 0 < payload_len \<and> payload = None then ret (Inl InvalidArg)
     else if encrypted \<and> MaxEncryptedPlaintextBytes < payload_len then ret (Inl InvalidArg)
     else if \<not> encrypted \<and> MaxPayloadBytes < payload_len then ret (Inl InvalidArg)
     else do {
       c \<leftarrow> gets id;
       let header = PacketHeader_default
         \<lparr>ph_kind := packet_kind_value kind,
          ph_flags := (if encrypted then PacketFlagEncrypted else 0),
          ph_conn_id := (if conn_id_override \<noteq> 0 then conn_id_override else cl_conn_id c),
          ph_seq := cl_seq c\<rparr>;
       modify (\<lambda>c. c\<lparr>cl_seq := cl_seq c + 1\<rparr>);
       check (ret (build_packet (ce_sodium E) (cl_session_keys c) header encrypted payload payload_len)) (\<lambda>(bytes, len).
         client_enqueue_pending_packet \<lparr>pp_bytes = bytes, pp_len = len, pp_priority = priority\<rparr>)
     })"

definition client_refill_send_budget :: "U64 \<Rightarrow> ('w, unit) cact" where
  "client_refill_send_budget now = do {
     c \<leftarrow> gets id;
     if cl_last_budget_refill_ms c = 0 then
       modify (\<lambda>c. c\<lparr>cl_last_budget_refill_ms := now,
                      cl_send_budget_bytes := (if cl_send_budget_bytes c = 0
                         then cg_rate_bytes_per_second (cl_congestion c) else cl_send_budget_bytes c)\<rparr>)
     else if now \<le> cl_last_budget_refill_ms c then ret ()
     else do {
       let elapsed_ms = now - cl_last_budget_refill_ms c;
       let refill = (cg_rate_bytes_per_second (cl_congestion c) * elapsed_ms) div 1000;
       whenM (0 < refill) (do {
         modify (\<lambda>c. c\<lparr>cl_send_budget_bytes := min (cg_bucket_cap_bytes (cl_congestion c)) (cl_send_budget_bytes c + refill),
                        cl_last_budget_refill_ms := now\<rparr>);
         bump ts_send_budget_refills_update;
         client_refresh_runtime_stats
       })
     }
   }"

definition client_queue_raw_payload :: "'w cenv \<Rightarrow> U8 list option \<Rightarrow> ST \<Rightarrow> SendPriority \<Rightarrow> ('w, unit result) cact" where
  "client_queue_raw_payload E data len priority = client_queue_packet E Raw True data len priority 0"

definition client_queue_internal_message ::
  "'w cenv \<Rightarrow> Channel \<Rightarrow> U8 \<Rightarrow> U8 list option \<Rightarrow> U16 \<Rightarrow> SendPriority \<Rightarrow> ('w, unit result) cact" where
  "client_queue_internal_message E channel type data len priority =
     check (ret (run_writer MaxEncryptedPlaintextBytes (\<lambda>w. write_message w channel type data len))) (\<lambda>payload.
     check (client_queue_packet E Message True (Some payload) (length payload) priority 0) (\<lambda>_. do {
       bump ts_message_frames_sent_update;
       ret (Inr ())
     }))"

definition client_queue_message_packet ::
  "'w cenv \<Rightarrow> Channel \<Rightarrow> U8 \<Rightarrow> U8 list option \<Rightarrow> U16 \<Rightarrow> SendPriority \<Rightarrow> ('w, unit result) cact" where
  "client_queue_message_packet E channel type data len priority =
     (if channel = Channel.Control then ret (Inl StateError)
      else client_queue_internal_message E channel type data len priority)"

definition client_queue_control_ack :: "'w cenv \<Rightarrow> Channel \<Rightarrow> U64 \<Rightarrow> ('w, unit result) cact" where
  "client_queue_control_ack E channel message_id =
     check (ret (run_writer 16 (\<lambda>w. write_reliable_ack w channel message_id))) (\<lambda>ack.
     check (client_queue_internal_message E Channel.Control (control_type_value ReliableAck)
              (Some ack) (of_nat (length ack)) High) (\<lambda>_. do {
       bump ts_reliable_acks_sent_update;
       ret (Inr ())
     }))"

definition client_queue_keepalive :: "'w cenv \<Rightarrow> ('w, unit result) cact" where
  "client_queue_keepalive E = do {
     rc \<leftarrow> client_queue_packet E Keepalive True None 0 High 0;
     whenM (ok rc) (bump ts_keepalives_sent_update);
     ret rc
   }"

definition client_queue_close_packet :: "'w cenv \<Rightarrow> CloseReason \<Rightarrow> bool \<Rightarrow> ('w, unit result) cact" where
  "client_queue_close_packet E reason encrypted =
     check (ret (run_writer 8 (\<lambda>w. write_close_frame w \<lparr>cf_reason = reason\<rparr>))) (\<lambda>buf. do {
       rc \<leftarrow> client_queue_packet E Close encrypted (Some buf) (length buf) High 0;
       whenM (ok rc) (bump ts_closes_sent_update);
       ret rc
     })"

section \<open>Sending\<close>

definition cl_session :: "Channel \<Rightarrow> 'w Client \<Rightarrow> ReliableSession" where
  "cl_session channel c = (if channel = Channel.ReliableOrdered then cl_ordered_reliable c else cl_reliable c)"

definition cl_set_session :: "Channel \<Rightarrow> ReliableSession \<Rightarrow> 'w Client \<Rightarrow> 'w Client" where
  "cl_set_session channel r c =
    (if channel = Channel.ReliableOrdered then c\<lparr>cl_ordered_reliable := r\<rparr> else c\<lparr>cl_reliable := r\<rparr>)"

definition client_send_reliable_message ::
  "'w cenv \<Rightarrow> Channel \<Rightarrow> U8 \<Rightarrow> U8 list option \<Rightarrow> U16 \<Rightarrow> SendPriority \<Rightarrow> U64 \<Rightarrow> ('w, unit result) cact" where
  "client_send_reliable_message E channel type data len priority lifetime_ms =
     (if of_nat MaxReliableMessageBytes < len then ret (Inl TooLarge)
      else do {
        now \<leftarrow> client_now_ms E;
        rc \<leftarrow> on_part (cl_session channel) (cl_set_session channel) (rs_enqueue type data len priority lifetime_ms now);
        case rc of
          Inl e \<Rightarrow> do {
            whenM (e = QueueFull) (bump ts_queue_full_events_update);
            ret (Inl e)
          }
        | Inr pending \<Rightarrow> do {
            bump ts_reliable_message_enqueued_update;
            rc \<leftarrow> client_queue_message_packet E channel type (Some (pm_encoded_payload pending))
                    (of_nat (length (pm_encoded_payload pending))) priority;
            case rc of
              Inl e \<Rightarrow> do {
                now \<leftarrow> client_now_ms E;
                on_part (cl_session channel) (cl_set_session channel) (rs_acknowledge (pm_message_id pending) now);
                whenM (e = QueueFull) (bump ts_backpressure_events_update);
                ret (Inl e)
              }
            | Inr _ \<Rightarrow> do {
                now \<leftarrow> client_now_ms E;
                on_part (cl_session channel) (cl_set_session channel) (rs_note_sent (pm_message_id pending) now);
                client_refresh_runtime_stats;
                ret (Inr ())
              }
          }
      })"

fun client_send_fragments ::
  "'w cenv \<Rightarrow> SendOptions \<Rightarrow> U8 \<Rightarrow> U8 list \<Rightarrow> U16 \<Rightarrow> U64 \<Rightarrow> U64 \<Rightarrow> nat list \<Rightarrow> ('w, unit result) cact" where
  "client_send_fragments E options type payload fragment_count message_id delivery_sequence [] = ret (Inr ())"
| "client_send_fragments E options type payload fragment_count message_id delivery_sequence (i # is) =
     (let original_length = of_nat (length payload);
          fragment_len = fragment_size_for_index original_length (of_nat i);
          offset = i * MaxFragmentDataBytes
      in check (ret (run_writer MaxMessageBytes (\<lambda>w.
             write_fragment_payload w message_id delivery_sequence (so_channel options) type (of_nat i)
               fragment_count original_length (Some (drop offset payload)) fragment_len))) (\<lambda>encoded.
         check (if channel_is_reliable (so_channel options)
                then client_send_reliable_message E (so_channel options) (control_type_value Fragment)
                       (Some encoded) (of_nat (length encoded)) (so_priority options) (so_lifetime_ms options)
                else client_queue_internal_message E Channel.Control (control_type_value Fragment)
                       (Some encoded) (of_nat (length encoded)) (so_priority options)) (\<lambda>_. do {
           bump ts_fragments_sent_update;
           client_send_fragments E options type payload fragment_count message_id delivery_sequence is
         })))"

definition client_send_fragmented :: "'w cenv \<Rightarrow> SendOptions \<Rightarrow> U8 \<Rightarrow> U8 list \<Rightarrow> ('w, unit result) cact" where
  "client_send_fragmented E options type payload = do {
     c \<leftarrow> gets id;
     let cfg = ccfg_fragmentation (cl_config c);
     if \<not> frag_enabled cfg then ret (Inl TooLarge)
     else if \<not> channel_is_application (so_channel options) then ret (Inl InvalidArg)
     else if unat (frag_max_reassembled_message_bytes cfg) < length payload then ret (Inl TooLarge)
     else do {
       let original_length = of_nat (length payload);
       let fragment_count = fragment_count_for_length original_length;
       if fragment_count = 0 \<or> frag_max_fragments_per_message cfg < fragment_count then ret (Inl TooLarge)
       else do {
         modify (\<lambda>c. c\<lparr>cl_next_fragment_message_id := cl_next_fragment_message_id c + 1\<rparr>);
         let delivery_sequence =
           (if so_channel options = Channel.ReliableOrdered then cl_next_ordered_sequence c
            else if so_channel options = Channel.SequencedUnreliable then cl_next_sequenced_sequence c
            else 0);
         whenM (so_channel options = Channel.ReliableOrdered)
           (modify (\<lambda>c. c\<lparr>cl_next_ordered_sequence := cl_next_ordered_sequence c + 1\<rparr>));
         whenM (so_channel options = Channel.SequencedUnreliable)
           (modify (\<lambda>c. c\<lparr>cl_next_sequenced_sequence := cl_next_sequenced_sequence c + 1\<rparr>));
         check (client_send_fragments E options type payload fragment_count (cl_next_fragment_message_id c)
                  delivery_sequence [0..<unat fragment_count]) (\<lambda>_. do {
           bump ts_fragmented_messages_sent_update;
           client_refresh_runtime_stats;
           ret (Inr ())
         })
       }
     }
   }"

definition client_send_payload :: "'w cenv \<Rightarrow> U8 list option \<Rightarrow> ST \<Rightarrow> ('w, unit result) cact" where
  "client_send_payload E data len = do {
     st \<leftarrow> gets cl_state;
     if st \<noteq> Established then ret (Inl StateError)
     else if MaxEncryptedPlaintextBytes < len then ret (Inl TooLarge)
     else client_queue_raw_payload E data len SendPriority.Normal
   }"

definition client_finish_send :: "'w cenv \<Rightarrow> SendOptions \<Rightarrow> U8 \<Rightarrow> ('w, unit result) cact \<Rightarrow> ('w, unit result) cact" where
  "client_finish_send E options type m = do {
     rc \<leftarrow> m;
     whenM (rc = Inl QueueFull \<or> rc = Inl errc.Backpressure)
       (client_emit_backpressure E (so_channel options) type (code_of rc));
     ret rc
   }"

definition client_send :: "'w cenv \<Rightarrow> SendOptions \<Rightarrow> U8 \<Rightarrow> U8 list \<Rightarrow> ('w, unit result) cact" where
  "client_send E options type payload = do {
     c \<leftarrow> gets id;
     if cl_state c \<noteq> Established then ret (Inl StateError)
     else if \<not> channel_is_application (so_channel options) then ret (Inl InvalidArg)
     else if 65535 < length payload then ret (Inl TooLarge)
     else do {
       let len = of_nat (length payload);
       if max_inline_payload_for_channel (so_channel options) < len
       then client_finish_send E options type (client_send_fragmented E options type payload)
       else if so_channel options = Channel.Reliable
       then client_finish_send E options type
              (client_send_reliable_message E Channel.Reliable type (Some payload) len
                 (so_priority options) (so_lifetime_ms options))
       else if so_channel options = Channel.ReliableOrdered
       then do {
         modify (\<lambda>c. c\<lparr>cl_next_ordered_sequence := cl_next_ordered_sequence c + 1\<rparr>);
         check (ret (run_writer MaxReliableMessageBytes (\<lambda>w.
             write_ordered_payload w (cl_next_ordered_sequence c) (Some payload) len))) (\<lambda>ordered.
           client_finish_send E options type
             (client_send_reliable_message E Channel.ReliableOrdered type (Some ordered) (of_nat (length ordered))
                (so_priority options) (so_lifetime_ms options)))
       }
       else if so_channel options = Channel.SequencedUnreliable
       then do {
         modify (\<lambda>c. c\<lparr>cl_next_sequenced_sequence := cl_next_sequenced_sequence c + 1\<rparr>);
         check (ret (run_writer MaxMessageBytes (\<lambda>w.
             write_sequenced_payload w (cl_next_sequenced_sequence c) (Some payload) len))) (\<lambda>sequenced.
           client_finish_send E options type
             (client_queue_message_packet E Channel.SequencedUnreliable type (Some sequenced)
                (of_nat (length sequenced)) (so_priority options)))
       }
       else client_finish_send E options type
              (client_queue_message_packet E Channel.Unreliable type (Some payload) len (so_priority options))
     }
   }"

definition client_send_message :: "'w cenv \<Rightarrow> Channel \<Rightarrow> U8 \<Rightarrow> U8 list option \<Rightarrow> U16 \<Rightarrow> ('w, unit result) cact" where
  "client_send_message E channel type data len =
     (if 0 < len \<and> data = None then ret (Inl InvalidArg)
      else client_send E \<lparr>so_channel = channel, so_priority = SendPriority.Normal, so_lifetime_ms = 0\<rparr> type
             (at_ptr data (unat len)))"

definition client_send_text :: "'w cenv \<Rightarrow> U8 \<Rightarrow> U8 list \<Rightarrow> SendOptions \<Rightarrow> ('w, unit result) cact" where
  "client_send_text E type text options =
     (if 65535 < length text then ret (Inl TooLarge) else client_send E options type text)"

definition client_send_unreliable :: "'w cenv \<Rightarrow> U8 \<Rightarrow> U8 list \<Rightarrow> SendPriority \<Rightarrow> ('w, unit result) cact" where
  "client_send_unreliable E type payload priority =
     client_send E \<lparr>so_channel = Channel.Unreliable, so_priority = priority, so_lifetime_ms = 0\<rparr> type payload"

definition client_send_reliable :: "'w cenv \<Rightarrow> U8 \<Rightarrow> U8 list \<Rightarrow> SendPriority \<Rightarrow> U64 \<Rightarrow> ('w, unit result) cact" where
  "client_send_reliable E type payload priority lifetime_ms =
     client_send E \<lparr>so_channel = Channel.Reliable, so_priority = priority, so_lifetime_ms = lifetime_ms\<rparr> type payload"

definition client_send_ordered :: "'w cenv \<Rightarrow> U8 \<Rightarrow> U8 list \<Rightarrow> SendPriority \<Rightarrow> U64 \<Rightarrow> ('w, unit result) cact" where
  "client_send_ordered E type payload priority lifetime_ms =
     client_send E \<lparr>so_channel = Channel.ReliableOrdered, so_priority = priority, so_lifetime_ms = lifetime_ms\<rparr> type payload"

definition client_send_latest :: "'w cenv \<Rightarrow> U8 \<Rightarrow> U8 list \<Rightarrow> SendPriority \<Rightarrow> ('w, unit result) cact" where
  "client_send_latest E type payload priority =
     client_send E \<lparr>so_channel = Channel.SequencedUnreliable, so_priority = priority, so_lifetime_ms = 0\<rparr> type payload"

section \<open>The send loop\<close>

text \<open>A congestion event that lowers the rate also caps the budget.\<close>

definition cl_congest :: "(CongestionController \<Rightarrow> CongestionController) \<Rightarrow> 'w Client \<Rightarrow> 'w Client" where
  "cl_congest f c =
    (let g = f (cl_congestion c) in
     c\<lparr>cl_congestion := g, cl_send_budget_bytes := min (cl_send_budget_bytes c) (cg_bucket_cap_bytes g)\<rparr>)"

definition client_backpressure :: "U64 \<Rightarrow> ('w, unit) cact" where
  "client_backpressure now = do {
     bump ts_backpressure_events_update;
     modify (cl_congest (cg_on_backpressure now));
     client_refresh_runtime_stats
   }"

text \<open>
  One iteration for the packet at the front of the queue: \<^term>\<open>None\<close> to go on with the next packet,
  or the result the loop returns.
\<close>

definition client_flush_send :: "'w cenv \<Rightarrow> U64 \<Rightarrow> PendingPacket \<Rightarrow> ('w, unit result option) cact" where
  "client_flush_send E now pending = do {
     (case parse_packet (Some (take (pp_len pending) (pp_bytes pending))) of
        Inr packet \<Rightarrow> client_emit_packet_debug E ''send'' packet
      | Inl _ \<Rightarrow> ret ());
     rc \<leftarrow> cl_on_sock (udp_send (ce_os E) (Some (pp_bytes pending)) (pp_len pending));
     case rc of
       Inl e \<Rightarrow>
         if e = WouldBlock then do {
           bump ts_would_block_events_update;
           client_backpressure now;
           ret (Some (Inr ()))
         } else do {
           bump ts_socket_errors_update;
           ret (Some (Inl e))
         }
     | Inr _ \<Rightarrow> do {
         modify (\<lambda>c. c\<lparr>cl_send_budget_bytes := cl_send_budget_bytes c - of_nat (pp_len pending)\<rparr>);
         bump ts_packets_sent_update;
         add_stat ts_bytes_sent_update (of_nat (pp_len pending));
         modify (\<lambda>c. c\<lparr>cl_last_send_ms := now, cl_pending_bytes := cl_pending_bytes c - pp_len pending,
                        cl_pending := tl (cl_pending c)\<rparr>);
         client_refresh_runtime_stats;
         ret None
       }
   }"

definition client_flush_step :: "'w cenv \<Rightarrow> PendingPacket \<Rightarrow> ('w, unit result option) cact" where
  "client_flush_step E pending = do {
     now \<leftarrow> client_now_ms E;
     client_refill_send_budget now;
     budget \<leftarrow> gets cl_send_budget_bytes;
     if budget < of_nat (pp_len pending) then do {
       bump ts_send_budget_throttles_update;
       client_backpressure now;
       ret (Some (Inr ()))
     } else client_flush_send E now pending
   }"

text \<open>
  The loop runs while the queue is not empty.  An iteration that goes on removes one packet, so as many
  iterations as there are packets at the start are enough.
\<close>

primrec client_flush_loop :: "'w cenv \<Rightarrow> nat \<Rightarrow> ('w, unit result) cact" where
  "client_flush_loop E 0 = ret (Inr ())"
| "client_flush_loop E (Suc n) = do {
     queue \<leftarrow> gets cl_pending;
     case queue of
       [] \<Rightarrow> ret (Inr ())
     | pending # _ \<Rightarrow> do {
         r \<leftarrow> client_flush_step E pending;
         case r of Some rc \<Rightarrow> ret rc | None \<Rightarrow> client_flush_loop E n
       }
   }"

definition client_flush_pending :: "'w cenv \<Rightarrow> ('w, unit result) cact" where
  "client_flush_pending E = do {
     n \<leftarrow> gets (\<lambda>c. length (cl_pending c));
     client_flush_loop E n
   }"

text \<open>The client hello of the current handshake.\<close>

definition current_client_hello :: "'w Client \<Rightarrow> ClientHello" where
  "current_client_hello c =
    (let resume = ccfg_enable_session_resumption (cl_config c) \<and> cl_have_resumption_token c \<and>
                  \<not> cl_have_retry_token c \<and> cl_attempted_resumption_this_connect c
     in \<lparr>ch_client_public_key = kp_public_key (cl_ephemeral c), ch_client_nonce = cl_client_nonce c,
         ch_has_retry_token = cl_have_retry_token c,
         ch_retry_token = (if cl_have_retry_token c then cl_retry_token c else RetryToken_default),
         ch_has_resumption_token = resume,
         ch_resumption_token = (if resume then cl_resumption_token c else ResumptionToken_default)\<rparr>)"

definition client_send_client_hello :: "'w cenv \<Rightarrow> ('w, unit result) cact" where
  "client_send_client_hello E = do {
     hello \<leftarrow> gets current_client_hello;
     check (ret (run_writer 128 (\<lambda>w. write_client_hello w hello))) (\<lambda>payload.
     check (client_queue_packet E Handshake False (Some payload) (length payload) High 0) (\<lambda>_.
     client_flush_pending E))
   }"

section \<open>Connecting\<close>

definition client_init :: "'w cenv \<Rightarrow> ('w, unit) cact" where
  "client_init E = do {
     modify (\<lambda>c. c\<lparr>cl_reliable := rs_configure (ccfg_reliability (cl_config c)) (cl_reliable c),
                    cl_ordered_reliable := rs_configure (ccfg_reliability (cl_config c)) (cl_ordered_reliable c),
                    cl_ordered := ow_set_max_buffered (rel_ordered_receive_window (ccfg_reliability (cl_config c)))
                                    (cl_ordered c),
                    cl_reassembler := fr_configure (ccfg_fragmentation (cl_config c)) (cl_reassembler c),
                    cl_congestion := cg_configure (ccfg_congestion (cl_config c))
                                       (ccfg_send_budget_bytes_per_second (cl_config c)) (cl_congestion c)\<rparr>);
     modify (\<lambda>c. c\<lparr>cl_send_budget_bytes := cg_rate_bytes_per_second (cl_congestion c)\<rparr>);
     now \<leftarrow> client_now_ms E;
     modify (cl_last_budget_refill_ms_update (\<lambda>_. now));
     client_refresh_runtime_stats
   }"

definition Client_members :: "ClientConfig \<Rightarrow> 'w \<Rightarrow> 'w Client" where
  "Client_members cfg w =
    \<lparr>cl_config = cfg, cl_sock = kInvalidSocket, cl_server = Endpoint_default, cl_state = Idle,
     cl_close_reason = CloseReason.Normal, cl_conn_id = 0, cl_seq = 1, cl_handshake_started_ms = 0,
     cl_last_recv_ms = 0, cl_last_send_ms = 0, cl_send_budget_bytes = 0, cl_last_budget_refill_ms = 0,
     cl_congestion = CongestionController_default, cl_pending_bytes = 0, cl_next_fragment_message_id = 1,
     cl_next_ordered_sequence = 1, cl_next_sequenced_sequence = 1, cl_ephemeral = KeyPair_default,
     cl_session_keys = SessionKeys_default, cl_client_nonce = replicate ClientNonceBytes 0,
     cl_server_nonce = replicate ServerNonceBytes 0, cl_retry_token = RetryToken_default,
     cl_have_retry_token = False, cl_resumption_token = ResumptionToken_default,
     cl_have_resumption_token = False, cl_attempted_resumption_this_connect = False,
     cl_packet_window = ReplayWindow_default, cl_pending = [], cl_reliable = ReliableSession_default,
     cl_ordered_reliable = ReliableSession_default, cl_ordered = OrderedReceiveWindow_new 64,
     cl_sequenced = SequencedReceiveWindow_default, cl_reassembler = FragmentReassembler_default,
     cl_stats = TransportStats_default, cl_world = w\<rparr>"

text \<open>The constructor with a configuration.\<close>

definition Client_new :: "'w cenv \<Rightarrow> ClientConfig \<Rightarrow> 'w \<Rightarrow> 'w Client" where
  "Client_new E cfg w = snd (run_state (client_init E) (Client_members cfg w))"

definition client_connect :: "'w cenv \<Rightarrow> Endpoint \<Rightarrow> ('w, unit result) cact" where
  "client_connect E server =
     check (ret (client_runtime_status E)) (\<lambda>_.
     check (client_reset_for_connect E) (\<lambda>_. do {
       let target = normalize_connect_endpoint server;
       modify (cl_server_update (\<lambda>_. target));
       check (cl_on_sock (udp_open (ce_os E) (sa_family (ep_addr target)))) (\<lambda>_.
       check (cl_on_sock (udp_connect (ce_os E) target)) (\<lambda>_.
       check (cl_on_sock (udp_set_nonblocking (ce_os E) True)) (\<lambda>_. do {
         rc \<leftarrow> on_part (\<lambda>c. (cl_ephemeral c, cl_world c)) (\<lambda>(k, w) c. c\<lparr>cl_ephemeral := k, cl_world := w\<rparr>)
                 (\<lambda>(k, w). case crypto_generate_keypair (ce_sodium E) k w of ((r, k), w) \<Rightarrow> (r, (k, w)));
         case rc of
           Inl e \<Rightarrow> do {
             cl_on_sock (udp_close (ce_os E));
             ret (Inl e)
           }
         | Inr _ \<Rightarrow> do {
             on_part (\<lambda>c. (cl_client_nonce c, cl_world c)) (\<lambda>(b, w) c. c\<lparr>cl_client_nonce := b, cl_world := w\<rparr>)
               (\<lambda>(b, w). case crypto_random_bytes (ce_sodium E) (Some b) (length b) w of
                  (b, w) \<Rightarrow> ((), (the b, w)));
             modify (cl_stats_update (\<lambda>s. (ts_reset s)\<lparr>ts_handshake_attempts := 1\<rparr>));
             modify (\<lambda>c. c\<lparr>cl_attempted_resumption_this_connect :=
                              ccfg_enable_session_resumption (cl_config c) \<and> cl_have_resumption_token c\<rparr>);
             attempted \<leftarrow> gets cl_attempted_resumption_this_connect;
             whenM attempted (bump ts_session_resumptions_attempted_update);
             now \<leftarrow> client_now_ms E;
             modify (cl_handshake_started_ms_update (\<lambda>_. now));
             client_transition_state E Handshaking;
             client_refresh_runtime_stats;
             client_emit_log E Info ''client starting handshake'';
             client_send_client_hello E
           }
       })))
     }))"

definition client_connect_host :: "'w cenv \<Rightarrow> string \<Rightarrow> string \<Rightarrow> ('w, unit result) cact" where
  "client_connect_host E host port =
     check (cl_on_world (resolve_endpoints (ce_os E) host port False)) (\<lambda>eps.
       case prefer_ipv4 eps of
         None \<Rightarrow> ret (Inl ResolveError)
       | Some server \<Rightarrow> client_connect E server)"

section \<open>Retransmission\<close>

text \<open>
  \<^verbatim>\<open>send_pending\<close>: the resend pass of one session.  While it runs, the counters that a queued packet
  refreshes are read from the session as it was before the pass.
\<close>

definition client_resend_one :: "'w cenv \<Rightarrow> Channel \<Rightarrow> PendingReliableMessage \<Rightarrow> ('w, unit result) cact" where
  "client_resend_one E channel pending = do {
     rc \<leftarrow> client_queue_message_packet E channel (pm_user_type pending) (Some (pm_encoded_payload pending))
             (of_nat (length (pm_encoded_payload pending))) (pm_priority pending);
     ret (if rc = Inl QueueFull then Inl errc.Backpressure else rc)
   }"

definition client_resend_due :: "'w cenv \<Rightarrow> U64 \<Rightarrow> Channel \<Rightarrow> ('w, unit result) cact" where
  "client_resend_due E now channel =
     with_part (cl_session channel) (cl_set_session channel)
       (rs_resend_due now (\<lambda>c pending. run_state (client_resend_one E channel pending) c))"

definition retransmit_total :: "'w Client \<Rightarrow> U64" where
  "retransmit_total c = rs_retransmit_events (cl_reliable c) + rs_retransmit_events (cl_ordered_reliable c)"

definition loss_total :: "'w Client \<Rightarrow> U64" where
  "loss_total c = rs_loss_events (cl_reliable c) + rs_loss_events (cl_ordered_reliable c)"

definition client_pump_reliable :: "'w cenv \<Rightarrow> ('w, unit result) cact" where
  "client_pump_reliable E = do {
     st \<leftarrow> gets cl_state;
     if st \<noteq> Established then ret (Inr ())
     else do {
       now \<leftarrow> client_now_ms E;
       before_retransmits \<leftarrow> gets retransmit_total;
       before_losses \<leftarrow> gets loss_total;
       expired_unordered \<leftarrow> on_part cl_reliable (\<lambda>r. cl_reliable_update (\<lambda>_. r)) (rs_expire_old now);
       expired_ordered \<leftarrow> on_part cl_ordered_reliable (\<lambda>r. cl_ordered_reliable_update (\<lambda>_. r)) (rs_expire_old now);
       whenM (0 < expired_unordered \<or> 0 < expired_ordered) (do {
         add_stat ts_reliable_expired_update (ucast (expired_unordered + expired_ordered));
         add_stat ts_reliable_messages_dropped_update (ucast (expired_unordered + expired_ordered));
         add_stat ts_ordered_messages_dropped_update (ucast expired_ordered)
       });
       rc \<leftarrow> client_resend_due E now Channel.Reliable;
       if rc \<noteq> Inr () \<and> rc \<noteq> Inl errc.Backpressure then ret rc
       else do {
         whenM (rc \<noteq> Inr ()) (bump ts_backpressure_events_update);
         rc \<leftarrow> client_resend_due E now Channel.ReliableOrdered;
         if rc \<noteq> Inr () \<and> rc \<noteq> Inl errc.Backpressure then ret rc
         else do {
           whenM (rc \<noteq> Inr ()) (bump ts_backpressure_events_update);
           after_retransmits \<leftarrow> gets retransmit_total;
           after_losses \<leftarrow> gets loss_total;
           whenM (before_retransmits < after_retransmits)
             (add_stat ts_reliable_retransmits_update (after_retransmits - before_retransmits));
           whenM (before_losses < after_losses) (do {
             let losses = after_losses - before_losses;
             add_stat ts_reliable_loss_events_update losses;
             modify (cl_congest (cg_on_loss now losses))
           });
           client_refresh_runtime_stats;
           ret (Inr ())
         }
       }
     }
   }"

section \<open>Delivery\<close>

definition client_emit_message :: "'w cenv \<Rightarrow> MsgView \<Rightarrow> ('w, unit) cact" where
  "client_emit_message E msg = do {
     notify (ce_text_handlers E (mv_type msg)) (\<lambda>f. f (msg_bytes msg));
     notify (ce_binary_handlers E (mv_type msg)) (\<lambda>f. f msg);
     notify (ce_on_message E) (\<lambda>f. f msg)
   }"

text \<open>The delivery callback of the ordered window: it counts and hands the message on.\<close>

definition client_deliver_ordered :: "'w cenv \<Rightarrow> (nat \<times> 'w Client) deliver_fn" where
  "client_deliver_ordered E = (\<lambda>(n, c) type data len.
     (Inr (), (n + 1, snd (run_state (client_emit_message E
        \<lparr>mv_channel = Channel.ReliableOrdered, mv_type = type, mv_data = data, mv_len = len\<rparr>) c))))"

definition client_ordered_accept ::
  "'w cenv \<Rightarrow> U64 \<Rightarrow> U8 \<Rightarrow> U8 list option \<Rightarrow> U16 \<Rightarrow> ('w, (bool \<times> bool) result \<times> nat) cact" where
  "client_ordered_accept E delivery_sequence type data len =
     with_part cl_ordered (\<lambda>w. cl_ordered_update (\<lambda>_. w))
       (\<lambda>w c. case ow_accept (client_deliver_ordered E) w (0, c) delivery_sequence type data len of
          (rc, w, (n, c)) \<Rightarrow> ((rc, n), w, c))"

definition client_deliver_application_message ::
  "'w cenv \<Rightarrow> Channel \<Rightarrow> U8 \<Rightarrow> U8 list option \<Rightarrow> U16 \<Rightarrow> U64 \<Rightarrow> ('w, unit result) cact" where
  "client_deliver_application_message E channel type data len delivery_sequence =
     (if channel = Channel.ReliableOrdered then do {
        bump ts_ordered_messages_received_update;
        (rc, delivered_count) \<leftarrow> client_ordered_accept E delivery_sequence type data len;
        case rc of
          Inl e \<Rightarrow> do {
            bump ts_ordered_messages_dropped_update;
            if e = QueueFull then do {
              bump ts_backpressure_events_update;
              ret (Inr ())
            } else ret (Inl e)
          }
        | Inr (buffered, stale) \<Rightarrow> do {
            whenM buffered (bump ts_ordered_messages_buffered_update);
            whenM stale (bump ts_ordered_messages_dropped_update);
            add_stat ts_ordered_messages_released_update (of_nat delivered_count);
            ret (Inr ())
          }
      } else if channel = Channel.SequencedUnreliable then do {
        bump ts_sequenced_messages_received_update;
        accepted \<leftarrow> on_part cl_sequenced (\<lambda>w. cl_sequenced_update (\<lambda>_. w)) (\<lambda>w. sw_accept w delivery_sequence);
        if \<not> accepted then do {
          bump ts_sequenced_messages_dropped_update;
          ret (Inr ())
        } else do {
          client_emit_message E \<lparr>mv_channel = Channel.SequencedUnreliable, mv_type = type, mv_data = data, mv_len = len\<rparr>;
          ret (Inr ())
        }
      } else do {
        client_emit_message E \<lparr>mv_channel = channel, mv_type = type, mv_data = data, mv_len = len\<rparr>;
        ret (Inr ())
      })"

definition client_deliver_reassembled_message :: "'w cenv \<Rightarrow> FragmentedMessage \<Rightarrow> ('w, unit result) cact" where
  "client_deliver_reassembled_message E message = do {
     bump ts_fragmented_messages_received_update;
     client_deliver_application_message E (fm_channel message) (fm_type message)
       (if fm_payload message = [] then None else Some (fm_payload message))
       (of_nat (length (fm_payload message))) (fm_delivery_sequence message)
   }"

definition client_handle_fragment_payload :: "'w cenv \<Rightarrow> FragmentView \<Rightarrow> ('w, unit result) cact" where
  "client_handle_fragment_payload E fragment = do {
     now \<leftarrow> client_now_ms E;
     rc \<leftarrow> with_part cl_reassembler (\<lambda>f. cl_reassembler_update (\<lambda>_. f))
             (fr_accept now fragment (\<lambda>c message. run_state (client_deliver_reassembled_message E message) c));
     case rc of
       Inl e \<Rightarrow>
         if e = QueueFull then do {
           bump ts_reassembly_memory_rejections_update;
           bump ts_reassembly_drops_update;
           ret (Inr ())
         } else if e = TooLarge then do {
           bump ts_fragment_invalid_sets_update;
           bump ts_reassembly_drops_update;
           ret (Inr ())
         } else do {
           bump ts_fragment_invalid_sets_update;
           ret (Inl e)
         }
     | Inr (duplicate, completed) \<Rightarrow> do {
         whenM duplicate (bump ts_fragment_duplicates_update);
         whenM completed (bump ts_reassemblies_completed_update);
         ret (Inr ())
       }
   }"

section \<open>Dispatching message frames\<close>

definition client_bad_packet :: "'w cenv \<Rightarrow> string \<Rightarrow> ('w, unit) cact" where
  "client_bad_packet E msg = do {
     bump ts_bad_packets_update;
     client_fail_connection E CloseReason.InvalidPacket msg
   }"

definition client_protocol_error :: "'w cenv \<Rightarrow> string \<Rightarrow> ('w, unit) cact" where
  "client_protocol_error E msg = do {
     bump ts_protocol_errors_update;
     client_fail_connection E CloseReason.ProtocolError msg
   }"

text \<open>A fragment that was read: count it and hand it to the reassembler.\<close>

definition client_take_fragment :: "'w cenv \<Rightarrow> FragmentView \<Rightarrow> ('w, unit) cact" where
  "client_take_fragment E fragment = do {
     bump ts_fragments_received_update;
     rc \<leftarrow> client_handle_fragment_payload E fragment;
     whenM (rc \<noteq> Inr ()) (client_bad_packet E ''fragment handling failed'')
   }"

definition client_dispatch_control :: "'w cenv \<Rightarrow> MsgView \<Rightarrow> ('w, unit) cact" where
  "client_dispatch_control E msg =
     (if mv_type msg = control_type_value ReliableAck then
        (case read_reliable_ack (reader_at (mv_data msg) (unat (mv_len msg))) of
           Inl _ \<Rightarrow> client_bad_packet E ''malformed reliable ack''
         | Inr ((ack_channel, acked_message_id), _) \<Rightarrow> do {
             ack_now \<leftarrow> client_now_ms E;
             ack \<leftarrow> on_part (cl_session ack_channel) (cl_set_session ack_channel) (rs_acknowledge acked_message_id ack_now);
             whenM (ae_removed ack) (do {
               bump ts_reliable_acks_received_update;
               modify (cl_congestion_update
                 (cg_on_ack (ae_rtt_sample_valid ack) (ae_rtt_sample_ms ack) (ae_retransmitted ack) ack_now))
             });
             client_refresh_runtime_stats
           })
      else if mv_type msg = control_type_value Fragment then
        (case read_fragment_payload (reader_at (mv_data msg) (unat (mv_len msg))) of
           Inl _ \<Rightarrow> client_bad_packet E ''malformed fragment payload''
         | Inr (fragment, _) \<Rightarrow> client_take_fragment E fragment)
      else client_protocol_error E ''unknown control message'')"

text \<open>A message of a reliable channel after its envelope was read and its number accepted.\<close>

definition client_deliver_reliable :: "'w cenv \<Rightarrow> MsgView \<Rightarrow> ReliablePayloadView \<Rightarrow> ('w, unit) cact" where
  "client_deliver_reliable E msg reliable =
     (case (if mv_type msg = control_type_value Fragment
            then read_fragment_payload (reader_at (rp_data reliable) (unat (rp_len reliable)))
            else Inl BadPacket) of
        Inr (fragment, _) \<Rightarrow> client_take_fragment E fragment
      | Inl _ \<Rightarrow>
          if mv_channel msg = Channel.ReliableOrdered then
            (case read_ordered_payload (reader_at (rp_data reliable) (unat (rp_len reliable))) of
               Inl _ \<Rightarrow> client_bad_packet E ''malformed ordered payload''
             | Inr (ordered, _) \<Rightarrow> do {
                 rc \<leftarrow> client_deliver_application_message E Channel.ReliableOrdered (mv_type msg)
                         (op_data ordered) (op_len ordered) (op_delivery_sequence ordered);
                 whenM (rc \<noteq> Inr ()) (client_protocol_error E ''ordered delivery failed'')
               })
          else do {
            rc \<leftarrow> client_deliver_application_message E Channel.Reliable (mv_type msg)
                    (rp_data reliable) (rp_len reliable) 0;
            whenM (rc \<noteq> Inr ()) (client_protocol_error E ''reliable delivery failed'')
          })"

definition client_dispatch_message_frame :: "'w cenv \<Rightarrow> MsgView \<Rightarrow> ('w, unit) cact" where
  "client_dispatch_message_frame E msg =
     (if mv_channel msg = Channel.Control then client_dispatch_control E msg
      else if mv_channel msg = Channel.Reliable \<or> mv_channel msg = Channel.ReliableOrdered then
        (case read_reliable_payload (reader_at (mv_data msg) (unat (mv_len msg))) of
           Inl _ \<Rightarrow> client_bad_packet E ''malformed reliable payload''
         | Inr (reliable, _) \<Rightarrow> do {
             client_queue_control_ack E (mv_channel msg) (rp_message_id reliable);
             accepted \<leftarrow> on_part (cl_session (mv_channel msg)) (cl_set_session (mv_channel msg))
                           (rs_accept_incoming (rp_message_id reliable));
             whenM accepted (do {
               bump ts_reliable_messages_delivered_update;
               client_deliver_reliable E msg reliable
             })
           })
      else if mv_channel msg = Channel.SequencedUnreliable then
        (case read_sequenced_payload (reader_at (mv_data msg) (unat (mv_len msg))) of
           Inl _ \<Rightarrow> client_bad_packet E ''malformed sequenced payload''
         | Inr (sequenced, _) \<Rightarrow> do {
             rc \<leftarrow> client_deliver_application_message E Channel.SequencedUnreliable (mv_type msg)
                     (sp_data sequenced) (sp_len sequenced) (sp_delivery_sequence sequenced);
             whenM (rc \<noteq> Inr ()) (client_protocol_error E ''sequenced delivery failed'')
           })
      else do {
        rc \<leftarrow> client_deliver_application_message E (mv_channel msg) (mv_type msg) (mv_data msg) (mv_len msg) 0;
        whenM (rc \<noteq> Inr ()) (client_protocol_error E ''application delivery failed'')
      })"

function client_dispatch_loop :: "'w cenv \<Rightarrow> ByteReader \<Rightarrow> ('w, unit) cact" where
  "client_dispatch_loop E r =
     (case read_message r of
        Inl e \<Rightarrow> if e = EndOfStream then ret () else client_bad_packet E ''malformed message frame''
      | Inr (msg, r') \<Rightarrow> do {
          bump ts_message_frames_received_update;
          client_dispatch_message_frame E msg;
          st \<leftarrow> gets cl_state;
          if st = ConnectionState.Closed then ret () else client_dispatch_loop E r'
        })"
  by pat_completeness auto

termination
  by (relation "measure (\<lambda>(E, r). remaining_r r)") (auto dest: read_message_progress)

declare client_dispatch_loop.simps [simp del]

definition client_dispatch_message_payload :: "'w cenv \<Rightarrow> U8 list option \<Rightarrow> ST \<Rightarrow> ('w, unit) cact" where
  "client_dispatch_message_payload E payload payload_len = client_dispatch_loop E (reader_at payload payload_len)"

section \<open>Handling packets\<close>

definition client_handle_retry_packet :: "'w cenv \<Rightarrow> PacketView \<Rightarrow> ('w, unit result) cact" where
  "client_handle_retry_packet E packet =
     check (ret (read_retry (reader_at (pv_payload packet) (unat (ph_payload_len (pv_h packet)))))) (\<lambda>(token, _). do {
       c \<leftarrow> gets id;
       whenM (cl_attempted_resumption_this_connect c \<and> \<not> cl_have_retry_token c)
         (bump ts_session_resumptions_rejected_update);
       modify (\<lambda>c. c\<lparr>cl_retry_token := token, cl_have_retry_token := True\<rparr>);
       bump ts_handshake_retries_received_update;
       client_emit_log E Trace ''client received retry token'';
       client_send_client_hello E
     })"

text \<open>
  The checks of a server hello: the keys it leads to, when its code authenticates the transcript.
\<close>

definition verify_server_hello :: "'w Sodium \<Rightarrow> ClientHello \<Rightarrow> KeyPair \<Rightarrow> ServerHello \<Rightarrow> SessionKeys result" where
  "verify_server_hello S client_hello ephemeral hello =
    (case crypto_derive_client_session_keys S ephemeral (Some (sh_server_public_key hello))
            (length (sh_server_public_key hello)) SessionKeys_default of
       (Inl e, _) \<Rightarrow> Inl e
     | (Inr _, candidate_keys) \<Rightarrow>
         rbind (build_transcript_mac_input client_hello hello 320) (\<lambda>transcript.
         rbind (crypto_keyed_hash S (Some (sk_rx candidate_keys)) (Some transcript) (length transcript) TranscriptMacBytes)
           (\<lambda>expected_mac.
              if \<not> crypto_constant_time_equal (Some expected_mac) (Some (sh_transcript_mac hello)) TranscriptMacBytes
              then Inl AuthFailed else Inr candidate_keys)))"

definition client_install_session :: "ServerHello \<Rightarrow> SessionKeys \<Rightarrow> 'w Client \<Rightarrow> 'w Client" where
  "client_install_session hello candidate_keys c =
     c\<lparr>cl_session_keys := candidate_keys,
       cl_ephemeral := (cl_ephemeral c)\<lparr>kp_secret_key := zeroed (kp_secret_key (cl_ephemeral c))\<rparr>,
       cl_conn_id := sh_server_conn_id hello, cl_server_nonce := sh_server_nonce hello,
       cl_packet_window := replay_reset (cl_packet_window c)\<rparr>"

text \<open>What follows once the keys are installed.\<close>

definition client_finish_handshake :: "'w cenv \<Rightarrow> ServerHello \<Rightarrow> ('w, unit result) cact" where
  "client_finish_handshake E hello = do {
     now \<leftarrow> client_now_ms E;
     modify (\<lambda>c. c\<lparr>cl_last_recv_ms := now,
                    cl_resumption_token := (if sh_has_resumption_token hello then sh_resumption_token hello
                                            else ResumptionToken_default),
                    cl_have_resumption_token := sh_has_resumption_token hello\<rparr>);
     c \<leftarrow> gets id;
     whenM (cl_attempted_resumption_this_connect c \<and> \<not> cl_have_retry_token c)
       (bump ts_session_resumptions_accepted_update);
     rc \<leftarrow> client_queue_keepalive E;
     case rc of
       Inl e \<Rightarrow> do {
         client_fail_connection E CloseReason.InternalError ''failed to send client finish'';
         ret (Inl e)
       }
     | Inr _ \<Rightarrow> do {
         client_transition_state E Established;
         bump ts_sessions_established_update;
         bump ts_handshake_successes_update;
         client_refresh_runtime_stats;
         client_emit_log E Info ''client handshake established'';
         ret (Inr ())
       }
   }"

definition client_handle_server_hello_packet :: "'w cenv \<Rightarrow> PacketView \<Rightarrow> ('w, unit result) cact" where
  "client_handle_server_hello_packet E packet =
     check (ret (read_server_hello (reader_at (pv_payload packet) (unat (ph_payload_len (pv_h packet)))))) (\<lambda>(hello, _). do {
       c \<leftarrow> gets id;
       check (ret (verify_server_hello (ce_sodium E) (current_client_hello c) (cl_ephemeral c) hello)) (\<lambda>candidate_keys. do {
         modify (client_install_session hello candidate_keys);
         client_finish_handshake E hello
       })
     })"

definition client_handle_handshake_packet :: "'w cenv \<Rightarrow> PacketView \<Rightarrow> ('w, unit result) cact" where
  "client_handle_handshake_packet E packet = do {
     st \<leftarrow> gets cl_state;
     if packet_header_encrypted (pv_h packet) then ret (Inl errc.ProtocolError)
     else if st \<noteq> Handshaking then ret (Inl StateError)
     else if pv_payload packet = None \<or> ph_payload_len (pv_h packet) = 0 then ret (Inl BadPacket)
     else do {
       let type = the (pv_payload packet) ! 0;
       if type = handshake_type_value Retry then client_handle_retry_packet E packet
       else if type = handshake_type_value ServerHello then client_handle_server_hello_packet E packet
       else ret (Inl errc.ProtocolError)
     }
   }"

text \<open>
  The end of a connection that was closed in order: the same statements after a close packet from the
  server, in both paths, and after the drain time of a close of its own.
\<close>

definition client_session_released :: "'w Client \<Rightarrow> 'w Client" where
  "client_session_released c =
     c\<lparr>cl_session_keys := sk_clear (cl_session_keys c), cl_reliable := rs_clear (cl_reliable c),
       cl_ordered_reliable := rs_clear (cl_ordered_reliable c), cl_pending := [], cl_pending_bytes := 0\<rparr>"

definition client_release :: "'w cenv \<Rightarrow> ('w, unit) cact" where
  "client_release E = do {
     cl_on_sock (udp_close (ce_os E));
     modify client_session_released;
     client_transition_state E ConnectionState.Closed
   }"

definition client_remote_close :: "'w cenv \<Rightarrow> CloseReason \<Rightarrow> ('w, unit) cact" where
  "client_remote_close E reason = do {
     bump ts_closes_received_update;
     modify (cl_close_reason_update (\<lambda>_. reason));
     client_release E
   }"

text \<open>The packet after it was authenticated and its sequence number accepted.\<close>

definition client_handle_plaintext :: "'w cenv \<Rightarrow> PacketView \<Rightarrow> U8 list \<Rightarrow> ('w, unit result) cact" where
  "client_handle_plaintext E packet plaintext = do {
     now \<leftarrow> client_now_ms E;
     modify (cl_last_recv_ms_update (\<lambda>_. now));
     let logical = \<lparr>pv_h = (pv_h packet)\<lparr>ph_payload_len := of_nat (length plaintext)\<rparr>,
                    pv_payload = (if length plaintext = 0 then None else Some plaintext)\<rparr>;
     notify (ce_on_packet E) (\<lambda>f. f logical);
     client_emit_packet_debug E ''recv'' logical;
     if ph_kind (pv_h packet) = packet_kind_value Raw then ret (Inr ())
     else if ph_kind (pv_h packet) = packet_kind_value Message then do {
       client_dispatch_message_payload E (pv_payload logical) (length plaintext);
       st \<leftarrow> gets cl_state;
       ret (if st = ConnectionState.Closed then Inl errc.Closed else Inr ())
     }
     else if ph_kind (pv_h packet) = packet_kind_value Keepalive then do {
       bump ts_keepalives_received_update;
       ret (Inr ())
     }
     else if ph_kind (pv_h packet) = packet_kind_value Close then
       (case read_close_frame (reader_at (pv_payload logical) (length plaintext)) of
          Inl e \<Rightarrow> do {
            bump ts_bad_packets_update;
            ret (Inl e)
          }
        | Inr (close_frame, _) \<Rightarrow> do {
            client_remote_close E (cf_reason close_frame);
            ret (Inl errc.Closed)
          })
     else ret (Inl errc.ProtocolError)
   }"

definition client_handle_established_packet :: "'w cenv \<Rightarrow> PacketView \<Rightarrow> ('w, unit result) cact" where
  "client_handle_established_packet E packet = do {
     c \<leftarrow> gets id;
     if \<not> packet_header_encrypted (pv_h packet) then ret (Inl errc.ProtocolError)
     else if sk_empty (cl_session_keys c) then ret (Inl StateError)
     else if ph_conn_id (pv_h packet) \<noteq> cl_conn_id c then ret (Inl errc.ProtocolError)
     else check (ret (run_writer PacketHeaderBytes (\<lambda>w. write_packet_header w (pv_h packet)))) (\<lambda>aad.
       case open_payload (ce_sodium E) (sk_rx (cl_session_keys c)) aad packet of
         Inl e \<Rightarrow> do {
           bump ts_auth_failures_update;
           bump ts_decrypt_failures_update;
           ret (Inl e)
         }
       | Inr plaintext \<Rightarrow>
           if ph_seq (pv_h packet) = 0 then ret (Inl errc.ProtocolError)
           else do {
             accepted \<leftarrow> on_part cl_packet_window (\<lambda>w. cl_packet_window_update (\<lambda>_. w))
                           (\<lambda>w. replay_accept w (ph_seq (pv_h packet)));
             if \<not> accepted then do {
               bump ts_replays_dropped_update;
               ret (Inl Replay)
             } else client_handle_plaintext E packet plaintext
           })
   }"

definition client_packet_error :: "'w cenv \<Rightarrow> errc \<Rightarrow> ('w, unit) cact" where
  "client_packet_error E e =
     (if e = errc.UnsupportedVersion then do {
        bump ts_unsupported_version_packets_update;
        client_fail_connection E CloseReason.UnsupportedVersion ''unsupported version''
      } else if e = AuthFailed then client_fail_connection E AuthenticationFailed ''authentication failed''
      else if e = errc.ProtocolError \<or> e = StateError then client_protocol_error E ''protocol error''
      else if e = BadPacket \<or> e = Truncated then client_bad_packet E ''invalid packet''
      else ret ())"

definition client_handle_packet :: "'w cenv \<Rightarrow> PacketView \<Rightarrow> ('w, unit) cact" where
  "client_handle_packet E packet = do {
     st \<leftarrow> gets cl_state;
     if ph_kind (pv_h packet) = packet_kind_value Handshake then do {
       notify (ce_on_packet E) (\<lambda>f. f packet);
       client_emit_packet_debug E ''recv'' packet;
       rc \<leftarrow> client_handle_handshake_packet E packet;
       case rc of Inl e \<Rightarrow> client_packet_error E e | Inr _ \<Rightarrow> ret ()
     } else if ph_kind (pv_h packet) = packet_kind_value Close \<and> st = Handshaking \<and>
               \<not> packet_header_encrypted (pv_h packet) then do {
       notify (ce_on_packet E) (\<lambda>f. f packet);
       client_emit_packet_debug E ''recv'' packet;
       case read_close_frame (reader_at (pv_payload packet) (unat (ph_payload_len (pv_h packet)))) of
         Inl e \<Rightarrow> client_packet_error E e
       | Inr (close_frame, _) \<Rightarrow> client_remote_close E (cf_reason close_frame)
     } else do {
       rc \<leftarrow> client_handle_established_packet E packet;
       case rc of Inl e \<Rightarrow> if e = Replay then ret () else client_packet_error E e | Inr _ \<Rightarrow> ret ()
     }
   }"

section \<open>The receive loop, housekeeping and the tick\<close>

text \<open>
  The loop reads until the socket would block.  The fuel bounds the number of datagrams read in one
  call; \<^term>\<open>None\<close> is a loop that is still running when it is used up.
\<close>

primrec client_pump_receive :: "'w cenv \<Rightarrow> nat \<Rightarrow> ('w, unit result option) cact" where
  "client_pump_receive E 0 = ret None"
| "client_pump_receive E (Suc fuel) = do {
     rc \<leftarrow> cl_on_sock (udp_recv (ce_os E) MaxPacketBytes);
     case rc of
       Inl e \<Rightarrow>
         if e = WouldBlock then do {
           bump ts_would_block_events_update;
           ret (Some (Inr ()))
         } else if e = Truncated then do {
           bump ts_truncated_datagrams_update;
           client_pump_receive E fuel
         } else do {
           bump ts_socket_errors_update;
           ret (Some (Inl e))
         }
     | Inr bytes \<Rightarrow> do {
         bump ts_packets_received_update;
         add_stat ts_bytes_received_update (of_nat (length bytes));
         case parse_packet (Some bytes) of
           Inl e \<Rightarrow> do {
             (if e = errc.UnsupportedVersion then do {
                bump ts_unsupported_version_packets_update;
                client_fail_connection E CloseReason.UnsupportedVersion ''unsupported version''
              } else client_bad_packet E ''parse failed'');
             ret (Some (Inr ()))
           }
         | Inr packet \<Rightarrow> do {
             client_handle_packet E packet;
             st \<leftarrow> gets cl_state;
             if st = ConnectionState.Closed then ret (Some (Inr ())) else client_pump_receive E fuel
           }
       }
   }"

definition client_on_expire :: "'w Client \<Rightarrow> U64 \<Rightarrow> 'w Client" where
  "client_on_expire c _ = snd (run_state (do {
     bump ts_reassemblies_expired_update;
     bump ts_reassembly_drops_update }) c)"

definition client_run_housekeeping :: "'w cenv \<Rightarrow> ('w, unit result) cact" where
  "client_run_housekeeping E = do {
     now \<leftarrow> client_now_ms E;
     with_part cl_reassembler (\<lambda>f. cl_reassembler_update (\<lambda>_. f))
       (\<lambda>f c. ((), fr_expire_old now client_on_expire f c));
     c \<leftarrow> gets id;
     let cfg = cl_config c;
     if cl_state c = Handshaking then do {
       whenM (cl_handshake_started_ms c \<noteq> 0 \<and> ccfg_handshake_timeout_ms cfg < now - cl_handshake_started_ms c) (do {
         bump ts_establish_timeouts_update;
         client_fail_connection E EstablishTimeout ''handshake timeout''
       });
       client_refresh_runtime_stats;
       ret (Inr ())
     } else if cl_state c = Established \<and> cl_last_recv_ms c \<noteq> 0 \<and> ccfg_idle_timeout_ms cfg < now - cl_last_recv_ms c then do {
       bump ts_idle_timeouts_update;
       client_queue_close_packet E IdleTimeout True;
       modify (cl_close_reason_update (\<lambda>_. IdleTimeout));
       client_transition_state E Closing;
       client_refresh_runtime_stats;
       ret (Inr ())
     } else if cl_state c = Established \<and>
               (cl_last_send_ms c = 0 \<or> ccfg_keepalive_interval_ms cfg \<le> now - cl_last_send_ms c) then do {
       rc \<leftarrow> client_queue_keepalive E;
       client_refresh_runtime_stats;
       ret rc
     } else do {
       whenM (cl_state c = Closing \<and> cl_last_send_ms c \<noteq> 0 \<and> ccfg_close_drain_ms cfg \<le> now - cl_last_send_ms c)
         (client_release E);
       client_refresh_runtime_stats;
       ret (Inr ())
     }
   }"

definition client_tick :: "'w cenv \<Rightarrow> nat \<Rightarrow> ('w, unit result option) cact" where
  "client_tick E fuel = do {
     rc \<leftarrow> client_flush_pending E;
     if rc \<noteq> Inr () then ret (Some rc)
     else do {
       rc \<leftarrow> client_pump_reliable E;
       if rc \<noteq> Inr () then ret (Some rc)
       else do {
         rc \<leftarrow> client_pump_receive E fuel;
         if rc \<noteq> Some (Inr ()) then ret rc
         else do {
           rc \<leftarrow> client_run_housekeeping E;
           ret (Some rc)
         }
       }
     }
   }"

definition client_close :: "'w cenv \<Rightarrow> CloseReason \<Rightarrow> ('w, unit result) cact" where
  "client_close E reason = do {
     st \<leftarrow> gets cl_state;
     if st = ConnectionState.Closed \<or> st = Idle then ret (Inr ())
     else do {
       rc \<leftarrow> client_queue_close_packet E reason (st = Established \<or> st = Closing);
       case rc of
         Inl e \<Rightarrow> do {
           client_fail_connection E reason ''failed to queue close packet'';
           ret (Inl e)
         }
       | Inr _ \<Rightarrow> do {
           modify (cl_close_reason_update (\<lambda>_. reason));
           client_transition_state E Closing;
           client_refresh_runtime_stats;
           ret (Inr ())
         }
     }
   }"

definition client_reset_stats :: "('w, unit) cact" where
  "client_reset_stats = do {
     modify (cl_stats_update ts_reset);
     client_refresh_runtime_stats
   }"

definition client_local_endpoint :: "'w cenv \<Rightarrow> ('w, Endpoint result) cact" where
  "client_local_endpoint E = cl_on_sock (udp_local_endpoint (ce_os E))"

text \<open>A client without callbacks.\<close>

definition quiet_client :: "'w Sodium \<Rightarrow> 'w Os \<Rightarrow> 'w cenv" where
  "quiet_client S os =
    \<lparr>ce_sodium = S, ce_os = os, ce_logger = None, ce_packet_debug = None, ce_on_packet = None, ce_on_message = None,
     ce_text_handlers = (\<lambda>_. None), ce_binary_handlers = (\<lambda>_. None), ce_on_state_change = None,
     ce_on_connected = None, ce_on_disconnected = None, ce_on_error = None, ce_on_backpressure = None\<rparr>"

end
