(* ===== verification/Scn_Kept.thy ===== *)
theory Scn_Kept
  imports Scn_Effects Scn_Reliable_Session Scn_Fragmentation
begin

text \<open>
  The components that call back into the client or the server (the resend pass, the ordered window,
  the reassembler) change the caller's state only through the callback: a property of the caller's
  state that the callback keeps is kept by the whole operation.
\<close>

lemma resend_loop_pred:
  assumes cb: "\<And>c p. P c \<Longrightarrow> P (snd (fn c p))"
  shows "resend_loop fn now s c ps = (r, ps', s', c') \<Longrightarrow> P c \<Longrightarrow> P c'"
proof (induction ps arbitrary: s c r ps' s' c')
  case (Cons p ps)
  have "P d" if "fn c q = (x, d)" for q x d
    using cb [OF Cons.prems(2), of q] that by simp
  note step = this
  show ?case
    using Cons.prems unfolding resend_loop_Cons
    by (auto simp: Let_def split: if_splits prod.splits sum.splits dest: Cons.IH step)
qed simp

lemma rs_resend_due_pred:
  assumes "\<And>c p. P c \<Longrightarrow> P (snd (fn c p))" and "rs_resend_due now fn s c = (r, s', c')" and "P c"
  shows "P c'"
proof (cases "resend_loop fn now s c (rs_pending s)")
  case (fields x ps t d)
  then have "c' = d" using assms(2) by (simp add: rs_resend_due_def split: sum.splits)
  with resend_loop_pred [of P fn, OF assms(1) fields assms(3)] show ?thesis by simp
qed

lemma ow_drain_pred:
  assumes cb: "\<And>c t d n. P c \<Longrightarrow> P (snd (deliver c t d n))"
  shows "ow_drain deliver w c = (r, w', c') \<Longrightarrow> P c \<Longrightarrow> P c'"
  using cb
proof (induction deliver w c arbitrary: r w' c' rule: ow_drain.induct)
  case (1 deliver w c)
  show ?case
  proof (cases "map_of (ow_buffer w) (ow_next_expected w)")
    case None
    then show ?thesis using "1.prems" by (simp add: ow_drain.simps [of deliver w c])
  next
    case (Some m)
    obtain x d where d: "deliver c (bm_type m) (if bm_payload m = [] then None else Some (bm_payload m))
        (of_nat (length (bm_payload m))) = (x, d)" by fastforce
    then have "P d" using "1.prems"(3) [OF "1.prems"(2)] by (metis snd_conv)
    then show ?thesis
      using "1.prems"(1,3) Some d "1.IH" [OF Some d [symmetric]]
      by (cases x) (auto simp: ow_drain.simps [of deliver w c])
  qed
qed

lemma ow_accept_pred:
  assumes cb: "\<And>c t d n. P c \<Longrightarrow> P (snd (deliver c t d n))"
    and "ow_accept deliver w c ds type data len = (r, w', c')" and "P c"
  shows "P c'"
proof -
  obtain x d where d: "deliver c type data len = (x, d)" by fastforce
  then have "P d" using cb [OF assms(3)] by (metis snd_conv)
  then show ?thesis
    using assms(2,3) d ow_drain_pred [where P = P and deliver = deliver, OF cb]
    by (auto simp: ow_accept_def Let_def split: if_splits sum.splits prod.splits)
qed

lemma fr_accept_pred:
  assumes cb: "\<And>c m. P c \<Longrightarrow> P (snd (on_complete c m))"
    and "fr_accept now v on_complete f c = (r, f', c')" and "P c"
  shows "P c'"
proof -
  have "P d" if "on_complete c m = (x, d)" for m x d
    using cb [OF assms(3), of m] that by simp
  with assms(2,3) show ?thesis
    unfolding fr_accept_def Let_def by (auto split: if_splits sum.splits prod.splits)
qed

lemma fr_expire_loop_pred:
  assumes cb: "\<And>c k. P c \<Longrightarrow> P (on_expire c k)"
  shows "fr_expire_loop now on_expire f c es = (es', m, c') \<Longrightarrow> P c \<Longrightarrow> P c'"
proof (induction es arbitrary: f c es' m c')
  case (Cons a es)
  then show ?case by (cases a) (auto simp: cb split: if_splits prod.splits)
qed simp

lemma fr_expire_old_pred:
  assumes "\<And>c k. P c \<Longrightarrow> P (on_expire c k)" and "fr_expire_old now on_expire f c = (f', c')" and "P c"
  shows "P c'"
proof (cases "fr_expire_loop now on_expire f c (fr_entries f)")
  case (fields es m d)
  then have "c' = d" using assms(2) by (simp add: fr_expire_old_def)
  with fr_expire_loop_pred [of P on_expire, OF assms(1) fields assms(3)] show ?thesis by simp
qed

section \<open>Invariants\<close>

text \<open>
  \<open>I\<close> is kept.  The guarded form is kept under a condition, the contract of the callbacks, that does not
  depend on the state: with it the contracts below have instances without a hypothesis.
\<close>

definition keeping :: "('s \<Rightarrow> bool) \<Rightarrow> 's \<Rightarrow> 's \<Rightarrow> bool" where
  "keeping I s t \<longleftrightarrow> (I s \<longrightarrow> I t)"

definition guarded_by :: "bool \<Rightarrow> ('s \<Rightarrow> bool) \<Rightarrow> 's \<Rightarrow> 's \<Rightarrow> bool" where
  "guarded_by contract I s t \<longleftrightarrow> (contract \<longrightarrow> I s \<longrightarrow> I t)"

lemma guarded_refl: "guarded_by b I s s"
  by (simp add: guarded_by_def)

lemma guarded_trans: "guarded_by b I s t \<Longrightarrow> guarded_by b I t u \<Longrightarrow> guarded_by b I s u"
  by (simp add: guarded_by_def)

lemma guardedI: "(I s \<Longrightarrow> I t) \<Longrightarrow> guarded_by b I s t"
  by (simp add: guarded_by_def)

lemma guarded_cases: "guarded_by b I = (if b then keeping I else (\<lambda>_ _. True))"
  by (auto simp: fun_eq_iff guarded_by_def keeping_def)

interpretation invariant: kept "keeping I" for I
  by unfold_locales (auto simp: keeping_def)

lemma invariant_modify: "(\<And>s. I s \<Longrightarrow> I (f s)) \<Longrightarrow> keeps (keeping I) (modify f)"
  by (simp add: keeps_def keeping_def)

lemma invariant_on_part: "(\<And>s p. I s \<Longrightarrow> I (put p s)) \<Longrightarrow> keeps (keeping I) (on_part get put f)"
  by (auto simp: keeps_def keeping_def run_on_part split: prod.split)

lemma invariant_notify: "(\<And>f s. cb = Some f \<Longrightarrow> I s \<Longrightarrow> I (call f s)) \<Longrightarrow> keeps (keeping I) (notify cb call)"
  by (auto simp: keeps_def keeping_def run_notify split: option.split)

lemmas invariant_rules = invariant.keeps_rules invariant_modify invariant_on_part

lemma keeping_hoare: "keeps (keeping I) m \<longleftrightarrow> hoare I m (\<lambda>_. I)"
  by (auto simp: keeps_def keeping_def hoare_def split_beta)

lemma invariant_hoare: "keeps (keeping I) m \<Longrightarrow> hoare I m (\<lambda>_. I)"
  by (simp add: keeping_hoare)

lemma invariant_weak: "keeps (keeping I) m \<Longrightarrow> hoare (\<lambda>t. I t \<and> X t) m (\<lambda>_. I)"
  by (rule hoare_pre [OF invariant_hoare]) simp_all

lemma invariant_frame: "keeps (keeping I) m \<Longrightarrow> frames f m \<Longrightarrow> hoare (\<lambda>t. I t \<and> f t = a) m (\<lambda>_ t. I t \<and> f t = a)"
  unfolding hoare_def keeps_def keeping_def frames_def by (auto split: prod.splits) (metis snd_conv)+

end
