(* ===== verification/Scn_Client_Inv.thy ===== *)
theory Scn_Client_Inv
  imports Scn_Client Scn_Kept
begin

text \<open>
  What every method of the client keeps.

  The locale \<open>client_kept\<close> is the contract of a relation between client states that each primitive
  update respects, callbacks included.  Inside it the relation is shown to hold across every method,
  once.  Its interpretations below give, method by method, the invariant of the send queue, the
  invariant of the secrets and the invariant of the send budget.
\<close>

named_theorems client_keeps

section \<open>Callbacks\<close>

definition callbacks_keep :: "('w Client \<Rightarrow> 'w Client \<Rightarrow> bool) \<Rightarrow> 'w cenv \<Rightarrow> bool" where
  "callbacks_keep R E \<longleftrightarrow>
     (\<forall>f p c. ce_on_packet E = Some f \<longrightarrow> R c (f p c)) \<and>
     (\<forall>f m c. ce_on_message E = Some f \<longrightarrow> R c (f m c)) \<and>
     (\<forall>t f b c. ce_text_handlers E t = Some f \<longrightarrow> R c (f b c)) \<and>
     (\<forall>t f m c. ce_binary_handlers E t = Some f \<longrightarrow> R c (f m c)) \<and>
     (\<forall>f a b c. ce_on_state_change E = Some f \<longrightarrow> R c (f a b c)) \<and>
     (\<forall>f c. ce_on_connected E = Some f \<longrightarrow> R c (f c)) \<and>
     (\<forall>f r c. ce_on_disconnected E = Some f \<longrightarrow> R c (f r c)) \<and>
     (\<forall>f e c. ce_on_error E = Some f \<longrightarrow> R c (f e c)) \<and>
     (\<forall>f i c. ce_on_backpressure E = Some f \<longrightarrow> R c (f i c))"

lemma callbacks_keep_quiet: "callbacks_keep R (quiet_client S os)"
  by (simp add: callbacks_keep_def quiet_client_def)

section \<open>The contract\<close>

text \<open>The update of the queue when a packet is appended, and the packets that are appended.\<close>

definition with_pending :: "PendingPacket \<Rightarrow> 'w Client \<Rightarrow> 'w Client" where
  "with_pending p c = c\<lparr>cl_pending_bytes := cl_pending_bytes c + pp_len p,
     cl_pending := insert_prio (\<lambda>p. priority_value (pp_priority p)) p (cl_pending c)\<rparr>"

definition packet_built :: "PendingPacket \<Rightarrow> bool" where
  "packet_built p \<longleftrightarrow> length (pp_bytes p) = MaxPacketBytes \<and> pp_len p \<le> MaxPacketBytes \<and> PacketHeaderBytes \<le> pp_len p"

lemma build_packet_built:
  "build_packet S keys h e q m = Inr (b, l) \<Longrightarrow> packet_built \<lparr>pp_bytes = b, pp_len = l, pp_priority = pr\<rparr>"
  using build_packet_size [of S keys h e q m b l] by (simp add: packet_built_def)

text \<open>What the steps around a send leave alone.\<close>

abbreviation queue_part :: "'w Client \<Rightarrow> PendingPacket list" where
  "queue_part c \<equiv> cl_pending c"

abbreviation budget_part :: "'w Client \<Rightarrow> PendingPacket list \<times> U64" where
  "budget_part c \<equiv> (cl_pending c, cl_send_budget_bytes c)"

lemma budget_frames:
  "frames budget_part (bump g)" "frames budget_part (add_stat g k)" "frames budget_part client_refresh_runtime_stats"
  "frames budget_part (cl_on_sock m)" "frames budget_part (client_now_ms E)" "frames budget_part (client_emit_packet_debug E d v)"
  unfolding frames_def bump_def add_stat_def client_refresh_runtime_stats_def cl_on_sock_def client_now_ms_def
    cl_on_world_def client_emit_packet_debug_def
  by (intro frame.keeps_rules frame.keeps_modify frame.keeps_on_part frame.keeps_notify; auto)+

lemma queue_frames:
  "frames queue_part (client_now_ms E)" "frames queue_part (client_refill_send_budget now)"
  unfolding frames_def client_now_ms_def cl_on_world_def client_refill_send_budget_def bump_def client_refresh_runtime_stats_def
  by (intro frame.keeps_rules frame.keeps_modify frame.keeps_on_part; auto)+

locale client_kept = kept R for R :: "'w Client \<Rightarrow> 'w Client \<Rightarrow> bool" +
  fixes E :: "'w cenv"
  assumes callbacks: "callbacks_keep R E"
    and k_stats: "\<And>c f. R c (cl_stats_update f c)"
    and k_world: "\<And>c f. R c (cl_world_update f c)"
    and k_sock: "\<And>c s w. R c (c\<lparr>cl_sock := s, cl_world := w\<rparr>)"
    and k_state: "\<And>c n. n \<noteq> Idle \<Longrightarrow> n \<noteq> ConnectionState.Closed \<Longrightarrow> R c (c\<lparr>cl_state := n\<rparr>)"
    and k_reason: "\<And>c r. R c (cl_close_reason_update r c)"
    and k_server: "\<And>c e. R c (cl_server_update e c)"
    and k_seq: "\<And>c. R c (c\<lparr>cl_seq := cl_seq c + 1\<rparr>)"
    and k_times: "\<And>c t. R c (cl_last_recv_ms_update t c)" "\<And>c t. R c (cl_handshake_started_ms_update t c)"
    and k_counters: "\<And>c n. R c (cl_next_fragment_message_id_update n c)"
      "\<And>c n. R c (cl_next_ordered_sequence_update n c)" "\<And>c n. R c (cl_next_sequenced_sequence_update n c)"
    and k_sessions: "\<And>c r. R c (cl_reliable_update r c)" "\<And>c r. R c (cl_ordered_reliable_update r c)"
    and k_windows: "\<And>c w. R c (cl_ordered_update w c)" "\<And>c w. R c (cl_sequenced_update w c)"
      "\<And>c w. R c (cl_reassembler_update w c)" "\<And>c w. R c (cl_packet_window_update w c)"
    and k_retry: "\<And>c t b. R c (c\<lparr>cl_retry_token := t, cl_have_retry_token := b\<rparr>)"
    and k_resumption: "\<And>c n t b. R c (c\<lparr>cl_last_recv_ms := n, cl_resumption_token := t, cl_have_resumption_token := b\<rparr>)"
      "\<And>c b. R c (cl_attempted_resumption_this_connect_update b c)"
    and k_ephemeral: "\<And>c k w. R c (c\<lparr>cl_ephemeral := k, cl_world := w\<rparr>)"
      "\<And>c n w. R c (c\<lparr>cl_client_nonce := n, cl_world := w\<rparr>)"
    and k_ack: "\<And>c v r x now. R c (cl_congestion_update (cg_on_ack v r x now) c)"
    and k_backpressure: "\<And>c now. R c (cl_congest (cg_on_backpressure now) c)"
    and k_loss: "\<And>c now n. R c (cl_congest (cg_on_loss now n) c)"
    and k_refill_first: "\<And>c now. R c (c\<lparr>cl_last_budget_refill_ms := now,
            cl_send_budget_bytes := (if cl_send_budget_bytes c = 0
              then cg_rate_bytes_per_second (cl_congestion c) else cl_send_budget_bytes c)\<rparr>)"
    and k_refill: "\<And>c now n. R c (c\<lparr>cl_send_budget_bytes := min (cg_bucket_cap_bytes (cl_congestion c))
            (cl_send_budget_bytes c + n), cl_last_budget_refill_ms := now\<rparr>)"
    and k_spend: "\<And>c n. n \<le> cl_send_budget_bytes c \<Longrightarrow> R c (c\<lparr>cl_send_budget_bytes := cl_send_budget_bytes c - n\<rparr>)"
    and k_enqueue: "\<And>c p. length (cl_pending c) < unat (ccfg_max_pending_packets (cl_config c)) \<Longrightarrow> packet_built p \<Longrightarrow>
            R c (with_pending p c)"
    and k_dequeue: "\<And>c p ps now. cl_pending c = p # ps \<Longrightarrow>
            R c (c\<lparr>cl_last_send_ms := now, cl_pending_bytes := cl_pending_bytes c - pp_len p, cl_pending := tl (cl_pending c)\<rparr>)"
    and k_install: "\<And>c h k. cl_state c = Handshaking \<Longrightarrow> R c (client_install_session h k c)"
    and k_cleared: "\<And>c now. R c (client_session_reset now c)" "\<And>c r. R c (client_session_failed r c)"
      "\<And>c. R c (client_session_released c)"
    and k_shut: "\<And>s t n. R s t \<Longrightarrow> sk_empty (cl_session_keys t) \<Longrightarrow> R s (t\<lparr>cl_state := n\<rparr>)"
begin

lemma notify_keeps [client_keeps]:
  "keeps R (notify (ce_on_packet E) (\<lambda>f. f p))" "keeps R (notify (ce_on_message E) (\<lambda>f. f m))"
  "keeps R (notify (ce_text_handlers E t) (\<lambda>f. f b))" "keeps R (notify (ce_binary_handlers E t) (\<lambda>f. f m))"
  "keeps R (notify (ce_on_state_change E) (\<lambda>f. f x y))" "keeps R (notify (ce_on_connected E) (\<lambda>f. f))"
  "keeps R (notify (ce_on_disconnected E) (\<lambda>f c. f (cl_close_reason c) c))"
  "keeps R (notify (ce_on_error E) (\<lambda>f. f e))"
  "keeps R (notify (ce_on_backpressure E) (\<lambda>f c. f (i c) c))"
  by (intro keeps_notify; use callbacks in \<open>simp add: callbacks_keep_def\<close>)+

lemma keeps_bump [client_keeps]: "keeps R (bump f)"
  unfolding bump_def by (intro keeps_modify k_stats)

lemma keeps_add_stat [client_keeps]: "keeps R (add_stat f k)"
  unfolding add_stat_def by (intro keeps_modify k_stats)

lemma keeps_refresh [client_keeps]: "keeps R client_refresh_runtime_stats"
  unfolding client_refresh_runtime_stats_def by (intro keeps_modify k_stats)

lemma keeps_now [client_keeps]: "keeps R (client_now_ms E)"
  unfolding client_now_ms_def cl_on_world_def by (intro keeps_on_part k_world)

lemma keeps_world [client_keeps]: "keeps R (cl_on_world f)"
  unfolding cl_on_world_def by (intro keeps_on_part k_world)

lemma keeps_sock [client_keeps]: "keeps R (cl_on_sock m)"
  unfolding cl_on_sock_def by (intro keeps_on_part) (auto intro: k_sock)

lemma keeps_log [client_keeps]: "keeps R (client_emit_log E l m)"
  unfolding client_emit_log_def by (intro keeps_notify k_world)

lemma keeps_debug [client_keeps]: "keeps R (client_emit_packet_debug E d p)"
  unfolding client_emit_packet_debug_def by (intro keeps_rules keeps_notify k_world)

lemma keeps_emit_backpressure [client_keeps]: "keeps R (client_emit_backpressure E ch t e)"
  unfolding client_emit_backpressure_def by (rule client_keeps)

lemma keeps_transition [client_keeps]:
  "n \<noteq> Idle \<Longrightarrow> n \<noteq> ConnectionState.Closed \<Longrightarrow> keeps R (client_transition_state E n)"
  unfolding client_transition_state_def
  by (intro keeps_rules client_keeps keeps_modify k_state)

lemma hoare_shut:
  "hoare (\<lambda>t. R s t \<and> sk_empty (cl_session_keys t)) (client_transition_state E n) (\<lambda>_ t. R s t)"
proof -
  have rest: "keeps R (do {
       bump ts_state_transitions_update;
       client_refresh_runtime_stats;
       client_emit_log E Trace ''client state transition'';
       notify (ce_on_state_change E) (\<lambda>f. f p n);
       whenM (p \<noteq> Established \<and> n = Established) (notify (ce_on_connected E) (\<lambda>f. f));
       whenM (p \<noteq> ConnectionState.Closed \<and> n = ConnectionState.Closed)
         (notify (ce_on_disconnected E) (\<lambda>f c. f (cl_close_reason c) c)) })" for p
    by (intro keeps_rules client_keeps)
  show ?thesis
    unfolding client_transition_state_def
    by (intro hoare_bind [where m = "gets cl_state" and T = "\<lambda>_ t. R s t \<and> sk_empty (cl_session_keys t)"] hoare_gets
        hoare_whenM hoare_bind [OF hoare_modify hoare_keeps [OF rest]] k_shut) auto
qed

text \<open>Closing the socket and then changing to a closed state, with the keys cleared before.\<close>

lemma sock_frames_keys: "frames cl_session_keys (cl_on_sock m)"
  unfolding frames_def cl_on_sock_def by (intro frame.keeps_on_part) auto

lemma hoare_sock_empty:
  "hoare (\<lambda>t. R s t \<and> sk_empty (cl_session_keys t)) (cl_on_sock m) (\<lambda>_ t. R s t \<and> sk_empty (cl_session_keys t))"
proof (rule hoareI, elim conjE)
  fix u x t
  assume "R s u" "sk_empty (cl_session_keys u)" and r: "run_state (cl_on_sock m) u = (x, t)"
  then show "R s t \<and> sk_empty (cl_session_keys t)"
    using keepsD [OF keeps_sock r] keepsD [OF sock_frames_keys [unfolded frames_def] r] kept_trans by auto
qed

lemma empty_after [simp]:
  "sk_empty (cl_session_keys (client_session_reset now c))" "sk_empty (cl_session_keys (client_session_failed r c))"
  "sk_empty (cl_session_keys (client_session_released c))"
  by (simp_all add: client_session_reset_def client_session_failed_def client_session_released_def Let_def)

lemma hoare_clear:
  "(\<And>c. R c (f c)) \<Longrightarrow> (\<And>c. sk_empty (cl_session_keys (f c))) \<Longrightarrow>
   hoare (\<lambda>t. R s t) (modify f) (\<lambda>_ t. R s t \<and> sk_empty (cl_session_keys t))"
  using kept_trans by (intro hoare_modify) blast

lemma hoare_reset: "hoare (\<lambda>t. R s t) (client_reset_session E) (\<lambda>_ t. R s t \<and> sk_empty (cl_session_keys t))"
  unfolding client_reset_session_def client_refresh_runtime_stats_def
  by (rule hoare_bind [OF hoare_keeps [OF keeps_now] hoare_bind [OF hoare_clear]])
    (auto intro!: k_cleared hoare_modify kept_trans [OF _ k_stats])

lemma hoare_reason_empty:
  "hoare (\<lambda>t. R s t \<and> sk_empty (cl_session_keys t)) (modify (cl_close_reason_update g))
     (\<lambda>_ t. R s t \<and> sk_empty (cl_session_keys t))"
  by (rule hoare_modify) (auto intro: kept_trans [OF _ k_reason])

lemma keeps_clear_shut:
  assumes "\<And>c. R c (f c)" "\<And>c. sk_empty (cl_session_keys (f c))" "keeps R k"
  shows "keeps R (do { modify f; cl_on_sock m; client_transition_state E n; k })"
  by (rule hoare_keepsI, rule hoare_pre,
      rule hoare_bind [OF hoare_clear [OF assms(1,2)] hoare_bind [OF hoare_sock_empty hoare_bind [OF hoare_shut hoare_keeps [OF assms(3)]]]])
    (simp add: kept_refl)

lemma k_fail [client_keeps]: "keeps R (client_fail_connection E r m)"
  unfolding client_fail_connection_def
  by (rule keeps_bind [OF keeps_gets], rule keeps_bind [OF keeps_whenM [OF keeps_bump]], rule keeps_bind [OF keeps_log],
      rule keeps_bind [OF notify_keeps(8)], rule keeps_clear_shut [OF k_cleared(2) empty_after(2) keeps_refresh])

lemma k_release [client_keeps]: "keeps R (client_release E)"
  unfolding client_release_def
  by (rule keeps_bind [OF keeps_sock], rule hoare_keepsI, rule hoare_pre,
      rule hoare_bind [OF hoare_clear [OF k_cleared(3) empty_after(3)] hoare_shut]) (simp add: kept_refl)

lemma hoare_stop: "hoare (\<lambda>t. R s t) (client_stop E) (\<lambda>_ t. R s t)"
  unfolding client_stop_def
  by (rule hoare_bind [OF hoare_keeps [OF keeps_sock] hoare_bind [OF hoare_reset hoare_bind [OF hoare_shut]]],
      rule hoare_keeps) (intro keeps_rules client_keeps keeps_modify k_reason)

lemma k_stop [client_keeps]: "keeps R (client_stop E)"
  by (rule hoare_keepsI, rule hoare_pre [OF hoare_stop]) (simp add: kept_refl)

lemma k_reset_for_connect [client_keeps]: "keeps R (client_reset_for_connect E)"
proof -
  have "keeps R (do { client_stop E; client_reset_session E; modify (cl_close_reason_update (\<lambda>_. CloseReason.Normal));
      client_transition_state E Idle; ret (Inr ()) })"
    by (rule hoare_keepsI, rule hoare_pre, rule hoare_bind [OF hoare_stop hoare_bind [OF hoare_reset
        hoare_bind [OF hoare_reason_empty hoare_bind [OF hoare_shut hoare_ret]]]]) (auto simp: kept_refl)
  then show ?thesis
    unfolding client_reset_for_connect_def by (intro keeps_bind [OF keeps_gets] keeps_check [OF keeps_ret])
qed

lemma keeps_enqueue [client_keeps]:
  assumes "packet_built p"
  shows "keeps R (client_enqueue_pending_packet p)"
proof -
  have "R c (cl_stats_update f (with_pending p c))"
    if "\<not> unat (ccfg_max_pending_packets (cl_config c)) \<le> length (cl_pending c)" for c f
    using k_enqueue [OF _ assms, of c] that k_stats kept_trans by (meson not_le)
  then show ?thesis
    unfolding client_enqueue_pending_packet_def with_pending_def client_refresh_runtime_stats_def bump_def
    by (intro keeps_gets_bind) (simp add: run_bind k_stats)
qed

lemma keeps_queue_packet [client_keeps]: "keeps R (client_queue_packet E k enc p n pr ci)"
  unfolding client_queue_packet_def check_ret
  by (intro keeps_rules client_keeps keeps_modify k_seq) (auto intro: build_packet_built)

lemma keeps_queue_raw [client_keeps]: "keeps R (client_queue_raw_payload E d n pr)"
  unfolding client_queue_raw_payload_def by (intro client_keeps)

lemma keeps_internal [client_keeps]: "keeps R (client_queue_internal_message E ch t d n pr)"
  unfolding client_queue_internal_message_def by (intro keeps_rules client_keeps)

lemma keeps_message_packet [client_keeps]: "keeps R (client_queue_message_packet E ch t d n pr)"
  unfolding client_queue_message_packet_def by (intro keeps_rules client_keeps)

lemma keeps_control_ack [client_keeps]: "keeps R (client_queue_control_ack E ch i)"
  unfolding client_queue_control_ack_def by (intro keeps_rules client_keeps)

lemma keeps_keepalive [client_keeps]: "keeps R (client_queue_keepalive E)"
  unfolding client_queue_keepalive_def by (intro keeps_rules client_keeps)

lemma keeps_close_packet [client_keeps]: "keeps R (client_queue_close_packet E r enc)"
  unfolding client_queue_close_packet_def by (intro keeps_rules client_keeps)

lemma keeps_session [client_keeps]: "keeps R (on_part (cl_session ch) (cl_set_session ch) f)"
  by (rule keeps_on_part) (simp add: cl_set_session_def k_sessions)

lemma keeps_reliable_message [client_keeps]: "keeps R (client_send_reliable_message E ch t d n pr lt)"
  unfolding client_send_reliable_message_def by (intro keeps_rules client_keeps)

lemma keeps_fragments [client_keeps]: "keeps R (client_send_fragments E opt t pl fc mid ds is)"
  by (induction "is") (simp add: keeps_ret, unfold client_send_fragments.simps Let_def,
      intro keeps_rules client_keeps)

lemma keeps_fragmented [client_keeps]: "keeps R (client_send_fragmented E opt t pl)"
  unfolding client_send_fragmented_def by (intro keeps_rules client_keeps keeps_modify k_counters)

lemma keeps_finish [client_keeps]: "keeps R m \<Longrightarrow> keeps R (client_finish_send E opt t m)"
  unfolding client_finish_send_def by (intro keeps_rules client_keeps)

lemma keeps_send [client_keeps]: "keeps R (client_send E opt t pl)"
  unfolding client_send_def by (intro keeps_rules client_keeps keeps_modify k_counters)

lemma keeps_refill [client_keeps]: "keeps R (client_refill_send_budget now)"
  unfolding client_refill_send_budget_def
  by (intro keeps_rules client_keeps keeps_modify k_refill_first k_refill)

lemma keeps_backpressure [client_keeps]: "keeps R (client_backpressure now)"
  unfolding client_backpressure_def by (intro keeps_rules client_keeps keeps_modify k_backpressure)

lemma hoare_dequeue:
  assumes "of_nat (pp_len p) \<le> b"
  shows "hoare (\<lambda>t. R s t \<and> budget_part t = (p # ps, b)) (do {
         modify (\<lambda>c. c\<lparr>cl_send_budget_bytes := cl_send_budget_bytes c - of_nat (pp_len p)\<rparr>);
         bump ts_packets_sent_update;
         add_stat ts_bytes_sent_update (of_nat (pp_len p));
         modify (\<lambda>c. c\<lparr>cl_last_send_ms := now, cl_pending_bytes := cl_pending_bytes c - pp_len p,
                        cl_pending := tl (cl_pending c)\<rparr>);
         client_refresh_runtime_stats;
         ret None
       }) (\<lambda>_ t. R s t)"
proof (rule hoare_bind [where T = "\<lambda>_ t. R s t \<and> budget_part t = (p # ps, b - of_nat (pp_len p))"])
  show "hoare (\<lambda>t. R s t \<and> budget_part t = (p # ps, b))
      (modify (\<lambda>c. c\<lparr>cl_send_budget_bytes := cl_send_budget_bytes c - of_nat (pp_len p)\<rparr>))
      (\<lambda>_ t. R s t \<and> budget_part t = (p # ps, b - of_nat (pp_len p)))"
    using assms by (intro hoare_modify conjI kept_trans [OF _ k_spend]) auto
next
  fix u :: unit
  show "hoare (\<lambda>t. R s t \<and> budget_part t = (p # ps, b - of_nat (pp_len p))) (do {
         bump ts_packets_sent_update;
         add_stat ts_bytes_sent_update (of_nat (pp_len p));
         modify (\<lambda>c. c\<lparr>cl_last_send_ms := now, cl_pending_bytes := cl_pending_bytes c - pp_len p,
                        cl_pending := tl (cl_pending c)\<rparr>);
         client_refresh_runtime_stats;
         ret None
       }) (\<lambda>_ t. R s t)"
    apply (rule hoare_bind [OF hoare_keeps_frame [OF keeps_bump budget_frames(1)]])
    apply (rule hoare_bind [OF hoare_keeps_frame [OF keeps_add_stat budget_frames(2)]])
    apply (rule hoare_bind [where T = "\<lambda>_ t. R s t"])
     apply (rule hoare_modify)
     apply (elim conjE, erule kept_trans, rule k_dequeue, simp)
    apply (rule hoare_keeps)
    apply (intro keeps_rules client_keeps)
    done
qed

lemma hoare_flush_send:
  assumes "of_nat (pp_len p) \<le> b"
  shows "hoare (\<lambda>t. R s t \<and> budget_part t = (p # ps, b)) (client_flush_send E now p) (\<lambda>_ t. R s t)"
proof -
  let ?D = "(case parse_packet (Some (take (pp_len p) (pp_bytes p))) of
        Inr packet \<Rightarrow> client_emit_packet_debug E ''send'' packet | Inl _ \<Rightarrow> ret ())"
  have d: "keeps R ?D" by (intro keeps_rules client_keeps)
  have f: "frames budget_part ?D"
    unfolding frames_def by (intro frame.keeps_rules budget_frames(6) [unfolded frames_def])
  show ?thesis
    unfolding client_flush_send_def
    apply (rule hoare_bind [OF hoare_keeps_frame [OF d f]])
    apply (rule hoare_bind [OF hoare_keeps_frame [OF keeps_sock budget_frames(4)]])
    apply (rule hoare_sum)
     apply (intro hoare_keeps_weak keeps_rules client_keeps)
    apply (rule hoare_dequeue [OF assms])
    done
qed

lemma hoare_flush_step:
  "hoare (\<lambda>t. R s t \<and> queue_part t = p # ps) (client_flush_step E p) (\<lambda>_ t. R s t)"
  unfolding client_flush_step_def
  apply (rule hoare_bind [OF hoare_keeps_frame [OF keeps_now queue_frames(1)]])
  apply (rule hoare_bind [OF hoare_keeps_frame [OF keeps_refill queue_frames(2)]])
  apply (rule hoare_bind [where T = "\<lambda>x t. R s t \<and> budget_part t = (p # ps, x)"])
   apply (rule hoare_gets, simp)
  apply (rule hoare_if)
   apply (rule hoare_pre [OF hoare_keeps])
    apply (intro keeps_rules client_keeps)
   apply simp
  apply (rule hoare_flush_send)
  apply simp
  done

lemma keeps_flush_loop [client_keeps]: "keeps R (client_flush_loop E n)"
proof (induction n)
  case (Suc n)
  have step: "hoare (\<lambda>t. R s t \<and> queue_part t = q) (case q of [] \<Rightarrow> ret (Inr ()) | pending # _ \<Rightarrow> do {
      r \<leftarrow> client_flush_step E pending;
      case r of Some rc \<Rightarrow> ret rc | None \<Rightarrow> client_flush_loop E n }) (\<lambda>_ t. R s t)" for s q
  proof (cases q)
    case (Cons p ps)
    show ?thesis
      unfolding Cons list.case
      by (rule hoare_bind [OF hoare_flush_step]) (intro hoare_option hoare_ret hoare_keeps Suc)
  qed (auto intro!: hoare_ret)
  have "hoare (\<lambda>t. t = s) (client_flush_loop E (Suc n)) (\<lambda>_ t. R s t)" for s
    unfolding client_flush_loop.simps
    by (rule hoare_bind, rule hoare_gets [where Q = "\<lambda>x t. R s t \<and> queue_part t = x"])
      (simp add: kept_refl, rule step)
  then show ?case by (rule hoare_keepsI)
qed (simp add: keeps_ret)

lemma keeps_flush [client_keeps]: "keeps R (client_flush_pending E)"
  unfolding client_flush_pending_def by (intro keeps_rules client_keeps)

lemma keeps_resend_one [client_keeps]: "keeps R (client_resend_one E ch p)"
  unfolding client_resend_one_def by (intro keeps_rules client_keeps)

lemma keeps_resend_due [client_keeps]: "keeps R (client_resend_due E now ch)"
  unfolding client_resend_due_def
proof (rule keeps_with_part)
  fix s a p t
  assume "rs_resend_due now (\<lambda>c pending. run_state (client_resend_one E ch pending) c) (cl_session ch s) s = (a, p, t)"
  then have "R s t"
    by (rule rs_resend_due_pred [where P = "R s", rotated])
      (use keeps_resend_one kept_trans kept_refl in \<open>auto simp: keeps_def\<close>)
  then show "R s (cl_set_session ch p t)"
    using k_sessions kept_trans by (auto simp: cl_set_session_def)
qed

lemma keeps_pump_reliable [client_keeps]: "keeps R (client_pump_reliable E)"
  unfolding client_pump_reliable_def
  by (intro keeps_rules client_keeps keeps_modify keeps_on_part k_sessions k_loss)

lemma keeps_emit_message [client_keeps]: "keeps R (client_emit_message E m)"
  unfolding client_emit_message_def by (intro keeps_rules client_keeps)

lemma keeps_ordered_accept [client_keeps]: "keeps R (client_ordered_accept E ds t d n)"
  unfolding client_ordered_accept_def
proof (rule keeps_with_part)
  fix s a p t'
  assume a: "(case ow_accept (client_deliver_ordered E) (cl_ordered s) (0, s) ds t d n of
      (rc, w, k, c) \<Rightarrow> ((rc, k), w, c)) = (a, p, t')"
  then obtain rc k where o: "ow_accept (client_deliver_ordered E) (cl_ordered s) (0, s) ds t d n = (rc, p, k, t')"
    by (auto split: prod.splits)
  have "R s (snd (k, t'))"
    by (rule ow_accept_pred [where P = "\<lambda>x. R s (snd x)", OF _ o])
      (use keeps_emit_message kept_trans kept_refl in \<open>auto simp: client_deliver_ordered_def keeps_def split: prod.splits\<close>)
  then show "R s (cl_ordered_update (\<lambda>_. p) t')" using k_windows(1) kept_trans by auto
qed

lemma keeps_deliver [client_keeps]: "keeps R (client_deliver_application_message E ch t d n ds)"
  unfolding client_deliver_application_message_def
  by (intro keeps_rules client_keeps keeps_on_part k_windows)

lemma keeps_deliver_reassembled [client_keeps]: "keeps R (client_deliver_reassembled_message E m)"
  unfolding client_deliver_reassembled_message_def by (intro keeps_rules client_keeps)

lemma keeps_fr_accept [client_keeps]:
  "keeps R (with_part cl_reassembler (\<lambda>f. cl_reassembler_update (\<lambda>_. f))
     (fr_accept now v (\<lambda>c m. run_state (client_deliver_reassembled_message E m) c)))"
proof (rule keeps_with_part)
  fix s a p t
  assume "fr_accept now v (\<lambda>c m. run_state (client_deliver_reassembled_message E m) c) (cl_reassembler s) s = (a, p, t)"
  then have "R s t"
    by (rule fr_accept_pred [where P = "R s", rotated])
      (use keeps_deliver_reassembled kept_trans kept_refl in \<open>auto simp: keeps_def\<close>)
  then show "R s (cl_reassembler_update (\<lambda>_. p) t)" using k_windows(3) kept_trans by blast
qed

lemma keeps_fragment_payload [client_keeps]: "keeps R (client_handle_fragment_payload E v)"
  unfolding client_handle_fragment_payload_def by (intro keeps_rules client_keeps)

lemma keeps_bad_packet [client_keeps]: "keeps R (client_bad_packet E m)"
  unfolding client_bad_packet_def by (intro keeps_rules client_keeps k_fail)

lemma keeps_protocol_error [client_keeps]: "keeps R (client_protocol_error E m)"
  unfolding client_protocol_error_def by (intro keeps_rules client_keeps k_fail)

lemma keeps_take_fragment [client_keeps]: "keeps R (client_take_fragment E v)"
  unfolding client_take_fragment_def by (intro keeps_rules client_keeps)

lemma keeps_control [client_keeps]: "keeps R (client_dispatch_control E m)"
  unfolding client_dispatch_control_def by (intro keeps_rules client_keeps keeps_modify k_ack)

lemma keeps_deliver_reliable [client_keeps]: "keeps R (client_deliver_reliable E m v)"
  unfolding client_deliver_reliable_def by (intro keeps_rules client_keeps)

lemma keeps_frame [client_keeps]: "keeps R (client_dispatch_message_frame E m)"
  unfolding client_dispatch_message_frame_def by (intro keeps_rules client_keeps)

lemma keeps_dispatch_loop [client_keeps]: "keeps R (client_dispatch_loop E r)"
proof (induction r rule: measure_induct_rule [of remaining_r])
  case (less r)
  show ?case
    unfolding client_dispatch_loop.simps [of E r]
    by (intro keeps_rules client_keeps less) (auto dest: read_message_progress)
qed

lemma keeps_dispatch_payload [client_keeps]: "keeps R (client_dispatch_message_payload E p n)"
  unfolding client_dispatch_message_payload_def by (rule keeps_dispatch_loop)

lemma keeps_client_hello [client_keeps]: "keeps R (client_send_client_hello E)"
  unfolding client_send_client_hello_def by (intro keeps_rules client_keeps)

lemma keeps_retry [client_keeps]: "keeps R (client_handle_retry_packet E p)"
  unfolding client_handle_retry_packet_def by (intro keeps_rules client_keeps keeps_modify k_retry)

lemma keeps_finish_handshake [client_keeps]: "keeps R (client_finish_handshake E h)"
  unfolding client_finish_handshake_def
  by (intro keeps_rules client_keeps keeps_modify k_resumption k_fail) simp_all

lemma hoare_server_hello:
  "hoare (\<lambda>t. R s t \<and> cl_state t = Handshaking) (client_handle_server_hello_packet E p) (\<lambda>_ t. R s t)"
proof -
  have fin: "hoare (\<lambda>t. R s t \<and> cl_state t = Handshaking) (do {
      modify (client_install_session h k); client_finish_handshake E h }) (\<lambda>_ t. R s t)" for h k
    by (rule hoare_bind [OF _ hoare_keeps [OF keeps_finish_handshake]])
      (intro hoare_modify, elim conjE, erule kept_trans, erule k_install)
  show ?thesis
    unfolding client_handle_server_hello_packet_def check_ret
    by (intro hoare_sum hoare_prod hoare_ret fin
        hoare_bind [where m = "gets id" and T = "\<lambda>_ t. R s t \<and> cl_state t = Handshaking"] hoare_gets) auto
qed

lemma keeps_handshake [client_keeps]: "keeps R (client_handle_handshake_packet E p)"
  unfolding client_handle_handshake_packet_def Let_def
  by (rule keeps_gets_hoare)
    (intro hoare_if hoare_ret hoare_keeps_weak keeps_retry hoare_pre [OF hoare_server_hello]; auto)

lemma keeps_remote_close [client_keeps]: "keeps R (client_remote_close E r)"
  unfolding client_remote_close_def by (intro keeps_rules client_keeps keeps_modify k_reason k_release)

lemma keeps_plaintext [client_keeps]: "keeps R (client_handle_plaintext E p pt)"
  unfolding client_handle_plaintext_def by (intro keeps_rules client_keeps keeps_modify k_times)

lemma keeps_established [client_keeps]: "keeps R (client_handle_established_packet E p)"
  unfolding client_handle_established_packet_def by (intro keeps_rules client_keeps keeps_on_part k_windows)

lemma keeps_packet_error [client_keeps]: "keeps R (client_packet_error E e)"
  unfolding client_packet_error_def by (intro keeps_rules client_keeps k_fail)

lemma keeps_handle_packet [client_keeps]: "keeps R (client_handle_packet E p)"
  unfolding client_handle_packet_def by (intro keeps_rules client_keeps)

lemma keeps_pump_receive [client_keeps]: "keeps R (client_pump_receive E fuel)"
  by (induction fuel) (simp add: keeps_ret, unfold client_pump_receive.simps, intro keeps_rules client_keeps k_fail)

lemma keeps_expire [client_keeps]:
  "keeps R (with_part cl_reassembler (\<lambda>f. cl_reassembler_update (\<lambda>_. f))
     (\<lambda>f c. ((), fr_expire_old now client_on_expire f c)))"
proof (rule keeps_with_part)
  have "keeps R (do { bump ts_reassemblies_expired_update; bump ts_reassembly_drops_update })"
    by (intro keeps_rules client_keeps)
  then have e: "R c (client_on_expire c k)" for c k
    by (simp add: client_on_expire_def keeps_def)
  fix s t :: "'w Client" and a :: unit and p
  assume "((), fr_expire_old now client_on_expire (cl_reassembler s) s) = (a, p, t)"
  then have "fr_expire_old now client_on_expire (cl_reassembler s) s = (p, t)" by simp
  then have "R s t"
    by (rule fr_expire_old_pred [where P = "R s", rotated]) (use e kept_trans kept_refl in auto)
  then show "R s (cl_reassembler_update (\<lambda>_. p) t)" using k_windows(3) kept_trans by blast
qed

lemma keeps_housekeeping [client_keeps]: "keeps R (client_run_housekeeping E)"
  unfolding client_run_housekeeping_def Let_def
  by (intro keeps_rules client_keeps keeps_modify k_reason k_fail k_release) simp_all

lemma keeps_tick [client_keeps]: "keeps R (client_tick E fuel)"
  unfolding client_tick_def by (intro keeps_rules client_keeps)

lemma keeps_close [client_keeps]: "keeps R (client_close E r)"
  unfolding client_close_def by (intro keeps_rules client_keeps keeps_modify k_reason k_fail) simp_all

lemma keeps_reset_stats [client_keeps]: "keeps R client_reset_stats"
  unfolding client_reset_stats_def by (intro keeps_rules client_keeps keeps_modify k_stats)

lemma keeps_connect [client_keeps]: "keeps R (client_connect E ep)"
  unfolding client_connect_def
  by (intro keeps_rules client_keeps keeps_modify keeps_on_part k_server k_stats k_resumption k_times)
    (auto simp: k_ephemeral)

lemma keeps_connect_host [client_keeps]: "keeps R (client_connect_host E host port)"
  unfolding client_connect_host_def by (intro keeps_rules client_keeps)

end

section \<open>The calls of a client\<close>

datatype client_op =
    OpConnect Endpoint
  | OpConnectHost string string
  | OpStop
  | OpTick nat
  | OpSend SendOptions U8 "U8 list"
  | OpSendMessage Channel U8 "U8 list option" U16
  | OpSendPayload "U8 list option" nat
  | OpSendText U8 "U8 list" SendOptions
  | OpClose CloseReason
  | OpResetStats

fun client_exec :: "'w cenv \<Rightarrow> client_op \<Rightarrow> 'w Client \<Rightarrow> 'w Client" where
  "client_exec E (OpConnect ep) c = snd (run_state (client_connect E ep) c)"
| "client_exec E (OpConnectHost host port) c = snd (run_state (client_connect_host E host port) c)"
| "client_exec E OpStop c = snd (run_state (client_stop E) c)"
| "client_exec E (OpTick fuel) c = snd (run_state (client_tick E fuel) c)"
| "client_exec E (OpSend options type payload) c = snd (run_state (client_send E options type payload) c)"
| "client_exec E (OpSendMessage channel type data len) c = snd (run_state (client_send_message E channel type data len) c)"
| "client_exec E (OpSendPayload data len) c = snd (run_state (client_send_payload E data len) c)"
| "client_exec E (OpSendText type text options) c = snd (run_state (client_send_text E type text options) c)"
| "client_exec E (OpClose reason) c = snd (run_state (client_close E reason) c)"
| "client_exec E OpResetStats c = snd (run_state client_reset_stats c)"

context client_kept
begin

lemma keeps_send_message [client_keeps]: "keeps R (client_send_message E ch t d n)"
  unfolding client_send_message_def by (intro keeps_rules client_keeps)

lemma keeps_send_payload [client_keeps]: "keeps R (client_send_payload E d n)"
  unfolding client_send_payload_def by (intro keeps_rules client_keeps)

lemma keeps_send_text [client_keeps]: "keeps R (client_send_text E t d opt)"
  unfolding client_send_text_def by (intro keeps_rules client_keeps)

lemma exec_kept: "R c (client_exec E op c)"
  by (cases op; simp only: client_exec.simps; rule keeps_run [where R = R]; rule client_keeps)

end

section \<open>The invariants\<close>

text \<open>
  The send queue: its byte count is exact, it has at most the configured number of packets, it is
  ordered by priority, and every packet in it was built whole.
\<close>

definition client_queue_ok :: "'w Client \<Rightarrow> bool" where
  "client_queue_ok c \<longleftrightarrow>
     cl_pending_bytes c = sum_list (map pp_len (cl_pending c)) \<and>
     length (cl_pending c) \<le> unat (ccfg_max_pending_packets (cl_config c)) \<and>
     sorted_wrt (\<lambda>a b. priority_value (pp_priority b) \<le> priority_value (pp_priority a)) (cl_pending c) \<and>
     list_all packet_built (cl_pending c)"

text \<open>The secrets: no session key outlives its connection.\<close>

definition client_secrets_ok :: "'w Client \<Rightarrow> bool" where
  "client_secrets_ok c \<longleftrightarrow>
     (cl_state c = Idle \<or> cl_state c = ConnectionState.Closed \<longrightarrow> sk_empty (cl_session_keys c))"

text \<open>The budget: the congestion controller is within its bounds and the bucket is not overfull.\<close>

definition client_budget_ok :: "'w Client \<Rightarrow> bool" where
  "client_budget_ok c \<longleftrightarrow> cg_inv (cl_congestion c) \<and> cl_send_budget_bytes c \<le> cg_bucket_cap_bytes (cl_congestion c)"

definition client_inv :: "'w Client \<Rightarrow> bool" where
  "client_inv c \<longleftrightarrow> client_queue_ok c \<and> client_secrets_ok c \<and> client_budget_ok c"

text \<open>\<open>I\<close> is kept, provided that the callbacks keep it.\<close>

abbreviation guarded :: "('w Client \<Rightarrow> bool) \<Rightarrow> 'w cenv \<Rightarrow> 'w Client \<Rightarrow> 'w Client \<Rightarrow> bool" where
  "guarded I E \<equiv> guarded_by (callbacks_keep (keeping I) E) I"

lemma guarded_callbacks: "callbacks_keep (guarded I E) E"
  unfolding guarded_cases by (auto simp: callbacks_keep_def)

lemma queue_ok_enqueue:
  "client_queue_ok c \<Longrightarrow> length (cl_pending c) < unat (ccfg_max_pending_packets (cl_config c)) \<Longrightarrow> packet_built p \<Longrightarrow>
   client_queue_ok (with_pending p c)"
  by (simp add: client_queue_ok_def with_pending_def insert_prio_sorted list_all_iff add.commute)

lemma queue_ok_dequeue:
  "client_queue_ok c \<Longrightarrow> cl_pending c = p # ps \<Longrightarrow>
   client_queue_ok (c\<lparr>cl_last_send_ms := now, cl_pending_bytes := cl_pending_bytes c - pp_len p, cl_pending := tl (cl_pending c)\<rparr>)"
  by (simp add: client_queue_ok_def)

lemmas session_ends = client_session_reset_def client_session_failed_def client_session_released_def

interpretation client_queue: client_kept "guarded client_queue_ok E" E for E
  by (unfold_locales;
      (rule guarded_refl guarded_callbacks | erule (1) guarded_trans
       | (rule guardedI, erule (2) queue_ok_enqueue) | (rule guardedI, erule (1) queue_ok_dequeue)
       | (erule guarded_trans, rule guardedI, simp add: client_queue_ok_def; fail)
       | (rule guardedI, simp add: client_queue_ok_def session_ends cl_congest_def client_install_session_def Let_def)))

lemma secrets_ok_shut:
  "client_secrets_ok t \<Longrightarrow> sk_empty (cl_session_keys t) \<Longrightarrow> client_secrets_ok (t\<lparr>cl_state := n\<rparr>)"
  by (simp add: client_secrets_ok_def)

interpretation client_secrets: client_kept "guarded client_secrets_ok E" E for E
  by (unfold_locales;
      (rule guarded_refl guarded_callbacks | erule (1) guarded_trans
       | (erule guarded_trans, rule guardedI, erule (1) secrets_ok_shut)
       | (rule guardedI, simp add: client_secrets_ok_def session_ends cl_congest_def client_install_session_def Let_def
            with_pending_def)))

lemma budget_ok_reset: "client_budget_ok c \<Longrightarrow> client_budget_ok (client_session_reset now c)"
  by (simp add: client_budget_ok_def client_session_reset_def Let_def reset_runtime_inv cg_inv_bounds bucket_rate)

lemma budget_ok_congest:
  "client_budget_ok c \<Longrightarrow> client_budget_ok (cl_congest (cg_on_backpressure now) c)"
  "client_budget_ok c \<Longrightarrow> client_budget_ok (cl_congest (cg_on_loss now n) c)"
  by (simp_all add: client_budget_ok_def cl_congest_def Let_def on_backpressure_inv on_loss_inv)

lemma budget_ok_ack: "client_budget_ok c \<Longrightarrow> client_budget_ok (cl_congestion_update (cg_on_ack v r x now) c)"
  using ack_bucket on_ack_inv by (fastforce simp: client_budget_ok_def intro: order_trans)

lemma budget_ok_spend:
  "client_budget_ok c \<Longrightarrow> n \<le> cl_send_budget_bytes c \<Longrightarrow>
   client_budget_ok (c\<lparr>cl_send_budget_bytes := cl_send_budget_bytes c - n\<rparr>)"
  by (auto simp: client_budget_ok_def word_le_nat_alt unat_sub_le)

interpretation client_budget: client_kept "guarded client_budget_ok E" E for E
  by (unfold_locales;
      (rule guarded_refl guarded_callbacks | erule (1) guarded_trans
       | (rule guardedI, erule budget_ok_reset budget_ok_congest budget_ok_ack; fail)
       | (rule guardedI, erule (1) budget_ok_spend)
       | (erule guarded_trans, rule guardedI, simp add: client_budget_ok_def; fail)
       | (rule guardedI, simp add: client_budget_ok_def session_ends client_install_session_def with_pending_def bucket_rate Let_def)))

section \<open>Every reachable client\<close>

inductive client_reachable :: "'w cenv \<Rightarrow> ClientConfig \<Rightarrow> 'w \<Rightarrow> 'w Client \<Rightarrow> bool" for E cfg w where
  start: "client_reachable E cfg w (Client_new E cfg w)"
| step: "client_reachable E cfg w c \<Longrightarrow> client_reachable E cfg w (client_exec E op c)"

definition callbacks_ok :: "'w cenv \<Rightarrow> bool" where
  "callbacks_ok E \<longleftrightarrow> callbacks_keep (keeping client_queue_ok) E \<and> callbacks_keep (keeping client_secrets_ok) E \<and>
     callbacks_keep (keeping client_budget_ok) E"

lemma validated_client_congestion:
  "validate_client_config cfg = Inr () \<Longrightarrow>
   validate_congestion_control_config (ccfg_congestion cfg) (ccfg_send_budget_bytes_per_second cfg) = Inr () \<and>
   ccfg_send_budget_bytes_per_second cfg \<noteq> 0"
  by (auto simp: validate_client_config_def rbind_Inr_iff split: if_splits)

lemma Client_new_inv:
  assumes "validate_client_config cfg = Inr ()"
  shows "client_inv (Client_new E cfg w)"
proof -
  have "cg_inv (cg_configure (ccfg_congestion cfg) (ccfg_send_budget_bytes_per_second cfg) CongestionController_default)"
    using validated_client_congestion [OF assms] by (blast intro: cg_configure_inv)
  then show ?thesis
    by (simp add: Client_new_def client_init_def Client_members_def run_simps client_refresh_runtime_stats_def
        client_now_ms_def cl_on_world_def client_inv_def client_queue_ok_def client_secrets_ok_def client_budget_ok_def
        bucket_rate split: prod.split)
qed

lemma client_exec_inv:
  assumes "callbacks_ok E" "client_inv c"
  shows "client_inv (client_exec E op c)"
  using client_queue.exec_kept [of E c op] client_secrets.exec_kept [of E c op] client_budget.exec_kept [of E c op] assms
  by (simp add: guarded_by_def callbacks_ok_def client_inv_def)

text \<open>
  C5: in every state that a client with a validated configuration can reach by any sequence of calls,
  with any server, network and clock: the send queue is within its limit, ordered by priority and its
  byte count is exact; an idle or closed client holds no session key; the congestion controller is
  within its configured bounds and the send budget within the bucket.  The callbacks may call back
  into the client as long as they keep these properties.
\<close>

theorem client_invariant:
  assumes "validate_client_config cfg = Inr ()" and "callbacks_ok E" and "client_reachable E cfg w c"
  shows "client_queue_ok c \<and> client_secrets_ok c \<and> client_budget_ok c"
  using assms(3)
proof (induction rule: client_reachable.induct)
  case start
  then show ?case using Client_new_inv [OF assms(1)] by (simp add: client_inv_def)
next
  case (step c op)
  then show ?case using client_exec_inv [OF assms(2)] by (simp add: client_inv_def)
qed

lemma default_client_validated: "validate_client_config ClientConfig_default = Inr ()"
  by (simp add: validate_client_config_def ClientConfig_default_def validate_reliability_config_def
      ReliabilityConfig_default_def validate_fragmentation_config_def FragmentationConfig_default_def
      validate_congestion_control_config_def CongestionControlConfig_default_def Let_def U16_MAX_def required_fragments_def)

theorem client_invariant_witness:
  "client_budget_ok (client_exec (quiet_client sample_sodium sample_os) (OpTick 2)
     (client_exec (quiet_client sample_sodium sample_os) (OpConnect \<lparr>ep_addr = Inet 80 ipv4_loopback, ep_len = 16\<rparr>)
       (Client_new (quiet_client sample_sodium sample_os) ClientConfig_default 0)))"
proof -
  let ?E = "quiet_client sample_sodium sample_os"
  have quiet: "callbacks_ok ?E"
    unfolding callbacks_ok_def by (intro conjI callbacks_keep_quiet)
  have reached: "client_reachable ?E ClientConfig_default 0
      (client_exec ?E (OpTick 2) (client_exec ?E (OpConnect \<lparr>ep_addr = Inet 80 ipv4_loopback, ep_len = 16\<rparr>)
        (Client_new ?E ClientConfig_default 0)))"
    by (intro client_reachable.intros)
  show ?thesis
    using client_invariant [OF default_client_validated quiet reached] by (elim conjE)
qed

end
