(* ===== verification/Scn_Server_Base.thy ===== *)
theory Scn_Server_Base
  imports Scn_Secure Scn_Socket Scn_Stats Scn_Reliable_Session Scn_Fragmentation Scn_Congestion
    "HOL-Library.AList"
begin

text \<open>
  The data of the server of server.hpp and the parts of server.cpp that queue no packet: sessions and
  peers, statistics and callbacks, the abuse counters of a host, and the retry and resumption tokens.

  The record \<open>Server\<close> has the data members of the class, without the callbacks, plus the world that the
  clock, the socket and libsodium act on.  An unordered map is an association list: the order of the
  list is the order in which a loop visits the entries.  A reference to a session is its connection
  id, the key it is stored under.
\<close>

section \<open>Data\<close>

record Peer =
  pr_owner :: bool
  pr_endpoint :: Endpoint
  pr_conn_id :: U64
  pr_peer_id :: U64

record ServerPending =
  sq_to :: Endpoint
  sq_owner_conn_id :: U64
  sq_bytes :: "U8 list"
  sq_len :: ST
  sq_priority :: SendPriority

record PeerSession =
  ps_endpoint :: Endpoint
  ps_conn_id :: U64
  ps_peer_id :: U64
  ps_user_data :: U64
  ps_state :: ConnectionState
  ps_close_reason :: CloseReason
  ps_created_ms :: U64
  ps_last_recv_ms :: U64
  ps_last_send_ms :: U64
  ps_send_seq :: U64
  ps_send_budget_bytes :: U64
  ps_last_budget_refill_ms :: U64
  ps_congestion :: CongestionController
  ps_next_fragment_message_id :: U64
  ps_next_ordered_sequence :: U64
  ps_next_sequenced_sequence :: U64
  ps_handshake_had_retry_token :: bool
  ps_handshake_retry_token :: RetryToken
  ps_handshake_had_resumption_token :: bool
  ps_handshake_resumption_token :: ResumptionToken
  ps_ephemeral :: KeyPair
  ps_keys :: SessionKeys
  ps_client_nonce :: "U8 list"
  ps_server_nonce :: "U8 list"
  ps_client_public_key :: "U8 list"
  ps_packet_window :: ReplayWindow
  ps_reliable :: ReliableSession
  ps_ordered_reliable :: ReliableSession
  ps_ordered :: OrderedReceiveWindow
  ps_sequenced :: SequencedReceiveWindow
  ps_reassembler :: FragmentReassembler

definition PeerSession_default :: PeerSession where
  "PeerSession_default =
    \<lparr>ps_endpoint = Endpoint_default, ps_conn_id = 0, ps_peer_id = 0, ps_user_data = 0, ps_state = Idle,
     ps_close_reason = CloseReason.Normal, ps_created_ms = 0, ps_last_recv_ms = 0, ps_last_send_ms = 0,
     ps_send_seq = 1, ps_send_budget_bytes = 0, ps_last_budget_refill_ms = 0,
     ps_congestion = CongestionController_default, ps_next_fragment_message_id = 1,
     ps_next_ordered_sequence = 1, ps_next_sequenced_sequence = 1,
     ps_handshake_had_retry_token = False, ps_handshake_retry_token = RetryToken_default,
     ps_handshake_had_resumption_token = False, ps_handshake_resumption_token = ResumptionToken_default,
     ps_ephemeral = KeyPair_default, ps_keys = SessionKeys_default,
     ps_client_nonce = replicate ClientNonceBytes 0, ps_server_nonce = replicate ServerNonceBytes 0,
     ps_client_public_key = replicate KeyExchangePublicKeyBytes 0, ps_packet_window = ReplayWindow_default,
     ps_reliable = ReliableSession_default, ps_ordered_reliable = ReliableSession_default,
     ps_ordered = OrderedReceiveWindow_new 64, ps_sequenced = SequencedReceiveWindow_default,
     ps_reassembler = FragmentReassembler_default\<rparr>"

record IpAbuseState =
  ia_window_started_ms :: U64
  ia_handshakes_in_window :: U32
  ia_invalid_penalty_score :: U32
  ia_banned_until_ms :: U64

definition IpAbuseState_default :: IpAbuseState where
  "IpAbuseState_default =
    \<lparr>ia_window_started_ms = 0, ia_handshakes_in_window = 0, ia_invalid_penalty_score = 0, ia_banned_until_ms = 0\<rparr>"

record PreauthBudgetState =
  pb_bytes_received :: U64
  pb_bytes_sent :: U64
  pb_last_seen_ms :: U64

definition PreauthBudgetState_default :: PreauthBudgetState where
  "PreauthBudgetState_default = \<lparr>pb_bytes_received = 0, pb_bytes_sent = 0, pb_last_seen_ms = 0\<rparr>"

record 'w Server =
  sv_config :: ServerConfig
  sv_sock :: int
  sv_stateless_seq :: U64
  sv_next_peer_id :: U64
  sv_pending_bytes :: ST
  sv_pending :: "ServerPending list"
  sv_sessions :: "(U64 \<times> PeerSession) list"
  sv_endpoint_to_conn :: "(Endpoint \<times> U64) list"
  sv_ip_abuse :: "(string \<times> IpAbuseState) list"
  sv_preauth :: "(string \<times> PreauthBudgetState) list"
  sv_cookie_secret :: "U8 list"
  sv_stats :: TransportStats
  sv_world :: 'w

text \<open>
  The callbacks, the operating system and libsodium.  The logger and the packet debug hook are called
  from constant methods and act on the world; every other callback may act on the server.
\<close>

record ('w, 's) ServerEnv =
  se_sodium :: "'w Sodium"
  se_os :: "'w Os"
  se_logger :: "(LogLevel \<Rightarrow> string \<Rightarrow> 'w \<Rightarrow> 'w) option"
  se_packet_debug :: "(string \<Rightarrow> Endpoint \<Rightarrow> PacketView \<Rightarrow> 'w \<Rightarrow> 'w) option"
  se_on_packet :: "(Endpoint \<Rightarrow> PacketView \<Rightarrow> 's \<Rightarrow> 's) option"
  se_on_message :: "(Peer \<Rightarrow> MsgView \<Rightarrow> 's \<Rightarrow> 's) option"
  se_text_handlers :: "U8 \<Rightarrow> (Peer \<Rightarrow> U8 list \<Rightarrow> 's \<Rightarrow> 's) option"
  se_binary_handlers :: "U8 \<Rightarrow> (Peer \<Rightarrow> MsgView \<Rightarrow> 's \<Rightarrow> 's) option"
  se_on_peer_connected :: "(Peer \<Rightarrow> 's \<Rightarrow> 's) option"
  se_on_peer_ready :: "(Peer \<Rightarrow> 's \<Rightarrow> 's) option"
  se_on_peer_disconnected :: "(Peer \<Rightarrow> CloseReason \<Rightarrow> 's \<Rightarrow> 's) option"
  se_on_peer_state_change :: "(Peer \<Rightarrow> ConnectionState \<Rightarrow> ConnectionState \<Rightarrow> 's \<Rightarrow> 's) option"
  se_on_backpressure :: "(Peer \<Rightarrow> BackpressureInfo \<Rightarrow> 's \<Rightarrow> 's) option"

type_synonym 'w senv = "('w, 'w Server) ServerEnv"
type_synonym ('w, 'a) sact = "('w Server, 'a) act"

section \<open>Sessions\<close>

definition find_session :: "U64 \<Rightarrow> 'w Server \<Rightarrow> PeerSession option" where
  "find_session conn_id sv = map_of (sv_sessions sv) conn_id"

text \<open>The session behind a reference, and an assignment through it.\<close>

definition sess :: "U64 \<Rightarrow> 'w Server \<Rightarrow> PeerSession" where
  "sess conn_id sv = (case find_session conn_id sv of Some s \<Rightarrow> s | None \<Rightarrow> PeerSession_default)"

definition upd_session :: "U64 \<Rightarrow> (PeerSession \<Rightarrow> PeerSession) \<Rightarrow> 'w Server \<Rightarrow> 'w Server" where
  "upd_session conn_id f sv = sv\<lparr>sv_sessions := AList.map_entry conn_id f (sv_sessions sv)\<rparr>"

text \<open>The map from endpoints to connection ids, with the key equality of the hash table.\<close>

definition ep_lookup :: "(Endpoint \<times> 'v) list \<Rightarrow> Endpoint \<Rightarrow> 'v option" where
  "ep_lookup m ep = map_option snd (find (\<lambda>(k, v). ep_eq k ep) m)"

primrec ep_assign :: "Endpoint \<Rightarrow> 'v \<Rightarrow> (Endpoint \<times> 'v) list \<Rightarrow> (Endpoint \<times> 'v) list" where
  "ep_assign ep v [] = [(ep, v)]"
| "ep_assign ep v (p # m) = (if ep_eq (fst p) ep then (fst p, v) # m else p # ep_assign ep v m)"

definition ep_erase :: "Endpoint \<Rightarrow> (Endpoint \<times> 'v) list \<Rightarrow> (Endpoint \<times> 'v) list" where
  "ep_erase ep m = filter (\<lambda>(k, v). \<not> ep_eq k ep) m"

definition find_session_by_endpoint :: "Endpoint \<Rightarrow> 'w Server \<Rightarrow> PeerSession option" where
  "find_session_by_endpoint endpoint sv =
    (case ep_lookup (sv_endpoint_to_conn sv) endpoint of
       None \<Rightarrow> None
     | Some conn_id \<Rightarrow> find_session conn_id sv)"

definition make_peer :: "PeerSession \<Rightarrow> Peer" where
  "make_peer s = \<lparr>pr_owner = True, pr_endpoint = ps_endpoint s, pr_conn_id = ps_conn_id s, pr_peer_id = ps_peer_id s\<rparr>"

text \<open>A peer handle denotes a session when id and endpoint agree.\<close>

definition peer_session :: "Peer \<Rightarrow> 'w Server \<Rightarrow> PeerSession option" where
  "peer_session peer sv =
    (case find_session (pr_conn_id peer) sv of
       None \<Rightarrow> None
     | Some s \<Rightarrow> if ep_neq (ps_endpoint s) (pr_endpoint peer) then None else Some s)"

definition ps_session :: "Channel \<Rightarrow> PeerSession \<Rightarrow> ReliableSession" where
  "ps_session channel s = (if channel = Channel.ReliableOrdered then ps_ordered_reliable s else ps_reliable s)"

definition ps_set_session :: "Channel \<Rightarrow> ReliableSession \<Rightarrow> PeerSession \<Rightarrow> PeerSession" where
  "ps_set_session channel r s =
    (if channel = Channel.ReliableOrdered then s\<lparr>ps_ordered_reliable := r\<rparr> else s\<lparr>ps_reliable := r\<rparr>)"

text \<open>The members that are cleared before a session is dropped.\<close>

definition ps_wiped :: "PeerSession \<Rightarrow> PeerSession" where
  "ps_wiped s =
    s\<lparr>ps_keys := sk_clear (ps_keys s), ps_ephemeral := kp_clear (ps_ephemeral s),
      ps_reliable := rs_clear (ps_reliable s), ps_ordered_reliable := rs_clear (ps_ordered_reliable s),
      ps_ordered := ow_clear (ps_ordered s), ps_sequenced := sw_clear (ps_sequenced s),
      ps_reassembler := fr_clear (ps_reassembler s)\<rparr>"

section \<open>Statistics, callbacks, time\<close>

definition sv_bump :: "((U64 \<Rightarrow> U64) \<Rightarrow> TransportStats \<Rightarrow> TransportStats) \<Rightarrow> ('w, unit) sact" where
  "sv_bump f = modify (sv_stats_update (f (\<lambda>n. n + 1)))"

definition sv_add_stat :: "((U64 \<Rightarrow> U64) \<Rightarrow> TransportStats \<Rightarrow> TransportStats) \<Rightarrow> U64 \<Rightarrow> ('w, unit) sact" where
  "sv_add_stat f k = modify (sv_stats_update (f (\<lambda>n. n + k)))"

definition sv_on_world :: "('w \<Rightarrow> 'a \<times> 'w) \<Rightarrow> ('w, 'a) sact" where
  "sv_on_world f = on_part sv_world (\<lambda>w. sv_world_update (\<lambda>_. w)) f"

definition sv_on_sock :: "('w sockw, 'a) act \<Rightarrow> ('w, 'a) sact" where
  "sv_on_sock m = on_part (\<lambda>c. (sv_sock c, sv_world c)) (\<lambda>(s, w) c. c\<lparr>sv_sock := s, sv_world := w\<rparr>) (run_state m)"

definition on_sess ::
  "U64 \<Rightarrow> (PeerSession \<Rightarrow> 'p) \<Rightarrow> ('p \<Rightarrow> PeerSession \<Rightarrow> PeerSession) \<Rightarrow> ('p \<Rightarrow> 'a \<times> 'p) \<Rightarrow> ('w, 'a) sact" where
  "on_sess conn_id get put f = on_part (\<lambda>sv. get (sess conn_id sv)) (\<lambda>p. upd_session conn_id (put p)) f"

definition with_sess ::
  "U64 \<Rightarrow> (PeerSession \<Rightarrow> 'p) \<Rightarrow> ('p \<Rightarrow> PeerSession \<Rightarrow> PeerSession) \<Rightarrow>
   ('p \<Rightarrow> 'w Server \<Rightarrow> 'a \<times> 'p \<times> 'w Server) \<Rightarrow> ('w, 'a) sact" where
  "with_sess conn_id get put f = with_part (\<lambda>sv. get (sess conn_id sv)) (\<lambda>p. upd_session conn_id (put p)) f"

definition server_now_ms :: "'w senv \<Rightarrow> ('w, U64) sact" where
  "server_now_ms E = sv_on_world (os_now_ms (se_os E))"

definition server_emit_log :: "'w senv \<Rightarrow> LogLevel \<Rightarrow> string \<Rightarrow> ('w, unit) sact" where
  "server_emit_log E level msg = notify (se_logger E) (\<lambda>f. sv_world_update (f level msg))"

definition server_emit_packet_debug :: "'w senv \<Rightarrow> string \<Rightarrow> Endpoint \<Rightarrow> PacketView \<Rightarrow> ('w, unit) sact" where
  "server_emit_packet_debug E direction endpoint packet = do {
     cfg \<leftarrow> gets sv_config;
     whenM (scfg_enable_packet_debug_dumps cfg)
       (notify (se_packet_debug E) (\<lambda>f. sv_world_update (f direction endpoint packet)))
   }"

definition server_emit_backpressure :: "'w senv \<Rightarrow> Peer \<Rightarrow> Channel \<Rightarrow> U8 \<Rightarrow> errc \<Rightarrow> ('w, unit) sact" where
  "server_emit_backpressure E peer channel type code =
     notify (se_on_backpressure E) (\<lambda>f sv.
       f peer \<lparr>bp_code = code, bp_channel = channel, bp_type = type, bp_queued_packets = length (sv_pending sv),
          bp_queued_bytes = sv_pending_bytes sv,
          bp_send_budget_bytes = (case find_session (pr_conn_id peer) sv of
             Some s \<Rightarrow> ps_send_budget_bytes s | None \<Rightarrow> 0)\<rparr> sv)"

definition server_runtime_status :: "'w senv \<Rightarrow> unit result" where
  "server_runtime_status E = rbind socket_init_status (\<lambda>_. crypto_runtime_status (se_sodium E))"

definition server_gauges_cleared :: "'w Server \<Rightarrow> TransportStats" where
  "server_gauges_cleared sv =
    (sv_stats sv)
      \<lparr>ts_current_peer_count := of_nat (length (sv_sessions sv)),
       ts_current_pending_packets := of_nat (length (sv_pending sv)),
       ts_current_reliable_pending := 0, ts_current_reliable_inflight := 0,
       ts_current_reassembly_count := 0, ts_current_reassembly_memory_bytes := 0,
       ts_current_send_budget_bytes := 0, ts_rtt_latest_ms := 0, ts_rtt_smoothed_ms := 0,
       ts_rtt_variance_ms := 0, ts_current_retransmit_timeout_ms := 0, ts_estimated_loss_per_mille := 0,
       ts_congestion_current_rate_bytes_per_second := 0, ts_congestion_current_window_bytes := 0,
       ts_congestion_ack_events := 0, ts_congestion_loss_events := 0, ts_congestion_backpressure_events := 0\<rparr>"

definition add_session_gauges :: "PeerSession \<Rightarrow> TransportStats \<Rightarrow> TransportStats" where
  "add_session_gauges s t =
    (let r = ps_reliable s; o' = ps_ordered_reliable s; congestion = cg_snapshot (ps_congestion s) in
     t\<lparr>ts_current_reliable_pending := ts_current_reliable_pending t + of_nat (length (rs_pending r) + length (rs_pending o')),
       ts_current_reliable_inflight := ts_current_reliable_inflight t + ucast (rs_inflight_count r + rs_inflight_count o'),
       ts_current_reassembly_count := ts_current_reassembly_count t + of_nat (length (fr_entries (ps_reassembler s))),
       ts_current_reassembly_memory_bytes := ts_current_reassembly_memory_bytes t + fr_memory_bytes (ps_reassembler s),
       ts_current_send_budget_bytes := ts_current_send_budget_bytes t + ps_send_budget_bytes s,
       ts_rtt_latest_ms := max (ts_rtt_latest_ms t) (max (rs_latest_rtt_ms r) (rs_latest_rtt_ms o')),
       ts_rtt_smoothed_ms := max (ts_rtt_smoothed_ms t) (max (rs_srtt_ms r) (rs_srtt_ms o')),
       ts_rtt_variance_ms := max (ts_rtt_variance_ms t) (max (rs_rttvar_ms r) (rs_rttvar_ms o')),
       ts_current_retransmit_timeout_ms := max (ts_current_retransmit_timeout_ms t) (max (rs_rto_ms r) (rs_rto_ms o')),
       ts_estimated_loss_per_mille := max (ts_estimated_loss_per_mille t) (max (rs_loss_per_mille r) (rs_loss_per_mille o')),
       ts_congestion_current_rate_bytes_per_second :=
         ts_congestion_current_rate_bytes_per_second t + ccs_current_rate_bytes_per_second congestion,
       ts_congestion_current_window_bytes := ts_congestion_current_window_bytes t + ccs_current_window_bytes congestion,
       ts_congestion_ack_events := ts_congestion_ack_events t + ccs_ack_events congestion,
       ts_congestion_loss_events := ts_congestion_loss_events t + ccs_loss_events congestion,
       ts_congestion_backpressure_events := ts_congestion_backpressure_events t + ccs_backpressure_events congestion\<rparr>)"

definition server_refresh_runtime_stats :: "('w, unit) sact" where
  "server_refresh_runtime_stats =
     modify (\<lambda>sv. sv_stats_update (\<lambda>_. fold (\<lambda>(conn_id, s). add_session_gauges s) (sv_sessions sv) (server_gauges_cleared sv)) sv)"

section \<open>State changes\<close>

text \<open>
  What follows the assignment of a new state: the counter, the log and the callbacks.  The reason is
  read when the callbacks before it have returned.
\<close>

definition server_state_changed ::
  "'w senv \<Rightarrow> Peer \<Rightarrow> ConnectionState \<Rightarrow> ConnectionState \<Rightarrow> ('w Server \<Rightarrow> CloseReason) \<Rightarrow> ('w, unit) sact" where
  "server_state_changed E peer previous next_state reason = do {
     sv_bump ts_state_transitions_update;
     server_refresh_runtime_stats;
     server_emit_log E Trace ''server session state transition'';
     notify (se_on_peer_state_change E) (\<lambda>f. f peer previous next_state);
     whenM (previous \<noteq> Established \<and> next_state = Established) (do {
       notify (se_on_peer_connected E) (\<lambda>f. f peer);
       notify (se_on_peer_ready E) (\<lambda>f. f peer)
     });
     whenM (previous \<noteq> ConnectionState.Closed \<and> next_state = ConnectionState.Closed)
       (notify (se_on_peer_disconnected E) (\<lambda>f sv. f peer (reason sv) sv))
   }"

definition server_transition_state :: "'w senv \<Rightarrow> U64 \<Rightarrow> ConnectionState \<Rightarrow> ('w, unit) sact" where
  "server_transition_state E conn_id next_state = do {
     s \<leftarrow> gets (sess conn_id);
     whenM (ps_state s \<noteq> next_state) (do {
       modify (upd_session conn_id (ps_state_update (\<lambda>_. next_state)));
       server_state_changed E (make_peer s) (ps_state s) next_state (\<lambda>sv. ps_close_reason (sess conn_id sv))
     })
   }"

definition server_evict_session :: "U64 \<Rightarrow> ('w, unit) sact" where
  "server_evict_session conn_id = do {
     found \<leftarrow> gets (find_session conn_id);
     case found of
       None \<Rightarrow> ret ()
     | Some s \<Rightarrow> do {
         modify (sv_endpoint_to_conn_update (ep_erase (ps_endpoint s)));
         modify (upd_session conn_id ps_wiped);
         modify (sv_sessions_update (AList.delete conn_id));
         sv_bump ts_peers_evicted_update;
         server_refresh_runtime_stats
       }
   }"

definition session_drained :: "ServerConfig \<Rightarrow> U64 \<Rightarrow> PeerSession \<Rightarrow> bool" where
  "session_drained cfg now s \<longleftrightarrow>
     ps_state s = Closing \<and> ps_last_send_ms s \<noteq> 0 \<and> scfg_close_drain_ms cfg \<le> now - ps_last_send_ms s"

definition session_doomed :: "ServerConfig \<Rightarrow> U64 \<Rightarrow> PeerSession \<Rightarrow> bool" where
  "session_doomed cfg now s \<longleftrightarrow> ps_state s = ConnectionState.Closed \<or> session_drained cfg now s"

definition server_evict_stale_sessions :: "'w senv \<Rightarrow> ('w, unit) sact" where
  "server_evict_stale_sessions E = do {
     now \<leftarrow> server_now_ms E;
     doomed \<leftarrow> gets (\<lambda>sv. map fst (filter (\<lambda>(conn_id, s). session_doomed (sv_config sv) now s) (sv_sessions sv)));
     for_each server_evict_session doomed
   }"

definition server_stop :: "'w senv \<Rightarrow> ('w, unit) sact" where
  "server_stop E = do {
     modify (sv_sessions_update (map (\<lambda>(conn_id, s). (conn_id, ps_wiped s))));
     modify (\<lambda>sv. sv\<lparr>sv_pending := [], sv_pending_bytes := 0, sv_sessions := [], sv_endpoint_to_conn := [],
                      sv_ip_abuse := [], sv_preauth := []\<rparr>);
     sv_on_sock (udp_close (se_os E));
     modify (sv_stateless_seq_update (\<lambda>_. 1));
     server_refresh_runtime_stats
   }"

definition server_listen :: "'w senv \<Rightarrow> Endpoint \<Rightarrow> ('w, unit result) sact" where
  "server_listen E bind_ep =
     check (ret (server_runtime_status E)) (\<lambda>_. do {
       cfg \<leftarrow> gets sv_config;
       check (ret (validate_server_config cfg)) (\<lambda>_. do {
         server_stop E;
         check (sv_on_sock (udp_open (se_os E) (sa_family (ep_addr bind_ep)))) (\<lambda>_.
         check (sv_on_sock (udp_bind (se_os E) bind_ep)) (\<lambda>_.
         check (sv_on_sock (udp_set_nonblocking (se_os E) True)) (\<lambda>_. do {
           modify (\<lambda>sv. sv\<lparr>sv_stateless_seq := 1, sv_pending := [], sv_pending_bytes := 0, sv_sessions := [],
                            sv_endpoint_to_conn := [], sv_ip_abuse := [], sv_preauth := []\<rparr>);
           on_part (\<lambda>sv. (sv_cookie_secret sv, sv_world sv)) (\<lambda>(b, w) sv. sv\<lparr>sv_cookie_secret := b, sv_world := w\<rparr>)
             (\<lambda>(b, w). case crypto_random_bytes (se_sodium E) (Some b) (length b) w of (b, w) \<Rightarrow> ((), (the b, w)));
           modify (sv_stats_update ts_reset);
           server_refresh_runtime_stats;
           server_emit_log E Info ''server listening'';
           ret (Inr ())
         })))
       })
     })"

definition server_listen_port :: "'w senv \<Rightarrow> string \<Rightarrow> ('w, unit result) sact" where
  "server_listen_port E port =
     check (sv_on_world (resolve_endpoints (se_os E) '''' port True)) (\<lambda>eps.
       case prefer_ipv4 eps of
         None \<Rightarrow> ret (Inl ResolveError)
       | Some bind_ep \<Rightarrow> server_listen E bind_ep)"

end
