(* ===== verification/Scn_Server_Guard.thy ===== *)
theory Scn_Server_Guard
  imports Scn_Server_Base
begin

text \<open>
  What stands between the network and a new session: the handshake rate of a host, its penalties and
  bans, the amount of data the server may send to an address that has not proved itself, and the
  retry and resumption tokens that prove an address without state on the server.
\<close>

section \<open>Counters of a host\<close>

definition endpoint_host_key :: "(U16 \<Rightarrow> U8 list \<Rightarrow> string option) \<Rightarrow> Endpoint \<Rightarrow> string" where
  "endpoint_host_key ntop endpoint =
    (let fam = sa_family (ep_addr endpoint) in
     if ep_len endpoint = 0 then ''<uninitialized>''
     else if fam = AF_INET \<or> fam = AF_INET6 then
       (case ntop fam (get_in_addr (ep_addr endpoint)) of
          Some host \<Rightarrow> host
        | None \<Rightarrow> ep_to_string ntop endpoint)
     else ep_to_string ntop endpoint)"

abbreviation host_key :: "'w senv \<Rightarrow> Endpoint \<Rightarrow> string" where
  "host_key E \<equiv> endpoint_host_key (os_ntop (se_os E))"

text \<open>\<^verbatim>\<open>operator[]\<close> on the two maps: an absent entry is created with the default value.\<close>

definition abuse_of :: "string \<Rightarrow> 'w Server \<Rightarrow> IpAbuseState" where
  "abuse_of key sv = (case map_of (sv_ip_abuse sv) key of Some a \<Rightarrow> a | None \<Rightarrow> IpAbuseState_default)"

definition abuse_update :: "string \<Rightarrow> (IpAbuseState \<Rightarrow> IpAbuseState) \<Rightarrow> 'w Server \<Rightarrow> 'w Server" where
  "abuse_update key f sv = sv\<lparr>sv_ip_abuse := AList.update key (f (abuse_of key sv)) (sv_ip_abuse sv)\<rparr>"

definition preauth_of :: "string \<Rightarrow> 'w Server \<Rightarrow> PreauthBudgetState" where
  "preauth_of key sv = (case map_of (sv_preauth sv) key of Some a \<Rightarrow> a | None \<Rightarrow> PreauthBudgetState_default)"

definition preauth_update :: "string \<Rightarrow> (PreauthBudgetState \<Rightarrow> PreauthBudgetState) \<Rightarrow> 'w Server \<Rightarrow> 'w Server" where
  "preauth_update key f sv = sv\<lparr>sv_preauth := AList.update key (f (preauth_of key sv)) (sv_preauth sv)\<rparr>"

definition window_restarted :: "U64 \<Rightarrow> IpAbuseState \<Rightarrow> IpAbuseState" where
  "window_restarted now a =
    (if ia_window_started_ms a = 0 \<or> now < ia_window_started_ms a \<or> 1000 \<le> now - ia_window_started_ms a
     then a\<lparr>ia_window_started_ms := now, ia_handshakes_in_window := 0\<rparr> else a)"

definition server_endpoint_rate_limited :: "'w senv \<Rightarrow> Endpoint \<Rightarrow> U64 \<Rightarrow> ('w, bool) sact" where
  "server_endpoint_rate_limited E endpoint now = do {
     modify (abuse_update (host_key E endpoint) (window_restarted now));
     sv \<leftarrow> gets id;
     if ab_per_ip_handshake_rate_limit_per_second (scfg_abuse (sv_config sv))
          \<le> ia_handshakes_in_window (abuse_of (host_key E endpoint) sv) then do {
       sv_bump ts_rate_limited_packets_update;
       sv_bump ts_dropped_packets_update;
       ret True
     } else do {
       modify (abuse_update (host_key E endpoint) (ia_handshakes_in_window_update (\<lambda>n. n + 1)));
       ret False
     }
   }"

definition server_endpoint_is_banned :: "'w senv \<Rightarrow> Endpoint \<Rightarrow> U64 \<Rightarrow> ('w, bool) sact" where
  "server_endpoint_is_banned E endpoint now = do {
     modify (abuse_update (host_key E endpoint) (\<lambda>a. a));
     gets (\<lambda>sv. now < ia_banned_until_ms (abuse_of (host_key E endpoint) sv))
   }"

definition server_note_invalid_packet :: "'w senv \<Rightarrow> Endpoint \<Rightarrow> U64 \<Rightarrow> ('w, unit) sact" where
  "server_note_invalid_packet E endpoint now = do {
     modify (abuse_update (host_key E endpoint) (\<lambda>a. a));
     a \<leftarrow> gets (abuse_of (host_key E endpoint));
     whenM (\<not> now < ia_banned_until_ms a) (do {
       modify (abuse_update (host_key E endpoint) (ia_invalid_penalty_score_update (\<lambda>n. n + 1)));
       sv_bump ts_invalid_packet_penalties_update;
       sv \<leftarrow> gets id;
       let cfg = scfg_abuse (sv_config sv);
       whenM (ab_invalid_packet_ban_threshold cfg \<le> ia_invalid_penalty_score (abuse_of (host_key E endpoint) sv)) (do {
         modify (abuse_update (host_key E endpoint)
           (\<lambda>a. a\<lparr>ia_invalid_penalty_score := 0, ia_banned_until_ms := now + ab_invalid_packet_ban_ms cfg\<rparr>));
         sv_bump ts_rate_limited_packets_update
       })
     })
   }"

definition amplification_allowance :: "AbuseConfig \<Rightarrow> PreauthBudgetState \<Rightarrow> U64" where
  "amplification_allowance cfg b =
     pb_bytes_received b * ucast (ab_anti_amplification_factor cfg) + ucast (ab_anti_amplification_slack_bytes cfg)"

definition server_can_amplify_to :: "'w senv \<Rightarrow> Endpoint \<Rightarrow> U64 \<Rightarrow> U64 \<Rightarrow> ('w, bool) sact" where
  "server_can_amplify_to E endpoint bytes_to_send now = do {
     modify (preauth_update (host_key E endpoint) (pb_last_seen_ms_update (\<lambda>_. now)));
     sv \<leftarrow> gets id;
     let b = preauth_of (host_key E endpoint) sv;
     if amplification_allowance (scfg_abuse (sv_config sv)) b < pb_bytes_sent b + bytes_to_send then do {
       sv_bump ts_amplification_drops_update;
       sv_bump ts_dropped_packets_update;
       ret False
     } else ret True
   }"

definition server_note_preauth_receive :: "'w senv \<Rightarrow> Endpoint \<Rightarrow> U64 \<Rightarrow> U64 \<Rightarrow> ('w, unit) sact" where
  "server_note_preauth_receive E endpoint bytes_received now =
     modify (preauth_update (host_key E endpoint)
       (\<lambda>b. b\<lparr>pb_bytes_received := pb_bytes_received b + bytes_received, pb_last_seen_ms := now\<rparr>))"

definition server_note_preauth_send :: "'w senv \<Rightarrow> Endpoint \<Rightarrow> U64 \<Rightarrow> U64 \<Rightarrow> ('w, unit) sact" where
  "server_note_preauth_send E endpoint bytes_sent now =
     modify (preauth_update (host_key E endpoint)
       (\<lambda>b. b\<lparr>pb_bytes_sent := pb_bytes_sent b + bytes_sent, pb_last_seen_ms := now\<rparr>))"

definition server_total_reassembly_memory_bytes :: "'w Server \<Rightarrow> U64" where
  "server_total_reassembly_memory_bytes sv =
     fold (\<lambda>(conn_id, s) total. total + fr_memory_bytes (ps_reassembler s)) (sv_sessions sv) 0"

section \<open>Tokens\<close>

text \<open>A write whose result is ignored leaves the writer as it is when it fails.\<close>

definition try_write :: "(ByteWriter \<Rightarrow> ByteWriter result) \<Rightarrow> ByteWriter \<Rightarrow> ByteWriter" where
  "try_write f w = (case f w of Inr w' \<Rightarrow> w' | Inl _ \<Rightarrow> w)"

definition str_bytes :: "string \<Rightarrow> U8 list" where
  "str_bytes s = map (\<lambda>c. of_nat (of_char c)) s"

abbreviation write_all :: "U8 list \<Rightarrow> ByteWriter \<Rightarrow> ByteWriter result" where
  "write_all bs \<equiv> \<lambda>w. write_bytes w (Some bs) (length bs)"

definition mac_or_zero :: "'w Sodium \<Rightarrow> U8 list \<Rightarrow> U8 list \<Rightarrow> nat \<Rightarrow> U8 list" where
  "mac_or_zero S secret inp n =
    (case crypto_keyed_hash S (Some secret) (Some inp) (length inp) n of
       Inr mac \<Rightarrow> mac
     | Inl _ \<Rightarrow> replicate n 0)"

definition retry_mac_input :: "string \<Rightarrow> ClientHello \<Rightarrow> U64 \<Rightarrow> U8 list" where
  "retry_mac_input endpoint_string hello issued_at_ms =
     written
      (try_write (write_all (ch_client_nonce hello))
      (try_write (write_all (ch_client_public_key hello))
      (try_write (write_all (str_bytes endpoint_string))
      (try_write (\<lambda>w. write_u16 w (of_nat (length endpoint_string)))
      (try_write (\<lambda>w. write_u16 w ProtocolVersion)
      (try_write (\<lambda>w. write_u64 w issued_at_ms)
      (writer_on (replicate 256 0) 256)))))))"

definition make_retry_token :: "'w senv \<Rightarrow> U8 list \<Rightarrow> Endpoint \<Rightarrow> ClientHello \<Rightarrow> U64 \<Rightarrow> RetryToken" where
  "make_retry_token E secret from_ep hello issued_at_ms =
     \<lparr>rt_issued_at_ms = issued_at_ms,
      rt_mac = mac_or_zero (se_sodium E) secret
        (retry_mac_input (ep_to_string (os_ntop (se_os E)) from_ep) hello issued_at_ms) RetryTokenMacBytes\<rparr>"

definition validate_retry_token ::
  "'w senv \<Rightarrow> U8 list \<Rightarrow> Endpoint \<Rightarrow> ClientHello \<Rightarrow> RetryToken \<Rightarrow> U64 \<Rightarrow> unit result" where
  "validate_retry_token E secret from_ep hello token now =
    (if now < rt_issued_at_ms token \<or> RetryTokenLifetimeMs < now - rt_issued_at_ms token then Inl Timeout
     else let expected = make_retry_token E secret from_ep hello (rt_issued_at_ms token) in
       if \<not> crypto_constant_time_equal (Some (rt_mac expected)) (Some (rt_mac token)) RetryTokenMacBytes
       then Inl AuthFailed else Inr ())"

text \<open>A random 64-bit number, in the byte order of the machine, that is accepted by \<open>good\<close>.\<close>

primrec draw_u64 :: "'w Sodium \<Rightarrow> (U64 \<Rightarrow> bool) \<Rightarrow> nat \<Rightarrow> 'w \<Rightarrow> U64 option \<times> 'w" where
  "draw_u64 S good 0 w = (None, w)"
| "draw_u64 S good (Suc n) w =
    (case crypto_random_bytes S (Some (replicate 8 0)) 8 w of
       (b, w') \<Rightarrow>
         let candidate = be_value (rev (the b)) in
         if good candidate then (Some candidate, w') else draw_u64 S good n w')"

definition resumption_mac_input :: "string \<Rightarrow> U64 \<Rightarrow> U64 \<Rightarrow> U64 \<Rightarrow> U8 list" where
  "resumption_mac_input key issued expires ticket =
     written
      (try_write (write_all (str_bytes key))
      (try_write (\<lambda>w. write_u16 w (of_nat (length key)))
      (try_write (\<lambda>w. write_u16 w ProtocolVersion)
      (try_write (\<lambda>w. write_u64 w ticket)
      (try_write (\<lambda>w. write_u64 w expires)
      (try_write (\<lambda>w. write_u64 w issued)
      (writer_on (replicate 256 0) 256)))))))"

definition server_make_resumption_token ::
  "'w senv \<Rightarrow> nat \<Rightarrow> Endpoint \<Rightarrow> U64 \<Rightarrow> ('w, ResumptionToken option) sact" where
  "server_make_resumption_token E draws from_ep issued_at_ms =
     returns (sv_on_world (draw_u64 (se_sodium E) (\<lambda>t. t \<noteq> 0) draws)) (\<lambda>ticket. do {
       secret \<leftarrow> gets sv_cookie_secret;
       let expires = issued_at_ms + ResumptionTokenLifetimeMs;
       ret (Some \<lparr>st_issued_at_ms = issued_at_ms, st_expires_at_ms = expires, st_ticket_id = ticket,
                  st_mac = mac_or_zero (se_sodium E) secret
                    (resumption_mac_input (host_key E from_ep) issued_at_ms expires ticket) ResumptionTokenMacBytes\<rparr>)
     })"

definition validate_resumption_token ::
  "'w senv \<Rightarrow> U8 list \<Rightarrow> Endpoint \<Rightarrow> ResumptionToken \<Rightarrow> U64 \<Rightarrow> unit result" where
  "validate_resumption_token E secret from_ep token now =
    (if st_ticket_id token = 0 then Inl BadPacket
     else if now < st_issued_at_ms token \<or> st_expires_at_ms token \<le> st_issued_at_ms token \<or>
             st_expires_at_ms token < now then Inl Timeout
     else let key = host_key E from_ep in
       rbind (run_writer 256 (\<lambda>w.
         rbind (write_u64 w (st_issued_at_ms token)) (\<lambda>w.
         rbind (write_u64 w (st_expires_at_ms token)) (\<lambda>w.
         rbind (write_u64 w (st_ticket_id token)) (\<lambda>w.
         rbind (write_u16 w ProtocolVersion) (\<lambda>w.
         rbind (write_u16 w (of_nat (length key))) (\<lambda>w.
         write_all (str_bytes key) w))))))) (\<lambda>inp.
       rbind (crypto_keyed_hash (se_sodium E) (Some secret) (Some inp) (length inp) ResumptionTokenMacBytes) (\<lambda>expected_mac.
         if \<not> crypto_constant_time_equal (Some expected_mac) (Some (st_mac token)) ResumptionTokenMacBytes
         then Inl AuthFailed else Inr ())))"

definition server_allocate_conn_id :: "'w senv \<Rightarrow> nat \<Rightarrow> ('w, U64 option) sact" where
  "server_allocate_conn_id E draws = do {
     sv \<leftarrow> gets id;
     sv_on_world (draw_u64 (se_sodium E) (\<lambda>c. c \<noteq> 0 \<and> find_session c sv = None) draws)
   }"

end
