(* ===== verification/Scn_Server_Send.thy ===== *)
theory Scn_Server_Send
  imports Scn_Server_Guard
begin

text \<open>
  The sending half of server.cpp: queueing packets of a session and stateless packets, the messages
  of the four channels, closing a session, peer handles and broadcasts, and the loop that hands the
  queue to the socket.
\<close>

section \<open>Queueing packets\<close>

definition server_enqueue_pending_packet :: "ServerPending \<Rightarrow> ('w, unit result) sact" where
  "server_enqueue_pending_packet pending = do {
     sv \<leftarrow> gets id;
     if unat (scfg_max_pending_packets (sv_config sv)) \<le> length (sv_pending sv) then do {
       sv_bump ts_queue_full_events_update;
       ret (Inl QueueFull)
     } else do {
       modify (\<lambda>sv. sv\<lparr>sv_pending_bytes := sv_pending_bytes sv + sq_len pending,
                        sv_pending := insert_prio (\<lambda>p. priority_value (sq_priority p)) pending (sv_pending sv)\<rparr>);
       server_refresh_runtime_stats;
       ret (Inr ())
     }
   }"

definition server_may_send :: "'w senv \<Rightarrow> Endpoint \<Rightarrow> bool \<Rightarrow> ST \<Rightarrow> ('w, bool) sact" where
  "server_may_send E to encrypted payload_len =
     (if encrypted then ret True
      else do {
        now \<leftarrow> server_now_ms E;
        server_can_amplify_to E to (of_nat (packet_header_bytes + payload_len)) now
      })"

definition server_queue_packet ::
  "'w senv \<Rightarrow> Endpoint \<Rightarrow> PacketKind \<Rightarrow> bool \<Rightarrow> U8 list option \<Rightarrow> ST \<Rightarrow> U64 \<Rightarrow> U64 \<Rightarrow> SessionKeys option \<Rightarrow>
   SendPriority \<Rightarrow> U64 \<Rightarrow> ('w, unit result) sact" where
  "server_queue_packet E to kind encrypted payload payload_len conn_id seq keys priority owner_conn_id =
    (if 0 < payload_len \<and> payload = None then ret (Inl InvalidArg)
     else if encrypted \<and> MaxEncryptedPlaintextBytes < payload_len then ret (Inl InvalidArg)
     else if \<not> encrypted \<and> MaxPayloadBytes < payload_len then ret (Inl InvalidArg)
     else if encrypted \<and> (keys = None \<or> sk_empty (the keys)) then ret (Inl StateError)
     else do {
       allowed \<leftarrow> server_may_send E to encrypted payload_len;
       if \<not> allowed then ret (Inr ())
       else do {
         let header = PacketHeader_default
           \<lparr>ph_kind := packet_kind_value kind, ph_flags := (if encrypted then PacketFlagEncrypted else 0),
            ph_conn_id := conn_id, ph_seq := seq\<rparr>;
         check (ret (assemble_packet (se_sodium E) (sk_tx (the keys)) header encrypted payload payload_len)) (\<lambda>(bytes, len).
           server_enqueue_pending_packet
             \<lparr>sq_to = to, sq_owner_conn_id = owner_conn_id, sq_bytes = bytes, sq_len = len, sq_priority = priority\<rparr>)
       }
     })"

text \<open>\<^verbatim>\<open>_stateless_seq++\<close> and \<^verbatim>\<open>session.send_seq++\<close>.\<close>

definition take_stateless_seq :: "('w, U64) sact" where
  "take_stateless_seq = do {
     n \<leftarrow> gets sv_stateless_seq;
     modify (sv_stateless_seq_update (\<lambda>n. n + 1));
     ret n
   }"

definition take_send_seq :: "U64 \<Rightarrow> ('w, U64) sact" where
  "take_send_seq conn_id = do {
     s \<leftarrow> gets (sess conn_id);
     modify (upd_session conn_id (ps_send_seq_update (\<lambda>n. n + 1)));
     ret (ps_send_seq s)
   }"

definition server_queue_plain_handshake :: "'w senv \<Rightarrow> Endpoint \<Rightarrow> U8 list option \<Rightarrow> ST \<Rightarrow> U64 \<Rightarrow> ('w, unit result) sact" where
  "server_queue_plain_handshake E to payload payload_len conn_id = do {
     seq \<leftarrow> take_stateless_seq;
     server_queue_packet E to Handshake False payload payload_len conn_id seq None High 0
   }"

definition server_queue_retry :: "'w senv \<Rightarrow> Endpoint \<Rightarrow> RetryToken \<Rightarrow> ('w, unit result) sact" where
  "server_queue_retry E to token =
     check (ret (run_writer 64 (\<lambda>w. write_retry w token))) (\<lambda>payload. do {
       rc \<leftarrow> server_queue_plain_handshake E to (Some payload) (length payload) 0;
       whenM (ok rc) (sv_bump ts_handshake_retries_sent_update);
       ret rc
     })"

text \<open>The client hello a session was opened with, as the transcript has it.\<close>

definition session_client_hello :: "PeerSession \<Rightarrow> ClientHello" where
  "session_client_hello s =
    \<lparr>ch_client_public_key = ps_client_public_key s, ch_client_nonce = ps_client_nonce s,
     ch_has_retry_token = ps_handshake_had_retry_token s,
     ch_retry_token = (if ps_handshake_had_retry_token s then ps_handshake_retry_token s else RetryToken_default),
     ch_has_resumption_token = ps_handshake_had_resumption_token s,
     ch_resumption_token = (if ps_handshake_had_resumption_token s then ps_handshake_resumption_token s
                            else ResumptionToken_default)\<rparr>"

text \<open>The server hello of a session, with the token to resume it if there is one, and its code.\<close>

definition session_server_hello :: "PeerSession \<Rightarrow> ResumptionToken option \<Rightarrow> ServerHello" where
  "session_server_hello s token =
    \<lparr>sh_server_conn_id = ps_conn_id s, sh_server_public_key = kp_public_key (ps_ephemeral s),
     sh_server_nonce = ps_server_nonce s, sh_transcript_mac = replicate TranscriptMacBytes 0,
     sh_has_resumption_token = (token \<noteq> None),
     sh_resumption_token = (case token of Some t \<Rightarrow> t | None \<Rightarrow> ResumptionToken_default)\<rparr>"

definition sign_server_hello :: "'w Sodium \<Rightarrow> PeerSession \<Rightarrow> ServerHello \<Rightarrow> ServerHello result" where
  "sign_server_hello S s hello =
     rbind (build_transcript_mac_input (session_client_hello s) hello 320) (\<lambda>transcript.
     rbind (crypto_keyed_hash S (Some (sk_tx (ps_keys s))) (Some transcript) (length transcript) TranscriptMacBytes) (\<lambda>mac.
       Inr (hello\<lparr>sh_transcript_mac := mac\<rparr>)))"

definition server_resumption_offer :: "'w senv \<Rightarrow> nat \<Rightarrow> PeerSession \<Rightarrow> ('w, ResumptionToken option option) sact" where
  "server_resumption_offer E draws s = do {
     cfg \<leftarrow> gets sv_config;
     if scfg_enable_session_resumption cfg then do {
       now \<leftarrow> server_now_ms E;
       returns (server_make_resumption_token E draws (ps_endpoint s) now) (\<lambda>t. ret (Some (Some t)))
     } else ret (Some None)
   }"

definition server_queue_server_hello :: "'w senv \<Rightarrow> nat \<Rightarrow> U64 \<Rightarrow> ('w, unit result option) sact" where
  "server_queue_server_hello E draws conn_id = do {
     s \<leftarrow> gets (sess conn_id);
     returns (server_resumption_offer E draws s) (\<lambda>token. do {
       rc \<leftarrow> check (ret (sign_server_hello (se_sodium E) s (session_server_hello s token))) (\<lambda>hello.
             check (ret (run_writer 192 (\<lambda>w. write_server_hello w hello))) (\<lambda>payload. do {
               seq \<leftarrow> take_stateless_seq;
               server_queue_packet E (ps_endpoint s) Handshake False (Some payload) (length payload)
                 (ps_conn_id s) seq None High (ps_conn_id s)
             }));
       ret (Some rc)
     })
   }"

text \<open>An encrypted packet of a session: its endpoint, its id, its next sequence number, its keys.\<close>

definition server_session_packet ::
  "'w senv \<Rightarrow> U64 \<Rightarrow> PacketKind \<Rightarrow> U8 list option \<Rightarrow> ST \<Rightarrow> SendPriority \<Rightarrow> ('w, unit result) sact" where
  "server_session_packet E conn_id kind payload payload_len priority = do {
     s \<leftarrow> gets (sess conn_id);
     seq \<leftarrow> take_send_seq conn_id;
     server_queue_packet E (ps_endpoint s) kind True payload payload_len (ps_conn_id s) seq (Some (ps_keys s))
       priority (ps_conn_id s)
   }"

definition server_queue_internal_message ::
  "'w senv \<Rightarrow> U64 \<Rightarrow> Channel \<Rightarrow> U8 \<Rightarrow> U8 list option \<Rightarrow> U16 \<Rightarrow> SendPriority \<Rightarrow> ('w, unit result) sact" where
  "server_queue_internal_message E conn_id channel type data len priority =
     check (ret (run_writer MaxEncryptedPlaintextBytes (\<lambda>w. write_message w channel type data len))) (\<lambda>payload.
     check (server_session_packet E conn_id Message (Some payload) (length payload) priority) (\<lambda>_. do {
       sv_bump ts_message_frames_sent_update;
       ret (Inr ())
     }))"

definition server_queue_message_packet ::
  "'w senv \<Rightarrow> U64 \<Rightarrow> Channel \<Rightarrow> U8 \<Rightarrow> U8 list option \<Rightarrow> U16 \<Rightarrow> SendPriority \<Rightarrow> ('w, unit result) sact" where
  "server_queue_message_packet E conn_id channel type data len priority =
     (if channel = Channel.Control then ret (Inl StateError)
      else server_queue_internal_message E conn_id channel type data len priority)"

definition server_queue_raw_payload :: "'w senv \<Rightarrow> U64 \<Rightarrow> U8 list option \<Rightarrow> ST \<Rightarrow> SendPriority \<Rightarrow> ('w, unit result) sact" where
  "server_queue_raw_payload E conn_id data len priority = server_session_packet E conn_id Raw data len priority"

definition server_queue_control_ack :: "'w senv \<Rightarrow> U64 \<Rightarrow> Channel \<Rightarrow> U64 \<Rightarrow> ('w, unit result) sact" where
  "server_queue_control_ack E conn_id channel message_id =
     check (ret (run_writer 16 (\<lambda>w. write_reliable_ack w channel message_id))) (\<lambda>ack.
     check (server_queue_internal_message E conn_id Channel.Control (control_type_value ReliableAck)
              (Some ack) (of_nat (length ack)) High) (\<lambda>_. do {
       sv_bump ts_reliable_acks_sent_update;
       ret (Inr ())
     }))"

definition server_queue_keepalive :: "'w senv \<Rightarrow> U64 \<Rightarrow> ('w, unit result) sact" where
  "server_queue_keepalive E conn_id = do {
     rc \<leftarrow> server_session_packet E conn_id Keepalive None 0 High;
     whenM (ok rc) (sv_bump ts_keepalives_sent_update);
     ret rc
   }"

definition server_queue_close_packet ::
  "'w senv \<Rightarrow> Endpoint \<Rightarrow> U64 \<Rightarrow> CloseReason \<Rightarrow> bool \<Rightarrow> SessionKeys option \<Rightarrow> U64 \<Rightarrow> SendPriority \<Rightarrow> U64 \<Rightarrow>
   ('w, unit result) sact" where
  "server_queue_close_packet E to conn_id reason encrypted keys seq priority owner_conn_id =
     check (ret (run_writer 8 (\<lambda>w. write_close_frame w \<lparr>cf_reason = reason\<rparr>))) (\<lambda>payload. do {
       rc \<leftarrow> server_queue_packet E to Close encrypted (Some payload) (length payload) conn_id seq keys priority owner_conn_id;
       whenM (ok rc) (sv_bump ts_closes_sent_update);
       ret rc
     })"

text \<open>A close packet that belongs to no session.\<close>

definition server_stateless_close :: "'w senv \<Rightarrow> Endpoint \<Rightarrow> U64 \<Rightarrow> CloseReason \<Rightarrow> ('w, unit) sact" where
  "server_stateless_close E to conn_id reason = do {
     seq \<leftarrow> take_stateless_seq;
     server_queue_close_packet E to conn_id reason False None seq High 0;
     ret ()
   }"

definition server_close_session :: "'w senv \<Rightarrow> U64 \<Rightarrow> CloseReason \<Rightarrow> bool \<Rightarrow> ('w, unit) sact" where
  "server_close_session E conn_id reason send_close = do {
     modify (upd_session conn_id (ps_close_reason_update (\<lambda>_. reason)));
     s \<leftarrow> gets (sess conn_id);
     if send_close \<and> ps_state s \<noteq> ConnectionState.Closed then do {
       let encrypted = (ps_state s = Established \<or> ps_state s = Closing);
       seq \<leftarrow> (if encrypted then take_send_seq conn_id else take_stateless_seq);
       server_queue_close_packet E (ps_endpoint s) (ps_conn_id s) reason encrypted
         (if encrypted then Some (ps_keys s) else None) seq High (ps_conn_id s);
       server_transition_state E conn_id Closing
     } else server_transition_state E conn_id ConnectionState.Closed
   }"

section \<open>Sending\<close>

definition server_send_reliable_message ::
  "'w senv \<Rightarrow> U64 \<Rightarrow> Channel \<Rightarrow> U8 \<Rightarrow> U8 list option \<Rightarrow> U16 \<Rightarrow> SendPriority \<Rightarrow> U64 \<Rightarrow> ('w, unit result) sact" where
  "server_send_reliable_message E conn_id channel type data len priority lifetime_ms =
     (if of_nat MaxReliableMessageBytes < len then ret (Inl TooLarge)
      else do {
        now \<leftarrow> server_now_ms E;
        rc \<leftarrow> on_sess conn_id (ps_session channel) (ps_set_session channel) (rs_enqueue type data len priority lifetime_ms now);
        case rc of
          Inl e \<Rightarrow> do {
            whenM (e = QueueFull) (sv_bump ts_queue_full_events_update);
            ret (Inl e)
          }
        | Inr pending \<Rightarrow> do {
            sv_bump ts_reliable_message_enqueued_update;
            rc \<leftarrow> server_queue_message_packet E conn_id channel type (Some (pm_encoded_payload pending))
                    (of_nat (length (pm_encoded_payload pending))) priority;
            case rc of
              Inl e \<Rightarrow> do {
                now \<leftarrow> server_now_ms E;
                on_sess conn_id (ps_session channel) (ps_set_session channel) (rs_acknowledge (pm_message_id pending) now);
                whenM (e = QueueFull) (sv_bump ts_backpressure_events_update);
                ret (Inl e)
              }
            | Inr _ \<Rightarrow> do {
                now \<leftarrow> server_now_ms E;
                on_sess conn_id (ps_session channel) (ps_set_session channel) (rs_note_sent (pm_message_id pending) now);
                server_refresh_runtime_stats;
                ret (Inr ())
              }
          }
      })"

definition server_send_fragment ::
  "'w senv \<Rightarrow> U64 \<Rightarrow> SendOptions \<Rightarrow> U8 \<Rightarrow> U8 list \<Rightarrow> U16 \<Rightarrow> U64 \<Rightarrow> U64 \<Rightarrow> nat \<Rightarrow> ('w, unit result) sact" where
  "server_send_fragment E conn_id options type payload fragment_count message_id delivery_sequence i =
     (let original_length = of_nat (length payload);
          fragment_len = fragment_size_for_index original_length (of_nat i);
          offset = i * MaxFragmentDataBytes
      in check (ret (run_writer MaxMessageBytes (\<lambda>w.
             write_fragment_payload w message_id delivery_sequence (so_channel options) type (of_nat i)
               fragment_count original_length (Some (drop offset payload)) fragment_len))) (\<lambda>encoded.
         check (if channel_is_reliable (so_channel options)
                then server_send_reliable_message E conn_id (so_channel options) (control_type_value Fragment)
                       (Some encoded) (of_nat (length encoded)) (so_priority options) (so_lifetime_ms options)
                else server_queue_internal_message E conn_id Channel.Control (control_type_value Fragment)
                       (Some encoded) (of_nat (length encoded)) (so_priority options)) (\<lambda>_. do {
           sv_bump ts_fragments_sent_update;
           ret (Inr ())
         })))"

text \<open>The delivery sequence of a message, taken from the counter of its channel.\<close>

definition take_delivery_sequence :: "U64 \<Rightarrow> Channel \<Rightarrow> ('w, U64) sact" where
  "take_delivery_sequence conn_id channel = do {
     s \<leftarrow> gets (sess conn_id);
     if channel = Channel.ReliableOrdered then do {
       modify (upd_session conn_id (ps_next_ordered_sequence_update (\<lambda>n. n + 1)));
       ret (ps_next_ordered_sequence s)
     } else if channel = Channel.SequencedUnreliable then do {
       modify (upd_session conn_id (ps_next_sequenced_sequence_update (\<lambda>n. n + 1)));
       ret (ps_next_sequenced_sequence s)
     } else ret 0
   }"

definition server_send_fragmented :: "'w senv \<Rightarrow> U64 \<Rightarrow> SendOptions \<Rightarrow> U8 \<Rightarrow> U8 list \<Rightarrow> ('w, unit result) sact" where
  "server_send_fragmented E conn_id options type payload = do {
     sv \<leftarrow> gets id;
     let cfg = scfg_fragmentation (sv_config sv);
     if \<not> frag_enabled cfg then ret (Inl TooLarge)
     else if \<not> channel_is_application (so_channel options) then ret (Inl InvalidArg)
     else if unat (frag_max_reassembled_message_bytes cfg) < length payload then ret (Inl TooLarge)
     else do {
       let fragment_count = fragment_count_for_length (of_nat (length payload));
       if fragment_count = 0 \<or> frag_max_fragments_per_message cfg < fragment_count then ret (Inl TooLarge)
       else do {
         modify (upd_session conn_id (ps_next_fragment_message_id_update (\<lambda>n. n + 1)));
         delivery_sequence \<leftarrow> take_delivery_sequence conn_id (so_channel options);
         check (each_check (server_send_fragment E conn_id options type payload fragment_count
                  (ps_next_fragment_message_id (sess conn_id sv)) delivery_sequence) [0..<unat fragment_count]) (\<lambda>_. do {
           sv_bump ts_fragmented_messages_sent_update;
           server_refresh_runtime_stats;
           ret (Inr ())
         })
       }
     }
   }"

definition server_send_payload_to :: "'w senv \<Rightarrow> Endpoint \<Rightarrow> U64 \<Rightarrow> U8 list option \<Rightarrow> ST \<Rightarrow> ('w, unit result) sact" where
  "server_send_payload_to E to conn_id data len = do {
     found \<leftarrow> gets (find_session conn_id);
     case found of
       None \<Rightarrow> ret (Inl errc.Closed)
     | Some s \<Rightarrow>
         if ep_neq (ps_endpoint s) to then ret (Inl errc.Closed)
         else if ps_state s \<noteq> Established then ret (Inl StateError)
         else if MaxEncryptedPlaintextBytes < len then ret (Inl TooLarge)
         else server_queue_raw_payload E conn_id data len SendPriority.Normal
   }"

definition server_send_payload :: "'w senv \<Rightarrow> Peer \<Rightarrow> U8 list option \<Rightarrow> ST \<Rightarrow> ('w, unit result) sact" where
  "server_send_payload E peer data len = server_send_payload_to E (pr_endpoint peer) (pr_conn_id peer) data len"

definition server_finish_send ::
  "'w senv \<Rightarrow> Peer \<Rightarrow> SendOptions \<Rightarrow> U8 \<Rightarrow> ('w, unit result) sact \<Rightarrow> ('w, unit result) sact" where
  "server_finish_send E peer options type m = do {
     rc \<leftarrow> m;
     whenM (rc = Inl QueueFull \<or> rc = Inl errc.Backpressure)
       (server_emit_backpressure E peer (so_channel options) type (code_of rc));
     ret rc
   }"

definition server_send_inline :: "'w senv \<Rightarrow> Peer \<Rightarrow> SendOptions \<Rightarrow> U8 \<Rightarrow> U8 list \<Rightarrow> ('w, unit result) sact" where
  "server_send_inline E peer options type payload =
     (let conn_id = pr_conn_id peer; len = of_nat (length payload) in
      if so_channel options = Channel.Reliable
      then server_finish_send E peer options type
             (server_send_reliable_message E conn_id Channel.Reliable type (Some payload) len
                (so_priority options) (so_lifetime_ms options))
      else if so_channel options = Channel.ReliableOrdered
      then do {
        seq \<leftarrow> take_delivery_sequence conn_id Channel.ReliableOrdered;
        check (ret (run_writer MaxReliableMessageBytes (\<lambda>w. write_ordered_payload w seq (Some payload) len))) (\<lambda>ordered.
          server_finish_send E peer options type
            (server_send_reliable_message E conn_id Channel.ReliableOrdered type (Some ordered) (of_nat (length ordered))
               (so_priority options) (so_lifetime_ms options)))
      }
      else if so_channel options = Channel.SequencedUnreliable
      then do {
        seq \<leftarrow> take_delivery_sequence conn_id Channel.SequencedUnreliable;
        check (ret (run_writer MaxMessageBytes (\<lambda>w. write_sequenced_payload w seq (Some payload) len))) (\<lambda>sequenced.
          server_finish_send E peer options type
            (server_queue_message_packet E conn_id Channel.SequencedUnreliable type (Some sequenced)
               (of_nat (length sequenced)) (so_priority options)))
      }
      else server_finish_send E peer options type
             (server_queue_message_packet E conn_id Channel.Unreliable type (Some payload) len (so_priority options)))"

definition server_send :: "'w senv \<Rightarrow> Peer \<Rightarrow> SendOptions \<Rightarrow> U8 \<Rightarrow> U8 list \<Rightarrow> ('w, unit result) sact" where
  "server_send E peer options type payload = do {
     found \<leftarrow> gets (peer_session peer);
     case found of
       None \<Rightarrow> ret (Inl errc.Closed)
     | Some s \<Rightarrow>
         if ps_state s \<noteq> Established then ret (Inl StateError)
         else if \<not> channel_is_application (so_channel options) then ret (Inl InvalidArg)
         else if 65535 < length payload then ret (Inl TooLarge)
         else if max_inline_payload_for_channel (so_channel options) < of_nat (length payload)
         then server_finish_send E peer options type (server_send_fragmented E (pr_conn_id peer) options type payload)
         else server_send_inline E peer options type payload
   }"

definition server_send_message :: "'w senv \<Rightarrow> Peer \<Rightarrow> Channel \<Rightarrow> U8 \<Rightarrow> U8 list option \<Rightarrow> U16 \<Rightarrow> ('w, unit result) sact" where
  "server_send_message E peer channel type data len =
     (if 0 < len \<and> data = None then ret (Inl InvalidArg)
      else server_send E peer \<lparr>so_channel = channel, so_priority = SendPriority.Normal, so_lifetime_ms = 0\<rparr> type
             (at_ptr data (unat len)))"

definition server_send_text :: "'w senv \<Rightarrow> Peer \<Rightarrow> U8 \<Rightarrow> U8 list \<Rightarrow> SendOptions \<Rightarrow> ('w, unit result) sact" where
  "server_send_text E peer type text options =
     (if 65535 < length text then ret (Inl TooLarge) else server_send E peer options type text)"

text \<open>The wrappers with a fixed channel, on a peer of this server and as methods of the peer handle.\<close>

definition server_send_on :: "'w senv \<Rightarrow> Channel \<Rightarrow> Peer \<Rightarrow> U8 \<Rightarrow> U8 list \<Rightarrow> SendPriority \<Rightarrow> U64 \<Rightarrow> ('w, unit result) sact" where
  "server_send_on E channel peer type payload priority lifetime_ms =
     server_send E peer \<lparr>so_channel = channel, so_priority = priority, so_lifetime_ms = lifetime_ms\<rparr> type payload"

definition peer_bound :: "Peer \<Rightarrow> ('w, unit result) sact \<Rightarrow> ('w, unit result) sact" where
  "peer_bound peer m = (if \<not> pr_owner peer then ret (Inl InvalidArg) else m)"

definition peer_send_payload :: "'w senv \<Rightarrow> Peer \<Rightarrow> U8 list option \<Rightarrow> ST \<Rightarrow> ('w, unit result) sact" where
  "peer_send_payload E peer data len = peer_bound peer (server_send_payload E peer data len)"

definition peer_send_message :: "'w senv \<Rightarrow> Peer \<Rightarrow> Channel \<Rightarrow> U8 \<Rightarrow> U8 list option \<Rightarrow> U16 \<Rightarrow> ('w, unit result) sact" where
  "peer_send_message E peer channel type data len = peer_bound peer (server_send_message E peer channel type data len)"

definition peer_send :: "'w senv \<Rightarrow> Peer \<Rightarrow> SendOptions \<Rightarrow> U8 \<Rightarrow> U8 list \<Rightarrow> ('w, unit result) sact" where
  "peer_send E peer options type payload = peer_bound peer (server_send E peer options type payload)"

definition peer_send_text :: "'w senv \<Rightarrow> Peer \<Rightarrow> U8 \<Rightarrow> U8 list \<Rightarrow> SendOptions \<Rightarrow> ('w, unit result) sact" where
  "peer_send_text E peer type text options =
     (if 65535 < length text then ret (Inl TooLarge) else peer_send E peer options type text)"

definition server_close_peer :: "'w senv \<Rightarrow> Peer \<Rightarrow> CloseReason \<Rightarrow> ('w, unit result) sact" where
  "server_close_peer E peer reason = do {
     found \<leftarrow> gets (peer_session peer);
     case found of
       None \<Rightarrow> ret (Inl errc.Closed)
     | Some s \<Rightarrow> do {
         server_close_session E (pr_conn_id peer) reason True;
         ret (Inr ())
       }
   }"

definition peer_close :: "'w senv \<Rightarrow> Peer \<Rightarrow> CloseReason \<Rightarrow> ('w, unit result) sact" where
  "peer_close E peer reason = peer_bound peer (server_close_peer E peer reason)"

definition server_set_peer_user_data :: "Peer \<Rightarrow> U64 \<Rightarrow> ('w, unit result) sact" where
  "server_set_peer_user_data peer data = do {
     found \<leftarrow> gets (peer_session peer);
     case found of
       None \<Rightarrow> ret (Inl errc.Closed)
     | Some s \<Rightarrow> do {
         modify (upd_session (pr_conn_id peer) (ps_user_data_update (\<lambda>_. data)));
         ret (Inr ())
       }
   }"

definition server_peer_user_data :: "Peer \<Rightarrow> 'w Server \<Rightarrow> U64" where
  "server_peer_user_data peer sv = (case peer_session peer sv of None \<Rightarrow> 0 | Some s \<Rightarrow> ps_user_data s)"

definition peer_set_user_data :: "Peer \<Rightarrow> U64 \<Rightarrow> ('w, unit result) sact" where
  "peer_set_user_data peer data = peer_bound peer (server_set_peer_user_data peer data)"

definition peer_user_data :: "Peer \<Rightarrow> 'w Server \<Rightarrow> U64" where
  "peer_user_data peer sv = (if pr_owner peer then server_peer_user_data peer sv else 0)"

text \<open>
  A broadcast visits the sessions present when it starts; no send adds or removes one.  The first
  error is kept and the loop goes on.
\<close>

fun server_broadcast_loop ::
  "'w senv \<Rightarrow> (PeerSession \<Rightarrow> bool) \<Rightarrow> SendOptions \<Rightarrow> U8 \<Rightarrow> U8 list \<Rightarrow> unit result \<Rightarrow> U64 list \<Rightarrow> ('w, unit result) sact" where
  "server_broadcast_loop E omit options type payload first_error [] = ret first_error"
| "server_broadcast_loop E omit options type payload first_error (conn_id # ids) = do {
     s \<leftarrow> gets (sess conn_id);
     if ps_state s \<noteq> Established \<or> omit s
     then server_broadcast_loop E omit options type payload first_error ids
     else do {
       rc \<leftarrow> server_send E (make_peer s) options type payload;
       server_broadcast_loop E omit options type payload (if \<not> ok rc \<and> ok first_error then rc else first_error) ids
     }
   }"

definition server_broadcast :: "'w senv \<Rightarrow> SendOptions \<Rightarrow> U8 \<Rightarrow> U8 list \<Rightarrow> ('w, unit result) sact" where
  "server_broadcast E options type payload = do {
     ids \<leftarrow> gets (\<lambda>sv. map fst (sv_sessions sv));
     server_broadcast_loop E (\<lambda>s. False) options type payload (Inr ()) ids
   }"

definition server_broadcast_except :: "'w senv \<Rightarrow> Peer \<Rightarrow> SendOptions \<Rightarrow> U8 \<Rightarrow> U8 list \<Rightarrow> ('w, unit result) sact" where
  "server_broadcast_except E excluded options type payload = do {
     ids \<leftarrow> gets (\<lambda>sv. map fst (sv_sessions sv));
     server_broadcast_loop E (\<lambda>s. ps_conn_id s = pr_conn_id excluded) options type payload (Inr ()) ids
   }"

definition server_broadcast_on :: "'w senv \<Rightarrow> Channel \<Rightarrow> U8 \<Rightarrow> U8 list \<Rightarrow> SendPriority \<Rightarrow> U64 \<Rightarrow> ('w, unit result) sact" where
  "server_broadcast_on E channel type payload priority lifetime_ms =
     server_broadcast E \<lparr>so_channel = channel, so_priority = priority, so_lifetime_ms = lifetime_ms\<rparr> type payload"

definition server_for_each_peer :: "(Peer \<Rightarrow> 'w Server \<Rightarrow> 'w Server) option \<Rightarrow> ('w, unit) sact" where
  "server_for_each_peer fn =
     (case fn of
        None \<Rightarrow> ret ()
      | Some f \<Rightarrow> do {
          ids \<leftarrow> gets (\<lambda>sv. map fst (sv_sessions sv));
          for_each (\<lambda>conn_id. do {
            s \<leftarrow> gets (sess conn_id);
            whenM (ps_state s = Established) (modify (f (make_peer s)))
          }) ids
        })"

section \<open>The send loop\<close>

definition server_refill_send_budget :: "U64 \<Rightarrow> U64 \<Rightarrow> ('w, unit) sact" where
  "server_refill_send_budget conn_id now = do {
     s \<leftarrow> gets (sess conn_id);
     if ps_last_budget_refill_ms s = 0 then
       modify (upd_session conn_id (\<lambda>s. s\<lparr>ps_last_budget_refill_ms := now,
          ps_send_budget_bytes := (if ps_send_budget_bytes s = 0
             then cg_rate_bytes_per_second (ps_congestion s) else ps_send_budget_bytes s)\<rparr>))
     else if now \<le> ps_last_budget_refill_ms s then ret ()
     else do {
       let elapsed_ms = now - ps_last_budget_refill_ms s;
       let refill = (cg_rate_bytes_per_second (ps_congestion s) * elapsed_ms) div 1000;
       whenM (0 < refill) (do {
         modify (upd_session conn_id (\<lambda>s. s\<lparr>
           ps_send_budget_bytes := min (cg_bucket_cap_bytes (ps_congestion s)) (ps_send_budget_bytes s + refill),
           ps_last_budget_refill_ms := now\<rparr>));
         sv_bump ts_send_budget_refills_update
       })
     }
   }"

text \<open>A congestion event that lowers the rate also caps the budget.\<close>

definition ps_congest :: "(CongestionController \<Rightarrow> CongestionController) \<Rightarrow> PeerSession \<Rightarrow> PeerSession" where
  "ps_congest f s =
    (let g = f (ps_congestion s) in
     s\<lparr>ps_congestion := g, ps_send_budget_bytes := min (ps_send_budget_bytes s) (cg_bucket_cap_bytes g)\<rparr>)"

text \<open>
  How a pass over the queue ends: a packet left the queue and the pass starts again, every packet was
  visited (with the flag \<^verbatim>\<open>budget_blocked\<close>), or the function returns.
\<close>

datatype FlushOutcome = Progressed | Visited bool | Returned "unit result"

definition server_drop_pending :: "nat \<Rightarrow> ServerPending \<Rightarrow> ('w, unit) sact" where
  "server_drop_pending i pending =
     modify (\<lambda>sv. sv\<lparr>sv_pending_bytes := sv_pending_bytes sv - sq_len pending,
                      sv_pending := take i (sv_pending sv) @ drop (Suc i) (sv_pending sv)\<rparr>)"

definition server_flush_send ::
  "'w senv \<Rightarrow> U64 \<Rightarrow> bool \<Rightarrow> nat \<Rightarrow> ServerPending \<Rightarrow> bool \<Rightarrow> ('w, FlushOutcome) sact" where
  "server_flush_send E now budget_blocked i pending owned = do {
     cfg \<leftarrow> gets sv_config;
     (case parse_packet (Some (take (sq_len pending) (sq_bytes pending))) of
        Inr packet \<Rightarrow> whenM (scfg_enable_packet_debug_dumps cfg) (server_emit_packet_debug E ''send'' (sq_to pending) packet)
      | Inl _ \<Rightarrow> ret ());
     rc \<leftarrow> sv_on_sock (udp_send_to (se_os E) (sq_to pending) (Some (sq_bytes pending)) (sq_len pending));
     case rc of
       Inl e \<Rightarrow>
         if e = WouldBlock then do {
           sv_bump ts_would_block_events_update;
           whenM owned (modify (upd_session (sq_owner_conn_id pending) (ps_congest (cg_on_backpressure now))));
           whenM budget_blocked (sv_bump ts_backpressure_events_update);
           server_refresh_runtime_stats;
           ret (Returned (Inr ()))
         } else do {
           sv_bump ts_socket_errors_update;
           ret (Returned (Inl e))
         }
     | Inr _ \<Rightarrow> do {
         (if owned then do {
            modify (upd_session (sq_owner_conn_id pending) (\<lambda>s. s\<lparr>
              ps_send_budget_bytes := ps_send_budget_bytes s - of_nat (sq_len pending), ps_last_send_ms := now\<rparr>));
            s \<leftarrow> gets (sess (sq_owner_conn_id pending));
            whenM (ps_state s \<noteq> Established)
              (server_note_preauth_send E (ps_endpoint s) (of_nat (sq_len pending)) now)
          } else server_note_preauth_send E (sq_to pending) (of_nat (sq_len pending)) now);
         sv_bump ts_packets_sent_update;
         sv_add_stat ts_bytes_sent_update (of_nat (sq_len pending));
         server_drop_pending i pending;
         server_refresh_runtime_stats;
         ret Progressed
       }
   }"

text \<open>One packet of the pass: \<^term>\<open>Visited\<close> moves on to the next packet.\<close>

definition server_flush_one ::
  "'w senv \<Rightarrow> U64 \<Rightarrow> bool \<Rightarrow> nat \<Rightarrow> ServerPending \<Rightarrow> ('w, FlushOutcome) sact" where
  "server_flush_one E now budget_blocked i pending =
     (if sq_owner_conn_id pending = 0 then server_flush_send E now budget_blocked i pending False
      else do {
        owner \<leftarrow> gets (find_session (sq_owner_conn_id pending));
        case owner of
          None \<Rightarrow> do {
            server_drop_pending i pending;
            server_refresh_runtime_stats;
            ret Progressed
          }
        | Some _ \<Rightarrow> do {
            server_refill_send_budget (sq_owner_conn_id pending) now;
            s \<leftarrow> gets (sess (sq_owner_conn_id pending));
            if ps_send_budget_bytes s < of_nat (sq_len pending) then do {
              modify (upd_session (sq_owner_conn_id pending) (ps_congest (cg_on_backpressure now)));
              ret (Visited True)
            } else server_flush_send E now budget_blocked i pending True
          }
      })"

fun server_flush_scan :: "'w senv \<Rightarrow> U64 \<Rightarrow> bool \<Rightarrow> nat \<Rightarrow> ServerPending list \<Rightarrow> ('w, FlushOutcome) sact" where
  "server_flush_scan E now budget_blocked i [] = ret (Visited budget_blocked)"
| "server_flush_scan E now budget_blocked i (pending # rest) = do {
     r \<leftarrow> server_flush_one E now budget_blocked i pending;
     case r of
       Visited blocked \<Rightarrow> server_flush_scan E now blocked (Suc i) rest
     | Progressed \<Rightarrow> ret r
     | Returned rc \<Rightarrow> ret r
   }"

text \<open>
  Every pass that starts again has taken a packet from the queue, so as many passes as there are
  packets, and a last one, are enough.
\<close>

primrec server_flush_loop :: "'w senv \<Rightarrow> nat \<Rightarrow> ('w, unit result) sact" where
  "server_flush_loop E 0 = ret (Inr ())"
| "server_flush_loop E (Suc n) = do {
     now \<leftarrow> server_now_ms E;
     queue \<leftarrow> gets sv_pending;
     r \<leftarrow> server_flush_scan E now False 0 queue;
     case r of
       Progressed \<Rightarrow> server_flush_loop E n
     | Returned rc \<Rightarrow> ret rc
     | Visited budget_blocked \<Rightarrow> do {
         whenM budget_blocked (do {
           sv_bump ts_send_budget_throttles_update;
           sv_bump ts_backpressure_events_update
         });
         server_refresh_runtime_stats;
         ret (Inr ())
       }
   }"

definition server_flush_pending :: "'w senv \<Rightarrow> ('w, unit result) sact" where
  "server_flush_pending E = do {
     n \<leftarrow> gets (\<lambda>sv. length (sv_pending sv));
     server_flush_loop E (Suc n)
   }"

end
