(* ===== verification/Scn_Server.thy ===== *)
theory Scn_Server
  imports Scn_Server_Send
begin

text \<open>
  The receiving half of server.cpp: retransmission, delivery of messages, the handshake, the packets
  of a session, the receive loop, housekeeping and the tick.
\<close>

section \<open>Retransmission\<close>

definition server_resend_one :: "'w senv \<Rightarrow> U64 \<Rightarrow> Channel \<Rightarrow> PendingReliableMessage \<Rightarrow> ('w, unit result) sact" where
  "server_resend_one E conn_id channel pending = do {
     rc \<leftarrow> server_queue_message_packet E conn_id channel (pm_user_type pending) (Some (pm_encoded_payload pending))
             (of_nat (length (pm_encoded_payload pending))) (pm_priority pending);
     ret (if rc = Inl QueueFull then Inl errc.Backpressure else rc)
   }"

definition server_resend_due :: "'w senv \<Rightarrow> U64 \<Rightarrow> U64 \<Rightarrow> Channel \<Rightarrow> ('w, unit result) sact" where
  "server_resend_due E conn_id now channel =
     with_sess conn_id (ps_session channel) (ps_set_session channel)
       (rs_resend_due now (\<lambda>sv pending. run_state (server_resend_one E conn_id channel pending) sv))"

definition ps_retransmit_total :: "PeerSession \<Rightarrow> U64" where
  "ps_retransmit_total s = rs_retransmit_events (ps_reliable s) + rs_retransmit_events (ps_ordered_reliable s)"

definition ps_loss_total :: "PeerSession \<Rightarrow> U64" where
  "ps_loss_total s = rs_loss_events (ps_reliable s) + rs_loss_events (ps_ordered_reliable s)"

definition server_pump_session :: "'w senv \<Rightarrow> U64 \<Rightarrow> U64 \<Rightarrow> ('w, unit result) sact" where
  "server_pump_session E now conn_id = do {
     s \<leftarrow> gets (sess conn_id);
     if ps_state s \<noteq> Established then ret (Inr ())
     else do {
       let before_retransmits = ps_retransmit_total s;
       let before_losses = ps_loss_total s;
       expired_unordered \<leftarrow> on_sess conn_id ps_reliable (\<lambda>r. ps_reliable_update (\<lambda>_. r)) (rs_expire_old now);
       expired_ordered \<leftarrow> on_sess conn_id ps_ordered_reliable (\<lambda>r. ps_ordered_reliable_update (\<lambda>_. r)) (rs_expire_old now);
       whenM (0 < expired_unordered \<or> 0 < expired_ordered) (do {
         sv_add_stat ts_reliable_expired_update (ucast (expired_unordered + expired_ordered));
         sv_add_stat ts_reliable_messages_dropped_update (ucast (expired_unordered + expired_ordered));
         sv_add_stat ts_ordered_messages_dropped_update (ucast expired_ordered)
       });
       rc \<leftarrow> server_resend_due E conn_id now Channel.Reliable;
       if rc \<noteq> Inr () \<and> rc \<noteq> Inl errc.Backpressure then ret rc
       else do {
         whenM (rc \<noteq> Inr ()) (sv_bump ts_backpressure_events_update);
         rc \<leftarrow> server_resend_due E conn_id now Channel.ReliableOrdered;
         if rc \<noteq> Inr () \<and> rc \<noteq> Inl errc.Backpressure then ret rc
         else do {
           whenM (rc \<noteq> Inr ()) (sv_bump ts_backpressure_events_update);
           t \<leftarrow> gets (sess conn_id);
           let after_retransmits = ps_retransmit_total t;
           let after_losses = ps_loss_total t;
           whenM (before_retransmits < after_retransmits)
             (sv_add_stat ts_reliable_retransmits_update (after_retransmits - before_retransmits));
           whenM (before_losses < after_losses) (do {
             sv_add_stat ts_reliable_loss_events_update (after_losses - before_losses);
             modify (upd_session conn_id (ps_congest (cg_on_loss now (after_losses - before_losses))))
           });
           ret (Inr ())
         }
       }
     }
   }"

definition server_pump_reliable :: "'w senv \<Rightarrow> ('w, unit result) sact" where
  "server_pump_reliable E = do {
     now \<leftarrow> server_now_ms E;
     ids \<leftarrow> gets (\<lambda>sv. map fst (sv_sessions sv));
     check (each_check (server_pump_session E now) ids) (\<lambda>_. do {
       server_refresh_runtime_stats;
       ret (Inr ())
     })
   }"

section \<open>Delivery\<close>

definition server_emit_message :: "'w senv \<Rightarrow> Peer \<Rightarrow> MsgView \<Rightarrow> ('w, unit) sact" where
  "server_emit_message E peer msg = do {
     notify (se_text_handlers E (mv_type msg)) (\<lambda>f. f peer (msg_bytes msg));
     notify (se_binary_handlers E (mv_type msg)) (\<lambda>f. f peer msg);
     notify (se_on_message E) (\<lambda>f. f peer msg)
   }"

definition server_deliver_ordered :: "'w senv \<Rightarrow> Peer \<Rightarrow> (nat \<times> 'w Server) deliver_fn" where
  "server_deliver_ordered E peer = (\<lambda>(n, sv) type data len.
     (Inr (), (n + 1, snd (run_state (server_emit_message E peer
        \<lparr>mv_channel = Channel.ReliableOrdered, mv_type = type, mv_data = data, mv_len = len\<rparr>) sv))))"

definition server_ordered_accept ::
  "'w senv \<Rightarrow> U64 \<Rightarrow> Peer \<Rightarrow> U64 \<Rightarrow> U8 \<Rightarrow> U8 list option \<Rightarrow> U16 \<Rightarrow> ('w, (bool \<times> bool) result \<times> nat) sact" where
  "server_ordered_accept E conn_id peer delivery_sequence type data len =
     with_sess conn_id ps_ordered (\<lambda>w. ps_ordered_update (\<lambda>_. w))
       (\<lambda>w sv. case ow_accept (server_deliver_ordered E peer) w (0, sv) delivery_sequence type data len of
          (rc, w, (n, sv)) \<Rightarrow> ((rc, n), w, sv))"

definition server_deliver_application_message ::
  "'w senv \<Rightarrow> U64 \<Rightarrow> Channel \<Rightarrow> U8 \<Rightarrow> U8 list option \<Rightarrow> U16 \<Rightarrow> U64 \<Rightarrow> ('w, unit result) sact" where
  "server_deliver_application_message E conn_id channel type data len delivery_sequence = do {
     peer \<leftarrow> gets (\<lambda>sv. make_peer (sess conn_id sv));
     if channel = Channel.ReliableOrdered then do {
       sv_bump ts_ordered_messages_received_update;
       (rc, released) \<leftarrow> server_ordered_accept E conn_id peer delivery_sequence type data len;
       case rc of
         Inl e \<Rightarrow> do {
           sv_bump ts_ordered_messages_dropped_update;
           if e = QueueFull then do {
             sv_bump ts_backpressure_events_update;
             ret (Inr ())
           } else ret (Inl e)
         }
       | Inr (buffered, stale) \<Rightarrow> do {
           whenM buffered (sv_bump ts_ordered_messages_buffered_update);
           whenM stale (sv_bump ts_ordered_messages_dropped_update);
           sv_add_stat ts_ordered_messages_released_update (of_nat released);
           ret (Inr ())
         }
     } else if channel = Channel.SequencedUnreliable then do {
       sv_bump ts_sequenced_messages_received_update;
       accepted \<leftarrow> on_sess conn_id ps_sequenced (\<lambda>w. ps_sequenced_update (\<lambda>_. w)) (\<lambda>w. sw_accept w delivery_sequence);
       if \<not> accepted then do {
         sv_bump ts_sequenced_messages_dropped_update;
         ret (Inr ())
       } else do {
         server_emit_message E peer \<lparr>mv_channel = Channel.SequencedUnreliable, mv_type = type, mv_data = data, mv_len = len\<rparr>;
         ret (Inr ())
       }
     } else do {
       server_emit_message E peer \<lparr>mv_channel = channel, mv_type = type, mv_data = data, mv_len = len\<rparr>;
       ret (Inr ())
     }
   }"

definition server_deliver_reassembled_message :: "'w senv \<Rightarrow> U64 \<Rightarrow> FragmentedMessage \<Rightarrow> ('w, unit result) sact" where
  "server_deliver_reassembled_message E conn_id message = do {
     sv_bump ts_fragmented_messages_received_update;
     server_deliver_application_message E conn_id (fm_channel message) (fm_type message)
       (if fm_payload message = [] then None else Some (fm_payload message))
       (of_nat (length (fm_payload message))) (fm_delivery_sequence message)
   }"

definition server_handle_fragment_payload :: "'w senv \<Rightarrow> U64 \<Rightarrow> FragmentView \<Rightarrow> ('w, unit result) sact" where
  "server_handle_fragment_payload E conn_id fragment = do {
     sv \<leftarrow> gets id;
     if \<not> fr_contains (fv_message_id fragment) (ps_reassembler (sess conn_id sv)) \<and>
        ab_max_total_reassembly_memory_server (scfg_abuse (sv_config sv))
          < server_total_reassembly_memory_bytes sv + ucast (fv_original_length fragment) then do {
       sv_bump ts_reassembly_memory_rejections_update;
       sv_bump ts_reassembly_drops_update;
       ret (Inr ())
     } else do {
       now \<leftarrow> server_now_ms E;
       rc \<leftarrow> with_sess conn_id ps_reassembler (\<lambda>f. ps_reassembler_update (\<lambda>_. f))
               (fr_accept now fragment (\<lambda>sv message. run_state (server_deliver_reassembled_message E conn_id message) sv));
       case rc of
         Inl e \<Rightarrow>
           if e = QueueFull then do {
             sv_bump ts_reassembly_memory_rejections_update;
             sv_bump ts_reassembly_drops_update;
             ret (Inr ())
           } else if e = TooLarge then do {
             sv_bump ts_fragment_invalid_sets_update;
             sv_bump ts_reassembly_drops_update;
             ret (Inr ())
           } else do {
             sv_bump ts_fragment_invalid_sets_update;
             ret (Inl e)
           }
       | Inr (duplicate, completed) \<Rightarrow> do {
           whenM duplicate (sv_bump ts_fragment_duplicates_update);
           whenM completed (sv_bump ts_reassemblies_completed_update);
           ret (Inr ())
         }
     }
   }"

section \<open>Dispatching message frames\<close>

definition server_bad_packet :: "'w senv \<Rightarrow> U64 \<Rightarrow> ('w, unit) sact" where
  "server_bad_packet E conn_id = do {
     sv_bump ts_bad_packets_update;
     server_close_session E conn_id CloseReason.InvalidPacket True
   }"

definition server_protocol_error :: "'w senv \<Rightarrow> U64 \<Rightarrow> ('w, unit) sact" where
  "server_protocol_error E conn_id = do {
     sv_bump ts_protocol_errors_update;
     server_close_session E conn_id CloseReason.ProtocolError True
   }"

definition server_take_fragment :: "'w senv \<Rightarrow> U64 \<Rightarrow> FragmentView \<Rightarrow> ('w, unit) sact" where
  "server_take_fragment E conn_id fragment = do {
     sv_bump ts_fragments_received_update;
     rc \<leftarrow> server_handle_fragment_payload E conn_id fragment;
     whenM (rc \<noteq> Inr ()) (server_bad_packet E conn_id)
   }"

definition server_dispatch_control :: "'w senv \<Rightarrow> U64 \<Rightarrow> MsgView \<Rightarrow> ('w, unit) sact" where
  "server_dispatch_control E conn_id msg =
     (if mv_type msg = control_type_value ReliableAck then
        (case read_reliable_ack (reader_at (mv_data msg) (unat (mv_len msg))) of
           Inl _ \<Rightarrow> server_bad_packet E conn_id
         | Inr ((ack_channel, acked_message_id), _) \<Rightarrow> do {
             ack_now \<leftarrow> server_now_ms E;
             ack \<leftarrow> on_sess conn_id (ps_session ack_channel) (ps_set_session ack_channel) (rs_acknowledge acked_message_id ack_now);
             whenM (ae_removed ack) (do {
               sv_bump ts_reliable_acks_received_update;
               modify (upd_session conn_id (ps_congestion_update
                 (cg_on_ack (ae_rtt_sample_valid ack) (ae_rtt_sample_ms ack) (ae_retransmitted ack) ack_now)))
             });
             server_refresh_runtime_stats
           })
      else if mv_type msg = control_type_value Fragment then
        (case read_fragment_payload (reader_at (mv_data msg) (unat (mv_len msg))) of
           Inl _ \<Rightarrow> server_bad_packet E conn_id
         | Inr (fragment, _) \<Rightarrow> server_take_fragment E conn_id fragment)
      else server_protocol_error E conn_id)"

definition server_deliver_or_close ::
  "'w senv \<Rightarrow> U64 \<Rightarrow> Channel \<Rightarrow> U8 \<Rightarrow> U8 list option \<Rightarrow> U16 \<Rightarrow> U64 \<Rightarrow> ('w, unit) sact" where
  "server_deliver_or_close E conn_id channel type data len delivery_sequence = do {
     rc \<leftarrow> server_deliver_application_message E conn_id channel type data len delivery_sequence;
     whenM (rc \<noteq> Inr ()) (server_protocol_error E conn_id)
   }"

definition server_deliver_reliable :: "'w senv \<Rightarrow> U64 \<Rightarrow> MsgView \<Rightarrow> ReliablePayloadView \<Rightarrow> ('w, unit) sact" where
  "server_deliver_reliable E conn_id msg reliable =
     (case (if mv_type msg = control_type_value Fragment
            then read_fragment_payload (reader_at (rp_data reliable) (unat (rp_len reliable)))
            else Inl BadPacket) of
        Inr (fragment, _) \<Rightarrow> server_take_fragment E conn_id fragment
      | Inl _ \<Rightarrow>
          if mv_channel msg = Channel.ReliableOrdered then
            (case read_ordered_payload (reader_at (rp_data reliable) (unat (rp_len reliable))) of
               Inl _ \<Rightarrow> server_bad_packet E conn_id
             | Inr (ordered, _) \<Rightarrow>
                 server_deliver_or_close E conn_id Channel.ReliableOrdered (mv_type msg)
                   (op_data ordered) (op_len ordered) (op_delivery_sequence ordered))
          else server_deliver_or_close E conn_id Channel.Reliable (mv_type msg) (rp_data reliable) (rp_len reliable) 0)"

definition server_dispatch_message_frame :: "'w senv \<Rightarrow> U64 \<Rightarrow> MsgView \<Rightarrow> ('w, unit) sact" where
  "server_dispatch_message_frame E conn_id msg =
     (if mv_channel msg = Channel.Control then server_dispatch_control E conn_id msg
      else if mv_channel msg = Channel.Reliable \<or> mv_channel msg = Channel.ReliableOrdered then
        (case read_reliable_payload (reader_at (mv_data msg) (unat (mv_len msg))) of
           Inl _ \<Rightarrow> server_bad_packet E conn_id
         | Inr (reliable, _) \<Rightarrow> do {
             server_queue_control_ack E conn_id (mv_channel msg) (rp_message_id reliable);
             accepted \<leftarrow> on_sess conn_id (ps_session (mv_channel msg)) (ps_set_session (mv_channel msg))
                           (rs_accept_incoming (rp_message_id reliable));
             whenM accepted (do {
               sv_bump ts_reliable_messages_delivered_update;
               server_deliver_reliable E conn_id msg reliable
             })
           })
      else if mv_channel msg = Channel.SequencedUnreliable then
        (case read_sequenced_payload (reader_at (mv_data msg) (unat (mv_len msg))) of
           Inl _ \<Rightarrow> server_bad_packet E conn_id
         | Inr (sequenced, _) \<Rightarrow>
             server_deliver_or_close E conn_id Channel.SequencedUnreliable (mv_type msg)
               (sp_data sequenced) (sp_len sequenced) (sp_delivery_sequence sequenced))
      else server_deliver_or_close E conn_id (mv_channel msg) (mv_type msg) (mv_data msg) (mv_len msg) 0)"

function server_dispatch_loop :: "'w senv \<Rightarrow> U64 \<Rightarrow> ByteReader \<Rightarrow> ('w, unit) sact" where
  "server_dispatch_loop E conn_id r =
     (case read_message r of
        Inl e \<Rightarrow> if e = EndOfStream then ret () else server_bad_packet E conn_id
      | Inr (msg, r') \<Rightarrow> do {
          sv_bump ts_message_frames_received_update;
          server_dispatch_message_frame E conn_id msg;
          st \<leftarrow> gets (\<lambda>sv. ps_state (sess conn_id sv));
          if st = ConnectionState.Closed then ret () else server_dispatch_loop E conn_id r'
        })"
  by pat_completeness auto

termination
  by (relation "measure (\<lambda>(E, i, r). remaining_r r)") (auto dest: read_message_progress)

declare server_dispatch_loop.simps [simp del]

definition server_dispatch_message_payload :: "'w senv \<Rightarrow> U64 \<Rightarrow> U8 list option \<Rightarrow> ST \<Rightarrow> ('w, unit) sact" where
  "server_dispatch_message_payload E conn_id payload payload_len =
     server_dispatch_loop E conn_id (reader_at payload payload_len)"

section \<open>The handshake\<close>

definition server_try_resume :: "'w senv \<Rightarrow> Endpoint \<Rightarrow> ClientHello \<Rightarrow> U64 \<Rightarrow> ('w, bool) sact" where
  "server_try_resume E from_ep hello now = do {
     sv \<leftarrow> gets id;
     if scfg_enable_session_resumption (sv_config sv) \<and> ch_has_resumption_token hello \<and> \<not> ch_has_retry_token hello then do {
       sv_bump ts_session_resumptions_attempted_update;
       if ok (validate_resumption_token E (sv_cookie_secret sv) from_ep (ch_resumption_token hello) now) then do {
         sv_bump ts_session_resumptions_accepted_update;
         ret True
       } else do {
         sv_bump ts_session_resumptions_rejected_update;
         ret False
       }
     } else ret False
   }"

text \<open>The two gates of a hello: \<^term>\<open>Some rc\<close> is the result the handler returns, \<^term>\<open>None\<close> lets it go on.\<close>

definition server_retry_gate :: "'w senv \<Rightarrow> Endpoint \<Rightarrow> ClientHello \<Rightarrow> U64 \<Rightarrow> ('w, unit result option) sact" where
  "server_retry_gate E from_ep hello now = do {
     secret \<leftarrow> gets sv_cookie_secret;
     if \<not> ch_has_retry_token hello then do {
       rc \<leftarrow> server_queue_retry E from_ep (make_retry_token E secret from_ep hello now);
       ret (Some rc)
     } else
       (case validate_retry_token E secret from_ep hello (ch_retry_token hello) now of
          Inr _ \<Rightarrow> ret None
        | Inl e \<Rightarrow>
            if e = Timeout then do {
              server_stateless_close E from_ep 0 CookieExpired;
              ret (Some (Inr ()))
            } else do {
              server_queue_retry E from_ep (make_retry_token E secret from_ep hello now);
              ret (Some (Inr ()))
            })
   }"

definition sessions_for_host :: "'w senv \<Rightarrow> Endpoint \<Rightarrow> 'w Server \<Rightarrow> U32" where
  "sessions_for_host E from_ep sv =
     of_nat (length (filter (\<lambda>(conn_id, s). host_key E (ps_endpoint s) = host_key E from_ep) (sv_sessions sv)))"

definition server_capacity_gate :: "'w senv \<Rightarrow> Endpoint \<Rightarrow> ('w, unit result option) sact" where
  "server_capacity_gate E from_ep = do {
     server_evict_stale_sessions E;
     sv \<leftarrow> gets id;
     if scfg_max_peer_sessions (sv_config sv) \<le> length (sv_sessions sv) then do {
       sv_bump ts_dropped_packets_update;
       server_stateless_close E from_ep 0 CloseReason.Backpressure;
       ret (Some (Inr ()))
     } else if ab_max_sessions_per_ip (scfg_abuse (sv_config sv)) \<le> sessions_for_host E from_ep sv then do {
       sv_bump ts_rate_limited_packets_update;
       sv_bump ts_dropped_packets_update;
       server_stateless_close E from_ep 0 CloseReason.RateLimited;
       ret (Some (Inr ()))
     } else ret None
   }"

text \<open>The members of a new session, before its nonce and its keys are made.\<close>

definition new_session ::
  "ServerConfig \<Rightarrow> Endpoint \<Rightarrow> ClientHello \<Rightarrow> bool \<Rightarrow> U64 \<Rightarrow> U64 \<Rightarrow> U64 \<Rightarrow> PeerSession" where
  "new_session cfg from_ep hello resumed now conn_id peer_id =
    (let congestion = cg_configure (scfg_congestion cfg) (scfg_send_budget_bytes_per_second cfg) CongestionController_default;
         reliability = (scfg_reliability cfg)\<lparr>rel_max_pending_bytes :=
             min (rel_max_pending_bytes (scfg_reliability cfg)) (ab_max_queued_reliable_bytes_per_peer (scfg_abuse cfg))\<rparr>;
         had_retry = (\<not> resumed \<and> ch_has_retry_token hello);
         had_resumption = (resumed \<and> ch_has_resumption_token hello)
     in PeerSession_default
      \<lparr>ps_endpoint := from_ep, ps_conn_id := conn_id, ps_peer_id := peer_id, ps_state := Idle,
       ps_close_reason := CloseReason.Normal, ps_created_ms := now, ps_last_recv_ms := now, ps_last_send_ms := 0,
       ps_send_seq := 1, ps_congestion := congestion, ps_send_budget_bytes := cg_rate_bytes_per_second congestion,
       ps_last_budget_refill_ms := now, ps_next_fragment_message_id := 1, ps_next_ordered_sequence := 1,
       ps_next_sequenced_sequence := 1, ps_client_nonce := ch_client_nonce hello,
       ps_client_public_key := ch_client_public_key hello,
       ps_handshake_had_retry_token := had_retry,
       ps_handshake_retry_token := (if had_retry then ch_retry_token hello else RetryToken_default),
       ps_handshake_had_resumption_token := had_resumption,
       ps_handshake_resumption_token := (if had_resumption then ch_resumption_token hello else ResumptionToken_default),
       ps_reliable := rs_configure reliability ReliableSession_default,
       ps_ordered_reliable := rs_configure reliability ReliableSession_default,
       ps_ordered := ow_set_max_buffered (rel_ordered_receive_window (scfg_reliability cfg)) (OrderedReceiveWindow_new 64),
       ps_reassembler := fr_configure (scfg_fragmentation cfg) FragmentReassembler_default\<rparr>)"

text \<open>The key exchange of a new session: its ephemeral key pair, of which the public half stays, and its keys.\<close>

definition exchange_keys :: "'w Sodium \<Rightarrow> PeerSession \<Rightarrow> 'w \<Rightarrow> PeerSession result \<times> 'w" where
  "exchange_keys S s w =
    (case crypto_generate_keypair S (ps_ephemeral s) w of
       ((Inl e, _), w) \<Rightarrow> (Inl e, w)
     | ((Inr _, ephemeral), w) \<Rightarrow>
         (case crypto_derive_server_session_keys S ephemeral (Some (ps_client_public_key s))
                 (length (ps_client_public_key s)) (ps_keys s) of
            (Inl e, _) \<Rightarrow> (Inl e, w)
          | (Inr _, keys) \<Rightarrow>
              (Inr (s\<lparr>ps_keys := keys,
                      ps_ephemeral := ephemeral\<lparr>kp_secret_key := zeroed (kp_secret_key ephemeral)\<rparr>\<rparr>), w)))"

definition take_peer_id :: "('w, U64) sact" where
  "take_peer_id = do {
     n \<leftarrow> gets sv_next_peer_id;
     modify (sv_next_peer_id_update (\<lambda>n. if n + 1 = 0 then 1 else n + 1));
     ret n
   }"

text \<open>
  The new session becomes \<^term>\<open>Handshaking\<close> before it is stored, so the callbacks of this state change
  do not find it; then it is stored and answered.
\<close>

definition server_store_session :: "'w senv \<Rightarrow> nat \<Rightarrow> Endpoint \<Rightarrow> PeerSession \<Rightarrow> ('w, unit result option) sact" where
  "server_store_session E draws from_ep s = do {
     let conn_id = ps_conn_id s;
     let stored = s\<lparr>ps_state := Handshaking\<rparr>;
     server_state_changed E (make_peer s) (ps_state s) Handshaking (\<lambda>_. ps_close_reason s);
     modify (sv_endpoint_to_conn_update (ep_assign from_ep conn_id));
     modify (sv_sessions_update (\<lambda>m. if map_of m conn_id = None then m @ [(conn_id, stored)] else m));
     server_refresh_runtime_stats;
     returns (server_queue_server_hello E draws conn_id) (\<lambda>rc.
       case rc of
         Inr _ \<Rightarrow> ret (Some (Inr ()))
       | Inl e \<Rightarrow> do {
           server_evict_session conn_id;
           ret (Some (Inl e))
         })
   }"

definition server_open_session ::
  "'w senv \<Rightarrow> nat \<Rightarrow> Endpoint \<Rightarrow> ClientHello \<Rightarrow> bool \<Rightarrow> U64 \<Rightarrow> ('w, unit result option) sact" where
  "server_open_session E draws from_ep hello resumed now = do {
     existing \<leftarrow> gets (find_session_by_endpoint from_ep);
     (case existing of Some s \<Rightarrow> server_evict_session (ps_conn_id s) | None \<Rightarrow> ret ());
     returns (server_allocate_conn_id E draws) (\<lambda>conn_id. do {
       peer_id \<leftarrow> take_peer_id;
       cfg \<leftarrow> gets sv_config;
       let s = new_session cfg from_ep hello resumed now conn_id peer_id;
       nonce \<leftarrow> sv_on_world (crypto_random_bytes (se_sodium E) (Some (ps_server_nonce s)) ServerNonceBytes);
       rc \<leftarrow> sv_on_world (exchange_keys (se_sodium E) (s\<lparr>ps_server_nonce := the nonce\<rparr>));
       case rc of
         Inl e \<Rightarrow> ret (Some (Inl e))
       | Inr s \<Rightarrow> server_store_session E draws from_ep s
     })
   }"

definition server_handle_client_hello :: "'w senv \<Rightarrow> nat \<Rightarrow> Endpoint \<Rightarrow> ClientHello \<Rightarrow> ('w, unit result option) sact" where
  "server_handle_client_hello E draws from_ep hello = do {
     now \<leftarrow> server_now_ms E;
     if ch_has_retry_token hello \<and> ch_has_resumption_token hello then ret (Some (Inl BadPacket))
     else do {
       banned \<leftarrow> server_endpoint_is_banned E from_ep now;
       if banned then do {
         sv_bump ts_dropped_packets_update;
         ret (Some (Inr ()))
       } else do {
         limited \<leftarrow> server_endpoint_rate_limited E from_ep now;
         if limited then ret (Some (Inr ()))
         else do {
           resumed \<leftarrow> server_try_resume E from_ep hello now;
           verdict \<leftarrow> (if resumed then ret None else server_retry_gate E from_ep hello now);
           case verdict of
             Some rc \<Rightarrow> ret (Some rc)
           | None \<Rightarrow> do {
               verdict \<leftarrow> server_capacity_gate E from_ep;
               case verdict of
                 Some rc \<Rightarrow> ret (Some rc)
               | None \<Rightarrow> server_open_session E draws from_ep hello resumed now
             }
         }
       }
     }
   }"

definition server_handle_handshake_packet :: "'w senv \<Rightarrow> nat \<Rightarrow> Endpoint \<Rightarrow> PacketView \<Rightarrow> ('w, unit result option) sact" where
  "server_handle_handshake_packet E draws from_ep packet =
     (if packet_header_encrypted (pv_h packet) then ret (Some (Inl errc.ProtocolError))
      else if pv_payload packet = None \<or> ph_payload_len (pv_h packet) = 0 then ret (Some (Inl BadPacket))
      else case read_client_hello (reader_at (pv_payload packet) (unat (ph_payload_len (pv_h packet)))) of
        Inl e \<Rightarrow> ret (Some (Inl e))
      | Inr (hello, _) \<Rightarrow>
          if ph_conn_id (pv_h packet) \<noteq> 0 then ret (Some (Inl errc.ProtocolError))
          else server_handle_client_hello E draws from_ep hello)"

section \<open>Packets of a session\<close>

definition server_handle_close_frame :: "'w senv \<Rightarrow> U64 \<Rightarrow> CloseFrame \<Rightarrow> ('w, unit) sact" where
  "server_handle_close_frame E conn_id close_frame = do {
     sv_bump ts_closes_received_update;
     s \<leftarrow> gets (sess conn_id);
     if ps_state s \<noteq> Closing then server_close_session E conn_id (cf_reason close_frame) True
     else server_transition_state E conn_id ConnectionState.Closed
   }"

text \<open>A packet after it was authenticated and its sequence number accepted.\<close>

definition server_handle_plaintext :: "'w senv \<Rightarrow> U64 \<Rightarrow> PacketView \<Rightarrow> U8 list \<Rightarrow> ('w, unit result) sact" where
  "server_handle_plaintext E conn_id packet plaintext = do {
     now \<leftarrow> server_now_ms E;
     modify (upd_session conn_id (ps_last_recv_ms_update (\<lambda>_. now)));
     s \<leftarrow> gets (sess conn_id);
     whenM (ps_state s = Handshaking) (do {
       server_transition_state E conn_id Established;
       sv_bump ts_handshake_successes_update;
       sv_bump ts_sessions_established_update
     });
     let logical = \<lparr>pv_h = (pv_h packet)\<lparr>ph_payload_len := of_nat (length plaintext)\<rparr>,
                    pv_payload = (if length plaintext = 0 then None else Some plaintext)\<rparr>;
     notify (se_on_packet E) (\<lambda>f sv. f (ps_endpoint (sess conn_id sv)) logical sv);
     server_emit_packet_debug E ''recv'' (ps_endpoint s) logical;
     if ph_kind (pv_h packet) = packet_kind_value Raw then ret (Inr ())
     else if ph_kind (pv_h packet) = packet_kind_value Message then do {
       server_dispatch_message_payload E conn_id (pv_payload logical) (length plaintext);
       ret (Inr ())
     }
     else if ph_kind (pv_h packet) = packet_kind_value Keepalive then do {
       sv_bump ts_keepalives_received_update;
       ret (Inr ())
     }
     else if ph_kind (pv_h packet) = packet_kind_value Close then
       (case read_close_frame (reader_at (pv_payload logical) (length plaintext)) of
          Inl e \<Rightarrow> do {
            sv_bump ts_bad_packets_update;
            ret (Inl e)
          }
        | Inr (close_frame, _) \<Rightarrow> do {
            server_handle_close_frame E conn_id close_frame;
            ret (Inr ())
          })
     else ret (Inl errc.ProtocolError)
   }"

definition server_handle_session_packet :: "'w senv \<Rightarrow> U64 \<Rightarrow> PacketView \<Rightarrow> ('w, unit result) sact" where
  "server_handle_session_packet E conn_id packet = do {
     s \<leftarrow> gets (sess conn_id);
     if ph_kind (pv_h packet) = packet_kind_value Handshake then ret (Inl errc.ProtocolError)
     else if \<not> packet_header_encrypted (pv_h packet) then ret (Inl errc.ProtocolError)
     else if ph_conn_id (pv_h packet) \<noteq> ps_conn_id s then ret (Inl errc.ProtocolError)
     else check (ret (run_writer PacketHeaderBytes (\<lambda>w. write_packet_header w (pv_h packet)))) (\<lambda>aad.
       case open_payload (se_sodium E) (sk_rx (ps_keys s)) aad packet of
         Inl e \<Rightarrow> do {
           sv_bump ts_auth_failures_update;
           sv_bump ts_decrypt_failures_update;
           ret (Inl e)
         }
       | Inr plaintext \<Rightarrow>
           if ph_seq (pv_h packet) = 0 then ret (Inl errc.ProtocolError)
           else do {
             accepted \<leftarrow> on_sess conn_id ps_packet_window (\<lambda>w. ps_packet_window_update (\<lambda>_. w))
                           (\<lambda>w. replay_accept w (ph_seq (pv_h packet)));
             if \<not> accepted then do {
               sv_bump ts_replays_dropped_update;
               ret (Inl Replay)
             } else server_handle_plaintext E conn_id packet plaintext
           })
   }"

definition server_close_if_known :: "'w senv \<Rightarrow> U64 \<Rightarrow> CloseReason \<Rightarrow> ('w, unit) sact" where
  "server_close_if_known E conn_id reason = do {
     found \<leftarrow> gets (find_session conn_id);
     whenM (found \<noteq> None) (server_close_session E conn_id reason True)
   }"

definition server_packet_error :: "'w senv \<Rightarrow> Endpoint \<Rightarrow> U64 \<Rightarrow> U64 \<Rightarrow> errc \<Rightarrow> ('w, unit) sact" where
  "server_packet_error E from_ep now conn_id e =
     (if e = Replay then ret ()
      else if e = AuthFailed then do {
        server_note_invalid_packet E from_ep now;
        server_close_if_known E conn_id AuthenticationFailed
      } else if e = StateError then do {
        sv_bump ts_protocol_errors_update;
        server_note_invalid_packet E from_ep now;
        server_close_if_known E conn_id StateViolation
      } else if e = errc.ProtocolError then do {
        sv_bump ts_protocol_errors_update;
        server_note_invalid_packet E from_ep now;
        server_close_if_known E conn_id CloseReason.ProtocolError
      } else if e = BadPacket \<or> e = Truncated then do {
        sv_bump ts_bad_packets_update;
        server_note_invalid_packet E from_ep now;
        whenM (conn_id \<noteq> 0) (server_close_if_known E conn_id CloseReason.InvalidPacket)
      } else ret ())"

definition server_route_packet :: "'w senv \<Rightarrow> Endpoint \<Rightarrow> PacketView \<Rightarrow> ('w, unit result) sact" where
  "server_route_packet E from_ep packet =
     (if ph_conn_id (pv_h packet) = 0 then ret (Inl errc.ProtocolError)
      else do {
        found \<leftarrow> gets (find_session (ph_conn_id (pv_h packet)));
        if found = None \<or> ep_neq (ps_endpoint (the found)) from_ep then do {
          server_stateless_close E from_ep (ph_conn_id (pv_h packet)) UnknownConnection;
          ret (Inl errc.Closed)
        } else server_handle_session_packet E (ph_conn_id (pv_h packet)) packet
      })"

definition server_handle_packet :: "'w senv \<Rightarrow> nat \<Rightarrow> Endpoint \<Rightarrow> PacketView \<Rightarrow> ('w, unit option) sact" where
  "server_handle_packet E draws from_ep packet = do {
     now \<leftarrow> server_now_ms E;
     banned \<leftarrow> server_endpoint_is_banned E from_ep now;
     if banned then do {
       sv_bump ts_dropped_packets_update;
       ret (Some ())
     } else
       returns (if ph_kind (pv_h packet) = packet_kind_value Handshake then do {
                  notify (se_on_packet E) (\<lambda>f. f from_ep packet);
                  server_emit_packet_debug E ''recv'' from_ep packet;
                  server_handle_handshake_packet E draws from_ep packet
                } else do {
                  rc \<leftarrow> server_route_packet E from_ep packet;
                  ret (Some rc)
                }) (\<lambda>rc.
         case rc of
           Inr _ \<Rightarrow> ret (Some ())
         | Inl e \<Rightarrow> do {
             server_packet_error E from_ep now (ph_conn_id (pv_h packet)) e;
             ret (Some ())
           })
   }"

section \<open>The receive loop, housekeeping and the tick\<close>

definition server_note_receive :: "'w senv \<Rightarrow> Endpoint \<Rightarrow> nat \<Rightarrow> ('w, unit) sact" where
  "server_note_receive E from_ep n = do {
     now \<leftarrow> server_now_ms E;
     server_note_preauth_receive E from_ep (of_nat n) now
   }"

definition server_reject_datagram :: "'w senv \<Rightarrow> Endpoint \<Rightarrow> nat \<Rightarrow> errc \<Rightarrow> ('w, unit) sact" where
  "server_reject_datagram E from_ep n e = do {
     server_note_receive E from_ep n;
     if e = errc.UnsupportedVersion then do {
       sv_bump ts_unsupported_version_packets_update;
       server_stateless_close E from_ep 0 CloseReason.UnsupportedVersion
     } else do {
       sv_bump ts_bad_packets_update;
       now \<leftarrow> server_now_ms E;
       server_note_invalid_packet E from_ep now
     }
   }"

definition counts_as_preauth :: "PacketView \<Rightarrow> 'w Server \<Rightarrow> bool" where
  "counts_as_preauth packet sv \<longleftrightarrow>
     ph_kind (pv_h packet) = packet_kind_value Handshake \<or> ph_conn_id (pv_h packet) = 0 \<or>
     (case find_session (ph_conn_id (pv_h packet)) sv of None \<Rightarrow> True | Some s \<Rightarrow> ps_state s \<noteq> Established)"

text \<open>
  The loop reads until the socket would block.  The fuel bounds the number of datagrams read in one
  call and \<open>draws\<close> the number of random numbers drawn for one id; \<^term>\<open>None\<close> is a call that is still
  running when one of them is used up.
\<close>

primrec server_pump_receive :: "'w senv \<Rightarrow> nat \<Rightarrow> nat \<Rightarrow> ('w, unit result option) sact" where
  "server_pump_receive E draws 0 = ret None"
| "server_pump_receive E draws (Suc fuel) = do {
     rc \<leftarrow> sv_on_sock (udp_recv_from (se_os E) MaxPacketBytes);
     case rc of
       Inl e \<Rightarrow>
         if e = WouldBlock then do {
           sv_bump ts_would_block_events_update;
           ret (Some (Inr ()))
         } else if e = Truncated then do {
           sv_bump ts_truncated_datagrams_update;
           server_pump_receive E draws fuel
         } else do {
           sv_bump ts_socket_errors_update;
           ret (Some (Inl e))
         }
     | Inr (bytes, from_ep) \<Rightarrow> do {
         sv_bump ts_packets_received_update;
         sv_add_stat ts_bytes_received_update (of_nat (length bytes));
         case parse_packet (Some bytes) of
           Inl e \<Rightarrow> do {
             server_reject_datagram E from_ep (length bytes) e;
             server_pump_receive E draws fuel
           }
         | Inr packet \<Rightarrow> do {
             preauth \<leftarrow> gets (counts_as_preauth packet);
             whenM preauth (server_note_receive E from_ep (length bytes));
             returns (server_handle_packet E draws from_ep packet) (\<lambda>_. server_pump_receive E draws fuel)
           }
       }
   }"

definition server_on_expire :: "'w Server \<Rightarrow> U64 \<Rightarrow> 'w Server" where
  "server_on_expire sv _ = snd (run_state (do {
     sv_bump ts_reassemblies_expired_update;
     sv_bump ts_reassembly_drops_update }) sv)"

definition server_keep_session :: "'w senv \<Rightarrow> U64 \<Rightarrow> U64 \<Rightarrow> ('w, unit result) sact" where
  "server_keep_session E now conn_id = do {
     with_sess conn_id ps_reassembler (\<lambda>f. ps_reassembler_update (\<lambda>_. f))
       (\<lambda>f sv. ((), fr_expire_old now server_on_expire f sv));
     s \<leftarrow> gets (sess conn_id);
     cfg \<leftarrow> gets sv_config;
     if ps_state s = Handshaking \<and> scfg_handshake_timeout_ms cfg < now - ps_created_ms s then do {
       sv_bump ts_establish_timeouts_update;
       server_close_session E conn_id EstablishTimeout True;
       ret (Inr ())
     } else if ps_state s = Established \<and> ps_last_recv_ms s \<noteq> 0 \<and> scfg_idle_timeout_ms cfg < now - ps_last_recv_ms s then do {
       sv_bump ts_idle_timeouts_update;
       server_close_session E conn_id IdleTimeout True;
       ret (Inr ())
     } else
       check (if ps_state s = Established \<and>
                 (ps_last_send_ms s = 0 \<or> scfg_keepalive_interval_ms cfg \<le> now - ps_last_send_ms s)
              then server_queue_keepalive E conn_id else ret (Inr ())) (\<lambda>_. do {
         t \<leftarrow> gets (sess conn_id);
         whenM (session_drained cfg now t) (server_transition_state E conn_id ConnectionState.Closed);
         ret (Inr ())
       })
   }"

definition preauth_kept :: "ServerConfig \<Rightarrow> U64 \<Rightarrow> PreauthBudgetState \<Rightarrow> bool" where
  "preauth_kept cfg now b \<longleftrightarrow> now < pb_last_seen_ms b \<or> now - pb_last_seen_ms b \<le> scfg_idle_timeout_ms cfg"

definition abuse_kept :: "U64 \<Rightarrow> IpAbuseState \<Rightarrow> bool" where
  "abuse_kept now a \<longleftrightarrow>
     now < ia_banned_until_ms a \<or>
     \<not> ((ia_window_started_ms a = 0 \<or> 5000 < now - ia_window_started_ms a) \<and>
        ia_handshakes_in_window a = 0 \<and> ia_invalid_penalty_score a = 0)"

definition server_run_housekeeping :: "'w senv \<Rightarrow> ('w, unit result) sact" where
  "server_run_housekeeping E = do {
     now \<leftarrow> server_now_ms E;
     ids \<leftarrow> gets (\<lambda>sv. map fst (sv_sessions sv));
     check (each_check (server_keep_session E now) ids) (\<lambda>_. do {
       modify (\<lambda>sv. sv\<lparr>sv_preauth := filter (\<lambda>(k, b). preauth_kept (sv_config sv) now b) (sv_preauth sv),
                        sv_ip_abuse := filter (\<lambda>(k, a). abuse_kept now a) (sv_ip_abuse sv)\<rparr>);
       server_evict_stale_sessions E;
       server_refresh_runtime_stats;
       ret (Inr ())
     })
   }"

definition server_tick :: "'w senv \<Rightarrow> nat \<Rightarrow> nat \<Rightarrow> ('w, unit result option) sact" where
  "server_tick E draws fuel = do {
     rc \<leftarrow> server_flush_pending E;
     if rc \<noteq> Inr () then ret (Some rc)
     else do {
       rc \<leftarrow> server_pump_reliable E;
       if rc \<noteq> Inr () then ret (Some rc)
       else do {
         rc \<leftarrow> server_pump_receive E draws fuel;
         if rc \<noteq> Some (Inr ()) then ret rc
         else do {
           rc \<leftarrow> server_run_housekeeping E;
           ret (Some rc)
         }
       }
     }
   }"

definition Server_members :: "ServerConfig \<Rightarrow> 'w \<Rightarrow> 'w Server" where
  "Server_members cfg w =
    \<lparr>sv_config = cfg, sv_sock = kInvalidSocket, sv_stateless_seq = 1, sv_next_peer_id = 1, sv_pending_bytes = 0,
     sv_pending = [], sv_sessions = [], sv_endpoint_to_conn = [], sv_ip_abuse = [], sv_preauth = [],
     sv_cookie_secret = replicate CookieSecretBytes 0, sv_stats = TransportStats_default, sv_world = w\<rparr>"

definition Server_new :: "ServerConfig \<Rightarrow> 'w \<Rightarrow> 'w Server" where
  "Server_new cfg w = snd (run_state server_refresh_runtime_stats (Server_members cfg w))"

definition server_reset_stats :: "('w, unit) sact" where
  "server_reset_stats = do {
     modify (sv_stats_update ts_reset);
     server_refresh_runtime_stats
   }"

definition server_local_endpoint :: "'w senv \<Rightarrow> ('w, Endpoint result) sact" where
  "server_local_endpoint E = sv_on_sock (udp_local_endpoint (se_os E))"

text \<open>A server without callbacks.\<close>

definition quiet_server :: "'w Sodium \<Rightarrow> 'w Os \<Rightarrow> 'w senv" where
  "quiet_server S os =
    \<lparr>se_sodium = S, se_os = os, se_logger = None, se_packet_debug = None, se_on_packet = None, se_on_message = None,
     se_text_handlers = (\<lambda>_. None), se_binary_handlers = (\<lambda>_. None), se_on_peer_connected = None, se_on_peer_ready = None,
     se_on_peer_disconnected = None, se_on_peer_state_change = None, se_on_backpressure = None\<rparr>"

end
