(* ===== verification/Scn_Server_Inv.thy ===== *)
theory Scn_Server_Inv
  imports Scn_Server Scn_Kept
begin

text \<open>
  What every method of the server keeps.

  The locale \<open>server_kept\<close> is the contract of an invariant that each primitive update respects, the
  callbacks included.  Inside it the invariant is shown to hold across every method, once.  It is
  interpreted on the invariant of the server: the send queue, and the table of sessions with its
  index by endpoint.
\<close>

named_theorems server_keeps

section \<open>Sessions under an update\<close>

text \<open>
  A stored session: it is stored under its own id, which is not zero; the secret half of its ephemeral
  key is erased; its congestion controller is within its bounds and its send budget within the bucket.
\<close>

definition session_ok :: "U64 \<Rightarrow> PeerSession \<Rightarrow> bool" where
  "session_ok conn_id s \<longleftrightarrow>
     conn_id \<noteq> 0 \<and> ps_conn_id s = conn_id \<and> list_all (\<lambda>b. b = 0) (kp_secret_key (ps_ephemeral s)) \<and>
     cg_inv (ps_congestion s) \<and> ps_send_budget_bytes s \<le> cg_bucket_cap_bytes (ps_congestion s)"

definition session_step :: "PeerSession \<Rightarrow> PeerSession \<Rightarrow> bool" where
  "session_step s t \<longleftrightarrow> ps_endpoint t = ps_endpoint s \<and> (\<forall>k. session_ok k s \<longrightarrow> session_ok k t)"

lemma session_step_refl: "session_step s s"
  by (simp add: session_step_def)

lemma session_step_fields [server_keeps]:
  "session_step s (ps_state_update f1 s)" "session_step s (ps_close_reason_update f2 s)"
  "session_step s (ps_send_seq_update f3 s)" "session_step s (ps_user_data_update f4 s)"
  "session_step s (ps_next_fragment_message_id_update f5 s)" "session_step s (ps_next_ordered_sequence_update f6 s)"
  "session_step s (ps_next_sequenced_sequence_update f7 s)" "session_step s (ps_last_recv_ms_update f8 s)"
  "session_step s (ps_reliable_update f9 s)" "session_step s (ps_ordered_reliable_update f10 s)"
  "session_step s (ps_ordered_update f11 s)" "session_step s (ps_sequenced_update f12 s)"
  "session_step s (ps_reassembler_update f13 s)" "session_step s (ps_packet_window_update f14 s)"
  "session_step s (ps_set_session ch r s)"
  by (simp_all add: session_step_def session_ok_def ps_set_session_def)

lemma session_step_refill [server_keeps]:
  "session_step s (s\<lparr>ps_last_budget_refill_ms := now, ps_send_budget_bytes := (if ps_send_budget_bytes s = 0
      then cg_rate_bytes_per_second (ps_congestion s) else ps_send_budget_bytes s)\<rparr>)"
  "session_step s (s\<lparr>ps_send_budget_bytes := min (cg_bucket_cap_bytes (ps_congestion s)) (ps_send_budget_bytes s + n),
      ps_last_budget_refill_ms := now\<rparr>)"
  by (auto simp: session_step_def session_ok_def bucket_rate)

lemma session_step_congestion [server_keeps]:
  "session_step s (ps_congest (cg_on_backpressure now) s)"
  "session_step s (ps_congest (cg_on_loss now n) s)"
  "session_step s (ps_congestion_update (cg_on_ack v r x now) s)"
  by (auto simp: session_step_def session_ok_def ps_congest_def Let_def on_backpressure_inv on_loss_inv on_ack_inv
      intro: order_trans ack_bucket)

lemma session_step_spend:
  "n \<le> ps_send_budget_bytes s \<Longrightarrow>
   session_step s (s\<lparr>ps_send_budget_bytes := ps_send_budget_bytes s - n, ps_last_send_ms := now\<rparr>)"
  by (auto simp: session_step_def session_ok_def word_le_nat_alt unat_sub_le)

lemma session_step_wiped [server_keeps]: "session_step s (ps_wiped s)"
  by (simp add: session_step_def session_ok_def ps_wiped_def kp_clear_def list_all_iff zeroed_def crypto_secure_zero_def)

section \<open>The contract\<close>

definition server_callbacks_keep :: "('w Server \<Rightarrow> 'w Server \<Rightarrow> bool) \<Rightarrow> 'w senv \<Rightarrow> bool" where
  "server_callbacks_keep R E \<longleftrightarrow>
     (\<forall>f e p s. se_on_packet E = Some f \<longrightarrow> R s (f e p s)) \<and>
     (\<forall>f p m s. se_on_message E = Some f \<longrightarrow> R s (f p m s)) \<and>
     (\<forall>t f p b s. se_text_handlers E t = Some f \<longrightarrow> R s (f p b s)) \<and>
     (\<forall>t f p m s. se_binary_handlers E t = Some f \<longrightarrow> R s (f p m s)) \<and>
     (\<forall>f p s. se_on_peer_connected E = Some f \<longrightarrow> R s (f p s)) \<and>
     (\<forall>f p s. se_on_peer_ready E = Some f \<longrightarrow> R s (f p s)) \<and>
     (\<forall>f p r s. se_on_peer_disconnected E = Some f \<longrightarrow> R s (f p r s)) \<and>
     (\<forall>f p a b s. se_on_peer_state_change E = Some f \<longrightarrow> R s (f p a b s)) \<and>
     (\<forall>f p i s. se_on_backpressure E = Some f \<longrightarrow> R s (f p i s))"

definition sq_built :: "ServerPending \<Rightarrow> bool" where
  "sq_built p \<longleftrightarrow> length (sq_bytes p) = MaxPacketBytes \<and> sq_len p \<le> MaxPacketBytes \<and> PacketHeaderBytes \<le> sq_len p"

lemma assemble_packet_built:
  "assemble_packet S tx h e q m = Inr (b, l) \<Longrightarrow>
   sq_built \<lparr>sq_to = to, sq_owner_conn_id = ow, sq_bytes = b, sq_len = l, sq_priority = pr\<rparr>"
  using assemble_packet_size [of S tx h e q m b l] by (simp add: sq_built_def)

text \<open>The state updates of a new packet, a packet that leaves, an evicted and a stored session.\<close>

definition sv_with_pending :: "ServerPending \<Rightarrow> 'w Server \<Rightarrow> 'w Server" where
  "sv_with_pending p sv = sv\<lparr>sv_pending_bytes := sv_pending_bytes sv + sq_len p,
     sv_pending := insert_prio (\<lambda>p. priority_value (sq_priority p)) p (sv_pending sv)\<rparr>"

definition sv_without_pending :: "nat \<Rightarrow> 'w Server \<Rightarrow> 'w Server" where
  "sv_without_pending i sv = sv\<lparr>sv_pending_bytes := sv_pending_bytes sv - sq_len (sv_pending sv ! i),
     sv_pending := take i (sv_pending sv) @ drop (Suc i) (sv_pending sv)\<rparr>"

definition sv_evicted :: "U64 \<Rightarrow> PeerSession \<Rightarrow> 'w Server \<Rightarrow> 'w Server" where
  "sv_evicted conn_id s sv =
     sv\<lparr>sv_endpoint_to_conn := ep_erase (ps_endpoint s) (sv_endpoint_to_conn sv),
        sv_sessions := AList.delete conn_id (AList.map_entry conn_id ps_wiped (sv_sessions sv))\<rparr>"

definition sv_stored :: "Endpoint \<Rightarrow> PeerSession \<Rightarrow> 'w Server \<Rightarrow> 'w Server" where
  "sv_stored ep s sv =
     sv\<lparr>sv_endpoint_to_conn := ep_assign ep (ps_conn_id s) (sv_endpoint_to_conn sv),
        sv_sessions := (if map_of (sv_sessions sv) (ps_conn_id s) = None
          then sv_sessions sv @ [(ps_conn_id s, s)] else sv_sessions sv)\<rparr>"

definition vacant_slot :: "Endpoint \<Rightarrow> 'w Server \<Rightarrow> bool" where
  "vacant_slot ep sv \<longleftrightarrow>
     length (sv_sessions sv) < scfg_max_peer_sessions (sv_config sv) \<and> find_session_by_endpoint ep sv = None"

abbreviation table_part :: "'w Server \<Rightarrow> (U64 \<times> PeerSession) list \<times> (Endpoint \<times> U64) list \<times> ServerConfig" where
  "table_part sv \<equiv> (sv_sessions sv, sv_endpoint_to_conn sv, sv_config sv)"

abbreviation send_part :: "'w Server \<Rightarrow> ServerPending list \<times> (U64 \<times> PeerSession) list" where
  "send_part sv \<equiv> (sv_pending sv, sv_sessions sv)"

lemma send_frames:
  "frames send_part (sv_bump g)" "frames send_part (sv_add_stat g k)" "frames send_part server_refresh_runtime_stats"
  "frames send_part (sv_on_sock m)" "frames send_part (server_now_ms E)" "frames send_part (server_emit_packet_debug E d ep v)"
  "frames send_part (server_note_preauth_send E ep n now)"
  unfolding frames_def sv_bump_def sv_add_stat_def server_refresh_runtime_stats_def sv_on_sock_def server_now_ms_def
    sv_on_world_def server_emit_packet_debug_def server_note_preauth_send_def preauth_update_def
  by (intro frame.keeps_rules frame.keeps_modify frame.keeps_on_part frame.keeps_notify; auto)+

lemma pending_frames:
  "frames sv_pending (modify (upd_session k f))" "frames sv_pending (server_refill_send_budget k now)"
  "frames sv_pending (server_note_preauth_send E ep n now)" "frames sv_pending (sv_bump g)" "frames sv_pending (sv_add_stat g l)"
  unfolding frames_def server_refill_send_budget_def sv_bump_def sv_add_stat_def upd_session_def
    server_note_preauth_send_def preauth_update_def
  by (intro frame.keeps_rules frame.keeps_modify; auto)+

lemma flush_send_moves: "run_state (server_flush_send E now bb i p owned) s \<noteq> (Visited b, t)"
proof -
  have "yields (\<lambda>r. r \<noteq> Visited b) (server_flush_send E now bb i p owned)"
    unfolding server_flush_send_def by (intro yields_rules) simp_all
  then show ?thesis by (auto dest: yieldsD)
qed

lemma flush_one_visited:
  assumes "run_state (server_flush_one E now bb i p) s = (Visited b, t)"
  shows "sv_pending t = sv_pending s"
proof -
  note refill = pending_frames(2) [of "sq_owner_conn_id p" now, unfolded frames_def, THEN keepsD]
  show ?thesis
    using assms
    by (auto simp: server_flush_one_def run_simps upd_session_def flush_send_moves split: if_splits option.splits prod.splits dest!: refill)
qed

lemma table_frames:
  "frames table_part (sv_bump g)" "frames table_part server_refresh_runtime_stats" "frames table_part (server_emit_log E l m)"
  "frames table_part (sv_on_world f)" "frames table_part take_peer_id"
  unfolding frames_def sv_bump_def server_refresh_runtime_stats_def server_emit_log_def sv_on_world_def take_peer_id_def
  by (intro frame.keeps_rules frame.keeps_modify frame.keeps_on_part frame.keeps_notify; auto)+

lemma on_world_value: "hoare P (sv_on_world f) (\<lambda>x _. \<exists>w. x = fst (f w))"
  by (auto simp: hoare_def sv_on_world_def run_simps split: prod.splits) (metis fst_conv)

lemma draw_u64_good: "draw_u64 S good n w = (Some c, w') \<Longrightarrow> good c"
  by (induction n arbitrary: w) (auto simp: Let_def split: prod.splits if_splits)

lemma new_session_ids [simp]:
  "ps_endpoint (new_session cfg ep h r now c pid) = ep" "ps_conn_id (new_session cfg ep h r now c pid) = c"
  by (simp_all add: new_session_def Let_def)

lemma exchange_keys_step:
  assumes "exchange_keys S s w = (Inr t, w')"
  shows "session_step s t \<and> ps_conn_id t = ps_conn_id s \<and> ps_state t = ps_state s"
proof -
  obtain e k where "t = s\<lparr>ps_keys := k, ps_ephemeral := e\<lparr>kp_secret_key := zeroed (kp_secret_key e)\<rparr>\<rparr>"
    using assms by (auto simp: exchange_keys_def split: prod.splits sum.splits)
  then show ?thesis
    by (simp add: session_step_def session_ok_def list_all_iff zeroed_def crypto_secure_zero_def)
qed

text \<open>
  The parameters besides the invariant: when a slot for a new session is vacant, and when a session is
  fit to be stored.
\<close>

locale server_kept =
  fixes I :: "'w Server \<Rightarrow> bool" and vacant :: "Endpoint \<Rightarrow> U64 option \<Rightarrow> 'w Server \<Rightarrow> bool" and fit :: "PeerSession \<Rightarrow> bool"
    and E :: "'w senv"
  assumes callbacks: "server_callbacks_keep (keeping I) E"
    and k_stats: "\<And>s f. I s \<Longrightarrow> I (sv_stats_update f s)"
    and k_world: "\<And>s f. I s \<Longrightarrow> I (sv_world_update f s)"
    and k_sock: "\<And>s k w. I s \<Longrightarrow> I (s\<lparr>sv_sock := k, sv_world := w\<rparr>)"
    and k_secret: "\<And>s b w. I s \<Longrightarrow> I (s\<lparr>sv_cookie_secret := b, sv_world := w\<rparr>)"
    and k_seq: "\<And>s f. I s \<Longrightarrow> I (sv_stateless_seq_update f s)"
    and k_peer: "\<And>s f. I s \<Longrightarrow> I (sv_next_peer_id_update f s)"
    and k_hosts: "\<And>s f. I s \<Longrightarrow> I (sv_ip_abuse_update f s)" "\<And>s f. I s \<Longrightarrow> I (sv_preauth_update f s)"
    and k_session: "\<And>s k f. (\<And>x. find_session k s = Some x \<Longrightarrow> session_step x (f x)) \<Longrightarrow> I s \<Longrightarrow> I (upd_session k f s)"
    and k_evict: "\<And>s k x. find_session k s = Some x \<Longrightarrow> I s \<Longrightarrow> I (sv_evicted k x s)"
    and k_wipe: "\<And>s. I s \<Longrightarrow> I (sv_sessions_update (map (\<lambda>(k, x). (k, ps_wiped x))) s)"
    and k_empty: "\<And>s. I s \<Longrightarrow> I (s\<lparr>sv_pending := [], sv_pending_bytes := 0, sv_sessions := [], sv_endpoint_to_conn := []\<rparr>)"
    and k_enqueue: "\<And>s p. length (sv_pending s) < unat (scfg_max_pending_packets (sv_config s)) \<Longrightarrow> sq_built p \<Longrightarrow>
            I s \<Longrightarrow> I (sv_with_pending p s)"
    and k_dequeue: "\<And>s i. i < length (sv_pending s) \<Longrightarrow> I s \<Longrightarrow> I (sv_without_pending i s)"
    and k_free: "\<And>s ep. vacant_slot ep s \<Longrightarrow> vacant ep None s"
    and k_replaced: "\<And>s ep x. I s \<Longrightarrow> length (sv_sessions s) < scfg_max_peer_sessions (sv_config s) \<Longrightarrow>
            find_session_by_endpoint ep s = Some x \<Longrightarrow>
            (case find_session (ps_conn_id x) s of
               None \<Rightarrow> vacant ep None s | Some y \<Rightarrow> vacant ep None (sv_evicted (ps_conn_id x) y s))"
    and k_vacate: "\<And>s ep k. vacant ep None s \<Longrightarrow> find_session k s = None \<Longrightarrow> vacant ep (Some k) s"
    and k_vacant: "\<And>s t ep k. vacant ep k s \<Longrightarrow> table_part t = table_part s \<Longrightarrow> vacant ep k t"
    and k_vacant_callback: "\<And>f p a b s ep k. se_on_peer_state_change E = Some f \<Longrightarrow> vacant ep k s \<Longrightarrow> vacant ep k (f p a b s)"
    and k_new: "\<And>s ep h r now k pid. I s \<Longrightarrow> k \<noteq> 0 \<Longrightarrow> fit (new_session (sv_config s) ep h r now k pid)"
    and k_fit: "\<And>x y. fit x \<Longrightarrow> session_step x y \<Longrightarrow> fit y"
    and k_store: "\<And>s x. vacant (ps_endpoint x) (Some (ps_conn_id x)) s \<Longrightarrow> fit x \<Longrightarrow> I s \<Longrightarrow> I (sv_stored (ps_endpoint x) x s)"
begin

abbreviation K :: "('w Server, 'a) act \<Rightarrow> bool" where
  "K m \<equiv> keeps (keeping I) m"

lemma notify_keeps [server_keeps]:
  "K (notify (se_on_packet E) (\<lambda>f. f e p))" "K (notify (se_on_packet E) (\<lambda>f s. f (g s) p s))"
  "K (notify (se_on_message E) (\<lambda>f. f q m))" "K (notify (se_text_handlers E t) (\<lambda>f. f q b))"
  "K (notify (se_binary_handlers E t) (\<lambda>f. f q m))" "K (notify (se_on_peer_connected E) (\<lambda>f. f q))"
  "K (notify (se_on_peer_ready E) (\<lambda>f. f q))" "K (notify (se_on_peer_disconnected E) (\<lambda>f s. f q (r s) s))"
  "K (notify (se_on_peer_state_change E) (\<lambda>f. f q x y))"
  "K (notify (se_on_backpressure E) (\<lambda>f s. f q (i s) s))"
  by (intro invariant_notify; use callbacks in \<open>simp add: server_callbacks_keep_def keeping_def\<close>)+

lemma keeps_bump [server_keeps]: "K (sv_bump f)"
  unfolding sv_bump_def by (intro invariant_rules k_stats)

lemma keeps_add_stat [server_keeps]: "K (sv_add_stat f n)"
  unfolding sv_add_stat_def by (intro invariant_rules k_stats)

lemma keeps_refresh [server_keeps]: "K server_refresh_runtime_stats"
  unfolding server_refresh_runtime_stats_def by (intro invariant_rules k_stats)

lemma keeps_world [server_keeps]: "K (sv_on_world f)"
  unfolding sv_on_world_def by (intro invariant_rules k_world)

lemma keeps_sock [server_keeps]: "K (sv_on_sock m)"
  unfolding sv_on_sock_def by (intro invariant_rules) (auto intro: k_sock)

lemma keeps_now [server_keeps]: "K (server_now_ms E)"
  unfolding server_now_ms_def by (intro server_keeps)

lemma keeps_log [server_keeps]: "K (server_emit_log E l m)"
  unfolding server_emit_log_def by (intro invariant_notify k_world)

lemma keeps_debug [server_keeps]: "K (server_emit_packet_debug E d ep p)"
  unfolding server_emit_packet_debug_def by (intro invariant_rules invariant_notify k_world)

lemma keeps_emit_backpressure [server_keeps]: "K (server_emit_backpressure E q ch t e)"
  unfolding server_emit_backpressure_def by (rule server_keeps)

lemma keeps_session [server_keeps]: "(\<And>x. session_step x (f x)) \<Longrightarrow> K (modify (upd_session k f))"
  by (intro invariant_rules k_session)

lemma keeps_on_sess [server_keeps]: "(\<And>p x. session_step x (put p x)) \<Longrightarrow> K (on_sess k get put f)"
  unfolding on_sess_def by (intro invariant_rules k_session)

lemma keeps_state_changed [server_keeps]: "K (server_state_changed E q a b r)"
  unfolding server_state_changed_def by (intro invariant.keeps_rules server_keeps)

lemma keeps_transition [server_keeps]: "K (server_transition_state E k n)"
  unfolding server_transition_state_def by (intro invariant.keeps_rules server_keeps)

lemma run_evict:
  "run_state (server_evict_session k) s =
    (case find_session k s of None \<Rightarrow> ((), s)
     | Some x \<Rightarrow> run_state (do { sv_bump ts_peers_evicted_update; server_refresh_runtime_stats }) (sv_evicted k x s))"
  by (cases s) (simp add: server_evict_session_def run_simps sv_evicted_def upd_session_def find_session_def split: option.split)

lemma keeps_evict [server_keeps]: "K (server_evict_session k)"
proof -
  have "K (do { sv_bump ts_peers_evicted_update; server_refresh_runtime_stats })"
    by (intro invariant.keeps_rules server_keeps)
  then show ?thesis
    using k_evict by (auto simp: keeps_def keeping_def run_evict split: option.split)
qed

lemma keeps_evict_stale [server_keeps]: "K (server_evict_stale_sessions E)"
  unfolding server_evict_stale_sessions_def by (intro invariant.keeps_rules server_keeps)

lemma keeps_stop [server_keeps]: "K (server_stop E)"
proof -
  have "I (s\<lparr>sv_pending := [], sv_pending_bytes := 0, sv_sessions := [], sv_endpoint_to_conn := [],
      sv_ip_abuse := [], sv_preauth := []\<rparr>)" if "I s" for s
    using k_hosts(2) [OF k_hosts(1) [OF k_empty [OF that]], of "\<lambda>_. []" "\<lambda>_. []"] by simp
  then show ?thesis
    unfolding server_stop_def by (intro invariant_rules server_keeps k_seq k_wipe)
qed

lemma keeps_listen [server_keeps]: "K (server_listen E ep)"
proof -
  have "I (s\<lparr>sv_stateless_seq := 1, sv_pending := [], sv_pending_bytes := 0, sv_sessions := [],
      sv_endpoint_to_conn := [], sv_ip_abuse := [], sv_preauth := []\<rparr>)" if "I s" for s
    using k_hosts(2) [OF k_hosts(1) [OF k_empty [OF k_seq [OF that]]], of "\<lambda>_. []" "\<lambda>_. []" "\<lambda>_. 1"] by simp
  then show ?thesis
    unfolding server_listen_def by (intro invariant_rules server_keeps k_stats) (auto intro: k_secret)
qed

lemma keeps_listen_port [server_keeps]: "K (server_listen_port E port)"
  unfolding server_listen_port_def by (intro invariant.keeps_rules server_keeps)

section \<open>Guards\<close>

lemma keeps_abuse_update [server_keeps]: "K (modify (abuse_update k f))"
  unfolding abuse_update_def by (intro invariant_rules k_hosts)

lemma keeps_preauth_update [server_keeps]: "K (modify (preauth_update k f))"
  unfolding preauth_update_def by (intro invariant_rules k_hosts)

lemma keeps_guards [server_keeps]:
  "K (server_endpoint_rate_limited E ep now)" "K (server_endpoint_is_banned E ep now)"
  "K (server_note_invalid_packet E ep now)" "K (server_can_amplify_to E ep n now)"
  "K (server_note_preauth_receive E ep n now)" "K (server_note_preauth_send E ep n now)"
  unfolding server_endpoint_rate_limited_def server_endpoint_is_banned_def server_note_invalid_packet_def
    server_can_amplify_to_def server_note_preauth_receive_def server_note_preauth_send_def
  by (intro invariant.keeps_rules server_keeps)+

lemma keeps_make_resumption [server_keeps]: "K (server_make_resumption_token E draws ep now)"
  unfolding server_make_resumption_token_def by (intro invariant.keeps_rules server_keeps)

lemma keeps_allocate [server_keeps]: "K (server_allocate_conn_id E draws)"
  unfolding server_allocate_conn_id_def by (intro invariant.keeps_rules server_keeps)

section \<open>Sending\<close>

lemma keeps_enqueue [server_keeps]:
  assumes "sq_built p"
  shows "K (server_enqueue_pending_packet p)"
proof -
  have "I (sv_stats_update f (sv_with_pending p s))"
    if "\<not> unat (scfg_max_pending_packets (sv_config s)) \<le> length (sv_pending s)" "I s" for s f
    using k_stats [OF k_enqueue [OF _ assms]] that by simp
  then show ?thesis
    unfolding server_enqueue_pending_packet_def sv_with_pending_def server_refresh_runtime_stats_def sv_bump_def
    by (intro invariant.keeps_gets_bind) (simp add: run_bind k_stats keeping_def)
qed

lemma keeps_may_send [server_keeps]: "K (server_may_send E ep enc n)"
  unfolding server_may_send_def by (intro invariant.keeps_rules server_keeps)

lemma keeps_queue_packet [server_keeps]: "K (server_queue_packet E ep kind enc p n ci seq keys pr ow)"
  unfolding server_queue_packet_def check_ret
  by (intro invariant.keeps_rules server_keeps) (auto intro: assemble_packet_built)

lemma keeps_take_stateless [server_keeps]: "K take_stateless_seq"
  unfolding take_stateless_seq_def by (intro invariant.keeps_rules server_keeps invariant_modify k_seq)

lemma keeps_take_send [server_keeps]: "K (take_send_seq k)"
  unfolding take_send_seq_def by (intro invariant.keeps_rules server_keeps)

lemma keeps_plain_handshake [server_keeps]: "K (server_queue_plain_handshake E ep p n ci)"
  unfolding server_queue_plain_handshake_def by (intro invariant.keeps_rules server_keeps)

lemma keeps_retry [server_keeps]: "K (server_queue_retry E ep token)"
  unfolding server_queue_retry_def by (intro invariant.keeps_rules server_keeps)

lemma keeps_offer [server_keeps]: "K (server_resumption_offer E draws s)"
  unfolding server_resumption_offer_def by (intro invariant.keeps_rules server_keeps)

lemma keeps_server_hello [server_keeps]: "K (server_queue_server_hello E draws k)"
  unfolding server_queue_server_hello_def by (intro invariant.keeps_rules server_keeps)

lemma keeps_session_packet [server_keeps]: "K (server_session_packet E k kind p n pr)"
  unfolding server_session_packet_def by (intro invariant.keeps_rules server_keeps)

lemma keeps_internal [server_keeps]: "K (server_queue_internal_message E k ch t d n pr)"
  unfolding server_queue_internal_message_def by (intro invariant.keeps_rules server_keeps)

lemma keeps_message_packet [server_keeps]: "K (server_queue_message_packet E k ch t d n pr)"
  unfolding server_queue_message_packet_def by (intro invariant.keeps_rules server_keeps)

lemma keeps_raw [server_keeps]: "K (server_queue_raw_payload E k d m pr)"
  unfolding server_queue_raw_payload_def by (intro invariant.keeps_rules server_keeps)

lemma keeps_control_ack [server_keeps]: "K (server_queue_control_ack E k ch i)"
  unfolding server_queue_control_ack_def by (intro invariant.keeps_rules server_keeps)

lemma keeps_keepalive [server_keeps]: "K (server_queue_keepalive E k)"
  unfolding server_queue_keepalive_def by (intro invariant.keeps_rules server_keeps)

lemma keeps_close_packet [server_keeps]: "K (server_queue_close_packet E ep ci reason enc keys seq pr ow)"
  unfolding server_queue_close_packet_def by (intro invariant.keeps_rules server_keeps)

lemma keeps_stateless_close [server_keeps]: "K (server_stateless_close E ep ci reason)"
  unfolding server_stateless_close_def by (intro invariant.keeps_rules server_keeps)

lemma keeps_close_session [server_keeps]: "K (server_close_session E k reason b)"
  unfolding server_close_session_def by (intro invariant.keeps_rules server_keeps)

lemma keeps_reliable_message [server_keeps]: "K (server_send_reliable_message E k ch t d n pr lt)"
  unfolding server_send_reliable_message_def by (intro invariant.keeps_rules server_keeps)

lemma keeps_fragment_out [server_keeps]: "K (server_send_fragment E k opt t pl fc mid ds i)"
  unfolding server_send_fragment_def by (intro invariant.keeps_rules server_keeps)

lemma keeps_delivery_sequence [server_keeps]: "K (take_delivery_sequence k ch)"
  unfolding take_delivery_sequence_def by (intro invariant.keeps_rules server_keeps)

lemma keeps_fragmented [server_keeps]: "K (server_send_fragmented E k opt t pl)"
  unfolding server_send_fragmented_def by (intro invariant.keeps_rules server_keeps)

lemma keeps_finish [server_keeps]: "K m \<Longrightarrow> K (server_finish_send E q opt t m)"
  unfolding server_finish_send_def by (intro invariant.keeps_rules server_keeps)

lemma keeps_send_inline [server_keeps]: "K (server_send_inline E q opt t pl)"
  unfolding server_send_inline_def by (intro invariant.keeps_rules server_keeps)

lemma keeps_send [server_keeps]: "K (server_send E q opt t pl)"
  unfolding server_send_def by (intro invariant.keeps_rules server_keeps)

lemma keeps_send_message [server_keeps]: "K (server_send_message E q ch t d n)"
  unfolding server_send_message_def by (intro invariant.keeps_rules server_keeps)

lemma keeps_send_text [server_keeps]: "K (server_send_text E q t d opt)"
  unfolding server_send_text_def by (intro invariant.keeps_rules server_keeps)

lemma keeps_send_payload_to [server_keeps]: "K (server_send_payload_to E ep k d m)"
  unfolding server_send_payload_to_def by (intro invariant.keeps_rules server_keeps)

lemma keeps_send_payload [server_keeps]: "K (server_send_payload E q d m)"
  unfolding server_send_payload_def by (intro invariant.keeps_rules server_keeps)

lemma keeps_close_peer [server_keeps]: "K (server_close_peer E q reason)"
  unfolding server_close_peer_def by (intro invariant.keeps_rules server_keeps)

lemma keeps_user_data [server_keeps]: "K (server_set_peer_user_data q d)"
  unfolding server_set_peer_user_data_def by (intro invariant.keeps_rules server_keeps)

lemma keeps_broadcast_loop [server_keeps]: "K (server_broadcast_loop E omit opt t pl e ids)"
  by (induction ids arbitrary: e) (simp add: invariant.keeps_ret, unfold server_broadcast_loop.simps,
      intro invariant.keeps_rules server_keeps)

lemma keeps_broadcast [server_keeps]: "K (server_broadcast E opt t pl)"
  unfolding server_broadcast_def by (intro invariant.keeps_rules server_keeps)

lemma keeps_broadcast_except [server_keeps]: "K (server_broadcast_except E q opt t pl)"
  unfolding server_broadcast_except_def by (intro invariant.keeps_rules server_keeps)

lemma keeps_refill [server_keeps]: "K (server_refill_send_budget k now)"
  unfolding server_refill_send_budget_def by (intro invariant.keeps_rules server_keeps)

section \<open>The send loop\<close>

lemma hoare_drop:
  assumes "drop i q = p # rest"
  shows "hoare (\<lambda>t. I t \<and> sv_pending t = q) (server_drop_pending i p) (\<lambda>_. I)"
  unfolding server_drop_pending_def
proof (rule hoare_modify, elim conjE)
  fix t assume t: "I t" "sv_pending t = q"
  have "i < length q" "q ! i = p" using assms by (auto simp: nth_via_drop intro: ccontr)
  then show "I (t\<lparr>sv_pending_bytes := sv_pending_bytes t - sq_len p,
      sv_pending := take i (sv_pending t) @ drop (Suc i) (sv_pending t)\<rparr>)"
    using k_dequeue [of i t] t by (simp add: sv_without_pending_def)
qed

lemma hoare_spend:
  assumes "\<And>x. map_of ss k = Some x \<Longrightarrow> n \<le> ps_send_budget_bytes x"
  shows "hoare (\<lambda>t. I t \<and> send_part t = (q, ss))
      (modify (upd_session k (\<lambda>s. s\<lparr>ps_send_budget_bytes := ps_send_budget_bytes s - n, ps_last_send_ms := now\<rparr>)))
      (\<lambda>_ t. I t \<and> sv_pending t = q)"
  using assms by (intro hoare_modify conjI k_session session_step_spend) (auto simp: find_session_def upd_session_def)

lemma hoare_sent:
  assumes "drop i q = p # rest"
    and "owned \<Longrightarrow> \<forall>x. map_of ss (sq_owner_conn_id p) = Some x \<longrightarrow> of_nat (sq_len p) \<le> ps_send_budget_bytes x"
  shows "hoare (\<lambda>t. I t \<and> send_part t = (q, ss)) (do {
         (if owned then do {
            modify (upd_session (sq_owner_conn_id p) (\<lambda>s. s\<lparr>
              ps_send_budget_bytes := ps_send_budget_bytes s - of_nat (sq_len p), ps_last_send_ms := now\<rparr>));
            s \<leftarrow> gets (sess (sq_owner_conn_id p));
            whenM (ps_state s \<noteq> Established) (server_note_preauth_send E (ps_endpoint s) (of_nat (sq_len p)) now)
          } else server_note_preauth_send E (sq_to p) (of_nat (sq_len p)) now);
         sv_bump ts_packets_sent_update;
         sv_add_stat ts_bytes_sent_update (of_nat (sq_len p));
         server_drop_pending i p;
         server_refresh_runtime_stats;
         ret Progressed
       }) (\<lambda>_. I)"
proof (rule hoare_bind [where T = "\<lambda>_ t. I t \<and> sv_pending t = q"])
  let ?note = "\<lambda>s. whenM (ps_state s \<noteq> Established) (server_note_preauth_send E (ps_endpoint s) (of_nat (sq_len p)) now)"
  have note1: "hoare (\<lambda>t. I t \<and> sv_pending t = q) (gets (sess k) \<bind> ?note) (\<lambda>_ t. I t \<and> sv_pending t = q)" for k
    by (rule invariant_frame) (auto intro!: invariant.keeps_rules server_keeps frame.keeps_rules
        pending_frames [unfolded frames_def] simp: frames_def)
  have note2: "hoare (\<lambda>t. I t \<and> send_part t = (q, ss)) (server_note_preauth_send E ep n now) (\<lambda>_ t. I t \<and> sv_pending t = q)" for ep n
    by (rule hoare_post [OF invariant_frame [OF _ send_frames(7)]]) (auto intro: server_keeps)
  show "hoare (\<lambda>t. I t \<and> send_part t = (q, ss)) (if owned then do {
            modify (upd_session (sq_owner_conn_id p) (\<lambda>s. s\<lparr>
              ps_send_budget_bytes := ps_send_budget_bytes s - of_nat (sq_len p), ps_last_send_ms := now\<rparr>));
            s \<leftarrow> gets (sess (sq_owner_conn_id p)); ?note s
          } else server_note_preauth_send E (sq_to p) (of_nat (sq_len p)) now) (\<lambda>_ t. I t \<and> sv_pending t = q)"
    using assms(2) by (intro hoare_if hoare_bind [OF hoare_spend note1] note2) auto
  fix x
  show "hoare (\<lambda>t. I t \<and> sv_pending t = q) (do { sv_bump ts_packets_sent_update;
      sv_add_stat ts_bytes_sent_update (of_nat (sq_len p)); server_drop_pending i p; server_refresh_runtime_stats;
      ret Progressed }) (\<lambda>_. I)"
    by (intro hoare_bind [OF invariant_frame [OF keeps_bump pending_frames(4)]]
        hoare_bind [OF invariant_frame [OF keeps_add_stat pending_frames(5)]] hoare_bind [OF hoare_drop [OF assms(1)]]
        hoare_bind [OF invariant_hoare [OF keeps_refresh]] hoare_ret)
qed

lemma hoare_flush_send:
  assumes "drop i q = p # rest"
    and "owned \<Longrightarrow> \<forall>x. map_of ss (sq_owner_conn_id p) = Some x \<longrightarrow> of_nat (sq_len p) \<le> ps_send_budget_bytes x"
  shows "hoare (\<lambda>t. I t \<and> send_part t = (q, ss)) (server_flush_send E now bb i p owned) (\<lambda>_. I)"
proof -
  let ?D = "\<lambda>cfg. (case parse_packet (Some (take (sq_len p) (sq_bytes p))) of
        Inr packet \<Rightarrow> whenM (scfg_enable_packet_debug_dumps cfg) (server_emit_packet_debug E ''send'' (sq_to p) packet)
      | Inl _ \<Rightarrow> ret ())"
  have f: "frames send_part (?D cfg)" for cfg
    unfolding frames_def by (intro frame.keeps_rules send_frames(6) [unfolded frames_def])
  have d: "K (?D cfg)" for cfg by (intro invariant.keeps_rules server_keeps)
  show ?thesis
    unfolding server_flush_send_def
    apply (rule hoare_bind [OF invariant_frame [OF invariant.keeps_gets frames_gets]])
    apply (rule hoare_bind [OF invariant_frame [OF d f]])
    apply (rule hoare_bind [OF invariant_frame [OF keeps_sock send_frames(4)]])
    apply (rule hoare_sum)
     apply (intro invariant_weak invariant.keeps_rules server_keeps)
    apply (rule hoare_sent [OF assms]; assumption)
    done
qed

lemma hoare_flush_one:
  assumes "drop i q = p # rest"
  shows "hoare (\<lambda>t. I t \<and> sv_pending t = q) (server_flush_one E now bb i p) (\<lambda>_. I)"
proof -
  have send: "hoare (\<lambda>t. I t \<and> sv_pending t = q \<and> (owned \<longrightarrow> (\<forall>x. find_session (sq_owner_conn_id p) t = Some x \<longrightarrow>
      of_nat (sq_len p) \<le> ps_send_budget_bytes x))) (server_flush_send E now bb i p owned) (\<lambda>_. I)" for owned
  proof (rule hoareI, elim conjE)
    fix s x t
    assume s: "I s" "sv_pending s = q" "owned \<longrightarrow> (\<forall>x. find_session (sq_owner_conn_id p) s = Some x \<longrightarrow>
        of_nat (sq_len p) \<le> ps_send_budget_bytes x)" and run: "run_state (server_flush_send E now bb i p owned) s = (x, t)"
    show "I t"
      by (rule hoareD [OF hoare_flush_send [OF assms, where ss = "sv_sessions s"] _ run]) (use s in \<open>simp_all add: find_session_def\<close>)
  qed
  have gone: "hoare (\<lambda>t. I t \<and> sv_pending t = q)
      (do { server_drop_pending i p; server_refresh_runtime_stats; ret Progressed }) (\<lambda>_. I)"
    by (intro hoare_bind [OF hoare_drop [OF assms]] hoare_bind [OF invariant_hoare [OF keeps_refresh]] hoare_ret)
  have owned: "hoare (\<lambda>t. I t \<and> sv_pending t = q) (do {
            server_refill_send_budget (sq_owner_conn_id p) now;
            s \<leftarrow> gets (sess (sq_owner_conn_id p));
            if ps_send_budget_bytes s < of_nat (sq_len p) then do {
              modify (upd_session (sq_owner_conn_id p) (ps_congest (cg_on_backpressure now)));
              ret (Visited True)
            } else server_flush_send E now bb i p True }) (\<lambda>_. I)"
    apply (rule hoare_bind [OF invariant_frame [OF keeps_refill pending_frames(2)]])
    apply (rule hoare_bind [where T = "\<lambda>s t. (I t \<and> sv_pending t = q) \<and> s = sess (sq_owner_conn_id p) t"])
     apply (rule hoare_gets, simp)
    apply (rule hoare_if)
     apply (rule hoare_pre [OF invariant_weak [where X = "\<lambda>_. True"]])
      apply (intro invariant.keeps_rules server_keeps)
     apply simp
    apply (rule hoare_pre [OF send])
    apply (auto simp: sess_def)
    done
  show ?thesis
    unfolding server_flush_one_def
    by (intro hoare_if hoare_bind [OF invariant_frame [OF invariant.keeps_gets frames_gets]] hoare_option gone owned
        hoare_pre [OF send [of False]]) auto
qed

lemma keeps_flush_scan:
  "hoare (\<lambda>t. I t \<and> drop i (sv_pending t) = rest) (server_flush_scan E now bb i rest) (\<lambda>_. I)"
proof (induction rest arbitrary: bb i)
  case (Cons p rest)
  have step: "hoare (\<lambda>t. I t \<and> drop i (sv_pending t) = p # rest) (server_flush_one E now bb i p)
      (\<lambda>r t. I t \<and> (\<forall>b. r = Visited b \<longrightarrow> drop (Suc i) (sv_pending t) = rest))"
  proof (rule hoareI, elim conjE)
    fix s r t
    assume s: "I s" "drop i (sv_pending s) = p # rest" and run: "run_state (server_flush_one E now bb i p) s = (r, t)"
    have "I t" by (rule hoareD [OF hoare_flush_one [OF s(2)] _ run]) (use s in simp)
    moreover have "sv_pending t = sv_pending s" if "r = Visited b" for b
      using flush_one_visited run that by blast
    ultimately show "I t \<and> (\<forall>b. r = Visited b \<longrightarrow> drop (Suc i) (sv_pending t) = rest)"
      using s(2) by (metis drop_Suc list.sel(3) tl_drop)
  qed
  show ?case
    unfolding server_flush_scan.simps
  proof (rule hoare_bind [OF step])
    fix r
    show "hoare (\<lambda>t. I t \<and> (\<forall>b. r = Visited b \<longrightarrow> drop (Suc i) (sv_pending t) = rest))
       (case r of Progressed \<Rightarrow> ret r | Visited blocked \<Rightarrow> server_flush_scan E now blocked (Suc i) rest | Returned rc \<Rightarrow> ret r) (\<lambda>_. I)"
      by (cases r) (auto intro: hoare_ret hoare_pre [OF Cons.IH])
  qed
qed (simp add: hoare_def)

lemma keeps_flush_loop [server_keeps]: "K (server_flush_loop E n)"
proof (induction n)
  case (Suc n)
  have scan: "hoare (\<lambda>t. I t \<and> sv_pending t = q) (server_flush_scan E now False 0 q) (\<lambda>_. I)" for q now
    by (rule hoare_pre [OF keeps_flush_scan]) simp
  have rest: "hoare I (case r of Progressed \<Rightarrow> server_flush_loop E n
     | Visited budget_blocked \<Rightarrow> do {
         whenM budget_blocked (do { sv_bump ts_send_budget_throttles_update; sv_bump ts_backpressure_events_update });
         server_refresh_runtime_stats;
         ret (Inr ()) }
     | Returned rc \<Rightarrow> ret rc) (\<lambda>_. I)" for r
    by (cases r) (auto intro!: invariant_hoare invariant.keeps_rules server_keeps Suc)
  show ?case
    unfolding keeping_hoare server_flush_loop.simps
    by (intro hoare_bind [OF invariant_hoare [OF keeps_now]] hoare_bind [OF hoare_gets hoare_bind [OF scan rest]]) auto
qed (simp add: invariant.keeps_ret)

lemma keeps_flush [server_keeps]: "K (server_flush_pending E)"
  unfolding server_flush_pending_def by (intro invariant.keeps_rules server_keeps)

section \<open>Receiving\<close>

lemma keeps_with_sess [server_keeps]:
  assumes "\<And>s a p t. I s \<Longrightarrow> f (get (sess k s)) s = (a, p, t) \<Longrightarrow> I t" "\<And>p x. session_step x (put p x)"
  shows "K (with_sess k get put f)"
  unfolding with_sess_def using assms
  by (intro invariant.keeps_with_part) (auto simp: keeping_def intro: k_session)

lemma keeps_resend_one [server_keeps]: "K (server_resend_one E k ch p)"
  unfolding server_resend_one_def by (intro invariant.keeps_rules server_keeps)

lemma keeps_resend_due [server_keeps]: "K (server_resend_due E k now ch)"
  unfolding server_resend_due_def
proof (rule keeps_with_sess)
  fix s a p t
  assume s: "I s" and r: "rs_resend_due now (\<lambda>c pending. run_state (server_resend_one E k ch pending) c) (ps_session ch (sess k s)) s = (a, p, t)"
  show "I t"
    by (rule rs_resend_due_pred [where P = I, OF _ r s]) (use keeps_resend_one in \<open>auto simp: keeps_def keeping_def\<close>)
qed (rule server_keeps)

lemma keeps_pump_session [server_keeps]: "K (server_pump_session E now k)"
  unfolding server_pump_session_def by (intro invariant.keeps_rules server_keeps)

lemma keeps_pump_reliable [server_keeps]: "K (server_pump_reliable E)"
  unfolding server_pump_reliable_def by (intro invariant.keeps_rules server_keeps)

lemma keeps_emit_message [server_keeps]: "K (server_emit_message E q m)"
  unfolding server_emit_message_def by (intro invariant.keeps_rules server_keeps)

lemma keeps_ordered_accept [server_keeps]: "K (server_ordered_accept E k q ds ty d n)"
  unfolding server_ordered_accept_def
proof (rule keeps_with_sess)
  fix s a p t
  assume s: "I s" and "(case ow_accept (server_deliver_ordered E q) (ps_ordered (sess k s)) (0, s) ds ty d n of
      (rc, w, j, c) \<Rightarrow> ((rc, j), w, c)) = (a, p, t)"
  then obtain rc j where o: "ow_accept (server_deliver_ordered E q) (ps_ordered (sess k s)) (0, s) ds ty d n = (rc, p, j, t)"
    by (auto split: prod.splits)
  have "I (snd (j, t))"
    by (rule ow_accept_pred [where P = "\<lambda>x. I (snd x)", OF _ o])
      (use keeps_emit_message s in \<open>auto simp: server_deliver_ordered_def keeps_def keeping_def split: prod.splits\<close>)
  then show "I t" by simp
qed (rule server_keeps)

lemma keeps_deliver [server_keeps]: "K (server_deliver_application_message E k ch ty d n ds)"
  unfolding server_deliver_application_message_def by (intro invariant.keeps_rules server_keeps)

lemma keeps_deliver_reassembled [server_keeps]: "K (server_deliver_reassembled_message E k m)"
  unfolding server_deliver_reassembled_message_def by (intro invariant.keeps_rules server_keeps)

lemma keeps_fr_accept [server_keeps]:
  "K (with_sess k ps_reassembler (\<lambda>f. ps_reassembler_update (\<lambda>_. f))
     (fr_accept now v (\<lambda>c m. run_state (server_deliver_reassembled_message E k m) c)))"
proof (rule keeps_with_sess)
  fix s a p t
  assume s: "I s" and r: "fr_accept now v (\<lambda>c m. run_state (server_deliver_reassembled_message E k m) c) (ps_reassembler (sess k s)) s = (a, p, t)"
  show "I t"
    by (rule fr_accept_pred [where P = I, OF _ r s]) (use keeps_deliver_reassembled in \<open>auto simp: keeps_def keeping_def\<close>)
qed (rule server_keeps)

lemma keeps_fragment_payload [server_keeps]: "K (server_handle_fragment_payload E k v)"
  unfolding server_handle_fragment_payload_def by (intro invariant.keeps_rules keeps_fr_accept server_keeps)

lemma keeps_bad_packet [server_keeps]: "K (server_bad_packet E k)"
  unfolding server_bad_packet_def by (intro invariant.keeps_rules server_keeps)

lemma keeps_protocol_error [server_keeps]: "K (server_protocol_error E k)"
  unfolding server_protocol_error_def by (intro invariant.keeps_rules server_keeps)

lemma keeps_take_fragment [server_keeps]: "K (server_take_fragment E k v)"
  unfolding server_take_fragment_def by (intro invariant.keeps_rules server_keeps)

lemma keeps_control [server_keeps]: "K (server_dispatch_control E k m)"
  unfolding server_dispatch_control_def by (intro invariant.keeps_rules server_keeps)

lemma keeps_deliver_or_close [server_keeps]: "K (server_deliver_or_close E k ch ty d n ds)"
  unfolding server_deliver_or_close_def by (intro invariant.keeps_rules server_keeps)

lemma keeps_deliver_reliable [server_keeps]: "K (server_deliver_reliable E k m v)"
  unfolding server_deliver_reliable_def by (intro invariant.keeps_rules server_keeps)

lemma keeps_frame [server_keeps]: "K (server_dispatch_message_frame E k m)"
  unfolding server_dispatch_message_frame_def by (intro invariant.keeps_rules server_keeps)

lemma keeps_dispatch_loop [server_keeps]: "K (server_dispatch_loop E k r)"
proof (induction r rule: measure_induct_rule [of remaining_r])
  case (less r)
  show ?case
    unfolding server_dispatch_loop.simps [of E k r]
    by (intro invariant.keeps_rules server_keeps less) (auto dest: read_message_progress)
qed

lemma keeps_dispatch_payload [server_keeps]: "K (server_dispatch_message_payload E k p n)"
  unfolding server_dispatch_message_payload_def by (intro invariant.keeps_rules server_keeps)

lemma keeps_close_frame [server_keeps]: "K (server_handle_close_frame E k c)"
  unfolding server_handle_close_frame_def by (intro invariant.keeps_rules server_keeps)

lemma keeps_plaintext [server_keeps]: "K (server_handle_plaintext E k p pt)"
  unfolding server_handle_plaintext_def by (intro invariant.keeps_rules server_keeps)

lemma keeps_session_packet_in [server_keeps]: "K (server_handle_session_packet E k p)"
  unfolding server_handle_session_packet_def by (intro invariant.keeps_rules server_keeps)

lemma keeps_close_if_known [server_keeps]: "K (server_close_if_known E k r)"
  unfolding server_close_if_known_def by (intro invariant.keeps_rules server_keeps)

lemma keeps_packet_error [server_keeps]: "K (server_packet_error E ep now k e)"
  unfolding server_packet_error_def by (intro invariant.keeps_rules server_keeps)

lemma keeps_route_packet [server_keeps]: "K (server_route_packet E ep p)"
  unfolding server_route_packet_def by (intro invariant.keeps_rules server_keeps)

lemma keeps_try_resume [server_keeps]: "K (server_try_resume E ep h now)"
  unfolding server_try_resume_def by (intro invariant.keeps_rules server_keeps)

lemma keeps_retry_gate [server_keeps]: "K (server_retry_gate E ep h now)"
  unfolding server_retry_gate_def by (intro invariant.keeps_rules server_keeps)

lemma keeps_capacity_gate [server_keeps]: "K (server_capacity_gate E ep)"
  unfolding server_capacity_gate_def by (intro invariant.keeps_rules server_keeps)

section \<open>New sessions\<close>

lemma hoare_vacant:
  assumes "K m" "frames table_part m"
  shows "hoare (\<lambda>t. I t \<and> vacant ep k t) m (\<lambda>_ t. I t \<and> vacant ep k t)"
proof (rule hoareI, elim conjE)
  fix s x t assume "I s" "vacant ep k s" and run: "run_state m s = (x, t)"
  then show "I t \<and> vacant ep k t"
    using keepsD [OF assms(1) run] keepsD [OF assms(2) [unfolded frames_def] run] k_vacant by (simp add: keeping_def)
qed

lemma hoare_callback_vacant:
  "hoare (\<lambda>t. I t \<and> vacant ep k t) (notify (se_on_peer_state_change E) (\<lambda>f. f q a b)) (\<lambda>_ t. I t \<and> vacant ep k t)"
proof (rule hoareI, elim conjE)
  fix s x t
  assume s: "I s" "vacant ep k s" and run: "run_state (notify (se_on_peer_state_change E) (\<lambda>f. f q a b)) s = (x, t)"
  have "vacant ep k t"
    using s(2) run k_vacant_callback by (auto simp: run_notify split: option.splits)
  then show "I t \<and> vacant ep k t"
    using keepsD [OF notify_keeps(9) run] s(1) by (simp add: keeping_def)
qed

lemma hoare_announced:
  "hoare (\<lambda>t. I t \<and> vacant ep k t) (server_state_changed E q a Handshaking r) (\<lambda>_ t. I t \<and> vacant ep k t)"
  unfolding server_state_changed_def whenM_def
  by (simp, intro hoare_bind [OF hoare_vacant [OF keeps_bump table_frames(1)]]
      hoare_bind [OF hoare_vacant [OF keeps_refresh table_frames(2)]]
      hoare_bind [OF hoare_vacant [OF keeps_log table_frames(3)]] hoare_callback_vacant)

lemma hoare_store:
  assumes "fit x"
  shows "hoare (\<lambda>t. I t \<and> vacant (ps_endpoint x) (Some (ps_conn_id x)) t)
    (server_store_session E draws (ps_endpoint x) x) (\<lambda>_. I)"
proof -
  let ?y = "x\<lparr>ps_state := Handshaking\<rparr>"
  have y: "fit ?y" by (rule k_fit [OF assms]) (simp add: session_step_fields)
  have stored: "hoare (\<lambda>t. \<exists>u. I u \<and> vacant (ps_endpoint x) (Some (ps_conn_id x)) u \<and>
        t = sv_endpoint_to_conn_update (ep_assign (ps_endpoint x) (ps_conn_id x)) u)
      (modify (sv_sessions_update (\<lambda>m. if map_of m (ps_conn_id x) = None then m @ [(ps_conn_id x, ?y)] else m))) (\<lambda>_. I)"
  proof (rule hoare_modify, elim exE conjE)
    fix t u
    assume u: "I u" "vacant (ps_endpoint x) (Some (ps_conn_id x)) u"
      and t: "t = sv_endpoint_to_conn_update (ep_assign (ps_endpoint x) (ps_conn_id x)) u"
    have "I (sv_stored (ps_endpoint x) ?y u)" using k_store [of ?y u] y u by simp
    then show "I (sv_sessions_update (\<lambda>m. if map_of m (ps_conn_id x) = None then m @ [(ps_conn_id x, ?y)] else m) t)"
      unfolding t sv_stored_def by (cases u) (simp cong: if_cong)
  qed
  show ?thesis
    unfolding server_store_session_def Let_def
    apply (rule hoare_bind [OF hoare_announced])
    apply (rule hoare_bind [OF hoare_modify [where Q = "\<lambda>_ t. \<exists>u. I u \<and> vacant (ps_endpoint x) (Some (ps_conn_id x)) u \<and>
        t = sv_endpoint_to_conn_update (ep_assign (ps_endpoint x) (ps_conn_id x)) u"]])
     apply blast
    apply (rule hoare_bind [OF stored])
    apply (rule invariant_hoare)
    apply (intro invariant.keeps_rules server_keeps)
    done
qed

lemma hoare_replace:
  "hoare (\<lambda>t. I t \<and> length (sv_sessions t) < scfg_max_peer_sessions (sv_config t) \<and> x = find_session_by_endpoint ep t)
     (case x of Some s \<Rightarrow> server_evict_session (ps_conn_id s) | None \<Rightarrow> ret ()) (\<lambda>_ t. I t \<and> vacant ep None t)"
proof (cases x)
  case None
  then show ?thesis by (auto intro!: hoare_ret k_free simp: vacant_slot_def)
next
  case (Some y)
  have after: "hoare (\<lambda>t. I t \<and> vacant ep None t)
      (do { sv_bump ts_peers_evicted_update; server_refresh_runtime_stats }) (\<lambda>_ t. I t \<and> vacant ep None t)"
    by (intro hoare_bind [OF hoare_vacant [OF keeps_bump table_frames(1)]] hoare_vacant [OF keeps_refresh table_frames(2)])
  show ?thesis
    unfolding Some option.case
  proof (rule hoareI, elim conjE)
    fix s u t
    assume s: "I s" "length (sv_sessions s) < scfg_max_peer_sessions (sv_config s)" "Some y = find_session_by_endpoint ep s"
      and run: "run_state (server_evict_session (ps_conn_id y)) s = (u, t)"
    note vac = k_replaced [OF s(1,2) s(3) [symmetric]]
    show "I t \<and> vacant ep None t"
    proof (cases "find_session (ps_conn_id y) s")
      case None
      then show ?thesis using vac run s(1) by (simp add: run_evict)
    next
      case (Some z)
      then show ?thesis
        using hoareD [OF after, of "sv_evicted (ps_conn_id y) z s" u t] vac k_evict [OF Some s(1)] run
        by (simp add: run_evict)
    qed
  qed
qed

lemma hoare_allocate:
  "hoare (\<lambda>t. I t \<and> vacant ep None t) (server_allocate_conn_id E draws)
     (\<lambda>r t. I t \<and> (\<forall>c. r = Some c \<longrightarrow> c \<noteq> 0 \<and> vacant ep (Some c) t))"
proof (rule hoareI, elim conjE)
  fix s r t
  assume s: "I s" "vacant ep None s" and run: "run_state (server_allocate_conn_id E draws) s = (r, t)"
  have "I t" using keepsD [OF keeps_allocate run] s(1) by (simp add: keeping_def)
  moreover have "c \<noteq> 0 \<and> vacant ep (Some c) t" if c: "r = Some c" for c
  proof -
    obtain w where d: "draw_u64 (se_sodium E) (\<lambda>c. c \<noteq> 0 \<and> find_session c s = None) draws (sv_world s) = (Some c, w)"
      and t: "t = s\<lparr>sv_world := w\<rparr>"
      using run c by (auto simp: server_allocate_conn_id_def sv_on_world_def run_simps split: prod.splits)
    from draw_u64_good [OF d] have "c \<noteq> 0" "vacant ep (Some c) s" using k_vacate [OF s(2)] by simp_all
    then show ?thesis using k_vacant [of ep "Some c" s t] t by simp
  qed
  ultimately show "I t \<and> (\<forall>c. r = Some c \<longrightarrow> c \<noteq> 0 \<and> vacant ep (Some c) t)" by blast
qed

lemma hoare_exchange:
  assumes "fit x"
  shows "hoare (\<lambda>t. I t \<and> vacant (ps_endpoint x) (Some (ps_conn_id x)) t) (sv_on_world (exchange_keys (se_sodium E) x))
     (\<lambda>r t. I t \<and> (\<forall>y. r = Inr y \<longrightarrow> fit y \<and> ps_endpoint y = ps_endpoint x \<and> vacant (ps_endpoint y) (Some (ps_conn_id y)) t))"
  using hoare_conj [OF hoare_vacant [OF keeps_world table_frames(4)] on_world_value]
proof (rule hoare_post, elim conjE exE)
  fix r t w
  assume t: "I t" "vacant (ps_endpoint x) (Some (ps_conn_id x)) t" and r: "r = fst (exchange_keys (se_sodium E) x w)"
  have "fit y \<and> ps_endpoint y = ps_endpoint x \<and> ps_conn_id y = ps_conn_id x" if "r = Inr y" for y
  proof -
    have "session_step x y" "ps_conn_id y = ps_conn_id x"
      using exchange_keys_step [of "se_sodium E" x w y "snd (exchange_keys (se_sodium E) x w)"] r that
      by (simp_all add: prod_eq_iff)
    then show ?thesis using k_fit [OF assms, of y] session_step_def by blast
  qed
  then show "I t \<and> (\<forall>y. r = Inr y \<longrightarrow> fit y \<and> ps_endpoint y = ps_endpoint x \<and> vacant (ps_endpoint y) (Some (ps_conn_id y)) t)"
    using t by metis
qed

lemma keeps_take_peer [server_keeps]: "K take_peer_id"
  unfolding take_peer_id_def by (intro invariant.keeps_rules server_keeps invariant_modify k_peer)

lemma hoare_exchanged:
  assumes "ep = ps_endpoint x"
  shows "hoare (\<lambda>t. I t \<and> (\<forall>z. rc = Inr z \<longrightarrow> fit z \<and> ps_endpoint z = ps_endpoint x \<and> vacant (ps_endpoint z) (Some (ps_conn_id z)) t))
    (case rc of Inl e \<Rightarrow> ret (Some (Inl e)) | Inr s \<Rightarrow> server_store_session E draws ep s) (\<lambda>_. I)"
proof (cases rc)
  case (Inl e)
  then show ?thesis by (simp add: hoare_ret)
next
  case (Inr z)
  show ?thesis
  proof (cases "fit z \<and> ps_endpoint z = ps_endpoint x")
    case True
    then show ?thesis using hoare_store [of z draws] assms Inr by (auto intro: hoare_pre)
  qed (auto simp: Inr hoare_def)
qed

lemma hoare_keyed:
  assumes "fit x" "ps_endpoint x = ep" "ps_conn_id x = c"
  shows "hoare (\<lambda>t. I t \<and> vacant ep (Some c) t) (do {
       nonce \<leftarrow> sv_on_world f;
       rc \<leftarrow> sv_on_world (exchange_keys (se_sodium E) (x\<lparr>ps_server_nonce := the nonce\<rparr>));
       case rc of Inl e \<Rightarrow> ret (Some (Inl e)) | Inr s \<Rightarrow> server_store_session E draws ep s }) (\<lambda>_. I)"
proof (rule hoare_bind [OF hoare_vacant [OF keeps_world table_frames(4)]])
  fix nonce
  let ?y = "x\<lparr>ps_server_nonce := the nonce\<rparr>"
  have y: "fit ?y" by (rule k_fit [OF assms(1)]) (simp add: session_step_def session_ok_def)
  show "hoare (\<lambda>t. I t \<and> vacant ep (Some c) t) (do {
      rc \<leftarrow> sv_on_world (exchange_keys (se_sodium E) ?y);
      case rc of Inl e \<Rightarrow> ret (Some (Inl e)) | Inr s \<Rightarrow> server_store_session E draws ep s }) (\<lambda>_. I)"
    using hoare_bind [OF hoare_exchange [OF y] hoare_exchanged [where x = ?y]] assms by simp
qed

lemma hoare_open:
  "hoare (\<lambda>t. I t \<and> length (sv_sessions t) < scfg_max_peer_sessions (sv_config t))
     (server_open_session E draws ep h r now) (\<lambda>_. I)"
proof -
  let ?new = "\<lambda>cfg c p. new_session cfg ep h r now c p"
  have opened: "hoare (\<lambda>t. I t \<and> (\<forall>c. Some cid = Some c \<longrightarrow> c \<noteq> 0 \<and> vacant ep (Some c) t)) (do {
       peer_id \<leftarrow> take_peer_id;
       cfg \<leftarrow> gets sv_config;
       nonce \<leftarrow> sv_on_world (crypto_random_bytes (se_sodium E) (Some (ps_server_nonce (?new cfg cid peer_id))) ServerNonceBytes);
       rc \<leftarrow> sv_on_world (exchange_keys (se_sodium E) ((?new cfg cid peer_id)\<lparr>ps_server_nonce := the nonce\<rparr>));
       case rc of Inl e \<Rightarrow> ret (Some (Inl e)) | Inr s \<Rightarrow> server_store_session E draws ep s }) (\<lambda>_. I)" for cid
  proof (cases "cid = 0")
    case False
    have fit: "hoare (\<lambda>t. I t \<and> vacant ep (Some cid) t) (gets sv_config)
        (\<lambda>cfg t. (I t \<and> vacant ep (Some cid) t) \<and> fit (?new cfg cid p))" for p
      by (rule hoare_gets) (simp add: k_new False)
    have peer: "hoare (\<lambda>t. I t \<and> (\<forall>c. Some cid = Some c \<longrightarrow> c \<noteq> 0 \<and> vacant ep (Some c) t)) take_peer_id
        (\<lambda>_ t. I t \<and> vacant ep (Some cid) t)"
      by (rule hoare_pre [OF hoare_vacant [OF keeps_take_peer table_frames(5)]]) simp
    show ?thesis
      by (rule hoare_bind [OF peer hoare_bind [OF fit hoare_assume [OF hoare_keyed]]]) simp_all
  qed (simp add: hoare_def)
  show ?thesis
    unfolding server_open_session_def Let_def
    by (rule hoare_bind [OF hoare_gets hoare_bind [OF hoare_replace hoare_returns [OF hoare_allocate _ opened]]]) simp_all
qed

lemma gate_open: "K (do {
    verdict \<leftarrow> server_capacity_gate E ep;
    case verdict of Some rc \<Rightarrow> ret (Some rc) | None \<Rightarrow> server_open_session E draws ep h r now })"
proof -
  have gate: "hoare I (server_capacity_gate E ep)
      (\<lambda>v t. I t \<and> (v = None \<longrightarrow> length (sv_sessions t) < scfg_max_peer_sessions (sv_config t)))"
  proof -
    have "hoare I (server_capacity_gate E ep)
        (\<lambda>v t. v = None \<longrightarrow> length (sv_sessions t) < scfg_max_peer_sessions (sv_config t))"
      unfolding server_capacity_gate_def
      apply (rule hoare_bind [OF invariant_hoare [OF keeps_evict_stale]])
      apply (rule hoare_bind [OF hoare_gets [where Q = "\<lambda>x t. x = t"]], simp)
      apply (rule hoare_if)
       apply (rule hoare_post [OF yields_hoare [where P = "\<lambda>v. v \<noteq> None"]])
        apply (intro yields_rules, simp)
       apply blast
      apply (rule hoare_if)
       apply (rule hoare_post [OF yields_hoare [where P = "\<lambda>v. v \<noteq> None"]])
        apply (intro yields_rules, simp)
       apply blast
      apply (rule hoare_ret, simp)
      done
    then show ?thesis using hoare_conj [OF invariant_hoare [OF keeps_capacity_gate]] by blast
  qed
  show ?thesis
    unfolding keeping_hoare
  proof (rule hoare_bind [OF gate])
    fix v
    show "hoare (\<lambda>t. I t \<and> (v = None \<longrightarrow> length (sv_sessions t) < scfg_max_peer_sessions (sv_config t)))
        (case v of Some rc \<Rightarrow> ret (Some rc) | None \<Rightarrow> server_open_session E draws ep h r now) (\<lambda>_. I)"
      by (cases v) (auto intro: hoare_ret hoare_pre [OF hoare_open])
  qed
qed

lemma keeps_client_hello [server_keeps]: "K (server_handle_client_hello E draws ep h)"
  unfolding server_handle_client_hello_def by (intro gate_open invariant.keeps_rules server_keeps)

lemma keeps_handshake [server_keeps]: "K (server_handle_handshake_packet E draws ep p)"
  unfolding server_handle_handshake_packet_def by (intro invariant.keeps_rules server_keeps)

lemma keeps_handle_packet [server_keeps]: "K (server_handle_packet E draws ep p)"
  unfolding server_handle_packet_def by (intro invariant.keeps_rules server_keeps)

lemma keeps_note_receive [server_keeps]: "K (server_note_receive E ep n)"
  unfolding server_note_receive_def by (intro invariant.keeps_rules server_keeps)

lemma keeps_reject [server_keeps]: "K (server_reject_datagram E ep n e)"
  unfolding server_reject_datagram_def by (intro invariant.keeps_rules server_keeps)

lemma keeps_pump_receive [server_keeps]: "K (server_pump_receive E draws fuel)"
  by (induction fuel) (simp add: invariant.keeps_ret, unfold server_pump_receive.simps,
      intro invariant.keeps_rules server_keeps)

lemma keeps_expire [server_keeps]:
  "K (with_sess k ps_reassembler (\<lambda>f. ps_reassembler_update (\<lambda>_. f)) (\<lambda>f s. ((), fr_expire_old now server_on_expire f s)))"
proof (rule keeps_with_sess)
  have "K (do { sv_bump ts_reassemblies_expired_update; sv_bump ts_reassembly_drops_update })"
    by (intro invariant.keeps_rules server_keeps)
  then have e: "I s \<Longrightarrow> I (server_on_expire s i)" for s i
    by (simp add: server_on_expire_def keeps_def keeping_def)
  fix s t :: "'w Server" and a :: unit and p
  assume s: "I s" and "((), fr_expire_old now server_on_expire (ps_reassembler (sess k s)) s) = (a, p, t)"
  then have r: "fr_expire_old now server_on_expire (ps_reassembler (sess k s)) s = (p, t)" by simp
  show "I t" by (rule fr_expire_old_pred [where P = I, OF e r s])
qed (rule server_keeps)

lemma keeps_keep_session [server_keeps]: "K (server_keep_session E now k)"
  unfolding server_keep_session_def by (intro keeps_expire invariant.keeps_rules server_keeps)

lemma keeps_housekeeping [server_keeps]: "K (server_run_housekeeping E)"
proof -
  have "I (s\<lparr>sv_preauth := a, sv_ip_abuse := b\<rparr>)" if "I s" for s a b
    using k_hosts(1) [OF k_hosts(2) [OF that], of "\<lambda>_. b" "\<lambda>_. a"] by simp
  then show ?thesis
    unfolding server_run_housekeeping_def by (intro invariant.keeps_rules server_keeps invariant_modify)
qed

lemma keeps_tick [server_keeps]: "K (server_tick E draws fuel)"
  unfolding server_tick_def by (intro invariant.keeps_rules server_keeps)

lemma keeps_reset_stats [server_keeps]: "K server_reset_stats"
  unfolding server_reset_stats_def by (intro invariant.keeps_rules server_keeps invariant_modify k_stats)

end

section \<open>Any call\<close>

datatype server_op =
    SvListen Endpoint
  | SvListenPort string
  | SvStop
  | SvTick nat nat
  | SvSend Peer SendOptions U8 "U8 list"
  | SvSendMessage Peer Channel U8 "U8 list option" U16
  | SvSendPayload Peer "U8 list option" nat
  | SvSendText Peer U8 "U8 list" SendOptions
  | SvBroadcast SendOptions U8 "U8 list"
  | SvBroadcastExcept Peer SendOptions U8 "U8 list"
  | SvClosePeer Peer CloseReason
  | SvSetUserData Peer U64
  | SvResetStats

fun server_exec :: "'w senv \<Rightarrow> server_op \<Rightarrow> 'w Server \<Rightarrow> 'w Server" where
  "server_exec E (SvListen ep) sv = snd (run_state (server_listen E ep) sv)"
| "server_exec E (SvListenPort port) sv = snd (run_state (server_listen_port E port) sv)"
| "server_exec E SvStop sv = snd (run_state (server_stop E) sv)"
| "server_exec E (SvTick draws fuel) sv = snd (run_state (server_tick E draws fuel) sv)"
| "server_exec E (SvSend peer options type payload) sv = snd (run_state (server_send E peer options type payload) sv)"
| "server_exec E (SvSendMessage peer channel type data len) sv =
     snd (run_state (server_send_message E peer channel type data len) sv)"
| "server_exec E (SvSendPayload peer data len) sv = snd (run_state (server_send_payload E peer data len) sv)"
| "server_exec E (SvSendText peer type text options) sv = snd (run_state (server_send_text E peer type text options) sv)"
| "server_exec E (SvBroadcast options type payload) sv = snd (run_state (server_broadcast E options type payload) sv)"
| "server_exec E (SvBroadcastExcept peer options type payload) sv =
     snd (run_state (server_broadcast_except E peer options type payload) sv)"
| "server_exec E (SvClosePeer peer reason) sv = snd (run_state (server_close_peer E peer reason) sv)"
| "server_exec E (SvSetUserData peer user_data) sv = snd (run_state (server_set_peer_user_data peer user_data) sv)"
| "server_exec E SvResetStats sv = snd (run_state server_reset_stats sv)"

context server_kept
begin

lemma exec_kept: "I sv \<Longrightarrow> I (server_exec E op sv)"
proof -
  have "keeping I sv (server_exec E op sv)"
    by (cases op; simp only: server_exec.simps; rule keeps_run [where R = "keeping I"]; rule server_keeps)
  then show "I sv \<Longrightarrow> I (server_exec E op sv)" by (simp add: keeping_def)
qed

end

section \<open>The invariant\<close>

text \<open>
  The send queue: its byte count is exact, it has at most the configured number of packets, it is
  ordered by priority, and every packet in it was built whole.
\<close>

definition server_queue_ok :: "'w Server \<Rightarrow> bool" where
  "server_queue_ok sv \<longleftrightarrow>
     sv_pending_bytes sv = sum_list (map sq_len (sv_pending sv)) \<and>
     length (sv_pending sv) \<le> unat (scfg_max_pending_packets (sv_config sv)) \<and>
     sorted_wrt (\<lambda>a b. priority_value (sq_priority b) \<le> priority_value (sq_priority a)) (sv_pending sv) \<and>
     list_all sq_built (sv_pending sv)"

text \<open>
  The table: no two sessions have the same id or the same endpoint, the index by endpoint has exactly
  the entry of each session, and each session is in order.
\<close>

definition table_ok :: "(U64 \<times> PeerSession) list \<Rightarrow> (Endpoint \<times> U64) list \<Rightarrow> bool" where
  "table_ok ss index \<longleftrightarrow>
     index = map (\<lambda>(k, s). (ps_endpoint s, k)) ss \<and> distinct (map fst ss) \<and>
     sorted_wrt (\<lambda>a b. \<not> ep_eq (ps_endpoint (snd a)) (ps_endpoint (snd b))) ss \<and>
     list_all (\<lambda>(k, s). session_ok k s) ss"

definition server_table_ok :: "'w Server \<Rightarrow> bool" where
  "server_table_ok sv \<longleftrightarrow>
     table_ok (sv_sessions sv) (sv_endpoint_to_conn sv) \<and>
     length (sv_sessions sv) \<le> scfg_max_peer_sessions (sv_config sv)"

definition server_inv :: "'w Server \<Rightarrow> bool" where
  "server_inv sv \<longleftrightarrow>
     validate_server_config (sv_config sv) = Inr () \<and> server_queue_ok sv \<and> server_table_ok sv"

lemma table_ok_map:
  assumes "table_ok ss index" "\<And>k s. (k, s) \<in> set ss \<Longrightarrow> session_step s (g k s)"
  shows "table_ok (map (\<lambda>(k, s). (k, g k s)) ss) index"
proof -
  have same: "ps_endpoint (g k s) = ps_endpoint s" if "(k, s) \<in> set ss" for k s
    using assms(2) [OF that] by (simp add: session_step_def)
  have "sorted_wrt (\<lambda>a b. \<not> ep_eq (ps_endpoint (g (fst a) (snd a))) (ps_endpoint (g (fst b) (snd b)))) ss"
    by (rule sorted_wrt_mono_rel [where P = "\<lambda>a b. \<not> ep_eq (ps_endpoint (snd a)) (ps_endpoint (snd b))"])
      (use assms(1) in \<open>auto simp: same table_ok_def\<close>)
  moreover have "list_all (\<lambda>(k, s). session_ok k (g k s)) ss"
    using assms by (fastforce simp: list_all_iff table_ok_def session_step_def)
  ultimately show ?thesis
    using assms(1) by (auto simp: table_ok_def same sorted_wrt_map o_def split_beta list_all_iff)
qed

lemma map_entry_distinct:
  "distinct (map fst m) \<Longrightarrow> AList.map_entry k f m = map (\<lambda>(l, x). (l, if l = k then f x else x)) m"
proof (induction m)
  case (Cons p m)
  have "map (\<lambda>(l, x). (l, if l = k then f x else x)) m = m" if "k \<notin> fst ` set m"
    using that by (intro map_idI) force
  then show ?case using Cons by (cases p) auto
qed simp

lemma length_map_entry [simp]: "length (AList.map_entry k f m) = length m"
  by (induction m) auto

lemma table_ok_upd:
  assumes "table_ok ss index" "\<And>x. map_of ss k = Some x \<Longrightarrow> session_step x (f x)"
  shows "table_ok (AList.map_entry k f ss) index"
proof -
  have d: "distinct (map fst ss)" using assms(1) by (simp add: table_ok_def)
  then have "session_step x (if l = k then f x else x)" if "(l, x) \<in> set ss" for l x
    using assms(2) [of x] that by (auto simp: session_step_refl)
  then show ?thesis
    using table_ok_map [OF assms(1)] by (simp add: map_entry_distinct [OF d])
qed

lemma table_ok_same:
  assumes "table_ok ss index" "(k, x) \<in> set ss" "(l, y) \<in> set ss"
  shows "ep_eq (ps_endpoint y) (ps_endpoint x) \<longleftrightarrow> l = k"
proof
  assume eq: "ep_eq (ps_endpoint y) (ps_endpoint x)"
  obtain i j where ij: "i < length ss" "ss ! i = (k, x)" "j < length ss" "ss ! j = (l, y)"
    using assms(2,3) by (metis in_set_conv_nth)
  have "i = j"
  proof (rule ccontr)
    assume "i \<noteq> j"
    then have "i < j \<or> j < i" by arith
    moreover have "\<not> ep_eq (ps_endpoint (snd (ss ! a))) (ps_endpoint (snd (ss ! b)))" if "a < b" "b < length ss" for a b
      using assms(1) sorted_wrt_nth_less that by (fastforce simp: table_ok_def)
    from this [of i j] this [of j i] have "\<not> i < j" "\<not> j < i"
      using ij eq ep_eq_sym [OF eq] by auto
    ultimately show False by blast
  qed
  then show "l = k" using ij by simp
next
  assume "l = k"
  then have "y = x" using assms by (auto simp: table_ok_def dest: eq_key_imp_eq_value)
  then show "ep_eq (ps_endpoint y) (ps_endpoint x)" by simp
qed

lemma table_ok_filter: "table_ok ss index \<Longrightarrow> table_ok (filter P ss) (map (\<lambda>(k, s). (ps_endpoint s, k)) (filter P ss))"
  by (auto simp: table_ok_def distinct_map_filter sorted_wrt_filter list_all_iff)

lemma table_ok_evict:
  assumes "table_ok ss index" "map_of ss k = Some x"
  shows "table_ok (AList.delete k (AList.map_entry k g ss)) (ep_erase (ps_endpoint x) index)"
proof -
  have deleted: "AList.delete k m = filter (\<lambda>p. fst p \<noteq> k) m" for m :: "(U64 \<times> PeerSession) list"
    by (induction m) auto
  have "AList.delete k (AList.map_entry k g ss) = filter (\<lambda>p. fst p \<noteq> k) ss"
    by (induction ss) (auto simp: deleted)
  moreover have "ep_erase (ps_endpoint x) index = map (\<lambda>(k, s). (ps_endpoint s, k)) (filter (\<lambda>p. fst p \<noteq> k) ss)"
    using assms(1) table_ok_same [OF assms(1) map_of_SomeD [OF assms(2)]]
    by (auto simp: ep_erase_def table_ok_def filter_map o_def split_beta intro!: arg_cong [where f = "map _"] filter_cong)
  ultimately show ?thesis using table_ok_filter [OF assms(1)] by simp
qed

lemma ep_assign_new: "\<forall>p\<in>set m. \<not> ep_eq (fst p) ep \<Longrightarrow> ep_assign ep v m = m @ [(ep, v)]"
  by (induction m) auto

lemma ep_lookup_None: "ep_lookup m ep = None \<longleftrightarrow> (\<forall>p\<in>set m. \<not> ep_eq (fst p) ep)"
  by (auto simp: ep_lookup_def find_None_iff)

lemma table_ok_store:
  assumes "table_ok ss index" "map_of ss k = None" "ep_lookup index (ps_endpoint x) = None" "session_ok k x"
  shows "table_ok (ss @ [(k, x)]) (ep_assign (ps_endpoint x) k index)"
  using assms
  by (auto simp: table_ok_def ep_lookup_None ep_assign_new sorted_wrt_append map_of_eq_None_iff split_beta)

text \<open>The lookup by endpoint finds a session exactly when the index has the endpoint.\<close>

lemma table_found:
  assumes "table_ok (sv_sessions sv) (sv_endpoint_to_conn sv)"
  shows "find_session_by_endpoint ep sv = None \<longleftrightarrow> ep_lookup (sv_endpoint_to_conn sv) ep = None"
    and "find_session_by_endpoint ep sv = Some x \<Longrightarrow>
      find_session (ps_conn_id x) sv = Some x \<and> ep_eq (ps_endpoint x) ep"
proof -
  let ?ss = "sv_sessions sv"
  have index: "sv_endpoint_to_conn sv = map (\<lambda>(k, s). (ps_endpoint s, k)) ?ss"
    and d: "distinct (map fst ?ss)" and ok: "\<And>k s. (k, s) \<in> set ?ss \<Longrightarrow> session_ok k s"
    using assms by (auto simp: table_ok_def list_all_iff)
  have found: "\<exists>y. find_session k sv = Some y \<and> ep_eq (ps_endpoint y) ep \<and> ps_conn_id y = k"
    if "ep_lookup (sv_endpoint_to_conn sv) ep = Some k" for k
  proof -
    from that obtain e where "find (\<lambda>(k, v). ep_eq k ep) (sv_endpoint_to_conn sv) = Some (e, k)"
      by (auto simp: ep_lookup_def)
    then have "(e, k) \<in> set (sv_endpoint_to_conn sv)" "ep_eq e ep"
      by (auto simp: find_Some_iff in_set_conv_nth)
    then obtain y where "(k, y) \<in> set ?ss" "ps_endpoint y = e" by (auto simp: index)
    with d ok \<open>ep_eq e ep\<close> show ?thesis by (auto simp: find_session_def session_ok_def)
  qed
  then show "find_session_by_endpoint ep sv = None \<longleftrightarrow> ep_lookup (sv_endpoint_to_conn sv) ep = None"
    by (fastforce simp: find_session_by_endpoint_def split: option.splits)
  show "find_session_by_endpoint ep sv = Some x \<Longrightarrow> find_session (ps_conn_id x) sv = Some x \<and> ep_eq (ps_endpoint x) ep"
    using found by (fastforce simp: find_session_by_endpoint_def split: option.splits)
qed

text \<open>
  What a callback may do: anything that keeps the invariant; the callback of a state change leaves the
  ids of the table, the index and the configuration alone, for it runs between the moment a place in
  the table was found for a session and the moment the session is stored there.
\<close>

definition table_keys :: "'w Server \<Rightarrow> U64 list \<times> (Endpoint \<times> U64) list \<times> ServerConfig" where
  "table_keys sv = (map fst (sv_sessions sv), sv_endpoint_to_conn sv, sv_config sv)"

definition server_callbacks_ok :: "'w senv \<Rightarrow> bool" where
  "server_callbacks_ok E \<longleftrightarrow> server_callbacks_keep (keeping server_inv) E \<and>
     (\<forall>f p a b sv. se_on_peer_state_change E = Some f \<longrightarrow> table_keys (f p a b sv) = table_keys sv)"

definition vacancy :: "Endpoint \<Rightarrow> U64 option \<Rightarrow> 'w Server \<Rightarrow> bool" where
  "vacancy ep k sv \<longleftrightarrow> vacant_slot ep sv \<and> (\<forall>c. k = Some c \<longrightarrow> find_session c sv = None)"

lemma vacancy_keys:
  assumes "table_keys t = table_keys s"
  shows "vacancy ep k t = vacancy ep k s"
proof -
  have "map fst (sv_sessions t) = map fst (sv_sessions s)" using assms by (simp add: table_keys_def)
  then have "length (sv_sessions t) = length (sv_sessions s)" "(find_session c t = None) = (find_session c s = None)" for c
    by (metis length_map, metis find_session_def map_of_eq_None_iff list.set_map)
  then show ?thesis
    using assms by (auto simp: vacancy_def vacant_slot_def find_session_by_endpoint_def table_keys_def split: option.split)
qed

lemma server_inv_fields:
  "server_inv (sv_stats_update f1 s) = server_inv s" "server_inv (sv_world_update f2 s) = server_inv s"
  "server_inv (sv_sock_update f3 s) = server_inv s" "server_inv (sv_cookie_secret_update f4 s) = server_inv s"
  "server_inv (sv_stateless_seq_update f5 s) = server_inv s" "server_inv (sv_next_peer_id_update f6 s) = server_inv s"
  "server_inv (sv_ip_abuse_update f7 s) = server_inv s" "server_inv (sv_preauth_update f8 s) = server_inv s"
  by (simp_all add: server_inv_def server_queue_ok_def server_table_ok_def)

lemma server_inv_upd:
  "(\<And>x. find_session k s = Some x \<Longrightarrow> session_step x (f x)) \<Longrightarrow> server_inv s \<Longrightarrow> server_inv (upd_session k f s)"
  using table_ok_upd [of "sv_sessions s" "sv_endpoint_to_conn s" k f]
  by (auto simp: server_inv_def server_queue_ok_def server_table_ok_def upd_session_def find_session_def)

lemma server_inv_evict: "find_session k s = Some x \<Longrightarrow> server_inv s \<Longrightarrow> server_inv (sv_evicted k x s)"
  using table_ok_evict [of "sv_sessions s" "sv_endpoint_to_conn s" k x ps_wiped]
    length_delete_le [of k "AList.map_entry k ps_wiped (sv_sessions s)"]
  by (auto simp: server_inv_def server_queue_ok_def server_table_ok_def sv_evicted_def find_session_def)

lemma server_inv_wipe: "server_inv s \<Longrightarrow> server_inv (sv_sessions_update (map (\<lambda>(k, x). (k, ps_wiped x))) s)"
  using table_ok_map [of "sv_sessions s" "sv_endpoint_to_conn s" "\<lambda>_. ps_wiped"] session_step_wiped
  by (auto simp: server_inv_def server_queue_ok_def server_table_ok_def)

lemma server_inv_empty:
  "server_inv s \<Longrightarrow> server_inv (s\<lparr>sv_pending := [], sv_pending_bytes := 0, sv_sessions := [], sv_endpoint_to_conn := []\<rparr>)"
  by (simp add: server_inv_def server_queue_ok_def server_table_ok_def table_ok_def)

lemma server_inv_enqueue:
  "length (sv_pending s) < unat (scfg_max_pending_packets (sv_config s)) \<Longrightarrow> sq_built p \<Longrightarrow>
   server_inv s \<Longrightarrow> server_inv (sv_with_pending p s)"
  by (simp add: server_inv_def server_queue_ok_def server_table_ok_def sv_with_pending_def insert_prio_sorted
      list_all_iff add.commute)

lemma server_inv_dequeue:
  assumes "i < length (sv_pending s)" "server_inv s"
  shows "server_inv (sv_without_pending i s)"
proof -
  let ?q = "sv_pending s"
  have q: "?q = take i ?q @ ?q ! i # drop (Suc i) ?q" using assms(1) by (rule id_take_nth_drop)
  have sorted: "sorted_wrt P ?q \<Longrightarrow> sorted_wrt P (take i ?q @ drop (Suc i) ?q)" for P
    by (subst (asm) q) (auto simp: sorted_wrt_append)
  have all: "list_all sq_built ?q \<Longrightarrow> list_all sq_built (take i ?q @ drop (Suc i) ?q)"
    by (subst (asm) q) auto
  have "sum_list (map sq_len ?q) = sum_list (map sq_len (take i ?q @ drop (Suc i) ?q)) + sq_len (?q ! i)"
    by (subst q) simp
  moreover have "length (take i ?q @ drop (Suc i) ?q) \<le> length ?q" using assms(1) by simp
  ultimately show ?thesis
    using assms(2) sorted all
    by (simp add: server_inv_def server_queue_ok_def server_table_ok_def sv_without_pending_def)
qed

lemma server_inv_replaced:
  assumes "server_inv s" "length (sv_sessions s) < scfg_max_peer_sessions (sv_config s)" "find_session_by_endpoint ep s = Some x"
  shows "find_session (ps_conn_id x) s = Some x" "vacancy ep None (sv_evicted (ps_conn_id x) x s)"
proof -
  let ?t = "sv_evicted (ps_conn_id x) x s"
  have ok: "table_ok (sv_sessions s) (sv_endpoint_to_conn s)" using assms(1) by (simp add: server_inv_def server_table_ok_def)
  show found: "find_session (ps_conn_id x) s = Some x" using table_found(2) [OF ok assms(3)] by simp
  have eq: "ep_eq (ps_endpoint x) ep" using table_found(2) [OF ok assms(3)] by simp
  have "ep_lookup (sv_endpoint_to_conn ?t) ep = None"
    using ep_eq_trans [OF _ ep_eq_sym [OF eq]] by (auto simp: ep_lookup_None sv_evicted_def ep_erase_def)
  moreover have "table_ok (sv_sessions ?t) (sv_endpoint_to_conn ?t)"
    using server_inv_evict [OF found assms(1)] by (simp add: server_inv_def server_table_ok_def)
  moreover have "length (sv_sessions ?t) < scfg_max_peer_sessions (sv_config ?t)"
    using assms(2) length_delete_le [of "ps_conn_id x" "AList.map_entry (ps_conn_id x) ps_wiped (sv_sessions s)"]
    by (simp add: sv_evicted_def)
  ultimately show "vacancy ep None ?t"
    using table_found(1) [of ?t ep] by (simp add: vacancy_def vacant_slot_def)
qed

lemma validated_server_congestion:
  "validate_server_config cfg = Inr () \<Longrightarrow>
   validate_congestion_control_config (scfg_congestion cfg) (scfg_send_budget_bytes_per_second cfg) = Inr () \<and>
   scfg_send_budget_bytes_per_second cfg \<noteq> 0"
  by (auto simp: validate_server_config_def rbind_Inr_iff split: if_splits)

lemma new_session_ok:
  assumes "validate_server_config cfg = Inr ()" "k \<noteq> 0"
  shows "session_ok k (new_session cfg ep h r now k pid)"
proof -
  have "cg_inv (cg_configure (scfg_congestion cfg) (scfg_send_budget_bytes_per_second cfg) CongestionController_default)"
    using validated_server_congestion [OF assms(1)] by (blast intro: cg_configure_inv)
  then show ?thesis
    using assms(2)
    by (simp add: session_ok_def new_session_def Let_def bucket_rate PeerSession_default_def KeyPair_default_def list_all_iff)
qed

lemma server_inv_store:
  assumes "vacancy (ps_endpoint x) (Some (ps_conn_id x)) s" "session_ok (ps_conn_id x) x" "server_inv s"
  shows "server_inv (sv_stored (ps_endpoint x) x s)"
proof -
  have ok: "table_ok (sv_sessions s) (sv_endpoint_to_conn s)" using assms(3) by (simp add: server_inv_def server_table_ok_def)
  have new: "map_of (sv_sessions s) (ps_conn_id x) = None" "ep_lookup (sv_endpoint_to_conn s) (ps_endpoint x) = None"
    using assms(1) table_found(1) [OF ok] by (simp_all add: vacancy_def vacant_slot_def find_session_def)
  show ?thesis
    using table_ok_store [OF ok new assms(2)] assms(1,3) new
    by (simp add: server_inv_def server_queue_ok_def server_table_ok_def sv_stored_def vacancy_def vacant_slot_def)
qed

interpretation server_kept_inv: server_kept "\<lambda>sv. server_callbacks_ok E \<longrightarrow> server_inv sv"
  "\<lambda>ep k sv. server_callbacks_ok E \<longrightarrow> vacancy ep k sv" "\<lambda>x. server_callbacks_ok E \<longrightarrow> session_ok (ps_conn_id x) x" E for E
proof
  show "server_callbacks_keep (keeping (\<lambda>sv. server_callbacks_ok E \<longrightarrow> server_inv sv)) E"
    by (auto simp: server_callbacks_ok_def server_callbacks_keep_def keeping_def)
  fix s :: "'a Server" and ep x
  assume a: "server_callbacks_ok E \<longrightarrow> server_inv s" "length (sv_sessions s) < scfg_max_peer_sessions (sv_config s)"
      "find_session_by_endpoint ep s = Some x"
  show "case find_session (ps_conn_id x) s of None \<Rightarrow> server_callbacks_ok E \<longrightarrow> vacancy ep None s
      | Some y \<Rightarrow> server_callbacks_ok E \<longrightarrow> vacancy ep None (sv_evicted (ps_conn_id x) y s)"
    using server_inv_replaced [of s ep x] a by (cases "server_callbacks_ok E") (auto split: option.split)
next
  fix f p a b ep k and s :: "'a Server"
  assume "se_on_peer_state_change E = Some f" "server_callbacks_ok E \<longrightarrow> vacancy ep k s"
  then show "server_callbacks_ok E \<longrightarrow> vacancy ep k (f p a b s)"
    using vacancy_keys [of "f p a b s" s] by (simp add: server_callbacks_ok_def)
next
  fix s :: "'a Server" and ep h r now pid and k :: U64
  assume "server_callbacks_ok E \<longrightarrow> server_inv s" "k \<noteq> 0"
  then show "server_callbacks_ok E \<longrightarrow>
      session_ok (ps_conn_id (new_session (sv_config s) ep h r now k pid)) (new_session (sv_config s) ep h r now k pid)"
    using new_session_ok by (auto simp: server_inv_def)
next
  fix x y
  assume "server_callbacks_ok E \<longrightarrow> session_ok (ps_conn_id x) x" "session_step x y"
  then show "server_callbacks_ok E \<longrightarrow> session_ok (ps_conn_id y) y" by (auto simp: session_step_def session_ok_def)
next
  fix s t :: "'a Server" and ep k
  assume "server_callbacks_ok E \<longrightarrow> vacancy ep k s" "table_part t = table_part s"
  then show "server_callbacks_ok E \<longrightarrow> vacancy ep k t" using vacancy_keys [of t s] by (simp add: table_keys_def)
qed (auto simp: server_inv_fields vacancy_def intro: server_inv_upd server_inv_evict server_inv_wipe server_inv_empty
    server_inv_enqueue server_inv_dequeue server_inv_store)

section \<open>Every reachable server\<close>

inductive server_reachable :: "'w senv \<Rightarrow> ServerConfig \<Rightarrow> 'w \<Rightarrow> 'w Server \<Rightarrow> bool" for E cfg w where
  start: "server_reachable E cfg w (Server_new cfg w)"
| step: "server_reachable E cfg w sv \<Longrightarrow> server_reachable E cfg w (server_exec E op sv)"

lemma Server_new_inv: "validate_server_config cfg = Inr () \<Longrightarrow> server_inv (Server_new cfg w)"
  by (simp add: Server_new_def server_refresh_runtime_stats_def run_simps Server_members_def server_inv_def
      server_queue_ok_def server_table_ok_def table_ok_def)

text \<open>
  C4: in every state that a server with a validated configuration can reach by any sequence of calls,
  with any peers, network and clock: the send queue is within its limit, ordered by priority, its byte
  count is exact and its packets are whole; the table of sessions has at most the configured number, no
  two with the same id or the same endpoint, and the index by endpoint has exactly their entries; every
  session is stored under its own nonzero id, its ephemeral secret key is erased, its congestion
  controller within its bounds and its send budget within the bucket.
\<close>

theorem server_invariant:
  assumes "validate_server_config cfg = Inr ()" and "server_callbacks_ok E" and "server_reachable E cfg w sv"
  shows "server_queue_ok sv \<and> server_table_ok sv"
proof -
  have "server_inv sv" using assms(3)
  proof (induction rule: server_reachable.induct)
    case start
    then show ?case by (rule Server_new_inv [OF assms(1)])
  next
    case (step sv op)
    then show ?case using server_kept_inv.exec_kept [of E sv op] assms(2) by blast
  qed
  then show ?thesis by (simp add: server_inv_def)
qed

lemma quiet_server_ok: "server_callbacks_ok (quiet_server S os)"
  by (simp add: server_callbacks_ok_def server_callbacks_keep_def quiet_server_def)

lemma default_server_validated: "validate_server_config ServerConfig_default = Inr ()"
  by (simp add: validate_server_config_def ServerConfig_default_def validate_reliability_config_def
      ReliabilityConfig_default_def validate_fragmentation_config_def FragmentationConfig_default_def
      validate_congestion_control_config_def CongestionControlConfig_default_def AbuseConfig_default_def
      Let_def U16_MAX_def required_fragments_def)

theorem server_invariant_witness:
  "server_table_ok (server_exec (quiet_server sample_sodium sample_os) (SvTick 1 2)
     (server_exec (quiet_server sample_sodium sample_os) (SvListen \<lparr>ep_addr = Inet 80 ipv4_loopback, ep_len = 16\<rparr>)
       (Server_new ServerConfig_default 0)))"
proof -
  let ?E = "quiet_server sample_sodium sample_os"
  have reached: "server_reachable ?E ServerConfig_default 0
      (server_exec ?E (SvTick 1 2) (server_exec ?E (SvListen \<lparr>ep_addr = Inet 80 ipv4_loopback, ep_len = 16\<rparr>)
        (Server_new ServerConfig_default 0)))"
    by (intro server_reachable.intros)
  show ?thesis
    using server_invariant [OF default_server_validated quiet_server_ok reached] by (elim conjE)
qed

end
