(* ===== verification/Scn_Handshake.thy ===== *)
theory Scn_Handshake
  imports Scn_Client Scn_Server
begin

text \<open>
  The handshake of a client and a server that run the same protocol: what the server answers to a
  client hello is what the client accepts, and the two sides hold the same keys; and the tokens
  with which the server proves an address without keeping state.
\<close>

section \<open>The session of a hello\<close>

text \<open>The hello that the server reconstructs for the transcript is the one the client has sent.\<close>

lemma session_hello_agrees:
  assumes "resumed \<longleftrightarrow> ch_has_resumption_token (current_client_hello c)"
    and "s = (new_session cfg from_ep (current_client_hello c) resumed now conn_id peer_id)
      \<lparr>ps_server_nonce := nonce, ps_keys := keys, ps_ephemeral := ephemeral\<rparr>"
  shows "session_client_hello s = current_client_hello c"
  using assms by (auto simp: session_client_hello_def new_session_def current_client_hello_def Let_def)

lemma exchange_keys_Inr:
  assumes "exchange_keys S s0 w = (Inr s, w')"
  shows "\<exists>ephemeral keys. generated S ephemeral \<and>
    crypto_derive_server_session_keys S ephemeral (Some (ps_client_public_key s0)) (length (ps_client_public_key s0))
       (ps_keys s0) = (Inr (), keys) \<and>
    s = s0\<lparr>ps_keys := keys, ps_ephemeral := ephemeral\<lparr>kp_secret_key := zeroed (kp_secret_key ephemeral)\<rparr>\<rparr>"
proof -
  obtain ephemeral w1 where ephemeral: "crypto_generate_keypair S (ps_ephemeral s0) w = ((Inr (), ephemeral), w1)"
    using assms by (auto simp: exchange_keys_def split: prod.splits sum.splits)
  then have "generated S ephemeral"
    by (auto simp: crypto_generate_keypair_def generated_def split: sum.splits option.splits prod.splits
      intro!: exI [of _ w])
  then show ?thesis
    using assms ephemeral by (intro exI [of _ ephemeral]) (auto simp: exchange_keys_def split: prod.splits sum.splits)
qed

lemma keyed_hash_length:
  "hash_correct S \<Longrightarrow> crypto_keyed_hash S k d n m = Inr h \<Longrightarrow> length h = m"
  by (auto simp: crypto_keyed_hash_def hash_correct_def rbind_Inr_iff split: if_splits option.splits)

text \<open>Both sides of the key exchange.\<close>

lemma derived_keys_agree:
  assumes "kx_correct S" "generated S client" "generated S server"
    and "crypto_derive_server_session_keys S server (Some (kp_public_key client)) (length (kp_public_key client)) ks = (Inr (), keys)"
  shows "\<exists>ck. crypto_derive_client_session_keys S client (Some (kp_public_key server)) (length (kp_public_key server)) SessionKeys_default
        = (Inr (), ck) \<and> sk_rx ck = sk_tx keys \<and> sk_tx ck = sk_rx keys"
proof -
  obtain rx tx where "kx_client_session_keys S (kp_public_key client) (kp_secret_key client) (kp_public_key server) = Some (rx, tx)"
    "kx_server_session_keys S (kp_public_key server) (kp_secret_key server) (kp_public_key client) = Some (tx, rx)"
    "length (kp_public_key server) = KeyExchangePublicKeyBytes"
    using assms(1-3) unfolding kx_correct_def by blast
  then show ?thesis
    using assms(4)
    by (auto simp: crypto_derive_server_session_keys_def crypto_derive_client_session_keys_def split: sum.splits if_splits)
qed

section \<open>Agreement\<close>

lemma signed_hello_verified:
  assumes lib: "kx_correct S" "hash_correct S"
    and ephemerals: "generated S client" "generated S server"
    and keys: "crypto_derive_server_session_keys S server (Some (kp_public_key client)) (length (kp_public_key client)) ks
        = (Inr (), ps_keys s)"
    and session: "kp_public_key (ps_ephemeral s) = kp_public_key server" "session_client_hello s = ch"
    and signed: "sign_server_hello S s (session_server_hello s token) = Inr hello"
  shows "\<exists>ck. verify_server_hello S ch client hello = Inr ck \<and> sk_rx ck = sk_tx (ps_keys s) \<and> sk_tx ck = sk_rx (ps_keys s)"
proof -
  obtain ck where ck: "crypto_derive_client_session_keys S client (Some (kp_public_key server)) (length (kp_public_key server))
      SessionKeys_default = (Inr (), ck)" "sk_rx ck = sk_tx (ps_keys s)" "sk_tx ck = sk_rx (ps_keys s)"
    using derived_keys_agree [OF lib(1) ephemerals keys] by auto
  obtain transcript mac where mac: "build_transcript_mac_input ch (session_server_hello s token) 320 = Inr transcript"
    "crypto_keyed_hash S (Some (sk_tx (ps_keys s))) (Some transcript) (length transcript) TranscriptMacBytes = Inr mac"
    "hello = session_server_hello s token\<lparr>sh_transcript_mac := mac\<rparr>"
    using signed session(2) by (auto simp: sign_server_hello_def rbind_Inr_iff)
  have same: "build_transcript_mac_input ch hello 320 = Inr transcript"
    using mac(1) unfolding mac(3) by (simp add: transcript_emit enc_transcript_def split: if_splits)
  have len: "length mac = TranscriptMacBytes"
    by (rule keyed_hash_length [OF lib(2) mac(2)])
  have "crypto_constant_time_equal (Some mac) (Some mac) TranscriptMacBytes"
    using constant_time_equal_lists [OF len len] by simp
  moreover have "sh_server_public_key hello = kp_public_key server" "sh_transcript_mac hello = mac"
    by (simp_all add: mac(3) session_server_hello_def session(1))
  ultimately show ?thesis
    using ck mac(2) same by (simp add: verify_server_hello_def)
qed

text \<open>
  C2: client and server agree.  When the server opens a session for a client hello, signs its answer and
  sends it, the client that receives these bytes authenticates them and installs session keys with
  which it receives what the server transmits and transmits what the server receives, and nothing
  but the completion of the handshake is left to do.  The key exchange and the hash of the library
  are assumed to do what they document.
\<close>

theorem handshake_agreement:
  assumes lib: "kx_correct (ce_sodium E)" "hash_correct (ce_sodium E)"
    and client: "generated (ce_sodium E) (cl_ephemeral c)"
    and gate: "resumed \<longleftrightarrow> ch_has_resumption_token (current_client_hello c)"
    and session: "exchange_keys (ce_sodium E)
        ((new_session cfg from_ep (current_client_hello c) resumed now conn_id peer_id)\<lparr>ps_server_nonce := nonce\<rparr>) w = (Inr s, w')"
    and sizes: "conn_id \<noteq> 0" "length nonce = ServerNonceBytes" "\<forall>t. token = Some t \<longrightarrow> valid_resumption_token t"
    and answer: "sign_server_hello (ce_sodium E) s (session_server_hello s token) = Inr hello"
      "run_writer 192 (\<lambda>w. write_server_hello w hello) = Inr payload"
    and packet: "pv_payload packet = Some payload" "unat (ph_payload_len (pv_h packet)) = length payload"
  shows "\<exists>keys. sk_rx keys = sk_tx (ps_keys s) \<and> sk_tx keys = sk_rx (ps_keys s) \<and>
    run_state (client_handle_server_hello_packet E packet) c =
    run_state (client_finish_handshake E hello) (client_install_session hello keys c)"
proof -
  let ?S = "ce_sodium E"
  let ?s0 = "(new_session cfg from_ep (current_client_hello c) resumed now conn_id peer_id)\<lparr>ps_server_nonce := nonce\<rparr>"
  have pk: "ps_client_public_key ?s0 = kp_public_key (cl_ephemeral c)"
    by (simp add: new_session_def current_client_hello_def Let_def)
  obtain ephemeral keys where server: "generated ?S ephemeral"
      "crypto_derive_server_session_keys ?S ephemeral (Some (kp_public_key (cl_ephemeral c)))
         (length (kp_public_key (cl_ephemeral c))) (ps_keys ?s0) = (Inr (), keys)"
    and s: "s = ?s0\<lparr>ps_keys := keys, ps_ephemeral := ephemeral\<lparr>kp_secret_key := zeroed (kp_secret_key ephemeral)\<rparr>\<rparr>"
    using exchange_keys_Inr [OF session] unfolding pk by blast
  have hello: "session_client_hello s = current_client_hello c"
    by (rule session_hello_agrees [OF gate]) (simp add: s)
  obtain ck where ck: "verify_server_hello ?S (current_client_hello c) (cl_ephemeral c) hello = Inr ck"
    "sk_rx ck = sk_tx (ps_keys s)" "sk_tx ck = sk_rx (ps_keys s)"
    using signed_hello_verified [OF lib client server(1) _ _ hello answer(1)] server(2) s by auto
  obtain transcript mac where mac:
    "crypto_keyed_hash ?S (Some (sk_tx (ps_keys s))) (Some transcript) (length transcript) TranscriptMacBytes = Inr mac"
    "hello = session_server_hello s token\<lparr>sh_transcript_mac := mac\<rparr>"
    using answer(1) by (auto simp: sign_server_hello_def rbind_Inr_iff)
  have "valid_server_hello hello"
    using keyed_hash_length [OF lib(2) mac(1)] lib(1) server(1) sizes
    by (auto simp: valid_server_hello_def mac(2) session_server_hello_def s new_session_def kx_correct_def Let_def split: option.split)
  moreover have "payload = enc_server_hello hello"
    using answer(2) by (simp add: run_writer_emit [OF write_server_hello_emit] split: if_splits)
  ultimately have "read_server_hello (reader_at (pv_payload packet) (unat (ph_payload_len (pv_h packet)))) = Inr (hello, rd payload (length payload))"
    by (simp add: packet reader_at_rd read_server_hello_iff)
  then show ?thesis
    using ck by (intro exI [of _ ck]) (simp add: client_handle_server_hello_packet_def check_ret run_simps)
qed

text \<open>A client with a generated key pair, and the session a server opens for it.\<close>

definition sample_client :: "nat Client" where
  "sample_client = (Client_members ClientConfig_default 0)
     \<lparr>cl_ephemeral := \<lparr>kp_public_key = replicate 32 5, kp_secret_key = replicate 32 5\<rparr>\<rparr>"

abbreviation sample_session :: PeerSession where
  "sample_session \<equiv> (new_session ServerConfig_default Endpoint_default (current_client_hello sample_client) False 1000 9 1)
     \<lparr>ps_server_nonce := replicate 16 2\<rparr>"

lemma sample_client_hello: "current_client_hello sample_client =
    \<lparr>ch_client_public_key = replicate 32 5, ch_client_nonce = replicate 16 0, ch_has_retry_token = False,
     ch_retry_token = RetryToken_default, ch_has_resumption_token = False, ch_resumption_token = ResumptionToken_default\<rparr>"
  by (simp add: current_client_hello_def sample_client_def Client_members_def)

lemma sample_exchange:
  "\<exists>s w'. exchange_keys sample_sodium sample_session 7 = (Inr s, w') \<and> ps_conn_id s = 9 \<and> ps_server_nonce s = replicate 16 2 \<and>
     length (kp_public_key (ps_ephemeral s)) = 32 \<and> length (sk_tx (ps_keys s)) = 32 \<and>
     ps_client_public_key s = replicate 32 5 \<and> ps_client_nonce s = replicate 16 0 \<and>
     \<not> ps_handshake_had_retry_token s \<and> \<not> ps_handshake_had_resumption_token s"
  by (simp add: exchange_keys_def crypto_generate_keypair_def crypto_derive_server_session_keys_def
    ensure_crypto_ready_def sample_sodium_def new_session_def sample_client_hello Let_def)

lemma sample_answer:
  assumes "length (sk_tx (ps_keys s)) = 32" "length (kp_public_key (ps_ephemeral s)) = 32" "length (ps_server_nonce s) = 16"
    "length (ps_client_public_key s) = 32" "length (ps_client_nonce s) = 16"
    "\<not> ps_handshake_had_retry_token s" "\<not> ps_handshake_had_resumption_token s"
  shows "\<exists>hello payload. sign_server_hello sample_sodium s (session_server_hello s None) = Inr hello \<and>
     run_writer 192 (\<lambda>w. write_server_hello w hello) = Inr payload \<and> length payload = 74"
proof -
  have transcript: "length (enc_transcript (session_client_hello s) (session_server_hello s None)) \<le> 320"
    using assms by (simp add: enc_transcript_def session_client_hello_def session_server_hello_def)
  define mac where "mac = take 16 (enc_transcript (session_client_hello s) (session_server_hello s None) @ sk_tx (ps_keys s) @ replicate 16 0)"
  have sign: "sign_server_hello sample_sodium s (session_server_hello s None) = Inr (session_server_hello s None\<lparr>sh_transcript_mac := mac\<rparr>)"
    using transcript assms(1) unfolding mac_def
    by (auto simp: sign_server_hello_def transcript_emit crypto_keyed_hash_def ensure_crypto_ready_def sample_sodium_def at_ptr_def)
  have "length (enc_server_hello (session_server_hello s None\<lparr>sh_transcript_mac := mac\<rparr>)) = 74"
    using assms by (simp add: enc_server_hello_def session_server_hello_def mac_def enc_u8_def)
  then show ?thesis
    using sign by (simp add: run_writer_emit [OF write_server_hello_emit])
qed

theorem handshake_agreement_witness:
  "\<exists>s w' hello payload keys.
     exchange_keys sample_sodium sample_session 7 = (Inr s, w') \<and>
     sign_server_hello sample_sodium s (session_server_hello s None) = Inr hello \<and>
     run_writer 192 (\<lambda>w. write_server_hello w hello) = Inr payload \<and>
     sk_rx keys = sk_tx (ps_keys s) \<and> sk_tx keys = sk_rx (ps_keys s) \<and>
     run_state (client_handle_server_hello_packet (quiet_client sample_sodium sample_os)
       \<lparr>pv_h = PacketHeader_default\<lparr>ph_payload_len := of_nat (length payload)\<rparr>, pv_payload = Some payload\<rparr>) sample_client =
     run_state (client_finish_handshake (quiet_client sample_sodium sample_os) hello) (client_install_session hello keys sample_client)"
proof -
  let ?E = "quiet_client sample_sodium sample_os"
  have E: "ce_sodium ?E = sample_sodium"
    by (simp add: quiet_client_def)
  obtain s w' where s: "exchange_keys sample_sodium sample_session 7 = (Inr s, w')" "ps_server_nonce s = replicate 16 2"
    "length (kp_public_key (ps_ephemeral s)) = 32" "length (sk_tx (ps_keys s)) = 32"
    "ps_client_public_key s = replicate 32 5" "ps_client_nonce s = replicate 16 0"
    "\<not> ps_handshake_had_retry_token s" "\<not> ps_handshake_had_resumption_token s"
    using sample_exchange by auto
  obtain hello payload where answer: "sign_server_hello sample_sodium s (session_server_hello s None) = Inr hello"
    "run_writer 192 (\<lambda>w. write_server_hello w hello) = Inr payload" "length payload = 74"
    using sample_answer [of s] s by auto
  have client: "generated sample_sodium (cl_ephemeral sample_client)"
    by (auto simp: generated_def sample_client_def sample_sodium_def intro!: exI [of _ 5])
  have "\<exists>keys. sk_rx keys = sk_tx (ps_keys s) \<and> sk_tx keys = sk_rx (ps_keys s) \<and>
     run_state (client_handle_server_hello_packet ?E
       \<lparr>pv_h = PacketHeader_default\<lparr>ph_payload_len := of_nat (length payload)\<rparr>, pv_payload = Some payload\<rparr>) sample_client =
     run_state (client_finish_handshake ?E hello) (client_install_session hello keys sample_client)"
    by (rule handshake_agreement [where E = ?E and resumed = False and s = s and token = None, unfolded E,
          OF sample_kx sample_hash client _ s(1) _ _ _ answer(1,2)])
      (simp_all add: sample_client_hello answer(3))
  then show ?thesis
    using s(1) answer(1,2) by blast
qed

section \<open>Retry tokens\<close>

definition enc_retry_input :: "string \<Rightarrow> ClientHello \<Rightarrow> U64 \<Rightarrow> U8 list" where
  "enc_retry_input addr h issued =
     be_bytes 8 issued @ be_bytes 2 ProtocolVersion @ be_bytes 2 (of_nat (length addr) :: U16) @ str_bytes addr @
     ch_client_public_key h @ ch_client_nonce h"

text \<open>As long as everything fits into the array of 256 bytes, no write is dropped.\<close>

lemma retry_mac_input_fits:
  assumes "valid_client_hello h" "length addr \<le> 196"
  shows "retry_mac_input addr h issued = enc_retry_input addr h issued"
proof -
  let ?w = "writer_on (replicate 256 0) 256"
  have "rbind (write_u64 ?w issued) (\<lambda>w. rbind (write_u16 w ProtocolVersion) (\<lambda>w.
      rbind (write_u16 w (of_nat (length addr))) (\<lambda>w. rbind (write_all (str_bytes addr) w) (\<lambda>w.
      rbind (write_all (ch_client_public_key h) w) (write_all (ch_client_nonce h)))))) = emit (enc_retry_input addr h issued) ?w"
    unfolding enc_retry_input_def by (intro rbind_emit write_rules) simp_all
  moreover have "length (enc_retry_input addr h issued) \<le> 256"
    using assms by (simp add: enc_retry_input_def valid_client_hello_def str_bytes_def)
  ultimately show ?thesis
    by (auto simp: retry_mac_input_def emit_writer_on rbind_Inr_iff try_write_def written_def)
qed

lemma str_bytes_inj: "str_bytes a = str_bytes b \<longleftrightarrow> a = b"
proof -
  have "unat (of_nat (of_char c :: nat) :: U8) = of_char c" for c :: char
    by (simp add: unat_of_nat)
  then have "inj (\<lambda>c :: char. of_nat (of_char c :: nat) :: U8)"
    by (metis injI of_char_eq_iff)
  then show ?thesis
    unfolding str_bytes_def by (rule inj_map_eq_map)
qed

lemma enc_retry_input_inj:
  assumes "enc_retry_input a h t = enc_retry_input a' h' t'" "valid_client_hello h" "valid_client_hello h'"
    "length a \<le> 196" "length a' \<le> 196"
  shows "a = a' \<and> ch_client_public_key h = ch_client_public_key h' \<and> ch_client_nonce h = ch_client_nonce h' \<and> t = t'"
proof -
  have t: "t = t'" and n: "(of_nat (length a) :: U16) = of_nat (length a')"
    and rest: "str_bytes a @ ch_client_public_key h @ ch_client_nonce h = str_bytes a' @ ch_client_public_key h' @ ch_client_nonce h'"
    using assms(1) by (auto simp: enc_retry_input_def)
  have "length a = length a'"
    using arg_cong [OF n, of unat] assms(4,5) by (simp add: unat_of_nat)
  then have "length (str_bytes a) = length (str_bytes a')"
    by (simp add: str_bytes_def)
  then show ?thesis
    using rest t assms(2,3) by (auto simp: valid_client_hello_def str_bytes_inj)
qed

lemma retry_mac_length: "hash_correct (se_sodium E) \<Longrightarrow> length (rt_mac (make_retry_token E secret ep h t)) = RetryTokenMacBytes"
  by (auto simp: make_retry_token_def mac_or_zero_def dest: keyed_hash_length split: sum.split)

text \<open>
  C12: a retry token proves an address.  The server accepts a token for its lifetime exactly when it is the
  one that it makes itself for this address, this hello and the time in the token; outside of its
  lifetime the result is \<open>Timeout\<close>, otherwise \<open>AuthFailed\<close>.  And what the server hashes
  into a token determines the address, the key and the nonce of the client, and the time.
\<close>

theorem retry_token_proves_address:
  assumes hash: "hash_correct (se_sodium E)" and mac: "length (rt_mac token) = RetryTokenMacBytes"
    and hellos: "valid_client_hello h" "valid_client_hello h'" and addrs: "length a \<le> 196" "length a' \<le> 196"
  shows "validate_retry_token E secret ep h token now =
      (if now < rt_issued_at_ms token \<or> RetryTokenLifetimeMs < now - rt_issued_at_ms token then Inl Timeout
       else if token = make_retry_token E secret ep h (rt_issued_at_ms token) then Inr ()
       else Inl AuthFailed) \<and>
    (retry_mac_input a h t = retry_mac_input a' h' t' \<longleftrightarrow>
       a = a' \<and> ch_client_public_key h = ch_client_public_key h' \<and> ch_client_nonce h = ch_client_nonce h' \<and> t = t')"
proof
  let ?made = "make_retry_token E secret ep h (rt_issued_at_ms token)"
  have "crypto_constant_time_equal (Some (rt_mac ?made)) (Some (rt_mac token)) RetryTokenMacBytes \<longleftrightarrow> rt_mac ?made = rt_mac token"
    by (rule constant_time_equal_lists [OF retry_mac_length [OF hash] mac])
  moreover have "token = ?made \<longleftrightarrow> rt_mac ?made = rt_mac token"
    by (cases token) (auto simp: make_retry_token_def)
  ultimately show "validate_retry_token E secret ep h token now =
      (if now < rt_issued_at_ms token \<or> RetryTokenLifetimeMs < now - rt_issued_at_ms token then Inl Timeout
       else if token = ?made then Inr () else Inl AuthFailed)"
    unfolding validate_retry_token_def Let_def by simp
  show "retry_mac_input a h t = retry_mac_input a' h' t' \<longleftrightarrow>
       a = a' \<and> ch_client_public_key h = ch_client_public_key h' \<and> ch_client_nonce h = ch_client_nonce h' \<and> t = t'"
    unfolding retry_mac_input_fits [OF hellos(1) addrs(1)] retry_mac_input_fits [OF hellos(2) addrs(2)]
    using enc_retry_input_inj [OF _ hellos addrs, of t t'] by (auto simp: enc_retry_input_def)
qed

theorem retry_token_proves_address_witness:
  "let E = quiet_server sample_sodium sample_os; h = current_client_hello sample_client;
       token = make_retry_token E [1] Endpoint_default h 1000
   in validate_retry_token E [1] Endpoint_default h token 2000 = Inr () \<and>
      validate_retry_token E [1] Endpoint_default h token 2501 = Inl Timeout"
proof -
  let ?E = "quiet_server sample_sodium sample_os" and ?h = "current_client_hello sample_client"
  let ?t = "make_retry_token ?E [1] Endpoint_default ?h 1000"
  have hash: "hash_correct (se_sodium ?E)"
    by (simp add: quiet_server_def)
  have h: "valid_client_hello ?h"
    by (simp add: sample_client_hello valid_client_hello_def)
  have issued: "rt_issued_at_ms ?t = 1000"
    by (simp add: make_retry_token_def)
  have verdict: "validate_retry_token ?E [1] Endpoint_default ?h ?t now =
      (if now < 1000 \<or> RetryTokenLifetimeMs < now - 1000 then Inl Timeout else Inr ())" for now
    using retry_token_proves_address [where E = ?E and secret = "[1]" and ep = Endpoint_default and token = ?t and now = now
        and a = "[]" and a' = "[]", OF hash retry_mac_length [OF hash] h h] by (simp add: issued)
  show ?thesis
    unfolding Let_def verdict by simp
qed

end
