(* ===== verification/Scn_Stream.thy ===== *)
theory Scn_Stream
  imports Scn_Reliability
begin

text \<open>
  Byte streams over the ordered channel (\<^verbatim>\<open>stream.hpp\<close>): the stream frame, the sender that cuts a
  byte string into frames and the receive buffer that puts it together again.

  The callback to which the sender hands each frame transforms a caller state and may fail.
\<close>

section \<open>Frames\<close>

definition StreamFlagFin :: U8 where
  "StreamFlagFin = 0x01"

record StreamFrameView =
  sf_stream_id :: U16
  sf_flags :: U8
  sf_data :: "U8 list option"
  sf_len :: U16

definition stream_frame_header_bytes :: U16 where
  "stream_frame_header_bytes = 2 + 1 + 2"

definition max_stream_frame_payload :: U16 where
  "max_stream_frame_payload = of_nat MaxOrderedMessageBytes - stream_frame_header_bytes"

definition write_stream_frame :: "ByteWriter \<Rightarrow> U16 \<Rightarrow> U8 \<Rightarrow> U8 list option \<Rightarrow> U16 \<Rightarrow> ByteWriter result" where
  "write_stream_frame w stream_id flags data len =
    (if stream_id = 0 then Inl errc.InvalidArg
     else if 0 < len \<and> data = None then Inl errc.InvalidArg
     else if max_stream_frame_payload < len then Inl TooLarge
     else rbind (write_u16 w stream_id) (\<lambda>w.
       rbind (write_u8 w flags) (\<lambda>w.
       rbind (write_u16 w len) (\<lambda>w.
       if 0 < len then write_bytes w data (unat len) else Inr w))))"

definition read_stream_frame :: "ByteReader \<Rightarrow> (StreamFrameView \<times> ByteReader) result" where
  "read_stream_frame r =
    rbind (read_u16 r) (\<lambda>(stream_id, r).
    rbind (read_u8 r) (\<lambda>(flags, r).
    rbind (read_u16 r) (\<lambda>(len, r).
    if stream_id = 0 then Inl errc.BadPacket
    else if max_stream_frame_payload < len then Inl errc.BadPacket
    else if remaining_r r < unat len then Inl errc.Truncated
    else let data = (if 0 < len then peek_ptr r (unat len) else None) in
      rbind (skip r (unat len)) (\<lambda>r.
      if remaining_r r \<noteq> 0 then Inl errc.BadPacket
      else Inr (\<lparr>sf_stream_id = stream_id, sf_flags = flags, sf_data = data, sf_len = len\<rparr>, r)))))"

section \<open>Sending\<close>

definition stream_chunk_len :: "ST \<Rightarrow> U16" where
  "stream_chunk_len remaining =
    (if unat max_stream_frame_payload < remaining then max_stream_frame_payload else of_nat remaining)"

lemma max_stream_frame_payload_unat: "unat max_stream_frame_payload = 1231"
  by (simp add: max_stream_frame_payload_def stream_frame_header_bytes_def)

lemma chunk_len_unat: "unat (stream_chunk_len n) = min 1231 n"
  by (auto simp: stream_chunk_len_def max_stream_frame_payload_unat unat_of_nat_small)

text \<open>The loop over the bytes from \<open>offset\<close> on: one frame at a time, the last one with the final flags.\<close>

function chunk_stream_loop ::
  "U16 \<Rightarrow> U8 list \<Rightarrow> ('c \<Rightarrow> U8 list \<Rightarrow> bool \<Rightarrow> unit result \<times> 'c) \<Rightarrow> U8 \<Rightarrow> nat \<Rightarrow> 'c \<Rightarrow> unit result \<times> 'c" where
  "chunk_stream_loop stream_id bytes emit_fn final_flags offset c =
    (if offset < length bytes then
       let chunk_len = stream_chunk_len (length bytes - offset);
           is_last = (offset + unat chunk_len = length bytes)
       in case write_stream_frame (writer_on (replicate MaxOrderedMessageBytes 0) MaxOrderedMessageBytes) stream_id
                 (if is_last then final_flags else 0) (Some (drop offset bytes)) chunk_len of
            Inl e \<Rightarrow> (Inl e, c)
          | Inr w \<Rightarrow>
              (case emit_fn c (written w) is_last of
                 (Inl e, c) \<Rightarrow> (Inl e, c)
               | (Inr _, c) \<Rightarrow> chunk_stream_loop stream_id bytes emit_fn final_flags (offset + unat chunk_len) c)
     else (Inr (), c))"
  by pat_completeness auto

termination
  by (relation "measure (\<lambda>(stream_id, bytes, emit_fn, final_flags, offset, c). length bytes - offset)")
    (auto simp: chunk_len_unat)

declare chunk_stream_loop.simps [simp del]

definition chunk_stream_bytes ::
  "U16 \<Rightarrow> U8 list \<Rightarrow> ('c \<Rightarrow> U8 list \<Rightarrow> bool \<Rightarrow> unit result \<times> 'c) \<Rightarrow> U8 \<Rightarrow> 'c \<Rightarrow> unit result \<times> 'c" where
  "chunk_stream_bytes stream_id bytes emit_fn final_flags c =
    (if stream_id = 0 then (Inl errc.InvalidArg, c)
     else case chunk_stream_loop stream_id bytes emit_fn final_flags 0 c of
       (Inl e, c) \<Rightarrow> (Inl e, c)
     | (Inr _, c) \<Rightarrow>
         if bytes = [] then
           (case write_stream_frame (writer_on (replicate (unat stream_frame_header_bytes) 0) (unat stream_frame_header_bytes))
                   stream_id final_flags None 0 of
              Inl e \<Rightarrow> (Inl e, c)
            | Inr w \<Rightarrow> emit_fn c (written w) True)
         else (Inr (), c))"

section \<open>Receiving\<close>

record StreamReceiveBuffer =
  sb_stream_id :: U16
  sb_finished :: bool
  sb_bytes :: "U8 list"

definition StreamReceiveBuffer_default :: StreamReceiveBuffer where
  "StreamReceiveBuffer_default = \<lparr>sb_stream_id = 0, sb_finished = False, sb_bytes = []\<rparr>"

text \<open>The stream id is taken from the first frame before the other checks, also when they fail.\<close>

definition sb_append :: "StreamReceiveBuffer \<Rightarrow> StreamFrameView \<Rightarrow> unit result \<times> StreamReceiveBuffer" where
  "sb_append b frame =
    (if sb_stream_id b \<noteq> 0 \<and> sb_stream_id b \<noteq> sf_stream_id frame then (Inl errc.BadPacket, b)
     else let b = (if sb_stream_id b = 0 then b\<lparr>sb_stream_id := sf_stream_id frame\<rparr> else b) in
       if sb_finished b then (Inl StateError, b)
       else if U32_MAX < length (sb_bytes b) + unat (sf_len frame) then (Inl TooLarge, b)
       else let b = (case sf_data frame of
                       Some d \<Rightarrow> if 0 < sf_len frame then b\<lparr>sb_bytes := sb_bytes b @ take (unat (sf_len frame)) d\<rparr> else b
                     | None \<Rightarrow> b);
                b = (if sf_flags frame AND StreamFlagFin \<noteq> 0 then b\<lparr>sb_finished := True\<rparr> else b)
            in (Inr (), b))"

definition sb_clear :: "StreamReceiveBuffer \<Rightarrow> StreamReceiveBuffer" where
  "sb_clear b = b\<lparr>sb_stream_id := 0, sb_finished := False, sb_bytes := []\<rparr>"

section \<open>The frame format\<close>

declare add_2_eq_Suc [simp del] add_2_eq_Suc' [simp del]

definition enc_stream_frame :: "StreamFrameView \<Rightarrow> U8 list" where
  "enc_stream_frame v = be_bytes 2 (sf_stream_id v) @ enc_u8 (sf_flags v) @ be_bytes 2 (sf_len v) @ opt_bytes (sf_data v)"

definition valid_stream_frame :: "StreamFrameView \<Rightarrow> bool" where
  "valid_stream_frame v \<longleftrightarrow> sf_stream_id v \<noteq> 0 \<and> sf_len v \<le> max_stream_frame_payload \<and> sf_data v \<noteq> Some [] \<and>
     length (opt_bytes (sf_data v)) = unat (sf_len v)"

lemma write_stream_frame_emit:
  assumes "writer_wf w" "stream_id \<noteq> 0" "len \<le> max_stream_frame_payload" "unat len \<le> length data"
  shows "write_stream_frame w stream_id flags (Some data) len =
    emit (be_bytes 2 stream_id @ enc_u8 flags @ be_bytes 2 len @ take (unat len) data) w"
proof -
  have "(if 0 < len then write_bytes w' (Some data) (unat len) else Inr w') = emit (take (unat len) data) w'"
    if "writer_wf w'" for w'
    using that assms(4) by (auto simp: write_bytes_emit word_less_nat_alt)
  then show ?thesis
    using assms(1,2,3) by (auto simp: write_stream_frame_def intro!: rbind_emit write_rules)
qed

lemma stream_header_split:
  "bytes_at bs 0 (be_bytes 2 i) \<Longrightarrow> bytes_at bs 2 (enc_u8 f) \<Longrightarrow> bytes_at bs 3 (be_bytes 2 l) \<Longrightarrow>
   be_bytes 2 i @ enc_u8 f @ be_bytes 2 l @ drop 5 bs = bs"
  using bytes_at_split [of bs "be_bytes 2 i @ enc_u8 f @ be_bytes 2 l"] by (simp add: bytes_at_append)

lemma stream_tail:
  assumes "5 \<le> length bs" "length bs - 5 = unat (len :: U16)"
  shows "peek_ptr (rd bs 5) (unat len) = Some (drop 5 bs)" "skip (rd bs 5) (unat len) = Inr (rd bs (length bs))"
  using assms by (auto simp: read_evals)

lemma read_stream_frame_iff:
  "decode_with read_stream_frame bs = Inr v \<longleftrightarrow> valid_stream_frame v \<and> bs = enc_stream_frame v" (is "?L \<longleftrightarrow> ?R")
proof
  assume ?L
  then obtain r where "read_stream_frame (rd bs 0) = Inr (v, r)" by (auto simp: decode_with_def rbind_Inr_iff2)
  then obtain i f l where reads: "bytes_at bs 0 (be_bytes 2 i)" "bytes_at bs 2 (enc_u8 f)" "bytes_at bs 3 (be_bytes 2 l)"
    and rest: "(if i = 0 then Inl errc.BadPacket
       else if max_stream_frame_payload < l then Inl errc.BadPacket
       else if remaining_r (rd bs 5) < unat l then Inl errc.Truncated
       else let data = (if 0 < l then peek_ptr (rd bs 5) (unat l) else None) in
         rbind (skip (rd bs 5) (unat l)) (\<lambda>r.
         if remaining_r r \<noteq> 0 then Inl errc.BadPacket
         else Inr (\<lparr>sf_stream_id = i, sf_flags = f, sf_data = data, sf_len = l\<rparr>, r))) = Inr (v, r)"
    by (simp add: read_stream_frame_def rbind_Inr_iff2 read_iffs) blast
  have "5 \<le> length bs" using bytes_at_le [OF reads(3)] by simp
  then have "i \<noteq> 0" "l \<le> max_stream_frame_payload" "length bs - 5 = unat l"
    "v = \<lparr>sf_stream_id = i, sf_flags = f, sf_data = (if 0 < l then Some (drop 5 bs) else None), sf_len = l\<rparr>"
    using rest by (auto simp: read_evals Let_def split: if_splits)
  then show ?R
    using stream_header_split [OF reads]
    by (cases "length bs - 5 = 0") (auto simp: valid_stream_frame_def enc_stream_frame_def opt_bytes_def word_less_nat_alt)
next
  assume ?R
  then have v: "valid_stream_frame v" and bs: "bs = enc_stream_frame v" by auto
  have at: "bytes_at bs 0 (enc_stream_frame v)" by (simp add: bs bytes_at_def)
  have reads: "read_u16 (rd bs 0) = Inr (sf_stream_id v, rd bs 2)" "read_u8 (rd bs 2) = Inr (sf_flags v, rd bs 3)"
    "read_u16 (rd bs 3) = Inr (sf_len v, rd bs 5)"
    using at by (simp_all add: read_iffs enc_stream_frame_def bytes_at_append)
  have len: "5 \<le> length bs" "length bs - 5 = unat (sf_len v)"
    using v by (simp_all add: bs enc_stream_frame_def valid_stream_frame_def)
  have "(if 0 < sf_len v then Some (drop 5 bs) else None) = sf_data v"
    using v
    by (cases "sf_data v")
      (auto simp: bs enc_stream_frame_def valid_stream_frame_def opt_bytes_def word_less_nat_alt simp flip: length_greater_0_conv)
  then show ?L
    using v len stream_tail [OF len]
    by (cases v) (auto simp: decode_with_def read_stream_frame_def reads Let_def valid_stream_frame_def)
qed

interpretation stream_frame: wire_codec enc_stream_frame "decode_with read_stream_frame" valid_stream_frame
  by unfold_locales (simp_all add: read_stream_frame_iff)

section \<open>A byte string through the stream\<close>

text \<open>The receiver as the callback of the sender: each frame is read and appended to the buffer.\<close>

definition deliver_frame :: "StreamReceiveBuffer \<Rightarrow> U8 list \<Rightarrow> bool \<Rightarrow> unit result \<times> StreamReceiveBuffer" where
  "deliver_frame b frame is_last =
    (case decode_with read_stream_frame frame of
       Inl e \<Rightarrow> (Inl e, b)
     | Inr v \<Rightarrow> sb_append b v)"

lemma deliver_written:
  assumes "stream_id \<noteq> 0" "len \<le> max_stream_frame_payload" "unat len \<le> length data" "unat len + 5 \<le> n"
    and "sb_stream_id b = 0 \<or> sb_stream_id b = stream_id" "\<not> sb_finished b" "length (sb_bytes b) + unat len \<le> U32_MAX"
  shows "\<exists>w. write_stream_frame (writer_on (replicate n 0) n) stream_id flags (Some data) len = Inr w \<and>
    deliver_frame b (written w) is_last =
      (Inr (), \<lparr>sb_stream_id = stream_id, sb_finished = (flags AND StreamFlagFin \<noteq> 0), sb_bytes = sb_bytes b @ take (unat len) data\<rparr>)"
proof -
  let ?v = "\<lparr>sf_stream_id = stream_id, sf_flags = flags,
      sf_data = (if len = 0 then None else Some (take (unat len) data)), sf_len = len\<rparr>"
  have enc: "be_bytes 2 stream_id @ enc_u8 flags @ be_bytes 2 len @ take (unat len) data = enc_stream_frame ?v"
    by (simp add: enc_stream_frame_def opt_bytes_def)
  have short: "length (enc_stream_frame ?v) \<le> n" using assms(3,4) by (simp add: enc [symmetric])
  then obtain w where w: "emit (enc_stream_frame ?v) (writer_on (replicate n 0) n) = Inr w"
    by (simp add: emit_writer_on)
  then have out: "written w = enc_stream_frame ?v" by (rule written_emit_on) simp
  have pos: "0 < unat len" if "len \<noteq> 0" using that by (simp add: unat_gt_0)
  have "valid_stream_frame ?v" using assms(1-3) pos by (auto simp: valid_stream_frame_def opt_bytes_def min_def)
  then have "decode_with read_stream_frame (written w) = Inr ?v" using out by (simp add: read_stream_frame_iff)
  moreover have wr: "write_stream_frame (writer_on (replicate n 0) n) stream_id flags (Some data) len = Inr w"
    using write_stream_frame_emit [OF _ assms(1-3), of "writer_on (replicate n 0) n" flags] w unfolding enc by simp
  ultimately have "deliver_frame b (written w) is_last = sb_append b ?v" by (simp add: deliver_frame_def)
  moreover have "sb_append b ?v =
      (Inr (), \<lparr>sb_stream_id = stream_id, sb_finished = (flags AND StreamFlagFin \<noteq> 0), sb_bytes = sb_bytes b @ take (unat len) data\<rparr>)"
  proof (cases "len = 0")
    case True
    then show ?thesis using assms(5-7) by (cases b) (auto simp: sb_append_def Let_def)
  next
    case False
    then have "0 < len" by (simp add: word_gt_0)
    then show ?thesis using assms(5-7) False by (cases b) (auto simp: sb_append_def Let_def)
  qed
  ultimately show ?thesis using wr by (intro exI [of _ w] conjI) (auto intro: trans)
qed

lemma chunk_stream_loop_delivers:
  assumes "stream_id \<noteq> 0" "offset < length bytes"
    and "sb_stream_id b = 0 \<or> sb_stream_id b = stream_id" "\<not> sb_finished b" "length (sb_bytes b) + (length bytes - offset) \<le> U32_MAX"
  shows "chunk_stream_loop stream_id bytes deliver_frame flags offset b =
    (Inr (), \<lparr>sb_stream_id = stream_id, sb_finished = (flags AND StreamFlagFin \<noteq> 0), sb_bytes = sb_bytes b @ drop offset bytes\<rparr>)"
  using assms
proof (induction "length bytes - offset" arbitrary: offset b rule: less_induct)
  case less
  let ?len = "stream_chunk_len (length bytes - offset)"
  let ?n = "min 1231 (length bytes - offset)"
  let ?last = "offset + ?n = length bytes"
  let ?b = "\<lparr>sb_stream_id = stream_id, sb_finished = ((if ?last then flags else 0) AND StreamFlagFin \<noteq> 0),
      sb_bytes = sb_bytes b @ take ?n (drop offset bytes)\<rparr>"
  have len: "unat ?len = ?n" by (rule chunk_len_unat)
  have "?len \<le> max_stream_frame_payload" by (simp add: word_le_nat_alt len max_stream_frame_payload_unat)
  then obtain w where w: "write_stream_frame (writer_on (replicate 1236 0) 1236) stream_id (if ?last then flags else 0)
      (Some (drop offset bytes)) ?len = Inr w" "deliver_frame b (written w) ?last = (Inr (), ?b)"
    using deliver_written [of stream_id ?len "drop offset bytes" 1236 b "if ?last then flags else 0" ?last] less.prems
    unfolding len by fastforce
  have step: "chunk_stream_loop stream_id bytes deliver_frame flags offset b =
      chunk_stream_loop stream_id bytes deliver_frame flags (offset + ?n) ?b"
    unfolding chunk_stream_loop.simps [of stream_id bytes deliver_frame flags offset b] Let_def max_stream_frame_payload_unat len
    using less.prems(2) w by simp
  show ?case
  proof (cases "?last")
    case True
    then have "take ?n (drop offset bytes) = drop offset bytes" by (intro take_all) auto
    then show ?thesis
      using True unfolding step by (simp add: chunk_stream_loop.simps [of _ bytes _ _ "length bytes"])
  next
    case False
    then have "chunk_stream_loop stream_id bytes deliver_frame flags (offset + ?n) ?b =
        (Inr (), \<lparr>sb_stream_id = stream_id, sb_finished = (flags AND StreamFlagFin \<noteq> 0),
          sb_bytes = sb_bytes ?b @ drop (offset + ?n) bytes\<rparr>)"
      using less.prems by (intro less.hyps) auto
    moreover have "take ?n (drop offset bytes) @ drop (offset + ?n) bytes = drop offset bytes"
      by (metis append_take_drop_id drop_drop add.commute)
    ultimately show ?thesis unfolding step by simp
  qed
qed

text \<open>
  C23: a byte string sent through a stream arrives.  Cut into frames by the sender, each frame read and
  appended by the receiver, it is put together exactly, after what the receive buffer of the same
  stream already had; the stream is finished exactly when the final flags say so; an empty string
  sends one empty frame; no step fails.
\<close>

theorem stream_transfer:
  assumes "stream_id \<noteq> 0" and "sb_stream_id b = 0 \<or> sb_stream_id b = stream_id" and "\<not> sb_finished b"
    and "length (sb_bytes b) + length bytes \<le> U32_MAX"
  shows "chunk_stream_bytes stream_id bytes deliver_frame flags b =
    (Inr (), \<lparr>sb_stream_id = stream_id, sb_finished = (flags AND StreamFlagFin \<noteq> 0), sb_bytes = sb_bytes b @ bytes\<rparr>)"
proof (cases "bytes = []")
  case True
  have "write_stream_frame w stream_id flags None 0 = write_stream_frame w stream_id flags (Some []) 0" for w
    by (simp add: write_stream_frame_def)
  then show ?thesis
    using deliver_written [of stream_id 0 "[]" 5 b flags True] assms True
    by (auto simp: chunk_stream_bytes_def chunk_stream_loop.simps [of _ "[]"] stream_frame_header_bytes_def)
next
  case False
  then show ?thesis
    using chunk_stream_loop_delivers [of stream_id 0 bytes b flags] assms by (simp add: chunk_stream_bytes_def)
qed

theorem stream_transfer_witness:
  "chunk_stream_bytes 3 (replicate 5000 9) deliver_frame StreamFlagFin StreamReceiveBuffer_default =
   (Inr (), \<lparr>sb_stream_id = 3, sb_finished = True, sb_bytes = replicate 5000 9\<rparr>)"
  using stream_transfer [of 3 StreamReceiveBuffer_default "replicate 5000 9" StreamFlagFin]
  by (simp add: StreamReceiveBuffer_default_def U32_MAX_def StreamFlagFin_def)

end
