(* ===== verification/Scn_Nat.thy ===== *)
theory Scn_Nat
  imports Scn_Endpoint Scn_Protocol
begin

text \<open>
  Hints for peers behind address translation (\<^verbatim>\<open>nat.hpp\<close>): the peer hint and the punch frame on the
  wire, and the conversions between a hint and an endpoint.

  The family of a hint is an enumeration over a byte that may hold any value; the code checks it.
\<close>

definition NatHintFamily_IPv4 :: U8 where "NatHintFamily_IPv4 = 4"
definition NatHintFamily_IPv6 :: U8 where "NatHintFamily_IPv6 = 6"

lemmas nat_families = NatHintFamily_IPv4_def NatHintFamily_IPv6_def

record NatPeerHint =
  nh_family :: U8
  nh_port :: U16
  nh_address :: "U8 list"

definition NatPeerHint_default :: NatPeerHint where
  "NatPeerHint_default = \<lparr>nh_family = NatHintFamily_IPv4, nh_port = 0, nh_address = replicate 16 0\<rparr>"

record NatPunchFrame =
  np_token :: U64
  np_issued_at_ms :: U64

definition write_nat_peer_hint :: "ByteWriter \<Rightarrow> NatPeerHint \<Rightarrow> ByteWriter result" where
  "write_nat_peer_hint w hint =
    (if nh_port hint = 0 then Inl errc.InvalidArg
     else if nh_family hint \<noteq> NatHintFamily_IPv4 \<and> nh_family hint \<noteq> NatHintFamily_IPv6 then Inl errc.InvalidArg
     else rbind (write_u8 w (nh_family hint)) (\<lambda>w.
       rbind (write_u16 w (nh_port hint)) (\<lambda>w.
       write_bytes w (Some (nh_address hint)) (length (nh_address hint)))))"

definition read_nat_peer_hint :: "ByteReader \<Rightarrow> (NatPeerHint \<times> ByteReader) result" where
  "read_nat_peer_hint r =
    rbind (read_u8 r) (\<lambda>(family, r).
    if family \<noteq> NatHintFamily_IPv4 \<and> family \<noteq> NatHintFamily_IPv6 then Inl errc.BadPacket
    else rbind (read_u16 r) (\<lambda>(port, r).
      if port = 0 then Inl errc.BadPacket
      else rbind (read_bytes r 16) (\<lambda>(address, r).
        if remaining_r r \<noteq> 0 then Inl errc.BadPacket
        else Inr (\<lparr>nh_family = family, nh_port = port, nh_address = address\<rparr>, r))))"

definition make_nat_peer_hint :: "Endpoint \<Rightarrow> NatPeerHint result" where
  "make_nat_peer_hint endpoint =
    (if ep_len endpoint = 0 then Inl errc.InvalidArg
     else case ep_addr endpoint of
       Inet p a \<Rightarrow> Inr \<lparr>nh_family = NatHintFamily_IPv4, nh_port = p, nh_address = take 4 a @ replicate 12 0\<rparr>
     | Inet6 p f a s \<Rightarrow> Inr \<lparr>nh_family = NatHintFamily_IPv6, nh_port = p, nh_address = take 16 a\<rparr>
     | OtherAddr f bs \<Rightarrow> Inl errc.InvalidArg)"

definition endpoint_from_nat_peer_hint :: "NatPeerHint \<Rightarrow> Endpoint result" where
  "endpoint_from_nat_peer_hint hint =
    (if nh_port hint = 0 then Inl errc.InvalidArg
     else if nh_family hint = NatHintFamily_IPv4 then
       Inr \<lparr>ep_addr = Inet (nh_port hint) (take 4 (nh_address hint)), ep_len = sizeof_sockaddr_in\<rparr>
     else if nh_family hint = NatHintFamily_IPv6 then
       Inr \<lparr>ep_addr = Inet6 (nh_port hint) 0 (take 16 (nh_address hint)) 0, ep_len = sizeof_sockaddr_in6\<rparr>
     else Inl errc.InvalidArg)"

definition write_nat_punch_frame :: "ByteWriter \<Rightarrow> NatPunchFrame \<Rightarrow> ByteWriter result" where
  "write_nat_punch_frame w frame =
    (if np_token frame = 0 \<or> np_issued_at_ms frame = 0 then Inl errc.InvalidArg
     else rbind (write_u64 w (np_token frame)) (\<lambda>w. write_u64 w (np_issued_at_ms frame)))"

definition read_nat_punch_frame :: "ByteReader \<Rightarrow> (NatPunchFrame \<times> ByteReader) result" where
  "read_nat_punch_frame r =
    rbind (read_u64 r) (\<lambda>(token, r).
    rbind (read_u64 r) (\<lambda>(issued_at_ms, r).
    if token = 0 \<or> issued_at_ms = 0 then Inl errc.BadPacket
    else if remaining_r r \<noteq> 0 then Inl errc.BadPacket
    else Inr (\<lparr>np_token = token, np_issued_at_ms = issued_at_ms\<rparr>, r)))"

section \<open>The formats\<close>

definition enc_nat_peer_hint :: "NatPeerHint \<Rightarrow> U8 list" where
  "enc_nat_peer_hint h = enc_u8 (nh_family h) @ be_bytes 2 (nh_port h) @ nh_address h"

definition valid_nat_peer_hint :: "NatPeerHint \<Rightarrow> bool" where
  "valid_nat_peer_hint h \<longleftrightarrow> (nh_family h = NatHintFamily_IPv4 \<or> nh_family h = NatHintFamily_IPv6) \<and>
     nh_port h \<noteq> 0 \<and> length (nh_address h) = 16"

definition enc_nat_punch_frame :: "NatPunchFrame \<Rightarrow> U8 list" where
  "enc_nat_punch_frame f = be_bytes 8 (np_token f) @ be_bytes 8 (np_issued_at_ms f)"

definition valid_nat_punch_frame :: "NatPunchFrame \<Rightarrow> bool" where
  "valid_nat_punch_frame f \<longleftrightarrow> np_token f \<noteq> 0 \<and> np_issued_at_ms f \<noteq> 0"

lemma write_nat_peer_hint_emit:
  "writer_wf w \<Longrightarrow> valid_nat_peer_hint h \<Longrightarrow> write_nat_peer_hint w h = emit (enc_nat_peer_hint h) w"
  unfolding enc_nat_peer_hint_def write_nat_peer_hint_def valid_nat_peer_hint_def
  by (auto intro!: rbind_emit write_rules simp: write_bytes_emit)

lemma write_nat_punch_frame_emit:
  "writer_wf w \<Longrightarrow> valid_nat_punch_frame f \<Longrightarrow> write_nat_punch_frame w f = emit (enc_nat_punch_frame f) w"
  unfolding enc_nat_punch_frame_def
  by (simp add: write_nat_punch_frame_def valid_nat_punch_frame_def) (intro rbind_emit write_rules)

lemma read_nat_peer_hint_iff:
  "read_nat_peer_hint (rd bs 0) = Inr (h, r) \<longleftrightarrow>
   valid_nat_peer_hint h \<and> bs = enc_nat_peer_hint h \<and> r = rd bs (length bs)" (is "?L \<longleftrightarrow> ?R")
proof -
  have "?L \<longleftrightarrow> valid_nat_peer_hint h \<and>
      (bytes_at bs 0 (enc_nat_peer_hint h) \<and> length bs - length (enc_nat_peer_hint h) = 0) \<and>
      r = rd bs (length (enc_nat_peer_hint h))"
    by (cases h) (auto simp: read_nat_peer_hint_def rbind_Inr_iff2 read_iffs read_binds valid_nat_peer_hint_def
        enc_nat_peer_hint_def bytes_at_append simp del: add_2_eq_Suc add_2_eq_Suc')
  also have "\<dots> \<longleftrightarrow> ?R" using bytes_at_all [of bs "enc_nat_peer_hint h"] by metis
  finally show ?thesis .
qed

lemma read_nat_punch_frame_iff:
  "read_nat_punch_frame (rd bs 0) = Inr (f, r) \<longleftrightarrow>
   valid_nat_punch_frame f \<and> bs = enc_nat_punch_frame f \<and> r = rd bs (length bs)" (is "?L \<longleftrightarrow> ?R")
proof -
  have "?L \<longleftrightarrow> valid_nat_punch_frame f \<and>
      (bytes_at bs 0 (enc_nat_punch_frame f) \<and> length bs - length (enc_nat_punch_frame f) = 0) \<and>
      r = rd bs (length (enc_nat_punch_frame f))"
    by (cases f) (auto simp: read_nat_punch_frame_def read_binds valid_nat_punch_frame_def enc_nat_punch_frame_def bytes_at_append)
  also have "\<dots> \<longleftrightarrow> ?R" using bytes_at_all [of bs "enc_nat_punch_frame f"] by metis
  finally show ?thesis .
qed

interpretation nat_peer_hint: wire_codec enc_nat_peer_hint "decode_with read_nat_peer_hint" valid_nat_peer_hint
  by unfold_locales (auto simp: decode_with_def rbind_Inr_iff2 read_nat_peer_hint_iff)

interpretation nat_punch_frame: wire_codec enc_nat_punch_frame "decode_with read_nat_punch_frame" valid_nat_punch_frame
  by unfold_locales (auto simp: decode_with_def rbind_Inr_iff2 read_nat_punch_frame_iff)

section \<open>An endpoint through a hint\<close>

text \<open>The endpoint that the other side has after the hint has travelled.\<close>

definition exchange_endpoint :: "Endpoint \<Rightarrow> Endpoint result" where
  "exchange_endpoint ep =
    rbind (make_nat_peer_hint ep) (\<lambda>hint.
    rbind (write_nat_peer_hint (writer_on (replicate 19 0) 19) hint) (\<lambda>w.
    rbind (decode_with read_nat_peer_hint (written w)) endpoint_from_nat_peer_hint))"

lemma hint_travels:
  assumes "nh_family h = NatHintFamily_IPv4 \<or> nh_family h = NatHintFamily_IPv6" "length (nh_address h) = 16"
  shows "rbind (write_nat_peer_hint (writer_on (replicate 19 0) 19) h) (\<lambda>w.
      rbind (decode_with read_nat_peer_hint (written w)) endpoint_from_nat_peer_hint) =
      (if nh_port h = 0 then Inl errc.InvalidArg else endpoint_from_nat_peer_hint h)"
proof (cases "nh_port h = 0")
  case True
  then show ?thesis by (simp add: write_nat_peer_hint_def)
next
  case False
  then have v: "valid_nat_peer_hint h" using assms by (simp add: valid_nat_peer_hint_def)
  have "length (enc_nat_peer_hint h) = 19" using assms by (simp add: enc_nat_peer_hint_def)
  then obtain w where w: "emit (enc_nat_peer_hint h) (writer_on (replicate 19 0) 19) = Inr w"
    by (simp add: emit_writer_on)
  then have "written w = enc_nat_peer_hint h" by (rule written_emit_on) simp
  then show ?thesis
    using w v False nat_peer_hint.dec_enc [OF v] by (simp add: write_nat_peer_hint_emit)
qed

text \<open>
  C36: an endpoint that travels as a peer hint.  An IPv4 or IPv6 endpoint with a port arrives with the
  same address and the same port; it arrives equal to the endpoint that was sent exactly when it is an
  IPv4 endpoint or its IPv6 scope id is 0, for the hint has no scope id: a link-local address is lost.
  An empty endpoint, one of another family or one without a port is refused.
\<close>

theorem nat_hint_exchange:
  assumes "ep_wf ep"
  shows "(case ep_addr ep of
       Inet p a \<Rightarrow> ep_len ep \<noteq> 0 \<and> p \<noteq> 0 \<longrightarrow> (\<exists>q. exchange_endpoint ep = Inr q \<and> ep_eq q ep)
     | Inet6 p f a s \<Rightarrow> ep_len ep \<noteq> 0 \<and> p \<noteq> 0 \<longrightarrow>
         (\<exists>q. exchange_endpoint ep = Inr q \<and> get_in_addr (ep_addr q) = a \<and> ep_port q = p \<and> (ep_eq q ep \<longleftrightarrow> s = 0))
     | OtherAddr f bs \<Rightarrow> exchange_endpoint ep = Inl errc.InvalidArg) \<and>
     (ep_len ep = 0 \<or> ep_port ep = 0 \<longrightarrow> exchange_endpoint ep = Inl errc.InvalidArg)"
proof (cases "ep_addr ep")
  case (Inet p a)
  then have "length a = 4" using assms by (simp add: ep_wf_def)
  then have "ep_len ep \<noteq> 0 \<Longrightarrow> exchange_endpoint ep =
      (if p = 0 then Inl errc.InvalidArg else Inr \<lparr>ep_addr = Inet p a, ep_len = 16\<rparr>)"
    by (simp add: exchange_endpoint_def make_nat_peer_hint_def Inet hint_travels endpoint_from_nat_peer_hint_def sockaddr_sizes)
  moreover have "ep_len ep = 0 \<Longrightarrow> exchange_endpoint ep = Inl errc.InvalidArg"
    by (simp add: exchange_endpoint_def make_nat_peer_hint_def)
  ultimately show ?thesis by (auto simp: Inet ep_eq_def ep_port_def)
next
  case (Inet6 p f a s)
  then have "length a = 16" using assms by (simp add: ep_wf_def)
  then have "ep_len ep \<noteq> 0 \<Longrightarrow> exchange_endpoint ep =
      (if p = 0 then Inl errc.InvalidArg else Inr \<lparr>ep_addr = Inet6 p 0 a 0, ep_len = 28\<rparr>)"
    by (simp add: exchange_endpoint_def make_nat_peer_hint_def Inet6 hint_travels endpoint_from_nat_peer_hint_def sockaddr_sizes
        nat_families)
  moreover have "ep_len ep = 0 \<Longrightarrow> exchange_endpoint ep = Inl errc.InvalidArg"
    by (simp add: exchange_endpoint_def make_nat_peer_hint_def)
  ultimately show ?thesis by (auto simp: Inet6 ep_eq_def ep_port_def get_in_addr_def)
next
  case (OtherAddr f bs)
  then show ?thesis by (simp add: exchange_endpoint_def make_nat_peer_hint_def)
qed

theorem nat_hint_exchange_witness:
  "\<exists>q. exchange_endpoint \<lparr>ep_addr = Inet6 9000 0 (replicate 16 7) 2, ep_len = 28\<rparr> = Inr q \<and>
     \<not> ep_eq q \<lparr>ep_addr = Inet6 9000 0 (replicate 16 7) 2, ep_len = 28\<rparr>"
  using nat_hint_exchange [of "\<lparr>ep_addr = Inet6 9000 0 (replicate 16 7) 2, ep_len = 28\<rparr>"]
  by (auto simp: ep_wf_def sockaddr_sizes)

end
