(* ===== verification/Scn_Codec.thy ===== *)
theory Scn_Codec
  imports Scn_Message
begin

text \<open>
  The application codec (\<^verbatim>\<open>codec.hpp\<close>): \<^verbatim>\<open>BinaryWriter\<close> and \<^verbatim>\<open>BinaryReader\<close>, thin wrappers over the byte
  buffers for numbers, signed ones included, byte strings with a length in front, and the bytes of a
  value in memory.

  A signed number is an integer; the cast to the unsigned type takes it modulo the width and the cast
  back reads the word as a two's complement number.
\<close>

section \<open>BinaryWriter\<close>

definition put_u8 :: "ByteWriter \<Rightarrow> U8 \<Rightarrow> ByteWriter result" where "put_u8 w value = write_u8 w value"
definition put_i8 :: "ByteWriter \<Rightarrow> int \<Rightarrow> ByteWriter result" where "put_i8 w value = write_u8 w (word_of_int value)"
definition put_u16 :: "ByteWriter \<Rightarrow> U16 \<Rightarrow> ByteWriter result" where "put_u16 w value = write_u16 w value"
definition put_i16 :: "ByteWriter \<Rightarrow> int \<Rightarrow> ByteWriter result" where "put_i16 w value = write_u16 w (word_of_int value)"
definition put_u32 :: "ByteWriter \<Rightarrow> U32 \<Rightarrow> ByteWriter result" where "put_u32 w value = write_u32 w value"
definition put_i32 :: "ByteWriter \<Rightarrow> int \<Rightarrow> ByteWriter result" where "put_i32 w value = write_u32 w (word_of_int value)"
definition put_u64 :: "ByteWriter \<Rightarrow> U64 \<Rightarrow> ByteWriter result" where "put_u64 w value = write_u64 w value"
definition put_i64 :: "ByteWriter \<Rightarrow> int \<Rightarrow> ByteWriter result" where "put_i64 w value = write_u64 w (word_of_int value)"

definition put_bytes :: "ByteWriter \<Rightarrow> U8 list \<Rightarrow> ByteWriter result" where
  "put_bytes w value = write_bytes w (Some value) (length value)"

definition put_sized_bytes :: "ByteWriter \<Rightarrow> U8 list \<Rightarrow> ByteWriter result" where
  "put_sized_bytes w value =
    (if U16_MAX < length value then Inl TooLarge
     else rbind (write_u16 w (of_nat (length value))) (\<lambda>w. put_bytes w value))"

definition put_string :: "ByteWriter \<Rightarrow> U8 list \<Rightarrow> ByteWriter result" where
  "put_string w value = put_sized_bytes w value"

text \<open>\<^verbatim>\<open>pod\<close>, on the bytes of the value.\<close>

definition put_pod :: "ByteWriter \<Rightarrow> U8 list \<Rightarrow> ByteWriter result" where
  "put_pod w value = put_bytes w value"

section \<open>BinaryReader\<close>

definition get_u8 :: "ByteReader \<Rightarrow> (U8 \<times> ByteReader) result" where "get_u8 r = read_u8 r"
definition get_i8 :: "ByteReader \<Rightarrow> (int \<times> ByteReader) result" where
  "get_i8 r = rbind (read_u8 r) (\<lambda>(tmp, r). Inr (sint tmp, r))"
definition get_u16 :: "ByteReader \<Rightarrow> (U16 \<times> ByteReader) result" where "get_u16 r = read_u16 r"
definition get_i16 :: "ByteReader \<Rightarrow> (int \<times> ByteReader) result" where
  "get_i16 r = rbind (read_u16 r) (\<lambda>(tmp, r). Inr (sint tmp, r))"
definition get_u32 :: "ByteReader \<Rightarrow> (U32 \<times> ByteReader) result" where "get_u32 r = read_u32 r"
definition get_i32 :: "ByteReader \<Rightarrow> (int \<times> ByteReader) result" where
  "get_i32 r = rbind (read_u32 r) (\<lambda>(tmp, r). Inr (sint tmp, r))"
definition get_u64 :: "ByteReader \<Rightarrow> (U64 \<times> ByteReader) result" where "get_u64 r = read_u64 r"
definition get_i64 :: "ByteReader \<Rightarrow> (int \<times> ByteReader) result" where
  "get_i64 r = rbind (read_u64 r) (\<lambda>(tmp, r). Inr (sint tmp, r))"

definition get_bytes :: "ByteReader \<Rightarrow> ST \<Rightarrow> (U8 list \<times> ByteReader) result" where
  "get_bytes r len = read_bytes r len"

definition get_sized_bytes :: "ByteReader \<Rightarrow> (U8 list \<times> ByteReader) result" where
  "get_sized_bytes r = rbind (read_u16 r) (\<lambda>(len, r). read_bytes r (unat len))"

definition get_string_view :: "ByteReader \<Rightarrow> (U8 list \<times> ByteReader) result" where
  "get_string_view r =
    rbind (read_u16 r) (\<lambda>(len, r).
      let ptr = peek_ptr r (unat len) in
      if 0 < len \<and> ptr = None then Inl errc.Truncated
      else rbind (skip r (unat len)) (\<lambda>r. Inr (case ptr of Some p \<Rightarrow> p | None \<Rightarrow> [], r)))"

definition get_pod :: "ByteReader \<Rightarrow> ST \<Rightarrow> (U8 list \<times> ByteReader) result" where
  "get_pod r len = read_bytes r len"

section \<open>A message of several values\<close>

text \<open>The values an application writes one after the other, and the calls that read them back.\<close>

datatype codec_value =
    VU8 U8 | VI8 int | VU16 U16 | VI16 int | VU32 U32 | VI32 int | VU64 U64 | VI64 int
  | VSized "U8 list" | VString "U8 list" | VPod "U8 list"

fun put_value :: "codec_value \<Rightarrow> ByteWriter \<Rightarrow> ByteWriter result" where
  "put_value (VU8 v) w = put_u8 w v"
| "put_value (VI8 v) w = put_i8 w v"
| "put_value (VU16 v) w = put_u16 w v"
| "put_value (VI16 v) w = put_i16 w v"
| "put_value (VU32 v) w = put_u32 w v"
| "put_value (VI32 v) w = put_i32 w v"
| "put_value (VU64 v) w = put_u64 w v"
| "put_value (VI64 v) w = put_i64 w v"
| "put_value (VSized v) w = put_sized_bytes w v"
| "put_value (VString v) w = put_string w v"
| "put_value (VPod v) w = put_pod w v"

definition get_as :: "('a \<Rightarrow> codec_value) \<Rightarrow> ('a \<times> ByteReader) result \<Rightarrow> (codec_value \<times> ByteReader) result" where
  "get_as c m = rbind m (\<lambda>(x, r). Inr (c x, r))"

text \<open>The call that reads a value of the kind of \<open>v\<close>; for the bytes of a value in memory, of its size.\<close>

fun get_like :: "codec_value \<Rightarrow> ByteReader \<Rightarrow> (codec_value \<times> ByteReader) result" where
  "get_like (VU8 _) r = get_as VU8 (get_u8 r)"
| "get_like (VI8 _) r = get_as VI8 (get_i8 r)"
| "get_like (VU16 _) r = get_as VU16 (get_u16 r)"
| "get_like (VI16 _) r = get_as VI16 (get_i16 r)"
| "get_like (VU32 _) r = get_as VU32 (get_u32 r)"
| "get_like (VI32 _) r = get_as VI32 (get_i32 r)"
| "get_like (VU64 _) r = get_as VU64 (get_u64 r)"
| "get_like (VI64 _) r = get_as VI64 (get_i64 r)"
| "get_like (VSized _) r = get_as VSized (get_sized_bytes r)"
| "get_like (VString _) r = get_as VString (get_string_view r)"
| "get_like (VPod v) r = get_as VPod (get_pod r (length v))"

primrec put_values :: "codec_value list \<Rightarrow> ByteWriter \<Rightarrow> ByteWriter result" where
  "put_values [] w = Inr w"
| "put_values (v # vs) w = rbind (put_value v w) (put_values vs)"

primrec get_values :: "codec_value list \<Rightarrow> ByteReader \<Rightarrow> (codec_value list \<times> ByteReader) result" where
  "get_values [] r = Inr ([], r)"
| "get_values (v # vs) r = rbind (get_like v r) (\<lambda>(x, r). rbind (get_values vs r) (\<lambda>(xs, r). Inr (x # xs, r)))"

fun enc_value :: "codec_value \<Rightarrow> U8 list" where
  "enc_value (VU8 v) = enc_u8 v"
| "enc_value (VI8 v) = enc_u8 (word_of_int v)"
| "enc_value (VU16 v) = be_bytes 2 v"
| "enc_value (VI16 v) = be_bytes 2 (word_of_int v :: U16)"
| "enc_value (VU32 v) = be_bytes 4 v"
| "enc_value (VI32 v) = be_bytes 4 (word_of_int v :: U32)"
| "enc_value (VU64 v) = be_bytes 8 v"
| "enc_value (VI64 v) = be_bytes 8 (word_of_int v :: U64)"
| "enc_value (VSized v) = be_bytes 2 (of_nat (length v) :: U16) @ v"
| "enc_value (VString v) = be_bytes 2 (of_nat (length v) :: U16) @ v"
| "enc_value (VPod v) = v"

fun value_fits :: "codec_value \<Rightarrow> bool" where
  "value_fits (VI8 v) \<longleftrightarrow> - (2 ^ 7) \<le> v \<and> v < 2 ^ 7"
| "value_fits (VI16 v) \<longleftrightarrow> - (2 ^ 15) \<le> v \<and> v < 2 ^ 15"
| "value_fits (VI32 v) \<longleftrightarrow> - (2 ^ 31) \<le> v \<and> v < 2 ^ 31"
| "value_fits (VI64 v) \<longleftrightarrow> - (2 ^ 63) \<le> v \<and> v < 2 ^ 63"
| "value_fits (VSized v) \<longleftrightarrow> length v \<le> U16_MAX"
| "value_fits (VString v) \<longleftrightarrow> length v \<le> U16_MAX"
| "value_fits _ \<longleftrightarrow> True"

lemma put_value_emit:
  assumes "writer_wf w" "value_fits v"
  shows "put_value v w = emit (enc_value v) w"
  using assms
  by (cases v) (auto simp: put_u8_def put_i8_def put_u16_def put_i16_def put_u32_def put_i32_def put_u64_def put_i64_def
      put_sized_bytes_def put_string_def put_pod_def put_bytes_def write_rules intro!: rbind_emit write_rules)

lemma put_values_emit:
  "writer_wf w \<Longrightarrow> list_all value_fits vs \<Longrightarrow> put_values vs w = emit (concat (map enc_value vs)) w"
proof (induction vs arbitrary: w)
  case (Cons v vs)
  then show ?case
    using rbind_emit [OF put_value_emit, of w v "put_values vs" "concat (map enc_value vs)"] by simp
qed simp

lemma sint_of_int:
  "- (2 ^ 7) \<le> v \<Longrightarrow> v < 2 ^ 7 \<Longrightarrow> sint (word_of_int v :: U8) = v"
  "- (2 ^ 15) \<le> v \<Longrightarrow> v < 2 ^ 15 \<Longrightarrow> sint (word_of_int v :: U16) = v"
  "- (2 ^ 31) \<le> v \<Longrightarrow> v < 2 ^ 31 \<Longrightarrow> sint (word_of_int v :: U32) = v"
  "- (2 ^ 63) \<le> v \<Longrightarrow> v < 2 ^ 63 \<Longrightarrow> sint (word_of_int v :: U64) = v"
  by (simp_all add: signed_of_int signed_take_bit_int_eq_self)

lemma get_like_at:
  assumes "bytes_at bs k (enc_value v)" "value_fits v"
  shows "get_like v (rd bs k) = Inr (v, rd bs (k + length (enc_value v)))"
proof -
  have sized: "unat (of_nat (length p) :: U16) = length p" if "length p \<le> U16_MAX" for p :: "U8 list"
    using that by (simp add: U16_MAX_def unat_of_nat_small)
  show ?thesis
    using assms
    by (cases v) (auto simp: get_as_def get_u8_def get_i8_def get_u16_def get_i16_def get_u32_def get_i32_def get_u64_def get_i64_def
        get_sized_bytes_def get_string_view_def get_pod_def read_at sint_of_int sized bytes_at_append Let_def add.assoc)
qed

lemma get_values_at:
  "bytes_at bs k (concat (map enc_value vs)) \<Longrightarrow> list_all value_fits vs \<Longrightarrow>
   get_values vs (rd bs k) = Inr (vs, rd bs (k + length (concat (map enc_value vs))))"
proof (induction vs arbitrary: k)
  case (Cons v vs)
  then show ?case by (simp add: bytes_at_append get_like_at add.assoc)
qed (simp add: bytes_at_Nil)

text \<open>
  C37: what an application writes through the binary writer it reads back through the binary reader:
  every sequence of numbers, signed ones at the ends of their range included, byte strings, texts and
  values in memory, as long as it fits the buffer; reading consumes exactly what was written.  A buffer
  that is too small is refused as truncated.
\<close>

theorem codec_roundtrip:
  assumes "list_all value_fits vs" and "n = length buf"
  shows "(case put_values vs (writer_on buf n) of
      Inr w \<Rightarrow> get_values vs (rd (written w) 0) = Inr (vs, rd (written w) (length (written w)))
    | Inl e \<Rightarrow> e = errc.Truncated \<and> n < length (concat (map enc_value vs)))"
proof -
  let ?bs = "concat (map enc_value vs)"
  have put: "put_values vs (writer_on buf n) = emit ?bs (writer_on buf n)"
    using assms by (intro put_values_emit) simp_all
  show ?thesis
  proof (cases "emit ?bs (writer_on buf n)")
    case (Inl e)
    then show ?thesis unfolding put by (auto simp: emit_writer_on split: if_splits)
  next
    case (Inr w)
    then have "written w = ?bs"
      using emit_written(1) [of "writer_on buf n" ?bs w] assms(2) by (simp add: written_def)
    then show ?thesis
      unfolding put using Inr get_values_at [of ?bs 0 vs] assms(1) by (simp add: bytes_at_def)
  qed
qed

theorem codec_roundtrip_witness:
  "\<exists>w. put_values [VI8 (- 128), VI64 (- (2 ^ 63)), VString [104, 105], VU16 7] (writer_on (replicate 15 0) 15) = Inr w \<and>
     get_values [VI8 (- 128), VI64 (- (2 ^ 63)), VString [104, 105], VU16 7] (rd (written w) 0) =
       Inr ([VI8 (- 128), VI64 (- (2 ^ 63)), VString [104, 105], VU16 7], rd (written w) (length (written w)))"
  using codec_roundtrip [of "[VI8 (- 128), VI64 (- (2 ^ 63)), VString [104, 105], VU16 7]" 15 "replicate 15 0"]
  by (auto simp: U16_MAX_def split: sum.splits)

end
