(* ===== verification/Scn_Router.thy ===== *)
theory Scn_Router
  imports Scn_Client Scn_Server
begin

text \<open>
  Message routing (\<^verbatim>\<open>router.hpp\<close>): a table of handlers by message type with a fallback and an error
  handler, for a client and for a server.  The two classes of the source have the same text up to the
  peer that the server passes on; they are one table here whose handlers take the peer, which for the
  client is the unit value.

  A handler is an action on the state of its owner.  It returns a result, or nothing, which counts as
  success.
\<close>

record RouteResult =
  rt_handled :: bool
  rt_rc :: "unit result"

definition RouteResult_unhandled :: RouteResult where
  "RouteResult_unhandled = \<lparr>rt_handled = False, rt_rc = Inr ()\<rparr>"

definition RouteResult_success :: RouteResult where
  "RouteResult_success = \<lparr>rt_handled = True, rt_rc = Inr ()\<rparr>"

definition RouteResult_fail :: "errc \<Rightarrow> RouteResult" where
  "RouteResult_fail code = \<lparr>rt_handled = True, rt_rc = Inl code\<rparr>"

datatype 'c route_call = ReturnsResult "('c, unit result) act" | ReturnsNothing "('c, unit) act"

fun invoke_route_handler :: "'c route_call \<Rightarrow> ('c, unit result) act" where
  "invoke_route_handler (ReturnsResult m) = m"
| "invoke_route_handler (ReturnsNothing m) = do { m; ret (Inr ()) }"

type_synonym ('p, 'c) route_handler = "'p \<Rightarrow> MsgView \<Rightarrow> ('c, unit result) act"

record ('p, 'c) Router =
  ro_handlers :: "U8 \<Rightarrow> ('p, 'c) route_handler option"
  ro_fallback :: "('p, 'c) route_handler option"
  ro_on_error :: "('p \<Rightarrow> MsgView \<Rightarrow> unit result \<Rightarrow> ('c, unit) act) option"

definition Router_default :: "('p, 'c) Router" where
  "Router_default = \<lparr>ro_handlers = (\<lambda>_. None), ro_fallback = None, ro_on_error = None\<rparr>"

section \<open>Registration\<close>

definition router_on :: "U8 \<Rightarrow> ('p \<Rightarrow> MsgView \<Rightarrow> 'c route_call) \<Rightarrow> ('p, 'c) Router \<Rightarrow> ('p, 'c) Router" where
  "router_on type fn r =
     r\<lparr>ro_handlers := (ro_handlers r)(type := Some (\<lambda>peer msg. invoke_route_handler (fn peer msg)))\<rparr>"

definition router_on_text :: "U8 \<Rightarrow> ('p \<Rightarrow> U8 list \<Rightarrow> 'c route_call) \<Rightarrow> ('p, 'c) Router \<Rightarrow> ('p, 'c) Router" where
  "router_on_text type fn r =
     router_on type (\<lambda>peer msg. ReturnsResult (invoke_route_handler (fn peer (msg_bytes msg)))) r"

text \<open>For a type of the given size; the handler gets the bytes of the value.\<close>

definition router_on_binary :: "ST \<Rightarrow> U8 \<Rightarrow> ('p \<Rightarrow> U8 list \<Rightarrow> 'c route_call) \<Rightarrow> ('p, 'c) Router \<Rightarrow> ('p, 'c) Router" where
  "router_on_binary sizeof_T type fn r =
     router_on type (\<lambda>peer msg. ReturnsResult
       (case msg_as sizeof_T msg of
          Inl e \<Rightarrow> ret (Inl e)
        | Inr value \<Rightarrow> invoke_route_handler (fn peer value))) r"

definition router_on_unhandled :: "('p \<Rightarrow> MsgView \<Rightarrow> 'c route_call) \<Rightarrow> ('p, 'c) Router \<Rightarrow> ('p, 'c) Router" where
  "router_on_unhandled fn r = r\<lparr>ro_fallback := Some (\<lambda>peer msg. invoke_route_handler (fn peer msg))\<rparr>"

definition router_on_error :: "('p \<Rightarrow> MsgView \<Rightarrow> unit result \<Rightarrow> ('c, unit) act) option \<Rightarrow> ('p, 'c) Router \<Rightarrow> ('p, 'c) Router" where
  "router_on_error fn r = r\<lparr>ro_on_error := fn\<rparr>"

definition router_clear_type :: "U8 \<Rightarrow> ('p, 'c) Router \<Rightarrow> ('p, 'c) Router" where
  "router_clear_type type r = r\<lparr>ro_handlers := (ro_handlers r)(type := None)\<rparr>"

definition router_clear :: "('p, 'c) Router \<Rightarrow> ('p, 'c) Router" where
  "router_clear r = r\<lparr>ro_handlers := (\<lambda>_. None), ro_fallback := None, ro_on_error := None\<rparr>"

definition router_has :: "('p, 'c) Router \<Rightarrow> U8 \<Rightarrow> bool" where
  "router_has r type \<longleftrightarrow> ro_handlers r type \<noteq> None"

section \<open>Dispatch\<close>

text \<open>Call a handler, tell the error handler of a failure, return the result.\<close>

definition route_to :: "('p, 'c) route_handler \<Rightarrow> ('p, 'c) Router \<Rightarrow> 'p \<Rightarrow> MsgView \<Rightarrow> ('c, RouteResult) act" where
  "route_to handler r peer msg = do {
     rc \<leftarrow> handler peer msg;
     (case ro_on_error r of
        Some on_error \<Rightarrow> whenM (\<not> ok rc) (on_error peer msg rc)
      | None \<Rightarrow> ret ());
     ret \<lparr>rt_handled = True, rt_rc = rc\<rparr>
   }"

definition router_dispatch :: "('p, 'c) Router \<Rightarrow> 'p \<Rightarrow> MsgView \<Rightarrow> ('c, RouteResult) act" where
  "router_dispatch r peer msg =
    (case ro_handlers r (mv_type msg) of
       Some handler \<Rightarrow> route_to handler r peer msg
     | None \<Rightarrow>
         (case ro_fallback r of
            Some fallback \<Rightarrow> route_to fallback r peer msg
          | None \<Rightarrow> ret RouteResult_unhandled))"

text \<open>The router as the message callback of a client or a server.\<close>

definition client_router_attach :: "(unit, 'w Client) Router \<Rightarrow> 'w cenv \<Rightarrow> 'w cenv" where
  "client_router_attach r E =
     E\<lparr>ce_on_message := Some (\<lambda>msg c. snd (run_state (router_dispatch r () msg) c))\<rparr>"

definition server_router_attach :: "(Peer, 'w Server) Router \<Rightarrow> 'w senv \<Rightarrow> 'w senv" where
  "server_router_attach r E =
     E\<lparr>se_on_message := Some (\<lambda>peer msg sv. snd (run_state (router_dispatch r peer msg) sv))\<rparr>"

section \<open>The table against the history of registrations\<close>

datatype ('p, 'c) route_op =
    On U8 "'p \<Rightarrow> MsgView \<Rightarrow> 'c route_call"
  | OnText U8 "'p \<Rightarrow> U8 list \<Rightarrow> 'c route_call"
  | OnBinary ST U8 "'p \<Rightarrow> U8 list \<Rightarrow> 'c route_call"
  | OnUnhandled "'p \<Rightarrow> MsgView \<Rightarrow> 'c route_call"
  | OnError "('p \<Rightarrow> MsgView \<Rightarrow> unit result \<Rightarrow> ('c, unit) act) option"
  | ClearType U8
  | ClearAll

fun route_exec :: "('p, 'c) route_op \<Rightarrow> ('p, 'c) Router \<Rightarrow> ('p, 'c) Router" where
  "route_exec (On t f) r = router_on t f r"
| "route_exec (OnText t f) r = router_on_text t f r"
| "route_exec (OnBinary n t f) r = router_on_binary n t f r"
| "route_exec (OnUnhandled f) r = router_on_unhandled f r"
| "route_exec (OnError f) r = router_on_error f r"
| "route_exec (ClearType t) r = router_clear_type t r"
| "route_exec ClearAll r = router_clear r"

text \<open>
  The specification: no table, only the list of registrations, the latest first.  What answers a
  message is the first entry that speaks about it.
\<close>

fun spec_call :: "('p, 'c) route_op list \<Rightarrow> U8 \<Rightarrow> 'p \<Rightarrow> MsgView \<Rightarrow> ('c, unit result) act option" where
  "spec_call [] t peer msg = None"
| "spec_call (On u f # h) t peer msg =
     (if u = t then Some (invoke_route_handler (f peer msg)) else spec_call h t peer msg)"
| "spec_call (OnText u f # h) t peer msg =
     (if u = t then Some (invoke_route_handler (f peer (msg_bytes msg))) else spec_call h t peer msg)"
| "spec_call (OnBinary n u f # h) t peer msg =
     (if u = t then Some (case msg_as n msg of Inl e \<Rightarrow> ret (Inl e) | Inr v \<Rightarrow> invoke_route_handler (f peer v))
      else spec_call h t peer msg)"
| "spec_call (ClearType u # h) t peer msg = (if u = t then None else spec_call h t peer msg)"
| "spec_call (ClearAll # h) t peer msg = None"
| "spec_call (_ # h) t peer msg = spec_call h t peer msg"

fun spec_fallback :: "('p, 'c) route_op list \<Rightarrow> 'p \<Rightarrow> MsgView \<Rightarrow> ('c, unit result) act option" where
  "spec_fallback [] peer msg = None"
| "spec_fallback (OnUnhandled f # h) peer msg = Some (invoke_route_handler (f peer msg))"
| "spec_fallback (ClearAll # h) peer msg = None"
| "spec_fallback (_ # h) peer msg = spec_fallback h peer msg"

fun spec_error :: "('p, 'c) route_op list \<Rightarrow> ('p \<Rightarrow> MsgView \<Rightarrow> unit result \<Rightarrow> ('c, unit) act) option" where
  "spec_error [] = None"
| "spec_error (OnError f # h) = f"
| "spec_error (ClearAll # h) = None"
| "spec_error (_ # h) = spec_error h"

definition spec_dispatch :: "('p, 'c) route_op list \<Rightarrow> 'p \<Rightarrow> MsgView \<Rightarrow> 'c \<Rightarrow> RouteResult \<times> 'c" where
  "spec_dispatch h peer msg s =
    (case (case spec_call h (mv_type msg) peer msg of Some m \<Rightarrow> Some m | None \<Rightarrow> spec_fallback h peer msg) of
       None \<Rightarrow> (RouteResult_unhandled, s)
     | Some m \<Rightarrow>
         (case run_state m s of
            (Inr u, s) \<Rightarrow> (RouteResult_success, s)
          | (Inl e, s) \<Rightarrow>
              (RouteResult_fail e,
               case spec_error h of
                 Some f \<Rightarrow> if e = Ok then s else snd (run_state (f peer msg (Inl e)) s)
               | None \<Rightarrow> s)))"

definition routes :: "('p, 'c) route_op list \<Rightarrow> ('p, 'c) Router" where
  "routes h = foldr route_exec h Router_default"

lemma routes_Cons: "routes (op # h) = route_exec op (routes h)"
  by (simp add: routes_def)

lemmas router_ops = router_on_def router_on_text_def router_on_binary_def router_on_unhandled_def router_on_error_def
  router_clear_type_def router_clear_def

lemma routes_call: "map_option (\<lambda>f. f peer msg) (ro_handlers (routes h) t) = spec_call h t peer msg"
  by (induction h t peer msg rule: spec_call.induct) (auto simp: routes_def Router_default_def router_ops)

lemma routes_fallback: "map_option (\<lambda>f. f peer msg) (ro_fallback (routes h)) = spec_fallback h peer msg"
  by (induction h peer msg rule: spec_fallback.induct) (auto simp: routes_def Router_default_def router_ops)

lemma routes_error: "ro_on_error (routes h) = spec_error h"
  by (induction h rule: spec_error.induct) (auto simp: routes_def Router_default_def router_ops)

text \<open>
  C19: whatever handlers were registered and cleared, in whatever order, a message is answered by the
  handler last registered for its type, else by the last fallback, else by none, which leaves the state
  alone; the error handler sees every failure and only failures, a text or binary handler gets the bytes
  of the message, and a binary handler is not called on a message of another size.
\<close>

theorem routing_by_history: "run_state (router_dispatch (routes h) peer msg) s = spec_dispatch h peer msg s"
proof -
  let ?r = "routes h"
  have to: "run_state (route_to f ?r peer msg) s =
      (case run_state (f peer msg) s of
         (Inr u, s) \<Rightarrow> (RouteResult_success, s)
       | (Inl e, s) \<Rightarrow> (RouteResult_fail e,
           case spec_error h of Some g \<Rightarrow> if e = Ok then s else snd (run_state (g peer msg (Inl e)) s) | None \<Rightarrow> s))" for f
    by (auto simp: route_to_def routes_error run_simps RouteResult_success_def RouteResult_fail_def ok_def
        split: prod.split sum.split option.split)
  show ?thesis
    unfolding spec_dispatch_def routes_call [symmetric] routes_fallback [symmetric]
    by (cases "ro_handlers ?r (mv_type msg)"; cases "ro_fallback ?r") (simp_all add: router_dispatch_def to run_simps)
qed

end
