(* ===== verification/Scn_Request.thy ===== *)
theory Scn_Request
  imports Scn_Router "HOL-Library.Multiset"
begin

text \<open>
  Requests and replies over messages (\<^verbatim>\<open>request_reply.hpp\<close>): the frame inside a message, the calls that
  send requests and responses, and the client's table of requests that wait for a response.

  A promise is the number of its creation; the table logs the value given to each promise.  The clock
  \<^verbatim>\<open>steady_millis\<close> reads the same clock as the client does.  A payload that is not empty has a pointer.
  Requests are not made from within callbacks of the client's own send.
\<close>

section \<open>Frames\<close>

definition RequestReplyDefaultMessageType :: U8 where
  "RequestReplyDefaultMessageType = 250"

definition RequestReplyHeaderBytes :: ST where
  "RequestReplyHeaderBytes = 13"

definition RequestReplyKind_Request :: U8 where "RequestReplyKind_Request = 1"
definition RequestReplyKind_Response :: U8 where "RequestReplyKind_Response = 2"
definition RequestReplyKind_Error :: U8 where "RequestReplyKind_Error = 3"

lemmas rq_kinds = RequestReplyKind_Request_def RequestReplyKind_Response_def RequestReplyKind_Error_def

record RequestReplyFrame =
  rq_kind :: U8
  rq_request_id :: U64
  rq_type :: U8
  rq_data :: "U8 list option"
  rq_len :: U16

definition rq_bytes :: "RequestReplyFrame \<Rightarrow> U8 list" where
  "rq_bytes f = (case rq_data f of None \<Rightarrow> [] | Some d \<Rightarrow> if rq_len f = 0 then [] else take (unat (rq_len f)) d)"

record RequestReplyOptions =
  rqo_envelope_type :: U8
  rqo_request_send :: SendOptions
  rqo_response_send :: SendOptions

definition RequestReplyOptions_default :: RequestReplyOptions where
  "RequestReplyOptions_default =
    \<lparr>rqo_envelope_type = RequestReplyDefaultMessageType,
     rqo_request_send = \<lparr>so_channel = Channel.ReliableOrdered, so_priority = SendPriority.Normal, so_lifetime_ms = 0\<rparr>,
     rqo_response_send = \<lparr>so_channel = Channel.ReliableOrdered, so_priority = SendPriority.Normal, so_lifetime_ms = 0\<rparr>\<rparr>"

definition request_reply_kind_valid :: "U8 \<Rightarrow> bool" where
  "request_reply_kind_valid kind \<longleftrightarrow>
     kind = RequestReplyKind_Request \<or> kind = RequestReplyKind_Response \<or> kind = RequestReplyKind_Error"

definition make_request_reply_frame :: "U8 \<Rightarrow> U64 \<Rightarrow> U8 \<Rightarrow> U8 list \<Rightarrow> U8 list result" where
  "make_request_reply_frame kind request_id type payload =
    (if \<not> request_reply_kind_valid kind then Inl errc.InvalidArg
     else if request_id = 0 then Inl errc.InvalidArg
     else if U16_MAX < length payload then Inl TooLarge
     else let size = RequestReplyHeaderBytes + length payload in
       rbind (write_u8 (writer_on (replicate size 0) size) 1) (\<lambda>w.
       rbind (write_u8 w kind) (\<lambda>w.
       rbind (write_u64 w request_id) (\<lambda>w.
       rbind (write_u8 w type) (\<lambda>w.
       rbind (write_u16 w (of_nat (length payload))) (\<lambda>w.
       rbind (if payload \<noteq> [] then write_bytes w (Some payload) (length payload) else Inr w) (\<lambda>w.
       Inr (the (bw_dst w)))))))))"

definition read_request_reply_frame :: "U8 list \<Rightarrow> RequestReplyFrame result" where
  "read_request_reply_frame bytes =
    (if length bytes < RequestReplyHeaderBytes then Inl errc.BadPacket
     else
       rbind (read_u8 (rd bytes 0)) (\<lambda>(version, r).
       rbind (read_u8 r) (\<lambda>(raw_kind, r).
       rbind (read_u64 r) (\<lambda>(request_id, r).
       rbind (read_u8 r) (\<lambda>(type, r).
       rbind (read_u16 r) (\<lambda>(len, r).
       if version \<noteq> 1 then Inl errc.UnsupportedVersion
       else if \<not> request_reply_kind_valid raw_kind then Inl errc.BadPacket
       else if request_id = 0 then Inl errc.BadPacket
       else if unat len \<noteq> remaining_r r then Inl errc.BadPacket
       else Inr \<lparr>rq_kind = raw_kind, rq_request_id = request_id, rq_type = type,
                 rq_data = (if len = 0 then None else peek_ptr r (unat len)), rq_len = len\<rparr>))))))"

definition read_request_reply_message :: "MsgView \<Rightarrow> U8 \<Rightarrow> RequestReplyFrame result" where
  "read_request_reply_message msg envelope_type =
    (if mv_type msg \<noteq> envelope_type then Inl errc.ProtocolError
     else read_request_reply_frame (msg_bytes msg))"

section \<open>Sending\<close>

definition send_request :: "'w cenv \<Rightarrow> U64 \<Rightarrow> U8 \<Rightarrow> U8 list \<Rightarrow> RequestReplyOptions \<Rightarrow> ('w, unit result) cact" where
  "send_request E request_id type payload options =
    (case make_request_reply_frame RequestReplyKind_Request request_id type payload of
       Inl e \<Rightarrow> ret (Inl e)
     | Inr frame \<Rightarrow> client_send E (rqo_request_send options) (rqo_envelope_type options) frame)"

definition send_response ::
  "'w senv \<Rightarrow> Peer \<Rightarrow> RequestReplyFrame \<Rightarrow> U8 list \<Rightarrow> RequestReplyOptions \<Rightarrow> ('w, unit result) sact" where
  "send_response E peer request payload options =
    (if rq_kind request \<noteq> RequestReplyKind_Request then ret (Inl InvalidArg)
     else case make_request_reply_frame RequestReplyKind_Response (rq_request_id request) (rq_type request) payload of
       Inl e \<Rightarrow> ret (Inl e)
     | Inr frame \<Rightarrow> peer_send E peer (rqo_response_send options) (rqo_envelope_type options) frame)"

definition send_error_response ::
  "'w senv \<Rightarrow> Peer \<Rightarrow> RequestReplyFrame \<Rightarrow> U8 list \<Rightarrow> RequestReplyOptions \<Rightarrow> ('w, unit result) sact" where
  "send_error_response E peer request error options =
    (if rq_kind request \<noteq> RequestReplyKind_Request then ret (Inl InvalidArg)
     else case make_request_reply_frame RequestReplyKind_Error (rq_request_id request) (rq_type request) error of
       Inl e \<Rightarrow> ret (Inl e)
     | Inr frame \<Rightarrow> peer_send E peer (rqo_response_send options) (rqo_envelope_type options) frame)"

section \<open>The table of requests\<close>

text \<open>\<^verbatim>\<open>RequestIdSource\<close> is its counter.\<close>

definition request_id_next :: "U64 \<Rightarrow> U64 \<times> U64" where
  "request_id_next n = (if n = 0 then (n + 1, n + 2) else (n, n + 1))"

definition request_id_reset :: "U64 \<Rightarrow> U64" where
  "request_id_reset first = (if first = 0 then 1 else first)"

record PendingRequest =
  pd_promise :: nat
  pd_expires_at_ms :: U64

record ClientRequestTable =
  tb_options :: RequestReplyOptions
  tb_ids :: U64
  tb_pending :: "(U64 \<times> PendingRequest) list"
  tb_promises :: nat
  tb_settled :: "(nat \<times> U8 list result) list"

definition ClientRequestTable_new :: "RequestReplyOptions \<Rightarrow> ClientRequestTable" where
  "ClientRequestTable_new options =
    \<lparr>tb_options = options, tb_ids = 1, tb_pending = [], tb_promises = 0, tb_settled = []\<rparr>"

text \<open>\<^verbatim>\<open>promise.set_value\<close> followed by the removal of the entry.\<close>

definition tb_settle :: "U64 \<Rightarrow> PendingRequest \<Rightarrow> U8 list result \<Rightarrow> ClientRequestTable \<Rightarrow> ClientRequestTable" where
  "tb_settle rid p value t =
     t\<lparr>tb_settled := tb_settled t @ [(pd_promise p, value)], tb_pending := AList.delete rid (tb_pending t)\<rparr>"

text \<open>The entry that waits: \<^verbatim>\<open>emplace\<close> keeps an entry that is already there and drops the new promise.\<close>

definition tb_emplace :: "U64 \<Rightarrow> U64 \<Rightarrow> ClientRequestTable \<Rightarrow> ClientRequestTable" where
  "tb_emplace rid expires t =
     t\<lparr>tb_promises := Suc (tb_promises t),
       tb_pending := (if map_of (tb_pending t) rid = None
         then tb_pending t @ [(rid, \<lparr>pd_promise = tb_promises t, pd_expires_at_ms = expires\<rparr>)] else tb_pending t)\<rparr>"

definition table_request ::
  "'w cenv \<Rightarrow> U8 \<Rightarrow> U8 list \<Rightarrow> U64 \<Rightarrow> ClientRequestTable \<Rightarrow> ('w, nat result \<times> ClientRequestTable) cact" where
  "table_request E type payload timeout_ms t = do {
     let (rid, ids) = request_id_next (tb_ids t);
     let t = t\<lparr>tb_ids := ids\<rparr>;
     case make_request_reply_frame RequestReplyKind_Request rid type payload of
       Inl e \<Rightarrow> ret (Inl e, t)
     | Inr frame \<Rightarrow> do {
         expires \<leftarrow> (if timeout_ms = 0 then ret 0 else do { now \<leftarrow> client_now_ms E; ret (now + timeout_ms) });
         let promise = tb_promises t;
         let t = tb_emplace rid expires t;
         rc \<leftarrow> client_send E (rqo_request_send (tb_options t)) (rqo_envelope_type (tb_options t)) frame;
         if ok rc then ret (Inr promise, t)
         else ret (Inl (code_of rc),
           case map_of (tb_pending t) rid of
             Some p \<Rightarrow> tb_settle rid p (Inl (code_of rc)) t
           | None \<Rightarrow> t)
       }
   }"

definition table_dispatch :: "MsgView \<Rightarrow> ClientRequestTable \<Rightarrow> RouteResult \<times> ClientRequestTable" where
  "table_dispatch msg t =
    (if mv_type msg \<noteq> rqo_envelope_type (tb_options t) then (RouteResult_unhandled, t)
     else case read_request_reply_message msg (rqo_envelope_type (tb_options t)) of
       Inl e \<Rightarrow> (\<lparr>rt_handled = True, rt_rc = Inl e\<rparr>, t)
     | Inr frame \<Rightarrow>
         if rq_kind frame \<noteq> RequestReplyKind_Response \<and> rq_kind frame \<noteq> RequestReplyKind_Error
           then (RouteResult_unhandled, t)
         else case map_of (tb_pending t) (rq_request_id frame) of
           None \<Rightarrow> (RouteResult_fail errc.ProtocolError, t)
         | Some p \<Rightarrow>
             (RouteResult_success,
              tb_settle (rq_request_id frame) p
                (if rq_kind frame = RequestReplyKind_Error then Inl errc.ProtocolError else Inr (rq_bytes frame)) t))"

definition request_due :: "U64 \<Rightarrow> PendingRequest \<Rightarrow> bool" where
  "request_due now p \<longleftrightarrow> pd_expires_at_ms p \<noteq> 0 \<and> pd_expires_at_ms p \<le> now"

definition table_expire :: "U64 \<Rightarrow> ClientRequestTable \<Rightarrow> ST \<times> ClientRequestTable" where
  "table_expire now t =
    (let due = filter (\<lambda>(rid, p). request_due now p) (tb_pending t) in
     (length due,
      t\<lparr>tb_settled := tb_settled t @ map (\<lambda>(rid, p). (pd_promise p, Inl Timeout)) due,
        tb_pending := filter (\<lambda>(rid, p). \<not> request_due now p) (tb_pending t)\<rparr>))"

definition table_cancel_all :: "errc \<Rightarrow> ClientRequestTable \<Rightarrow> ClientRequestTable" where
  "table_cancel_all code t =
     t\<lparr>tb_settled := tb_settled t @ map (\<lambda>(rid, p). (pd_promise p, Inl code)) (tb_pending t), tb_pending := []\<rparr>"

section \<open>The frame format\<close>

definition enc_request_frame :: "RequestReplyFrame \<Rightarrow> U8 list" where
  "enc_request_frame f =
     enc_u8 1 @ enc_u8 (rq_kind f) @ be_bytes 8 (rq_request_id f) @ enc_u8 (rq_type f) @ be_bytes 2 (rq_len f) @ opt_bytes (rq_data f)"

definition request_frame :: "U8 \<Rightarrow> U64 \<Rightarrow> U8 \<Rightarrow> U8 list \<Rightarrow> RequestReplyFrame" where
  "request_frame kind rid type payload =
     \<lparr>rq_kind = kind, rq_request_id = rid, rq_type = type, rq_data = (if payload = [] then None else Some payload),
      rq_len = of_nat (length payload)\<rparr>"

lemma request_frame_sel [simp]:
  "rq_kind (request_frame k i t p) = k" "rq_request_id (request_frame k i t p) = i" "rq_type (request_frame k i t p) = t"
  by (simp_all add: request_frame_def)

lemma make_request_frame:
  assumes "request_reply_kind_valid kind" "rid \<noteq> 0" "length payload \<le> U16_MAX"
  shows "make_request_reply_frame kind rid type payload = Inr (enc_request_frame (request_frame kind rid type payload))"
proof -
  let ?w = "writer_on (replicate (13 + length payload) 0) (13 + length payload)"
  let ?e = "enc_request_frame (request_frame kind rid type payload)"
  have e: "?e = enc_u8 1 @ enc_u8 kind @ be_bytes 8 rid @ enc_u8 type @ be_bytes 2 (of_nat (length payload) :: U16) @ payload"
    by (simp add: enc_request_frame_def request_frame_def)
  have "rbind (write_u8 ?w 1) (\<lambda>w. rbind (write_u8 w kind) (\<lambda>w. rbind (write_u64 w rid) (\<lambda>w. rbind (write_u8 w type) (\<lambda>w.
      rbind (write_u16 w (of_nat (length payload))) (\<lambda>w.
      if payload \<noteq> [] then write_bytes w (Some payload) (length payload) else Inr w))))) = emit ?e ?w"
    unfolding e by (intro rbind_emit write_rules) (auto simp: write_rules)
  moreover have "emit ?e ?w = Inr \<lparr>bw_dst = Some ?e, bw_cap = 13 + length payload, bw_off = 13 + length payload\<rparr>"
    unfolding emit_writer_on by (simp add: e)
  ultimately have "rbind (rbind (write_u8 ?w 1) (\<lambda>w. rbind (write_u8 w kind) (\<lambda>w. rbind (write_u64 w rid) (\<lambda>w. rbind (write_u8 w type) (\<lambda>w.
      rbind (write_u16 w (of_nat (length payload))) (\<lambda>w.
      if payload \<noteq> [] then write_bytes w (Some payload) (length payload) else Inr w)))))) (\<lambda>w. Inr (the (bw_dst w))) = Inr ?e"
    by simp
  then show ?thesis
    using assms unfolding make_request_reply_frame_def Let_def RequestReplyHeaderBytes_def by (simp add: rbind_assoc)
qed

lemma read_request_frame:
  assumes "request_reply_kind_valid kind" "rid \<noteq> 0" "length payload \<le> U16_MAX"
  shows "read_request_reply_frame (enc_request_frame (request_frame kind rid type payload)) =
    Inr (request_frame kind rid type payload)"
proof -
  let ?bs = "enc_request_frame (request_frame kind rid type payload)"
  have e: "?bs = enc_u8 1 @ enc_u8 kind @ be_bytes 8 rid @ enc_u8 type @ be_bytes 2 (of_nat (length payload) :: U16) @ payload"
    by (simp add: enc_request_frame_def request_frame_def)
  have "bytes_at ?bs 0 ?bs" by (simp add: bytes_at_def)
  then have "bytes_at ?bs 0 (enc_u8 1)" "bytes_at ?bs 1 (enc_u8 kind)" "bytes_at ?bs 2 (be_bytes 8 rid)"
    "bytes_at ?bs 10 (enc_u8 type)" "bytes_at ?bs 11 (be_bytes 2 (of_nat (length payload) :: U16))" "bytes_at ?bs 13 payload"
    unfolding e bytes_at_append by (simp_all add: eval_nat_numeral)
  note at = this
  have reads: "read_u8 (rd ?bs 0) = Inr (1, rd ?bs 1)" "read_u8 (rd ?bs 1) = Inr (kind, rd ?bs 2)"
    "read_u64 (rd ?bs 2) = Inr (rid, rd ?bs 10)" "read_u8 (rd ?bs 10) = Inr (type, rd ?bs 11)"
    "read_u16 (rd ?bs 11) = Inr (of_nat (length payload), rd ?bs 13)" "peek_ptr (rd ?bs 13) (length payload) = Some payload"
    using read_at(1) [OF at(1)] read_at(1) [OF at(2)] read_at(4) [OF at(3)] read_at(1) [OF at(4)] read_at(2) [OF at(5)]
      read_at(6) [OF at(6)]
    by (simp_all add: eval_nat_numeral)
  have len: "length ?bs = 13 + length payload" by (simp add: e)
  have "unat (of_nat (length payload) :: U16) = length payload" using assms(3) by (simp add: U16_MAX_def unat_of_nat_small)
  moreover have "of_nat (length payload) = (0 :: U16) \<longleftrightarrow> payload = []" using calculation by (metis length_0_conv unat_eq_zero)
  ultimately have "read_request_reply_frame ?bs = Inr \<lparr>rq_kind = kind, rq_request_id = rid, rq_type = type,
      rq_data = (if payload = [] then None else Some payload), rq_len = of_nat (length payload)\<rparr>"
    using assms(1,2) len by (simp add: read_request_reply_frame_def RequestReplyHeaderBytes_def reads del: One_nat_def)
  then show ?thesis by (simp only: request_frame_def)
qed

lemma rq_bytes_frame [simp]: "length payload \<le> U16_MAX \<Longrightarrow> rq_bytes (request_frame kind rid type payload) = payload"
  by (auto simp: rq_bytes_def request_frame_def U16_MAX_def unat_of_nat_small word_unat_eq_iff)

section \<open>A request and its response\<close>

text \<open>The message that carries a frame.\<close>

definition frame_message :: "Channel \<Rightarrow> U8 \<Rightarrow> U8 list \<Rightarrow> MsgView" where
  "frame_message channel type bytes =
     \<lparr>mv_channel = channel, mv_type = type, mv_data = Some bytes, mv_len = of_nat (length bytes)\<rparr>"

lemma frame_message_bytes: "length bytes \<le> U16_MAX \<Longrightarrow> msg_bytes (frame_message ch t bytes) = bytes"
  by (auto simp: msg_bytes_def frame_message_def U16_MAX_def unat_of_nat_small word_unat_eq_iff)



section \<open>Every promise is settled once\<close>

text \<open>The states a table reaches, with the number of requests made; the client may do anything in between.\<close>

inductive table_run :: "'w cenv \<Rightarrow> RequestReplyOptions \<Rightarrow> nat \<Rightarrow> ClientRequestTable \<Rightarrow> bool" for E options where
  start: "table_run E options 0 (ClientRequestTable_new options)"
| request: "table_run E options k t \<Longrightarrow>
    run_state (table_request E type payload timeout t) c = ((r, t'), c') \<Longrightarrow> table_run E options (Suc k) t'"
| dispatch: "table_run E options k t \<Longrightarrow> table_run E options k (snd (table_dispatch msg t))"
| expire: "table_run E options k t \<Longrightarrow> table_run E options k (snd (table_expire now t))"
| cancel: "table_run E options k t \<Longrightarrow> table_run E options k (table_cancel_all code t)"

text \<open>The promises the table knows: those that wait and those that have a value.\<close>

definition known_promises :: "ClientRequestTable \<Rightarrow> nat list" where
  "known_promises t = map (\<lambda>(i, p). pd_promise p) (tb_pending t) @ map fst (tb_settled t)"

definition tb_inv :: "nat \<Rightarrow> ClientRequestTable \<Rightarrow> bool" where
  "tb_inv k t \<longleftrightarrow>
     distinct (map fst (tb_pending t)) \<and> distinct (known_promises t) \<and> set (known_promises t) \<subseteq> {..<tb_promises t} \<and>
     (k < 2 ^ 64 - 1 \<longrightarrow> unat (tb_ids t) = Suc k \<and> fst ` set (tb_pending t) \<subseteq> {i. unat i \<le> k} \<and>
       set (known_promises t) = {..<tb_promises t})"

text \<open>Moving promises from the entries to the log keeps the invariant.\<close>

lemma tb_inv_moved:
  assumes "tb_inv k t" "mset (known_promises u) = mset (known_promises t)"
    and "distinct (map fst (tb_pending u))" "fst ` set (tb_pending u) \<subseteq> fst ` set (tb_pending t)"
    and "tb_promises u = tb_promises t" "tb_ids u = tb_ids t"
  shows "tb_inv k u"
  using assms(1,3,5,6) mset_eq_imp_distinct_iff [OF assms(2)] mset_eq_setD [OF assms(2)] subset_trans [OF assms(4)]
  unfolding tb_inv_def by simp

lemma delete_split:
  assumes "distinct (map fst m)" "map_of m i = Some p"
  shows "\<exists>a b. m = a @ (i, p) # b \<and> AList.delete i m = a @ b"
proof -
  obtain a b where m: "m = a @ (i, p) # b" using map_of_SomeD [OF assms(2)] by (auto dest: split_list)
  have "filter (\<lambda>(j, q). i \<noteq> j) a = a" "filter (\<lambda>(j, q). i \<noteq> j) b = b"
    using assms(1) by (force simp: m intro: filter_True)+
  then have "AList.delete i m = a @ b" by (simp add: m AList.delete_eq)
  with m show ?thesis by blast
qed

lemma tb_inv_settle:
  assumes "tb_inv k t" "map_of (tb_pending t) i = Some p"
  shows "tb_inv k (tb_settle i p v t)"
proof -
  have d: "distinct (map fst (tb_pending t))" using assms(1) by (simp add: tb_inv_def)
  then obtain a b where ab: "tb_pending t = a @ (i, p) # b" "AList.delete i (tb_pending t) = a @ b"
    using delete_split assms(2) by metis
  with d show ?thesis
    by (intro tb_inv_moved [OF assms(1)]) (auto simp: known_promises_def tb_settle_def)
qed

lemma tb_inv_dispatch: "tb_inv k t \<Longrightarrow> tb_inv k (snd (table_dispatch msg t))"
  by (auto simp: table_dispatch_def intro: tb_inv_settle split: sum.split option.split)

lemma settled_log: "map fst (map (\<lambda>(i, p). (pd_promise p, Inl e :: U8 list result)) m) = map (\<lambda>(i, p). pd_promise p) m"
  by (simp add: split_beta)

lemma tb_inv_expire:
  assumes "tb_inv k t"
  shows "tb_inv k (snd (table_expire now t))"
proof -
  let ?f = "\<lambda>(i :: U64, p). pd_promise p"
  let ?due = "filter (\<lambda>(i, p). request_due now p)" and ?rest = "filter (\<lambda>(i, p). \<not> request_due now p)"
  have parts: "mset (map ?f (?rest m)) + mset (map ?f (?due m)) = mset (map ?f m)" for m
    by (induction m) auto
  have "known_promises (snd (table_expire now t)) =
      map ?f (?rest (tb_pending t)) @ map fst (tb_settled t) @ map ?f (?due (tb_pending t))"
    unfolding settled_log [of Timeout, symmetric] by (simp add: known_promises_def table_expire_def Let_def)
  then have "mset (known_promises (snd (table_expire now t))) = mset (known_promises t)"
    unfolding known_promises_def [of t] mset_append parts [of "tb_pending t", symmetric] by (simp only: mset_append ac_simps)
  moreover have "distinct (map fst (?rest (tb_pending t)))" using assms by (simp add: tb_inv_def distinct_map_filter)
  ultimately show ?thesis
    by (intro tb_inv_moved [OF assms]) (simp_all add: table_expire_def Let_def image_mono)
qed

lemma tb_inv_cancel:
  assumes "tb_inv k t"
  shows "tb_inv k (table_cancel_all code t)"
proof -
  have "known_promises (table_cancel_all code t) = map fst (tb_settled t) @ map (\<lambda>(i, p). pd_promise p) (tb_pending t)"
    unfolding settled_log [of code, symmetric] by (simp add: known_promises_def table_cancel_all_def)
  then show ?thesis
    by (intro tb_inv_moved [OF assms]) (simp_all add: known_promises_def [of t] table_cancel_all_def add.commute)
qed

lemma request_id_next_step: "unat n = Suc k \<Longrightarrow> Suc k < 2 ^ 64 - 1 \<Longrightarrow> request_id_next n = (n, n + 1) \<and> unat (n + 1) = Suc (Suc k)"
  by (auto simp: request_id_next_def unat_word_ariths)

lemma tb_inv_ids:
  assumes "tb_inv k t" "request_id_next (tb_ids t) = (i, n)"
  shows "tb_inv (Suc k) (t\<lparr>tb_ids := n\<rparr>)"
proof -
  have "unat n = Suc (Suc k)" "fst ` set (tb_pending t) \<subseteq> {i. unat i \<le> Suc k}" if "Suc k < 2 ^ 64 - 1"
    using assms that request_id_next_step [of "tb_ids t" k] by (auto simp: tb_inv_def)
  then show ?thesis using assms(1) by (simp add: tb_inv_def known_promises_def)
qed

lemma tb_inv_emplace:
  assumes "tb_inv k t" "request_id_next (tb_ids t) = (i, n)"
  shows "tb_inv (Suc k) (tb_emplace i e (t\<lparr>tb_ids := n\<rparr>))"
proof -
  let ?t = "t\<lparr>tb_ids := n\<rparr>" and ?u = "tb_emplace i e (t\<lparr>tb_ids := n\<rparr>)"
  have inv: "tb_inv (Suc k) ?t" using tb_inv_ids [OF assms] .
  have new: "unat i = Suc k \<and> map_of (tb_pending t) i = None" if "Suc k < 2 ^ 64 - 1"
    using assms that request_id_next_step [of "tb_ids t" k] by (auto simp: tb_inv_def map_of_eq_None_iff)
  show ?thesis
  proof (cases "map_of (tb_pending t) i")
    case None
    then have "known_promises ?u = map (\<lambda>(i, p). pd_promise p) (tb_pending t) @ [tb_promises t] @ map fst (tb_settled t)"
      "tb_pending ?u = tb_pending t @ [(i, \<lparr>pd_promise = tb_promises t, pd_expires_at_ms = e\<rparr>)]"
      "tb_promises ?u = Suc (tb_promises t)" "tb_ids ?u = n" "i \<notin> fst ` set (tb_pending t)"
      by (simp_all add: known_promises_def tb_emplace_def map_of_eq_None_iff)
    then show ?thesis
      using inv new by (auto simp: tb_inv_def known_promises_def lessThan_Suc)
  next
    case (Some p)
    then have "\<not> Suc k < 2 ^ 64 - 1" using new by auto
    then show ?thesis using inv Some by (auto simp: tb_inv_def known_promises_def tb_emplace_def)
  qed
qed

lemma tb_inv_request:
  assumes "tb_inv k t" "run_state (table_request E type payload timeout t) c = ((r, u), c')"
  shows "tb_inv (Suc k) u"
proof -
  obtain i n where n: "request_id_next (tb_ids t) = (i, n)" by fastforce
  note ids = tb_inv_ids [OF assms(1) n] and emplace = tb_inv_emplace [OF assms(1) n]
  show ?thesis
    using assms(2) ids emplace tb_inv_settle [OF emplace]
    by (auto simp: table_request_def n run_simps Let_def split: sum.splits prod.splits option.splits if_splits)
qed

text \<open>
  C17: whatever requests are made, answered, timed out or cancelled, in whatever order, no promise is
  given a value twice and no promise that still waits has a value; and as long as fewer than
  \<open>2 ^ 64 - 1\<close> requests were made no promise is lost: each one waits or has its value.
\<close>

theorem request_promises:
  assumes "table_run E options k t"
  shows "distinct (known_promises t) \<and> set (known_promises t) \<subseteq> {..<tb_promises t} \<and>
    (k < 2 ^ 64 - 1 \<longrightarrow> set (known_promises t) = {..<tb_promises t})"
proof -
  have "tb_inv k t" using assms
  proof (induction rule: table_run.induct)
    case start
    then show ?case by (simp add: tb_inv_def known_promises_def ClientRequestTable_new_def)
  next
    case (request k t type payload timeout c r t' c')
    then show ?case by (blast intro: tb_inv_request)
  qed (blast intro: tb_inv_dispatch tb_inv_expire tb_inv_cancel)+
  then show ?thesis by (simp add: tb_inv_def)
qed

theorem request_promises_witness:
  "\<exists>t. table_run (quiet_client sample_sodium sample_os) RequestReplyOptions_default 1 t \<and> tb_promises t = 1 \<and>
     set (known_promises t) = {0}"
proof -
  let ?E = "quiet_client sample_sodium sample_os" and ?t = "ClientRequestTable_new RequestReplyOptions_default"
  let ?c = "Client_members ClientConfig_default 0 :: nat Client"
  have frame: "make_request_reply_frame RequestReplyKind_Request 1 9 [] =
      Inr (enc_request_frame (request_frame RequestReplyKind_Request 1 9 []))"
    by (rule make_request_frame) (simp_all add: request_reply_kind_valid_def)
  obtain r t c where run: "run_state (table_request ?E 9 [] 0 ?t) ?c = ((r, t), c)" by (metis surj_pair)
  have "tb_promises t = 1"
    using run frame
    by (auto simp: table_request_def request_id_next_def ClientRequestTable_new_def run_simps Let_def tb_emplace_def tb_settle_def
        split: prod.splits option.splits if_splits)
  moreover have reached: "table_run ?E RequestReplyOptions_default 1 t"
    using table_run.request [OF table_run.start run] by simp
  ultimately show ?thesis using request_promises [OF reached] by (auto simp: lessThan_Suc)
qed

end
