(* ===== verification/Scn_Io.thy ===== *)
theory Scn_Io
  imports Scn_Client Scn_Server "HOL-Library.Multiset"
begin

text \<open>
  The event loop (\<^verbatim>\<open>io_context.hpp\<close>, \<^verbatim>\<open>io_context.cpp\<close>): the queue of posted callbacks, the services that
  are polled, the run loop, and the worker thread that \<^verbatim>\<open>run_async\<close> starts.

  Callbacks and services are names that the environment gives a meaning, for a callback may post
  further callbacks and a service may be any object: \<open>ie_call\<close> runs a callback and tells whether it
  threw, \<open>ie_poll\<close> polls a service, \<open>ie_wait\<close> is the wait of at most a millisecond in which other threads
  may post and stop, \<open>ie_clock\<close> reads the clock.  Every method holds the mutex for the whole of its access to the members.

  \<open>drain_posted\<close> ends when the queue is empty, which callbacks that post callbacks may delay forever, and
  \<open>run\<close> ends when it is told to; the number of iterations is bounded by fuel, and no result means that
  the loop is still running then.
\<close>

section \<open>The context\<close>

record ('f, 'p, 'w) IoContext =
  ic_max_posted_callbacks :: ST
  ic_services :: "'p list"
  ic_posted :: "'f list"
  ic_run_result :: "unit result"
  ic_running :: bool
  ic_stop_requested :: bool
  ic_world :: 'w

definition IoContext_new :: "ST \<Rightarrow> 'w \<Rightarrow> ('f, 'p, 'w) IoContext" where
  "IoContext_new max_posted w =
    \<lparr>ic_max_posted_callbacks = max_posted, ic_services = [], ic_posted = [], ic_run_result = Inr (),
     ic_running = False, ic_stop_requested = False, ic_world = w\<rparr>"

record ('f, 'p, 'w) IoEnv =
  ie_call :: "'f \<Rightarrow> ('f, 'p, 'w) IoContext \<Rightarrow> bool \<times> ('f, 'p, 'w) IoContext"
  ie_poll :: "'p \<Rightarrow> ('f, 'p, 'w) IoContext \<Rightarrow> unit result option \<times> ('f, 'p, 'w) IoContext"
  ie_wait :: "('f, 'p, 'w) IoContext \<Rightarrow> ('f, 'p, 'w) IoContext"
  ie_clock :: "('f, 'p, 'w) IoContext \<Rightarrow> nat \<times> ('f, 'p, 'w) IoContext"

type_synonym ('f, 'p, 'w, 'a) ioact = "(('f, 'p, 'w) IoContext, 'a) act"

definition io_try_post :: "'f option \<Rightarrow> ('f, 'p, 'w, unit result) ioact" where
  "io_try_post fn =
    (case fn of
       None \<Rightarrow> ret (Inl InvalidArg)
     | Some f \<Rightarrow> do {
         c \<leftarrow> gets (\<lambda>c. c);
         if ic_max_posted_callbacks c \<noteq> 0 \<and> ic_max_posted_callbacks c \<le> length (ic_posted c) then ret (Inl QueueFull)
         else do {
           modify (ic_posted_update (\<lambda>q. q @ [f]));
           ret (Inr ())
         }
       })"

definition io_post :: "'f option \<Rightarrow> ('f, 'p, 'w, unit) ioact" where
  "io_post fn = do { io_try_post fn; ret () }"

text \<open>
  \<open>post_task\<close> queues a closure that runs the task and hands its outcome to a promise, so it never throws; a
  full queue breaks the promise at once.
\<close>

definition io_task ::
  "(('f, 'p, 'w) IoContext \<Rightarrow> bool \<times> ('f, 'p, 'w) IoContext) \<Rightarrow> (bool \<Rightarrow> ('f, 'p, 'w) IoContext \<Rightarrow> ('f, 'p, 'w) IoContext) \<Rightarrow>
   ('f, 'p, 'w) IoContext \<Rightarrow> bool \<times> ('f, 'p, 'w) IoContext" where
  "io_task task promise c = (case task c of (threw, d) \<Rightarrow> (False, promise threw d))"

definition io_post_task :: "'f \<Rightarrow> (('f, 'p, 'w) IoContext \<Rightarrow> ('f, 'p, 'w) IoContext) \<Rightarrow> ('f, 'p, 'w, unit) ioact" where
  "io_post_task closure broken = do {
     rc \<leftarrow> io_try_post (Some closure);
     whenM (\<not> ok rc) (modify broken)
   }"

definition io_posted_count :: "('f, 'p, 'w) IoContext \<Rightarrow> ST" where
  "io_posted_count c = length (ic_posted c)"

definition io_register_service :: "'p option \<Rightarrow> ('f, 'p, 'w, unit) ioact" where
  "io_register_service service =
    (case service of
       None \<Rightarrow> ret ()
     | Some p \<Rightarrow> modify (ic_services_update (\<lambda>ps. if p \<in> set ps then ps else ps @ [p])))"

definition io_unregister_service :: "'p option \<Rightarrow> ('f, 'p, 'w, unit) ioact" where
  "io_unregister_service service =
    (case service of
       None \<Rightarrow> ret ()
     | Some p \<Rightarrow> modify (ic_services_update (filter (\<lambda>q. q \<noteq> p))))"

section \<open>Polling\<close>

text \<open>An action of the environment.\<close>

definition env_act :: "('s \<Rightarrow> 'a \<times> 's) \<Rightarrow> ('s, 'a) act" where
  "env_act f = on_part (\<lambda>s. s) (\<lambda>s _. s) f"

primrec io_drain_posted :: "('f, 'p, 'w) IoEnv \<Rightarrow> nat \<Rightarrow> ('f, 'p, 'w, unit result option) ioact" where
  "io_drain_posted E 0 = ret None"
| "io_drain_posted E (Suc fuel) = do {
     posted \<leftarrow> gets ic_posted;
     case posted of
       [] \<Rightarrow> ret (Some (Inr ()))
     | fn # rest \<Rightarrow> do {
         modify (\<lambda>c. c\<lparr>ic_posted := rest\<rparr>);
         threw \<leftarrow> env_act (ie_call E fn);
         if threw then ret (Some (Inl Internal)) else io_drain_posted E fuel
       }
   }"

text \<open>The services are those at the start of the loop, as the source copies the list.\<close>

primrec io_poll_services :: "('f, 'p, 'w) IoEnv \<Rightarrow> 'p list \<Rightarrow> ('f, 'p, 'w, unit result option) ioact" where
  "io_poll_services E [] = ret (Some (Inr ()))"
| "io_poll_services E (p # ps) = returns (env_act (ie_poll E p)) (\<lambda>rc.
     if ok rc then io_poll_services E ps else ret (Some rc))"

definition io_poll :: "('f, 'p, 'w) IoEnv \<Rightarrow> nat \<Rightarrow> ('f, 'p, 'w, unit result option) ioact" where
  "io_poll E fuel =
    (if \<not> ok socket_init_status then ret (Some socket_init_status)
     else returns (io_drain_posted E fuel) (\<lambda>rc.
       if \<not> ok rc then ret (Some rc)
       else do {
         services \<leftarrow> gets ic_services;
         returns (io_poll_services E services) (\<lambda>rc.
           if \<not> ok rc then ret (Some rc) else io_drain_posted E fuel)
       }))"

section \<open>Running\<close>

primrec io_run_loop :: "('f, 'p, 'w) IoEnv \<Rightarrow> nat \<Rightarrow> nat \<Rightarrow> ('f, 'p, 'w, unit result option) ioact" where
  "io_run_loop E drain 0 = ret None"
| "io_run_loop E drain (Suc fuel) = do {
     stop \<leftarrow> gets ic_stop_requested;
     if stop then ret (Some (Inr ()))
     else returns (io_poll E drain) (\<lambda>rc.
       if \<not> ok rc then ret (Some rc)
       else do {
         c \<leftarrow> gets (\<lambda>c. c);
         whenM (\<not> ic_stop_requested c \<and> ic_posted c = []) (modify (ie_wait E));
         io_run_loop E drain fuel
       })
   }"

definition io_begin_run :: "('f, 'p, 'w, bool) ioact" where
  "io_begin_run = do {
     running \<leftarrow> gets ic_running;
     if running then ret False
     else do {
       modify (\<lambda>c. c\<lparr>ic_stop_requested := False, ic_running := True, ic_run_result := Inr ()\<rparr>);
       ret True
     }
   }"

definition io_end_run :: "unit result \<Rightarrow> ('f, 'p, 'w, unit) ioact" where
  "io_end_run result = modify (\<lambda>c. c\<lparr>ic_running := False, ic_run_result := result\<rparr>)"

definition io_run :: "('f, 'p, 'w) IoEnv \<Rightarrow> nat \<Rightarrow> nat \<Rightarrow> ('f, 'p, 'w, unit result option) ioact" where
  "io_run E drain fuel =
    (if \<not> ok socket_init_status then ret (Some socket_init_status)
     else do {
       begun \<leftarrow> io_begin_run;
       if \<not> begun then ret (Some (Inl StateError))
       else returns (io_run_loop E drain fuel) (\<lambda>result. do {
         io_end_run result;
         ret (Some result)
       })
     })"

text \<open>\<open>run_until\<close> is the same loop with a deadline, read from the clock before every iteration.\<close>

primrec io_until_loop :: "('f, 'p, 'w) IoEnv \<Rightarrow> nat \<Rightarrow> nat \<Rightarrow> nat \<Rightarrow> ('f, 'p, 'w, unit result option) ioact" where
  "io_until_loop E deadline drain 0 = ret None"
| "io_until_loop E deadline drain (Suc fuel) = do {
     now \<leftarrow> env_act (ie_clock E);
     if deadline \<le> now then ret (Some (Inr ()))
     else do {
       stop \<leftarrow> gets ic_stop_requested;
       if stop then ret (Some (Inr ()))
       else returns (io_poll E drain) (\<lambda>rc.
         if \<not> ok rc then ret (Some rc)
         else do {
           c \<leftarrow> gets (\<lambda>c. c);
           whenM (\<not> ic_stop_requested c \<and> ic_posted c = []) (modify (ie_wait E));
           io_until_loop E deadline drain fuel
         })
     }
   }"

definition io_run_until :: "('f, 'p, 'w) IoEnv \<Rightarrow> nat \<Rightarrow> nat \<Rightarrow> nat \<Rightarrow> ('f, 'p, 'w, unit result option) ioact" where
  "io_run_until E deadline drain fuel =
    (if \<not> ok socket_init_status then ret (Some socket_init_status)
     else do {
       begun \<leftarrow> io_begin_run;
       if \<not> begun then ret (Some (Inl StateError))
       else returns (io_until_loop E deadline drain fuel) (\<lambda>result. do {
         io_end_run result;
         ret (Some result)
       })
     })"

definition io_run_for :: "('f, 'p, 'w) IoEnv \<Rightarrow> nat \<Rightarrow> nat \<Rightarrow> nat \<Rightarrow> ('f, 'p, 'w, unit result option) ioact" where
  "io_run_for E duration drain fuel = do {
     now \<leftarrow> env_act (ie_clock E);
     io_run_until E (now + duration) drain fuel
   }"

definition io_stop :: "('f, 'p, 'w, unit) ioact" where
  "io_stop = modify (ic_stop_requested_update (\<lambda>_. True))"

definition io_restart :: "('f, 'p, 'w, unit) ioact" where
  "io_restart = modify (ic_stop_requested_update (\<lambda>_. False))"

definition io_stopped :: "('f, 'p, 'w) IoContext \<Rightarrow> bool" where
  "io_stopped c = ic_stop_requested c"

definition io_is_running :: "('f, 'p, 'w) IoContext \<Rightarrow> bool" where
  "io_is_running c = ic_running c"

section \<open>Client and server as services\<close>

definition client_context_poll ::
  "'w cenv \<Rightarrow> nat \<Rightarrow> ('f, 'p, 'w Client) IoContext \<Rightarrow> unit result option \<times> ('f, 'p, 'w Client) IoContext" where
  "client_context_poll E fuel = run_state (on_part ic_world (\<lambda>c. ic_world_update (\<lambda>_. c)) (run_state (client_tick E fuel)))"

definition server_context_poll ::
  "'w senv \<Rightarrow> nat \<Rightarrow> nat \<Rightarrow> ('f, 'p, 'w Server) IoContext \<Rightarrow> unit result option \<times> ('f, 'p, 'w Server) IoContext" where
  "server_context_poll E draws fuel =
     run_state (on_part ic_world (\<lambda>c. ic_world_update (\<lambda>_. c)) (run_state (server_tick E draws fuel)))"

section \<open>The worker thread\<close>

text \<open>
  \<open>run_async\<close> starts a thread that calls \<open>run\<close> and waits until \<open>_running\<close> is set.  One step is one critical
  section of one of the threads: the worker's entry into \<open>run\<close>, its test of the stop flag, its poll,
  its exit, the starter's wake-up, and \<open>stop\<close> and \<open>restart\<close> by any thread.
\<close>

datatype worker_pc = Spawned | Testing | Polling | Leaving "unit result" | Exited

datatype starter_pc = Waiting | Started

record ('f, 'p, 'w) AsyncRun =
  ar_ctx :: "('f, 'p, 'w) IoContext"
  ar_worker :: worker_pc
  ar_starter :: starter_pc

definition async_started :: "('f, 'p, 'w) IoContext \<Rightarrow> ('f, 'p, 'w) AsyncRun" where
  "async_started c = \<lparr>ar_ctx = c, ar_worker = Spawned, ar_starter = Waiting\<rparr>"

text \<open>The guard of \<open>run_async\<close>: no run is active and no worker is waiting to be joined.\<close>

definition io_run_async :: "('f, 'p, 'w) IoContext \<Rightarrow> bool \<Rightarrow> errc + ('f, 'p, 'w) AsyncRun" where
  "io_run_async c joinable =
    (if \<not> ok socket_init_status then rbind socket_init_status (\<lambda>_. Inl Internal)
     else if ic_running c \<or> joinable then Inl StateError
     else Inr (async_started c))"

inductive async_step :: "('f, 'p, 'w) IoEnv \<Rightarrow> ('f, 'p, 'w) AsyncRun \<Rightarrow> ('f, 'p, 'w) AsyncRun \<Rightarrow> bool" for E where
  enter: "run_state io_begin_run c = (True, d)
    \<Longrightarrow> async_step E \<lparr>ar_ctx = c, ar_worker = Spawned, ar_starter = p\<rparr> \<lparr>ar_ctx = d, ar_worker = Testing, ar_starter = p\<rparr>"
| busy: "run_state io_begin_run c = (False, d)
    \<Longrightarrow> async_step E \<lparr>ar_ctx = c, ar_worker = Spawned, ar_starter = p\<rparr>
          \<lparr>ar_ctx = d\<lparr>ic_run_result := Inl StateError\<rparr>, ar_worker = Exited, ar_starter = p\<rparr>"
| proceed: "\<not> ic_stop_requested c
    \<Longrightarrow> async_step E \<lparr>ar_ctx = c, ar_worker = Testing, ar_starter = p\<rparr> \<lparr>ar_ctx = c, ar_worker = Polling, ar_starter = p\<rparr>"
| stopping: "ic_stop_requested c
    \<Longrightarrow> async_step E \<lparr>ar_ctx = c, ar_worker = Testing, ar_starter = p\<rparr>
          \<lparr>ar_ctx = c, ar_worker = Leaving (Inr ()), ar_starter = p\<rparr>"
| polled: "run_state (io_poll E drain) c = (Some (Inr ()), d)
    \<Longrightarrow> async_step E \<lparr>ar_ctx = c, ar_worker = Polling, ar_starter = p\<rparr> \<lparr>ar_ctx = d, ar_worker = Testing, ar_starter = p\<rparr>"
| failed: "run_state (io_poll E drain) c = (Some (Inl e), d)
    \<Longrightarrow> async_step E \<lparr>ar_ctx = c, ar_worker = Polling, ar_starter = p\<rparr>
          \<lparr>ar_ctx = d, ar_worker = Leaving (Inl e), ar_starter = p\<rparr>"
| leave: "run_state (io_end_run result) c = ((), d)
    \<Longrightarrow> async_step E \<lparr>ar_ctx = c, ar_worker = Leaving result, ar_starter = p\<rparr>
          \<lparr>ar_ctx = d, ar_worker = Exited, ar_starter = p\<rparr>"
| wake: "ic_running c
    \<Longrightarrow> async_step E \<lparr>ar_ctx = c, ar_worker = w, ar_starter = Waiting\<rparr> \<lparr>ar_ctx = c, ar_worker = w, ar_starter = Started\<rparr>"
| stop: "run_state io_stop c = ((), d)
    \<Longrightarrow> async_step E \<lparr>ar_ctx = c, ar_worker = w, ar_starter = p\<rparr> \<lparr>ar_ctx = d, ar_worker = w, ar_starter = p\<rparr>"
| restart: "run_state io_restart c = ((), d)
    \<Longrightarrow> async_step E \<lparr>ar_ctx = c, ar_worker = w, ar_starter = p\<rparr> \<lparr>ar_ctx = d, ar_worker = w, ar_starter = p\<rparr>"

inductive_simps async_step_iff: "async_step E \<lparr>ar_ctx = c, ar_worker = w, ar_starter = p\<rparr> t"

abbreviation async_steps :: "('f, 'p, 'w) IoEnv \<Rightarrow> ('f, 'p, 'w) AsyncRun \<Rightarrow> ('f, 'p, 'w) AsyncRun \<Rightarrow> bool" where
  "async_steps E \<equiv> (async_step E)\<^sup>*\<^sup>*"

text \<open>
  \<open>join\<close> waits for the worker, so it has no result before the worker has exited; the worker itself is
  refused.  The destructor asks the loop to stop and waits in the same way.
\<close>

definition io_join :: "bool \<Rightarrow> bool \<Rightarrow> ('f, 'p, 'w) AsyncRun \<Rightarrow> unit result option" where
  "io_join joinable own_thread s =
    (if \<not> joinable then Some (ic_run_result (ar_ctx s))
     else if own_thread then Some (Inl StateError)
     else if ar_worker s = Exited then Some (ic_run_result (ar_ctx s))
     else None)"

definition io_destroy :: "bool \<Rightarrow> bool \<Rightarrow> ('f, 'p, 'w) AsyncRun \<Rightarrow> bool \<times> ('f, 'p, 'w) AsyncRun" where
  "io_destroy joinable own_thread s =
    (joinable \<and> \<not> own_thread \<and> ar_worker s \<noteq> Exited, s\<lparr>ar_ctx := snd (run_state io_stop (ar_ctx s))\<rparr>)"

text \<open>Callbacks and services leave the running flag alone; a run from inside a run is refused.\<close>

definition running_kept :: "('f, 'p, 'w) IoEnv \<Rightarrow> bool" where
  "running_kept E \<longleftrightarrow> (\<forall>f c. ic_running (snd (ie_call E f c)) = ic_running c) \<and>
                      (\<forall>p c. ic_running (snd (ie_poll E p c)) = ic_running c)"

section \<open>The queue of callbacks\<close>

lemma run_env_act: "run_state (env_act f) s = f s"
  by (simp add: env_act_def run_simps split: prod.split)

lemmas io_simps = run_env_act run_simps

lemma drain_Suc:
  "run_state (io_drain_posted E (Suc fuel)) c =
    (case ic_posted c of
       [] \<Rightarrow> (Some (Inr ()), c)
     | f # q \<Rightarrow> (case ie_call E f (c\<lparr>ic_posted := q\<rparr>) of
         (threw, d) \<Rightarrow> if threw then (Some (Inl Internal), d) else run_state (io_drain_posted E fuel) d))"
  by (auto simp: io_simps split: list.split prod.split)

text \<open>A callback that only posts callbacks of a smaller rank makes the multiset of ranks smaller.\<close>

lemma posted_decrease:
  fixes r :: "'f \<Rightarrow> nat"
  assumes "\<forall>g \<in> set new. r g < r f"
  shows "(mset (map r (q @ new)), mset (map r (f # q))) \<in> mult less_than"
proof -
  have "(mset (map r q) + mset (map r new), mset (map r q) + {#r f#}) \<in> mult less_than"
    by (rule one_step_implies_mult) (use assms in auto)
  then show ?thesis
    by simp
qed

text \<open>The queue drains from a state when it drains from the state after its first callback.\<close>

abbreviation drains :: "('f, 'p, 'w) IoEnv \<Rightarrow> ('f, 'p, 'w) IoContext \<Rightarrow> bool" where
  "drains E c \<equiv> \<exists>n rc d. (\<forall>fuel \<ge> n. run_state (io_drain_posted E fuel) c = (Some rc, d)) \<and> (rc = Inr () \<longrightarrow> ic_posted d = [])"

lemma drains_empty:
  assumes "ic_posted c = []"
  shows "drains E c"
proof -
  have "\<forall>fuel \<ge> 1. run_state (io_drain_posted E fuel) c = (Some (Inr ()), c)"
    using assms by (auto simp: drain_Suc dest!: Suc_le_D simp del: io_drain_posted.simps)
  with assms show ?thesis
    by blast
qed

lemma drains_step:
  assumes "ic_posted c = f # q" "ie_call E f (c\<lparr>ic_posted := q\<rparr>) = (threw, d)" "\<not> threw \<Longrightarrow> drains E d"
  shows "drains E c"
proof (cases threw)
  case True
  then have "\<forall>fuel \<ge> 1. run_state (io_drain_posted E fuel) c = (Some (Inl Internal), d)"
    using assms(1,2) by (auto simp: drain_Suc dest!: Suc_le_D simp del: io_drain_posted.simps)
  then show ?thesis
    by blast
next
  case False
  with assms(3) obtain n rc e where
    ends: "\<forall>fuel \<ge> n. run_state (io_drain_posted E fuel) d = (Some rc, e)" "rc = Inr () \<longrightarrow> ic_posted e = []"
    by blast
  have "run_state (io_drain_posted E fuel) c = (Some rc, e)" if enough: "Suc n \<le> fuel" for fuel
  proof -
    obtain m where "fuel = Suc m" "n \<le> m"
      using enough by (cases fuel) auto
    then show ?thesis
      using assms(1,2) False ends(1) by (simp add: drain_Suc del: io_drain_posted.simps)
  qed
  with ends(2) show ?thesis
    by (intro exI [of _ "Suc n"] exI [of _ rc] exI [of _ e]) simp
qed


text \<open>Callbacks that count down: each posts the next lower one.\<close>

definition countdown :: "(nat, unit, nat list) IoEnv" where
  "countdown =
    \<lparr>ie_call = (\<lambda>n c. (False, snd (run_state (io_post (if n = 0 then None else Some (n - 1))) (ic_world_update (\<lambda>w. w @ [n]) c)))),
     ie_poll = (\<lambda>_ c. (Some (Inr ()), c)), ie_wait = (\<lambda>c. c), ie_clock = (\<lambda>c. (0, c))\<rparr>"


section \<open>A client without a socket\<close>

lemma socketless_tick:
  assumes "cl_sock c = kInvalidSocket" "cl_pending c = []" "cl_state c \<noteq> Established"
  shows "fst (run_state (client_tick E (Suc fuel)) c) = Some (Inl InvalidArg)"
  using assms
  by (simp add: client_tick_def client_flush_pending_def client_pump_reliable_def cl_on_sock_def udp_recv_def
      recv_datagram_common_def rbind_def bump_def run_simps)

lemma socketless_context_poll:
  assumes "cl_sock (ic_world c) = kInvalidSocket" "cl_pending (ic_world c) = []" "cl_state (ic_world c) \<noteq> Established"
  shows "\<exists>cl. client_context_poll E (Suc fuel) c = (Some (Inl InvalidArg), c\<lparr>ic_world := cl\<rparr>)"
  using socketless_tick [OF assms, of E fuel]
  by (auto simp: client_context_poll_def run_simps split: prod.splits)


definition one_client :: "nat cenv \<Rightarrow> (unit, unit, nat Client) IoEnv" where
  "one_client E =
    \<lparr>ie_call = (\<lambda>_ c. (False, c)), ie_poll = (\<lambda>_. client_context_poll E 2), ie_wait = (\<lambda>c. c), ie_clock = (\<lambda>c. (0, c))\<rparr>"


section \<open>Starting the worker\<close>

lemma keeps_env_act: "(\<And>s. R s (snd (f s))) \<Longrightarrow> keeps R (env_act f)"
  by (simp add: keeps_def run_env_act)

lemma running_kept_drain: "running_kept E \<Longrightarrow> frames ic_running (io_drain_posted E fuel)"
  by (induction fuel)
    (auto simp: frames_def running_kept_def intro!: frame.keeps_rules frame.keeps_modify keeps_env_act split: list.split)

lemma running_kept_services: "running_kept E \<Longrightarrow> frames ic_running (io_poll_services E ps)"
  by (induction ps) (auto simp: frames_def running_kept_def intro!: frame.keeps_rules keeps_env_act)

lemma running_kept_poll: "running_kept E \<Longrightarrow> frames ic_running (io_poll E fuel)"
  using running_kept_drain [of E] running_kept_services [of E]
  by (auto simp: frames_def io_poll_def intro!: frame.keeps_rules)

text \<open>While the worker is between its entry and its exit the flag is set, and only then.\<close>

definition worker_inside :: "('f, 'p, 'w) AsyncRun \<Rightarrow> bool" where
  "worker_inside s \<longleftrightarrow> ar_worker s \<noteq> Spawned \<and> ar_worker s \<noteq> Exited"

lemma step_running:
  assumes "running_kept E" "async_step E s t" "ic_running (ar_ctx s) \<longleftrightarrow> worker_inside s"
  shows "ic_running (ar_ctx t) \<longleftrightarrow> worker_inside t"
proof -
  have poll: "run_state (io_poll E drain) c = (r, d) \<Longrightarrow> ic_running d = ic_running c" for drain c r d
    using running_kept_poll [OF assms(1)] unfolding frames_def by (rule keepsD)
  show ?thesis
    using assms(2, 3)
    by (cases rule: async_step.cases)
      (auto simp: worker_inside_def io_begin_run_def io_end_run_def io_stop_def io_restart_def run_simps
        split: if_splits dest: poll)
qed

lemma steps_running:
  assumes "running_kept E" "async_steps E s t" "ic_running (ar_ctx s) \<longleftrightarrow> worker_inside s"
  shows "ic_running (ar_ctx t) \<longleftrightarrow> worker_inside t"
  using assms(2, 3) by (induction) (auto dest: step_running [OF assms(1)])

lemma missed_wakeup_step:
  assumes "async_step E s t" "ar_worker s = Exited" "ar_starter s = Waiting" "\<not> ic_running (ar_ctx s)"
  shows "ar_worker t = Exited \<and> ar_starter t = Waiting \<and> \<not> ic_running (ar_ctx t)"
  using assms by cases (auto simp: io_stop_def io_restart_def)

lemma missed_wakeup:
  assumes "async_steps E s t" "ar_worker s = Exited" "ar_starter s = Waiting" "\<not> ic_running (ar_ctx s)"
  shows "ar_worker t = Exited \<and> ar_starter t = Waiting \<and> \<not> ic_running (ar_ctx t)"
  using assms by induction (auto dest: missed_wakeup_step)

lemma can_wake:
  assumes "\<not> worker_inside s \<Longrightarrow> ar_worker s = Spawned" "ic_running (ar_ctx s) \<longleftrightarrow> worker_inside s"
  shows "\<exists>t. async_steps E s t \<and> ar_starter t = Started"
proof -
  obtain c w p where s: "s = \<lparr>ar_ctx = c, ar_worker = w, ar_starter = p\<rparr>"
    by (cases s) simp
  have wake: "\<exists>t. async_steps E \<lparr>ar_ctx = d, ar_worker = w, ar_starter = p\<rparr> t \<and> ar_starter t = Started" if "ic_running d" for d w
  proof (intro exI conjI)
    show "async_steps E \<lparr>ar_ctx = d, ar_worker = w, ar_starter = p\<rparr> \<lparr>ar_ctx = d, ar_worker = w, ar_starter = Started\<rparr>"
      using async_step.wake [OF that] by (cases p) auto
  qed simp
  show ?thesis
  proof (cases "worker_inside s")
    case True
    then show ?thesis
      using wake assms(2) s by simp
  next
    case False
    then have w: "w = Spawned" and idle: "\<not> ic_running c"
      using assms s by auto
    define d where "d = snd (run_state io_begin_run c)"
    have begin_run: "run_state io_begin_run c = (True, d)" "ic_running d"
      using idle by (simp_all add: d_def io_begin_run_def run_simps)
    have "async_step E s \<lparr>ar_ctx = d, ar_worker = Testing, ar_starter = p\<rparr>"
      unfolding s w by (rule async_step.enter [OF begin_run(1)])
    then show ?thesis
      using wake [OF begin_run(2)] by (meson converse_rtranclp_into_rtranclp)
  qed
qed

lemma stopped_before_wake:
  assumes "\<not> ic_running c"
  shows "\<exists>s. async_steps E (async_started c) s \<and> ar_worker s = Exited \<and> ar_starter s = Waiting \<and> \<not> ic_running (ar_ctx s)"
proof -
  define d where "d = snd (run_state io_begin_run c)"
  define e where "e = snd (run_state io_stop d)"
  define f where "f = snd (run_state (io_end_run (Inr ())) e)"
  let ?s = "\<lambda>c w. \<lparr>ar_ctx = c, ar_worker = w, ar_starter = Waiting\<rparr>"
  have facts: "run_state io_begin_run c = (True, d)" "run_state io_stop d = ((), e)" "ic_stop_requested e"
    "run_state (io_end_run (Inr ())) e = ((), f)" "\<not> ic_running f"
    using assms by (simp_all add: d_def e_def f_def io_begin_run_def io_stop_def io_end_run_def run_simps)
  have "async_steps E (?s c Spawned) (?s f Exited)"
    using async_step.enter [OF facts(1)] async_step.stop [OF facts(2)] async_step.stopping [OF facts(3)]
      async_step.leave [OF facts(4)] by (meson converse_rtranclp_into_rtranclp rtranclp.rtrancl_refl)
  then show ?thesis
    using facts(5) by (intro exI [of _ "?s f Exited"]) (simp add: async_started_def)
qed

text \<open>Who joins the worker gets the result with which it left its run, whoever stops or restarts the loop meanwhile.\<close>

lemma joined_result:
  assumes "async_steps E s t" "io_join True False s = Some r"
  shows "io_join True False t = Some r"
  using assms
proof (induction)
  case (step t u)
  from step.hyps(2) step.IH [OF step.prems] show ?case
    by cases (auto simp: io_join_def io_stop_def io_restart_def split: if_splits)
qed

text \<open>
  C20: \<open>run_async\<close> returns to its caller as long as the worker has not left \<open>run\<close>: in every state of a run of
  the two threads the caller has returned or can still return, unless the worker has exited.  A
  worker that exits before the caller has looked at \<open>_running\<close>, because it was stopped or a poll
  failed, leaves the caller waiting forever; such a run exists for every environment.
\<close>

theorem run_async_returns:
  assumes "running_kept E" "io_run_async c False = Inr s0"
  shows "(\<forall>s. async_steps E s0 s \<longrightarrow>
            ((\<exists>t. async_steps E s t \<and> ar_starter t = Started) \<longleftrightarrow> ar_starter s = Started \<or> ar_worker s \<noteq> Exited)) \<and>
         (\<exists>s. async_steps E s0 s \<and> (\<forall>t. async_steps E s t \<longrightarrow> ar_starter t = Waiting))"
proof
  have idle: "\<not> ic_running c" and s0: "s0 = async_started c"
    using assms(2) by (auto simp: io_run_async_def socket_init_status_def split: if_splits)
  show "\<forall>s. async_steps E s0 s \<longrightarrow>
      ((\<exists>t. async_steps E s t \<and> ar_starter t = Started) \<longleftrightarrow> ar_starter s = Started \<or> ar_worker s \<noteq> Exited)"
  proof (intro allI impI)
    fix s assume "async_steps E s0 s"
    then have running: "ic_running (ar_ctx s) \<longleftrightarrow> worker_inside s"
      by (rule steps_running [OF assms(1)]) (simp add: s0 idle async_started_def worker_inside_def)
    show "(\<exists>t. async_steps E s t \<and> ar_starter t = Started) \<longleftrightarrow> ar_starter s = Started \<or> ar_worker s \<noteq> Exited"
    proof (cases "ar_worker s = Exited")
      case True
      then show ?thesis
        using missed_wakeup [of E s] running by (cases "ar_starter s") (auto simp: worker_inside_def)
    next
      case False
      then show ?thesis
        using can_wake [OF _ running] by (auto simp: worker_inside_def)
    qed
  qed
  show "\<exists>s. async_steps E s0 s \<and> (\<forall>t. async_steps E s t \<longrightarrow> ar_starter t = Waiting)"
  proof -
    obtain s where s: "async_steps E (async_started c) s" "ar_worker s = Exited" "ar_starter s = Waiting" "\<not> ic_running (ar_ctx s)"
      using stopped_before_wake [OF idle] by blast
    have "ar_starter t = Waiting" if "async_steps E s t" for t
      using missed_wakeup [OF that s(2-4)] by simp
    with s(1) s0 show ?thesis
      by auto
  qed
qed

lemma run_async_returns_witness:
  "running_kept countdown \<and>
   (\<exists>s. async_steps countdown (async_started (IoContext_new 4 [])) s \<and>
      (\<forall>t. async_steps countdown s t \<longrightarrow> ar_starter t = Waiting))"
proof
  show kept: "running_kept countdown"
    by (auto simp: running_kept_def countdown_def io_post_def io_try_post_def run_simps)
  have "io_run_async (IoContext_new 4 []) False = Inr (async_started (IoContext_new 4 []))"
    by (simp add: io_run_async_def socket_init_status_def IoContext_new_def)
  from run_async_returns [OF kept this]
  show "\<exists>s. async_steps countdown (async_started (IoContext_new 4 [])) s \<and>
      (\<forall>t. async_steps countdown s t \<longrightarrow> ar_starter t = Waiting)" ..
qed

end
