(* ===== verification/Scn_Api.thy ===== *)
theory Scn_Api
  imports Scn_Io
begin

text \<open>
  The remaining overloads of the client, the server and the peer handle: those that fill in send
  options, a port number, or the type of the result, and the construction and destruction of a client
  or server that belongs to an event loop.
\<close>

section \<open>Client\<close>

definition client_connect_port :: "'w cenv \<Rightarrow> string \<Rightarrow> U16 \<Rightarrow> ('w, unit result) cact" where
  "client_connect_port E host port = client_connect_host E host (dec_digits (unat port))"

definition client_send_span :: "'w cenv \<Rightarrow> U8 list \<Rightarrow> ('w, unit result) cact" where
  "client_send_span E payload = client_send_payload E (Some payload) (length payload)"

definition client_send_channel :: "'w cenv \<Rightarrow> Channel \<Rightarrow> U8 \<Rightarrow> U8 list \<Rightarrow> ('w, unit result) cact" where
  "client_send_channel E channel type payload =
     client_send E \<lparr>so_channel = channel, so_priority = SendPriority.Normal, so_lifetime_ms = 0\<rparr> type payload"

definition client_send_text_default :: "'w cenv \<Rightarrow> U8 \<Rightarrow> U8 list \<Rightarrow> ('w, unit result) cact" where
  "client_send_text_default E type text =
     client_send_text E type text \<lparr>so_channel = Channel.Unreliable, so_priority = SendPriority.Normal, so_lifetime_ms = 0\<rparr>"

definition client_send_unreliable_text :: "'w cenv \<Rightarrow> U8 \<Rightarrow> U8 list \<Rightarrow> SendPriority \<Rightarrow> ('w, unit result) cact" where
  "client_send_unreliable_text E type text priority =
     client_send_text E type text \<lparr>so_channel = Channel.Unreliable, so_priority = priority, so_lifetime_ms = 0\<rparr>"

definition client_send_reliable_text :: "'w cenv \<Rightarrow> U8 \<Rightarrow> U8 list \<Rightarrow> SendPriority \<Rightarrow> U64 \<Rightarrow> ('w, unit result) cact" where
  "client_send_reliable_text E type text priority lifetime_ms =
     client_send_text E type text \<lparr>so_channel = Channel.Reliable, so_priority = priority, so_lifetime_ms = lifetime_ms\<rparr>"

definition client_send_ordered_text :: "'w cenv \<Rightarrow> U8 \<Rightarrow> U8 list \<Rightarrow> SendPriority \<Rightarrow> U64 \<Rightarrow> ('w, unit result) cact" where
  "client_send_ordered_text E type text priority lifetime_ms =
     client_send_text E type text \<lparr>so_channel = Channel.ReliableOrdered, so_priority = priority, so_lifetime_ms = lifetime_ms\<rparr>"

definition client_send_latest_text :: "'w cenv \<Rightarrow> U8 \<Rightarrow> U8 list \<Rightarrow> SendPriority \<Rightarrow> ('w, unit result) cact" where
  "client_send_latest_text E type text priority =
     client_send_text E type text \<lparr>so_channel = Channel.SequencedUnreliable, so_priority = priority, so_lifetime_ms = 0\<rparr>"

text \<open>A client is known to its event loop by the name \<open>p\<close>, and its state is the loop's world.\<close>

definition Client_default :: "'w cenv \<Rightarrow> 'w \<Rightarrow> 'w Client" where
  "Client_default E w = snd (run_state (client_init E) (Client_members ClientConfig_default w))"

definition client_in_context :: "'p \<Rightarrow> ('f, 'p, 'w Client, unit) ioact" where
  "client_in_context p = io_register_service (Some p)"

definition client_destroy :: "'w cenv \<Rightarrow> 'p option \<Rightarrow> ('f, 'p, 'w Client, unit) ioact" where
  "client_destroy E ctx = do {
     on_part ic_world (\<lambda>c. ic_world_update (\<lambda>_. c)) (run_state (client_stop E));
     (case ctx of Some p \<Rightarrow> io_unregister_service (Some p) | None \<Rightarrow> ret ())
   }"

section \<open>Peer handle\<close>

definition peer_send_channel :: "'w senv \<Rightarrow> Peer \<Rightarrow> Channel \<Rightarrow> U8 \<Rightarrow> U8 list \<Rightarrow> ('w, unit result) sact" where
  "peer_send_channel E peer channel type payload =
     peer_send E peer \<lparr>so_channel = channel, so_priority = SendPriority.Normal, so_lifetime_ms = 0\<rparr> type payload"

definition peer_send_text_default :: "'w senv \<Rightarrow> Peer \<Rightarrow> U8 \<Rightarrow> U8 list \<Rightarrow> ('w, unit result) sact" where
  "peer_send_text_default E peer type text =
     peer_send_text E peer type text \<lparr>so_channel = Channel.Unreliable, so_priority = SendPriority.Normal, so_lifetime_ms = 0\<rparr>"

definition peer_send_unreliable :: "'w senv \<Rightarrow> Peer \<Rightarrow> U8 \<Rightarrow> U8 list \<Rightarrow> SendPriority \<Rightarrow> ('w, unit result) sact" where
  "peer_send_unreliable E peer type payload priority =
     peer_send E peer \<lparr>so_channel = Channel.Unreliable, so_priority = priority, so_lifetime_ms = 0\<rparr> type payload"

definition peer_send_reliable :: "'w senv \<Rightarrow> Peer \<Rightarrow> U8 \<Rightarrow> U8 list \<Rightarrow> SendPriority \<Rightarrow> U64 \<Rightarrow> ('w, unit result) sact" where
  "peer_send_reliable E peer type payload priority lifetime_ms =
     peer_send E peer \<lparr>so_channel = Channel.Reliable, so_priority = priority, so_lifetime_ms = lifetime_ms\<rparr> type payload"

definition peer_send_ordered :: "'w senv \<Rightarrow> Peer \<Rightarrow> U8 \<Rightarrow> U8 list \<Rightarrow> SendPriority \<Rightarrow> U64 \<Rightarrow> ('w, unit result) sact" where
  "peer_send_ordered E peer type payload priority lifetime_ms =
     peer_send E peer \<lparr>so_channel = Channel.ReliableOrdered, so_priority = priority, so_lifetime_ms = lifetime_ms\<rparr> type payload"

definition peer_send_latest :: "'w senv \<Rightarrow> Peer \<Rightarrow> U8 \<Rightarrow> U8 list \<Rightarrow> SendPriority \<Rightarrow> ('w, unit result) sact" where
  "peer_send_latest E peer type payload priority =
     peer_send E peer \<lparr>so_channel = Channel.SequencedUnreliable, so_priority = priority, so_lifetime_ms = 0\<rparr> type payload"

definition peer_send_unreliable_text :: "'w senv \<Rightarrow> Peer \<Rightarrow> U8 \<Rightarrow> U8 list \<Rightarrow> SendPriority \<Rightarrow> ('w, unit result) sact" where
  "peer_send_unreliable_text E peer type text priority =
     peer_send_text E peer type text \<lparr>so_channel = Channel.Unreliable, so_priority = priority, so_lifetime_ms = 0\<rparr>"

definition peer_send_reliable_text :: "'w senv \<Rightarrow> Peer \<Rightarrow> U8 \<Rightarrow> U8 list \<Rightarrow> SendPriority \<Rightarrow> U64 \<Rightarrow> ('w, unit result) sact" where
  "peer_send_reliable_text E peer type text priority lifetime_ms =
     peer_send_text E peer type text \<lparr>so_channel = Channel.Reliable, so_priority = priority, so_lifetime_ms = lifetime_ms\<rparr>"

definition peer_send_ordered_text :: "'w senv \<Rightarrow> Peer \<Rightarrow> U8 \<Rightarrow> U8 list \<Rightarrow> SendPriority \<Rightarrow> U64 \<Rightarrow> ('w, unit result) sact" where
  "peer_send_ordered_text E peer type text priority lifetime_ms =
     peer_send_text E peer type text \<lparr>so_channel = Channel.ReliableOrdered, so_priority = priority, so_lifetime_ms = lifetime_ms\<rparr>"

definition peer_send_latest_text :: "'w senv \<Rightarrow> Peer \<Rightarrow> U8 \<Rightarrow> U8 list \<Rightarrow> SendPriority \<Rightarrow> ('w, unit result) sact" where
  "peer_send_latest_text E peer type text priority =
     peer_send_text E peer type text \<lparr>so_channel = Channel.SequencedUnreliable, so_priority = priority, so_lifetime_ms = 0\<rparr>"

section \<open>Server\<close>

definition server_listen_number :: "'w senv \<Rightarrow> U16 \<Rightarrow> ('w, unit result) sact" where
  "server_listen_number E port = server_listen_port E (dec_digits (unat port))"

definition server_send_channel :: "'w senv \<Rightarrow> Peer \<Rightarrow> Channel \<Rightarrow> U8 \<Rightarrow> U8 list \<Rightarrow> ('w, unit result) sact" where
  "server_send_channel E peer channel type payload =
     server_send E peer \<lparr>so_channel = channel, so_priority = SendPriority.Normal, so_lifetime_ms = 0\<rparr> type payload"

definition server_send_unreliable_text :: "'w senv \<Rightarrow> Peer \<Rightarrow> U8 \<Rightarrow> U8 list \<Rightarrow> SendPriority \<Rightarrow> ('w, unit result) sact" where
  "server_send_unreliable_text E peer type text priority =
     server_send_text E peer type text \<lparr>so_channel = Channel.Unreliable, so_priority = priority, so_lifetime_ms = 0\<rparr>"

definition server_send_reliable_text :: "'w senv \<Rightarrow> Peer \<Rightarrow> U8 \<Rightarrow> U8 list \<Rightarrow> SendPriority \<Rightarrow> U64 \<Rightarrow> ('w, unit result) sact" where
  "server_send_reliable_text E peer type text priority lifetime_ms =
     server_send_text E peer type text \<lparr>so_channel = Channel.Reliable, so_priority = priority, so_lifetime_ms = lifetime_ms\<rparr>"

definition server_send_ordered_text :: "'w senv \<Rightarrow> Peer \<Rightarrow> U8 \<Rightarrow> U8 list \<Rightarrow> SendPriority \<Rightarrow> U64 \<Rightarrow> ('w, unit result) sact" where
  "server_send_ordered_text E peer type text priority lifetime_ms =
     server_send_text E peer type text \<lparr>so_channel = Channel.ReliableOrdered, so_priority = priority, so_lifetime_ms = lifetime_ms\<rparr>"

definition server_send_latest_text :: "'w senv \<Rightarrow> Peer \<Rightarrow> U8 \<Rightarrow> U8 list \<Rightarrow> SendPriority \<Rightarrow> ('w, unit result) sact" where
  "server_send_latest_text E peer type text priority =
     server_send_text E peer type text \<lparr>so_channel = Channel.SequencedUnreliable, so_priority = priority, so_lifetime_ms = 0\<rparr>"

definition server_broadcast_unreliable_text :: "'w senv \<Rightarrow> U8 \<Rightarrow> U8 list \<Rightarrow> SendPriority \<Rightarrow> ('w, unit result) sact" where
  "server_broadcast_unreliable_text E type text priority = server_broadcast_on E Channel.Unreliable type text priority 0"

definition server_broadcast_reliable_text :: "'w senv \<Rightarrow> U8 \<Rightarrow> U8 list \<Rightarrow> SendPriority \<Rightarrow> U64 \<Rightarrow> ('w, unit result) sact" where
  "server_broadcast_reliable_text E type text priority lifetime_ms =
     server_broadcast_on E Channel.Reliable type text priority lifetime_ms"

definition server_broadcast_ordered_text :: "'w senv \<Rightarrow> U8 \<Rightarrow> U8 list \<Rightarrow> SendPriority \<Rightarrow> U64 \<Rightarrow> ('w, unit result) sact" where
  "server_broadcast_ordered_text E type text priority lifetime_ms =
     server_broadcast_on E Channel.ReliableOrdered type text priority lifetime_ms"

definition server_broadcast_latest_text :: "'w senv \<Rightarrow> U8 \<Rightarrow> U8 list \<Rightarrow> SendPriority \<Rightarrow> ('w, unit result) sact" where
  "server_broadcast_latest_text E type text priority =
     server_broadcast_on E Channel.SequencedUnreliable type text priority 0"

definition server_in_context :: "'p \<Rightarrow> ('f, 'p, 'w Server, unit) ioact" where
  "server_in_context p = io_register_service (Some p)"

definition server_destroy :: "'w senv \<Rightarrow> 'p option \<Rightarrow> ('f, 'p, 'w Server, unit) ioact" where
  "server_destroy E ctx = do {
     on_part ic_world (\<lambda>c. ic_world_update (\<lambda>_. c)) (run_state (server_stop E));
     (case ctx of Some p \<Rightarrow> io_unregister_service (Some p) | None \<Rightarrow> ret ())
   }"

section \<open>Text is bytes\<close>

text \<open>
  A text of at most 65535 bytes is sent as the payload with the same bytes; a longer one is refused
  by both.
\<close>

lemma client_text_is_payload:
  "length text \<le> 65535 \<Longrightarrow> client_send_reliable_text E type text priority lifetime = client_send_reliable E type text priority lifetime"
  "length text \<le> 65535 \<Longrightarrow> client_send_ordered_text E type text priority lifetime = client_send_ordered E type text priority lifetime"
  "length text \<le> 65535 \<Longrightarrow> client_send_latest_text E type text priority = client_send_latest E type text priority"
  "length text \<le> 65535 \<Longrightarrow> client_send_unreliable_text E type text priority = client_send_unreliable E type text priority"
  by (simp_all add: client_send_reliable_text_def client_send_reliable_def client_send_ordered_text_def client_send_ordered_def
    client_send_latest_text_def client_send_latest_def client_send_unreliable_text_def client_send_unreliable_def client_send_text_def)

lemma unbound_peer_refuses:
  assumes "\<not> pr_owner peer"
  shows "run_state (peer_send_reliable E peer type payload priority lifetime) sv = (Inl InvalidArg, sv)"
    and "run_state (peer_send_ordered E peer type payload priority lifetime) sv = (Inl InvalidArg, sv)"
    and "run_state (peer_send_latest E peer type payload priority) sv = (Inl InvalidArg, sv)"
    and "run_state (peer_send_unreliable E peer type payload priority) sv = (Inl InvalidArg, sv)"
  using assms by (simp_all add: peer_send_reliable_def peer_send_ordered_def peer_send_latest_def peer_send_unreliable_def
    peer_send_def peer_bound_def)

text \<open>A destroyed client is no service of its loop any more.\<close>

lemma client_destroyed:
  "p \<notin> set (ic_services (snd (run_state (client_destroy E (Some p)) c)))"
  by (auto simp: client_destroy_def io_unregister_service_def run_simps split: prod.split)

end
