(* ===== verification/Scn_Async.thy ===== *)
theory Scn_Async
  imports Scn_Api
begin

text \<open>
  The asynchronous wrappers (\<^verbatim>\<open>async.hpp\<close>): an event loop with its worker thread and the client or server
  that it polls.  Every call posts a closure; a closure is a value of a datatype with what it captures,
  and \<open>ie_call\<close> of the loop runs it and gives its result to the promise, here a list of results in the
  order in which they are given.

  \<open>start\<close> blocks in \<open>run_async\<close>: how the two threads are scheduled until the caller goes on is the argument
  \<open>await\<close>, which gives the state in which it does, or none when it never does.
\<close>

section \<open>Owner of a loop\<close>

record ('f, 'p, 'w) AsyncOwner =
  ao_run :: "('f, 'p, 'w) AsyncRun"
  ao_joinable :: bool
  ao_started :: bool

definition AsyncOwner_new :: "('f, 'p, 'w) IoContext \<Rightarrow> ('f, 'p, 'w) AsyncOwner" where
  "AsyncOwner_new c = \<lparr>ao_run = \<lparr>ar_ctx = c, ar_worker = Exited, ar_starter = Started\<rparr>, ao_joinable = False, ao_started = False\<rparr>"

definition async_start ::
  "(('f, 'p, 'w) AsyncRun \<Rightarrow> ('f, 'p, 'w) AsyncRun option) \<Rightarrow> ('f, 'p, 'w) AsyncOwner \<Rightarrow>
   unit result option \<times> ('f, 'p, 'w) AsyncOwner" where
  "async_start await owner =
    (if ao_started owner then (Some (Inr ()), owner)
     else case io_run_async (ar_ctx (ao_run owner)) (ao_joinable owner) of
       Inl e \<Rightarrow> (Some (Inl e), owner)
     | Inr spawned \<Rightarrow>
         (case await spawned of
            None \<Rightarrow> (None, owner\<lparr>ao_run := spawned, ao_joinable := True\<rparr>)
          | Some run \<Rightarrow> (Some (Inr ()), owner\<lparr>ao_run := run, ao_joinable := True, ao_started := True\<rparr>)))"

text \<open>\<open>stop\<close> waits for the worker in the same way: \<open>finish\<close> gives the state after its exit.\<close>

definition async_stop ::
  "(('f, 'p, 'w) AsyncRun \<Rightarrow> ('f, 'p, 'w) AsyncRun option) \<Rightarrow> ('f, 'p, 'w) AsyncOwner \<Rightarrow> ('f, 'p, 'w) AsyncOwner option" where
  "async_stop finish owner =
    (let stopping = (ao_run owner)\<lparr>ar_ctx := snd (run_state io_stop (ar_ctx (ao_run owner)))\<rparr>
     in if \<not> ao_joinable owner then Some (owner\<lparr>ao_run := stopping, ao_started := False\<rparr>)
        else case finish stopping of
          None \<Rightarrow> None
        | Some run \<Rightarrow> Some (owner\<lparr>ao_run := run, ao_joinable := False, ao_started := False\<rparr>))"

text \<open>Posting to the loop of an owner; the promise of a closure that does not fit the queue is broken.\<close>

definition async_post :: "'f \<Rightarrow> (('f, 'p, 'w) IoContext \<Rightarrow> ('f, 'p, 'w) IoContext) \<Rightarrow> ('f, 'p, 'w) AsyncOwner \<Rightarrow> ('f, 'p, 'w) AsyncOwner" where
  "async_post closure broken owner =
     owner\<lparr>ao_run := (ao_run owner)\<lparr>ar_ctx := snd (run_state (io_post_task closure broken) (ar_ctx (ao_run owner)))\<rparr>\<rparr>"

text \<open>A call of the wrapper: \<open>Some (Inl e)\<close> is the ready future with the error of \<open>start\<close>.\<close>

definition async_call ::
  "(('f, 'p, 'w) AsyncRun \<Rightarrow> ('f, 'p, 'w) AsyncRun option) \<Rightarrow> (('f, 'p, 'w) IoContext \<Rightarrow> ('f, 'p, 'w) IoContext) \<Rightarrow> 'f \<Rightarrow>
   ('f, 'p, 'w) AsyncOwner \<Rightarrow> unit result option \<times> ('f, 'p, 'w) AsyncOwner" where
  "async_call await broken closure owner =
    (case async_start await owner of
       (None, owner) \<Rightarrow> (None, owner)
     | (Some (Inl e), owner) \<Rightarrow> (Some (Inl e), owner)
     | (Some (Inr _), owner) \<Rightarrow> (Some (Inr ()), async_post closure broken owner))"

section \<open>AsyncClient\<close>

datatype AsyncClientTask =
    AcConnect Endpoint
  | AcConnectPort string U16
  | AcSend SendOptions U8 "U8 list"
  | AcSendText U8 "U8 list" SendOptions
  | AcSendUnreliableText U8 "U8 list"
  | AcSendReliableText U8 "U8 list" U64
  | AcSendOrderedText U8 "U8 list" U64
  | AcSendLatestText U8 "U8 list"
  | AcClose CloseReason

primrec async_client_body :: "'w cenv \<Rightarrow> AsyncClientTask \<Rightarrow> ('w, unit result) cact" where
  "async_client_body E (AcConnect server) = client_connect E server"
| "async_client_body E (AcConnectPort host port) = client_connect_port E host port"
| "async_client_body E (AcSend options type bytes) = client_send E options type bytes"
| "async_client_body E (AcSendText type text options) = client_send_text E type text options"
| "async_client_body E (AcSendUnreliableText type text) = client_send_unreliable_text E type text SendPriority.Normal"
| "async_client_body E (AcSendReliableText type text lifetime_ms) =
    client_send_reliable_text E type text SendPriority.Normal lifetime_ms"
| "async_client_body E (AcSendOrderedText type text lifetime_ms) =
    client_send_ordered_text E type text SendPriority.Normal lifetime_ms"
| "async_client_body E (AcSendLatestText type text) = client_send_latest_text E type text SendPriority.Normal"
| "async_client_body E (AcClose reason) = client_close E reason"

record 'o AsyncWorld =
  aw_object :: 'o
  aw_results :: "unit result list"

text \<open>
  The loop of an \<open>AsyncClient\<close>: its only service is the client, its closures are the tasks above.  The
  member functions of the client do not throw.
\<close>

definition run_task ::
  "('o \<Rightarrow> unit result \<times> 'o) \<Rightarrow> ('f, 'p, 'o AsyncWorld) IoContext \<Rightarrow> bool \<times> ('f, 'p, 'o AsyncWorld) IoContext" where
  "run_task body c =
    (case body (aw_object (ic_world c)) of
       (rc, obj) \<Rightarrow> (False, c\<lparr>ic_world := \<lparr>aw_object = obj, aw_results = aw_results (ic_world c) @ [rc]\<rparr>\<rparr>))"

definition poll_object ::
  "('o \<Rightarrow> unit result option \<times> 'o) \<Rightarrow> ('f, 'p, 'o AsyncWorld) IoContext \<Rightarrow> unit result option \<times> ('f, 'p, 'o AsyncWorld) IoContext" where
  "poll_object tick c =
    (case tick (aw_object (ic_world c)) of (rc, obj) \<Rightarrow> (rc, c\<lparr>ic_world := (ic_world c)\<lparr>aw_object := obj\<rparr>\<rparr>))"

definition async_client_env :: "'w cenv \<Rightarrow> nat \<Rightarrow> (AsyncClientTask, unit, 'w Client AsyncWorld) IoEnv" where
  "async_client_env E fuel =
    \<lparr>ie_call = (\<lambda>task. run_task (run_state (async_client_body E task))),
     ie_poll = (\<lambda>_. poll_object (run_state (client_tick E fuel))),
     ie_wait = (\<lambda>c. c), ie_clock = (\<lambda>c. (0, c))\<rparr>"

definition AsyncClient_new ::
  "'w cenv \<Rightarrow> ClientConfig \<Rightarrow> 'w \<Rightarrow> (AsyncClientTask, unit, 'w Client AsyncWorld) AsyncOwner" where
  "AsyncClient_new E cfg w =
     AsyncOwner_new (snd (run_state (io_register_service (Some ()))
       (IoContext_new 65536 \<lparr>aw_object = Client_new E cfg w, aw_results = []\<rparr>)))"

section \<open>AsyncServer\<close>

datatype AsyncServerTask =
    AsListen Endpoint
  | AsListenNumber U16
  | AsClosePeer Peer CloseReason

primrec async_server_body :: "'w senv \<Rightarrow> AsyncServerTask \<Rightarrow> ('w, unit result) sact" where
  "async_server_body E (AsListen endpoint) = server_listen E endpoint"
| "async_server_body E (AsListenNumber port) = server_listen_number E port"
| "async_server_body E (AsClosePeer peer reason) = server_close_peer E peer reason"

definition async_server_env :: "'w senv \<Rightarrow> nat \<Rightarrow> nat \<Rightarrow> (AsyncServerTask, unit, 'w Server AsyncWorld) IoEnv" where
  "async_server_env E draws fuel =
    \<lparr>ie_call = (\<lambda>task. run_task (run_state (async_server_body E task))),
     ie_poll = (\<lambda>_. poll_object (run_state (server_tick E draws fuel))),
     ie_wait = (\<lambda>c. c), ie_clock = (\<lambda>c. (0, c))\<rparr>"

definition AsyncServer_new :: "ServerConfig \<Rightarrow> 'w \<Rightarrow> (AsyncServerTask, unit, 'w Server AsyncWorld) AsyncOwner" where
  "AsyncServer_new cfg w =
     AsyncOwner_new (snd (run_state (io_register_service (Some ()))
       (IoContext_new 65536 \<lparr>aw_object = Server_new cfg w, aw_results = []\<rparr>)))"

text \<open>\<open>close_peer\<close> posts without starting the loop.\<close>

definition async_close_peer ::
  "((AsyncServerTask, unit, 'w Server AsyncWorld) IoContext \<Rightarrow> (AsyncServerTask, unit, 'w Server AsyncWorld) IoContext) \<Rightarrow>
   Peer \<Rightarrow> CloseReason \<Rightarrow> (AsyncServerTask, unit, 'w Server AsyncWorld) AsyncOwner \<Rightarrow>
   (AsyncServerTask, unit, 'w Server AsyncWorld) AsyncOwner" where
  "async_close_peer broken peer reason = async_post (AsClosePeer peer reason) broken"

section \<open>Tasks run once and in order\<close>

text \<open>The tasks of a queue, one after the other.\<close>

primrec run_bodies :: "('f \<Rightarrow> 'o \<Rightarrow> unit result \<times> 'o) \<Rightarrow> 'f list \<Rightarrow> 'o \<Rightarrow> unit result list \<times> 'o" where
  "run_bodies body [] obj = ([], obj)"
| "run_bodies body (f # fs) obj =
    (let (rc, obj) = body f obj; (rcs, obj) = run_bodies body fs obj in (rc # rcs, obj))"

text \<open>
  Draining gives every queued task's promise its value, in the order of posting, and leaves the queue
  empty; the number of queued tasks plus one is enough fuel.
\<close>

lemma drain_tasks:
  assumes "ie_call E = (\<lambda>f. run_task (body f))" "length (ic_posted c) < fuel"
  shows "run_state (io_drain_posted E fuel) c =
    (let (rcs, obj) = run_bodies body (ic_posted c) (aw_object (ic_world c))
     in (Some (Inr ()), c\<lparr>ic_posted := [], ic_world := \<lparr>aw_object = obj, aw_results = aw_results (ic_world c) @ rcs\<rparr>\<rparr>))"
  using assms(2)
proof (induction "ic_posted c" arbitrary: c fuel)
  case Nil
  then obtain n where "fuel = Suc n"
    by (cases fuel) auto
  with Nil show ?case
    by (cases c) (simp add: drain_Suc del: io_drain_posted.simps)
next
  case (Cons f q)
  then obtain n where fuel: "fuel = Suc n" "length q < n"
    by (cases fuel) (auto simp flip: Cons.hyps(2))
  obtain rc obj where body: "body f (aw_object (ic_world c)) = (rc, obj)"
    by fastforce
  let ?d = "c\<lparr>ic_posted := q, ic_world := \<lparr>aw_object = obj, aw_results = aw_results (ic_world c) @ [rc]\<rparr>\<rparr>"
  have "run_state (io_drain_posted E fuel) c = run_state (io_drain_posted E n) ?d"
    by (simp add: fuel drain_Suc Cons.hyps(2) [symmetric] assms(1) run_task_def body del: io_drain_posted.simps)
  then show ?case
    using Cons.hyps(1) [of ?d n] fuel(2) by (simp add: Cons.hyps(2) [symmetric] body split: prod.split)
qed

text \<open>The loop of a wrapper keeps the running flag, as the threads' liveness asks for.\<close>

lemma async_running_kept: "running_kept (async_client_env E fuel)" "running_kept (async_server_env F draws fuel)"
  by (auto simp: running_kept_def async_client_env_def async_server_env_def run_task_def poll_object_def split: prod.split)

end
