(* ===== verification/Scn_Builder.thy ===== *)
theory Scn_Builder
  imports Scn_Config
begin

text \<open>
  The builders of the configurations (\<^verbatim>\<open>config.hpp\<close>, \<open>ClientConfig::Builder\<close> and \<open>ServerConfig::Builder\<close>).
  A builder is the configuration it has collected; its methods are the constructors of a datatype and
  a chain of calls is the list of them.

  The property: the defaults and all presets pass validation, and one call on a valid configuration
  gives a valid one exactly when its argument is in the range that the validators ask of that field.
\<close>

section \<open>Builders\<close>

datatype ClientSetter =
    CReliabilityConfig ReliabilityConfig
  | CFragmentationConfig FragmentationConfig
  | CCongestionControlConfig CongestionControlConfig
  | CAdaptiveCongestionControl bool
  | CHandshakeTimeoutMs U64
  | CIdleTimeoutMs U64
  | CKeepaliveIntervalMs U64
  | CCloseDrainMs U64
  | CMaxPendingPackets U32
  | CSendBudgetBytesPerSecond U32
  | CSessionResumption bool
  | CPacketDebugDumps bool
  | CMaxPendingReliableMessages U32
  | CMaxInflightReliableMessages U32
  | CMaxPendingReliableBytes U32
  | COrderedReceiveWindow U32
  | CRtoMs U64 U64 U64
  | CFragmentationEnabled bool
  | CMaxReassembledMessageBytes U32

primrec client_set :: "ClientSetter \<Rightarrow> ClientConfig \<Rightarrow> ClientConfig" where
  "client_set (CReliabilityConfig v) cfg = cfg\<lparr>ccfg_reliability := v\<rparr>"
| "client_set (CFragmentationConfig v) cfg = cfg\<lparr>ccfg_fragmentation := v\<rparr>"
| "client_set (CCongestionControlConfig v) cfg = cfg\<lparr>ccfg_congestion := v\<rparr>"
| "client_set (CAdaptiveCongestionControl b) cfg = cfg\<lparr>ccfg_congestion := ccfg_congestion cfg\<lparr>cc_enabled := b\<rparr>\<rparr>"
| "client_set (CHandshakeTimeoutMs v) cfg = cfg\<lparr>ccfg_handshake_timeout_ms := v\<rparr>"
| "client_set (CIdleTimeoutMs v) cfg = cfg\<lparr>ccfg_idle_timeout_ms := v\<rparr>"
| "client_set (CKeepaliveIntervalMs v) cfg = cfg\<lparr>ccfg_keepalive_interval_ms := v\<rparr>"
| "client_set (CCloseDrainMs v) cfg = cfg\<lparr>ccfg_close_drain_ms := v\<rparr>"
| "client_set (CMaxPendingPackets v) cfg = cfg\<lparr>ccfg_max_pending_packets := v\<rparr>"
| "client_set (CSendBudgetBytesPerSecond v) cfg = cfg\<lparr>ccfg_send_budget_bytes_per_second := v\<rparr>"
| "client_set (CSessionResumption b) cfg = cfg\<lparr>ccfg_enable_session_resumption := b\<rparr>"
| "client_set (CPacketDebugDumps b) cfg = cfg\<lparr>ccfg_enable_packet_debug_dumps := b\<rparr>"
| "client_set (CMaxPendingReliableMessages v) cfg =
    cfg\<lparr>ccfg_reliability := ccfg_reliability cfg\<lparr>rel_max_pending_messages := v\<rparr>\<rparr>"
| "client_set (CMaxInflightReliableMessages v) cfg =
    cfg\<lparr>ccfg_reliability := ccfg_reliability cfg\<lparr>rel_max_inflight_messages := v\<rparr>\<rparr>"
| "client_set (CMaxPendingReliableBytes v) cfg =
    cfg\<lparr>ccfg_reliability := ccfg_reliability cfg\<lparr>rel_max_pending_bytes := v\<rparr>\<rparr>"
| "client_set (COrderedReceiveWindow v) cfg =
    cfg\<lparr>ccfg_reliability := ccfg_reliability cfg\<lparr>rel_ordered_receive_window := v\<rparr>\<rparr>"
| "client_set (CRtoMs initial min_value max_value) cfg =
    cfg\<lparr>ccfg_reliability := ccfg_reliability cfg
      \<lparr>rel_initial_rto_ms := initial, rel_min_rto_ms := min_value, rel_max_rto_ms := max_value\<rparr>\<rparr>"
| "client_set (CFragmentationEnabled b) cfg =
    cfg\<lparr>ccfg_fragmentation := ccfg_fragmentation cfg\<lparr>frag_enabled := b\<rparr>\<rparr>"
| "client_set (CMaxReassembledMessageBytes v) cfg =
    cfg\<lparr>ccfg_fragmentation := ccfg_fragmentation cfg\<lparr>frag_max_reassembled_message_bytes := v\<rparr>\<rparr>"

definition client_build :: "ClientSetter list \<Rightarrow> ClientConfig" where
  "client_build calls = fold client_set calls ClientConfig_default"

datatype ServerSetter =
    SReliabilityConfig ReliabilityConfig
  | SFragmentationConfig FragmentationConfig
  | SCongestionControlConfig CongestionControlConfig
  | SAdaptiveCongestionControl bool
  | SAbuseConfig AbuseConfig
  | SHandshakeTimeoutMs U64
  | SIdleTimeoutMs U64
  | SKeepaliveIntervalMs U64
  | SCloseDrainMs U64
  | SMaxPendingPackets U32
  | SSendBudgetBytesPerSecond U32
  | SMaxPeerSessions ST
  | SSessionResumption bool
  | SPacketDebugDumps bool
  | SMaxPendingReliableMessages U32
  | SMaxInflightReliableMessages U32
  | SMaxPendingReliableBytes U32
  | SOrderedReceiveWindow U32
  | SFragmentationEnabled bool
  | SMaxReassembledMessageBytes U32
  | SMaxTotalReassemblyMemoryServer U64

primrec server_set :: "ServerSetter \<Rightarrow> ServerConfig \<Rightarrow> ServerConfig" where
  "server_set (SReliabilityConfig v) cfg = cfg\<lparr>scfg_reliability := v\<rparr>"
| "server_set (SFragmentationConfig v) cfg = cfg\<lparr>scfg_fragmentation := v\<rparr>"
| "server_set (SCongestionControlConfig v) cfg = cfg\<lparr>scfg_congestion := v\<rparr>"
| "server_set (SAdaptiveCongestionControl b) cfg = cfg\<lparr>scfg_congestion := scfg_congestion cfg\<lparr>cc_enabled := b\<rparr>\<rparr>"
| "server_set (SAbuseConfig v) cfg = cfg\<lparr>scfg_abuse := v\<rparr>"
| "server_set (SHandshakeTimeoutMs v) cfg = cfg\<lparr>scfg_handshake_timeout_ms := v\<rparr>"
| "server_set (SIdleTimeoutMs v) cfg = cfg\<lparr>scfg_idle_timeout_ms := v\<rparr>"
| "server_set (SKeepaliveIntervalMs v) cfg = cfg\<lparr>scfg_keepalive_interval_ms := v\<rparr>"
| "server_set (SCloseDrainMs v) cfg = cfg\<lparr>scfg_close_drain_ms := v\<rparr>"
| "server_set (SMaxPendingPackets v) cfg = cfg\<lparr>scfg_max_pending_packets := v\<rparr>"
| "server_set (SSendBudgetBytesPerSecond v) cfg = cfg\<lparr>scfg_send_budget_bytes_per_second := v\<rparr>"
| "server_set (SMaxPeerSessions v) cfg = cfg\<lparr>scfg_max_peer_sessions := v\<rparr>"
| "server_set (SSessionResumption b) cfg = cfg\<lparr>scfg_enable_session_resumption := b\<rparr>"
| "server_set (SPacketDebugDumps b) cfg = cfg\<lparr>scfg_enable_packet_debug_dumps := b\<rparr>"
| "server_set (SMaxPendingReliableMessages v) cfg =
    cfg\<lparr>scfg_reliability := scfg_reliability cfg\<lparr>rel_max_pending_messages := v\<rparr>\<rparr>"
| "server_set (SMaxInflightReliableMessages v) cfg =
    cfg\<lparr>scfg_reliability := scfg_reliability cfg\<lparr>rel_max_inflight_messages := v\<rparr>\<rparr>"
| "server_set (SMaxPendingReliableBytes v) cfg =
    cfg\<lparr>scfg_reliability := scfg_reliability cfg\<lparr>rel_max_pending_bytes := v\<rparr>,
        scfg_abuse := scfg_abuse cfg
          \<lparr>ab_max_queued_reliable_bytes_per_peer := max (ab_max_queued_reliable_bytes_per_peer (scfg_abuse cfg)) v\<rparr>\<rparr>"
| "server_set (SOrderedReceiveWindow v) cfg =
    cfg\<lparr>scfg_reliability := scfg_reliability cfg\<lparr>rel_ordered_receive_window := v\<rparr>\<rparr>"
| "server_set (SFragmentationEnabled b) cfg =
    cfg\<lparr>scfg_fragmentation := scfg_fragmentation cfg\<lparr>frag_enabled := b\<rparr>\<rparr>"
| "server_set (SMaxReassembledMessageBytes v) cfg =
    cfg\<lparr>scfg_fragmentation := scfg_fragmentation cfg\<lparr>frag_max_reassembled_message_bytes := v\<rparr>\<rparr>"
| "server_set (SMaxTotalReassemblyMemoryServer v) cfg =
    cfg\<lparr>scfg_abuse := scfg_abuse cfg\<lparr>ab_max_total_reassembly_memory_server := v\<rparr>\<rparr>"

definition server_build :: "ServerSetter list \<Rightarrow> ServerConfig" where
  "server_build calls = fold server_set calls ServerConfig_default"

section \<open>What the validators accept\<close>

abbreviation reassembly_size_ok :: "FragmentationConfig \<Rightarrow> U32 \<Rightarrow> bool" where
  "reassembly_size_ok f v \<equiv>
     v \<noteq> 0 \<and> unat v \<le> U16_MAX \<and> required_fragments v \<le> ucast (frag_max_fragments_per_message f) \<and>
     ucast v \<le> frag_max_total_reassembly_memory_per_peer f"

text \<open>The range of a single reliability, fragmentation or congestion argument.\<close>

primrec client_setter_ok :: "ClientSetter \<Rightarrow> ClientConfig \<Rightarrow> bool" where
  "client_setter_ok (CReliabilityConfig v) cfg = (validate_reliability_config v = Inr ())"
| "client_setter_ok (CFragmentationConfig v) cfg = (validate_fragmentation_config v = Inr ())"
| "client_setter_ok (CCongestionControlConfig v) cfg =
    (validate_congestion_control_config v (ccfg_send_budget_bytes_per_second cfg) = Inr ())"
| "client_setter_ok (CAdaptiveCongestionControl b) cfg =
    (validate_congestion_control_config (ccfg_congestion cfg\<lparr>cc_enabled := b\<rparr>) (ccfg_send_budget_bytes_per_second cfg) = Inr ())"
| "client_setter_ok (CHandshakeTimeoutMs v) cfg = (v \<noteq> 0)"
| "client_setter_ok (CIdleTimeoutMs v) cfg = (ccfg_keepalive_interval_ms cfg < v)"
| "client_setter_ok (CKeepaliveIntervalMs v) cfg = (v \<noteq> 0 \<and> v < ccfg_idle_timeout_ms cfg)"
| "client_setter_ok (CCloseDrainMs v) cfg = (v \<noteq> 0)"
| "client_setter_ok (CMaxPendingPackets v) cfg = (v \<noteq> 0)"
| "client_setter_ok (CSendBudgetBytesPerSecond v) cfg =
    (v \<noteq> 0 \<and> validate_congestion_control_config (ccfg_congestion cfg) v = Inr ())"
| "client_setter_ok (CSessionResumption b) cfg = True"
| "client_setter_ok (CPacketDebugDumps b) cfg = True"
| "client_setter_ok (CMaxPendingReliableMessages v) cfg = (v \<noteq> 0)"
| "client_setter_ok (CMaxInflightReliableMessages v) cfg = (v \<noteq> 0)"
| "client_setter_ok (CMaxPendingReliableBytes v) cfg = (MaxReliableMessageBytes \<le> unat v)"
| "client_setter_ok (COrderedReceiveWindow v) cfg = (v \<noteq> 0)"
| "client_setter_ok (CRtoMs initial min_value max_value) cfg =
    (min_value \<noteq> 0 \<and> min_value \<le> initial \<and> initial \<le> max_value)"
| "client_setter_ok (CFragmentationEnabled b) cfg =
    (validate_fragmentation_config (ccfg_fragmentation cfg\<lparr>frag_enabled := b\<rparr>) = Inr ())"
| "client_setter_ok (CMaxReassembledMessageBytes v) cfg =
    (frag_enabled (ccfg_fragmentation cfg) \<longrightarrow> reassembly_size_ok (ccfg_fragmentation cfg) v)"

primrec server_setter_ok :: "ServerSetter \<Rightarrow> ServerConfig \<Rightarrow> bool" where
  "server_setter_ok (SReliabilityConfig v) cfg =
    (validate_reliability_config v = Inr () \<and>
     rel_max_pending_bytes v \<le> ab_max_queued_reliable_bytes_per_peer (scfg_abuse cfg))"
| "server_setter_ok (SFragmentationConfig v) cfg =
    (validate_fragmentation_config v = Inr () \<and>
     frag_max_total_reassembly_memory_per_peer v \<le> ab_max_total_reassembly_memory_server (scfg_abuse cfg))"
| "server_setter_ok (SCongestionControlConfig v) cfg =
    (validate_congestion_control_config v (scfg_send_budget_bytes_per_second cfg) = Inr ())"
| "server_setter_ok (SAdaptiveCongestionControl b) cfg =
    (validate_congestion_control_config (scfg_congestion cfg\<lparr>cc_enabled := b\<rparr>) (scfg_send_budget_bytes_per_second cfg) = Inr ())"
| "server_setter_ok (SAbuseConfig v) cfg =
    (ab_per_ip_handshake_rate_limit_per_second v \<noteq> 0 \<and> ab_max_sessions_per_ip v \<noteq> 0 \<and> ab_anti_amplification_factor v \<noteq> 0 \<and>
     ab_max_total_reassembly_memory_server v \<noteq> 0 \<and>
     rel_max_pending_bytes (scfg_reliability cfg) \<le> ab_max_queued_reliable_bytes_per_peer v \<and>
     frag_max_total_reassembly_memory_per_peer (scfg_fragmentation cfg) \<le> ab_max_total_reassembly_memory_server v)"
| "server_setter_ok (SHandshakeTimeoutMs v) cfg = (v \<noteq> 0)"
| "server_setter_ok (SIdleTimeoutMs v) cfg = (scfg_keepalive_interval_ms cfg < v)"
| "server_setter_ok (SKeepaliveIntervalMs v) cfg = (v \<noteq> 0 \<and> v < scfg_idle_timeout_ms cfg)"
| "server_setter_ok (SCloseDrainMs v) cfg = (v \<noteq> 0)"
| "server_setter_ok (SMaxPendingPackets v) cfg = (v \<noteq> 0)"
| "server_setter_ok (SSendBudgetBytesPerSecond v) cfg =
    (v \<noteq> 0 \<and> validate_congestion_control_config (scfg_congestion cfg) v = Inr ())"
| "server_setter_ok (SMaxPeerSessions v) cfg = (v \<noteq> 0)"
| "server_setter_ok (SSessionResumption b) cfg = True"
| "server_setter_ok (SPacketDebugDumps b) cfg = True"
| "server_setter_ok (SMaxPendingReliableMessages v) cfg = (v \<noteq> 0)"
| "server_setter_ok (SMaxInflightReliableMessages v) cfg = (v \<noteq> 0)"
| "server_setter_ok (SMaxPendingReliableBytes v) cfg = (MaxReliableMessageBytes \<le> unat v)"
| "server_setter_ok (SOrderedReceiveWindow v) cfg = (v \<noteq> 0)"
| "server_setter_ok (SFragmentationEnabled b) cfg =
    (validate_fragmentation_config (scfg_fragmentation cfg\<lparr>frag_enabled := b\<rparr>) = Inr ())"
| "server_setter_ok (SMaxReassembledMessageBytes v) cfg =
    (frag_enabled (scfg_fragmentation cfg) \<longrightarrow> reassembly_size_ok (scfg_fragmentation cfg) v)"
| "server_setter_ok (SMaxTotalReassemblyMemoryServer v) cfg =
    (v \<noteq> 0 \<and> frag_max_total_reassembly_memory_per_peer (scfg_fragmentation cfg) \<le> v)"

lemma reliability_accepted:
  "validate_reliability_config r = Inr () \<longleftrightarrow>
    rel_min_rto_ms r \<noteq> 0 \<and> rel_min_rto_ms r \<le> rel_initial_rto_ms r \<and> rel_initial_rto_ms r \<le> rel_max_rto_ms r \<and>
    rel_max_pending_messages r \<noteq> 0 \<and> rel_max_inflight_messages r \<noteq> 0 \<and>
    MaxReliableMessageBytes \<le> unat (rel_max_pending_bytes r) \<and> rel_ordered_receive_window r \<noteq> 0"
proof -
  have nz: "a \<noteq> 0 \<Longrightarrow> a \<le> b \<Longrightarrow> b \<noteq> 0" for a b :: U64
    by (metis word_le_0_iff)
  show ?thesis
    unfolding validate_reliability_config_def using nz by (auto simp: not_less not_le split: if_splits)
qed

lemma fragmentation_accepted:
  "validate_fragmentation_config f = Inr () \<longleftrightarrow>
    (frag_enabled f \<longrightarrow> frag_max_fragments_per_message f \<noteq> 0 \<and> reassembly_size_ok f (frag_max_reassembled_message_bytes f) \<and>
       frag_max_concurrent_reassemblies_per_peer f \<noteq> 0 \<and> frag_reassembly_timeout_ms f \<noteq> 0)"
  unfolding validate_fragmentation_config_def by (auto simp: not_less not_le split: if_splits)

lemma client_accepted:
  "validate_client_config cfg = Inr () \<longleftrightarrow>
    validate_reliability_config (ccfg_reliability cfg) = Inr () \<and>
    validate_fragmentation_config (ccfg_fragmentation cfg) = Inr () \<and>
    validate_congestion_control_config (ccfg_congestion cfg) (ccfg_send_budget_bytes_per_second cfg) = Inr () \<and>
    ccfg_handshake_timeout_ms cfg \<noteq> 0 \<and> ccfg_close_drain_ms cfg \<noteq> 0 \<and>
    ccfg_keepalive_interval_ms cfg \<noteq> 0 \<and> ccfg_keepalive_interval_ms cfg < ccfg_idle_timeout_ms cfg \<and>
    ccfg_max_pending_packets cfg \<noteq> 0 \<and> ccfg_send_budget_bytes_per_second cfg \<noteq> 0"
  unfolding validate_client_config_def rbind_def
  by (auto simp: not_less not_le split: if_splits sum.splits)

lemma server_accepted:
  "validate_server_config cfg = Inr () \<longleftrightarrow>
    validate_reliability_config (scfg_reliability cfg) = Inr () \<and>
    validate_fragmentation_config (scfg_fragmentation cfg) = Inr () \<and>
    validate_congestion_control_config (scfg_congestion cfg) (scfg_send_budget_bytes_per_second cfg) = Inr () \<and>
    scfg_handshake_timeout_ms cfg \<noteq> 0 \<and> scfg_close_drain_ms cfg \<noteq> 0 \<and>
    scfg_keepalive_interval_ms cfg \<noteq> 0 \<and> scfg_keepalive_interval_ms cfg < scfg_idle_timeout_ms cfg \<and>
    scfg_max_pending_packets cfg \<noteq> 0 \<and> scfg_max_peer_sessions cfg \<noteq> 0 \<and> scfg_send_budget_bytes_per_second cfg \<noteq> 0 \<and>
    ab_per_ip_handshake_rate_limit_per_second (scfg_abuse cfg) \<noteq> 0 \<and> ab_max_sessions_per_ip (scfg_abuse cfg) \<noteq> 0 \<and>
    ab_anti_amplification_factor (scfg_abuse cfg) \<noteq> 0 \<and> ab_max_total_reassembly_memory_server (scfg_abuse cfg) \<noteq> 0 \<and>
    rel_max_pending_bytes (scfg_reliability cfg) \<le> ab_max_queued_reliable_bytes_per_peer (scfg_abuse cfg) \<and>
    frag_max_total_reassembly_memory_per_peer (scfg_fragmentation cfg) \<le> ab_max_total_reassembly_memory_server (scfg_abuse cfg)"
proof -
  have "ab_max_queued_reliable_bytes_per_peer (scfg_abuse cfg) \<noteq> 0"
    if "validate_reliability_config (scfg_reliability cfg) = Inr ()"
      "rel_max_pending_bytes (scfg_reliability cfg) \<le> ab_max_queued_reliable_bytes_per_peer (scfg_abuse cfg)"
    using that by (auto simp: reliability_accepted)
  then show ?thesis
    unfolding validate_server_config_def rbind_def
    by (auto simp: not_less not_le split: if_splits sum.splits)
qed

lemma client_set_valid:
  assumes "validate_client_config cfg = Inr ()"
  shows "validate_client_config (client_set s cfg) = Inr () \<longleftrightarrow> client_setter_ok s cfg"
  using assms by (cases s; simp add: client_accepted) (auto simp: reliability_accepted fragmentation_accepted)

lemma server_set_valid:
  assumes "validate_server_config cfg = Inr ()"
  shows "validate_server_config (server_set s cfg) = Inr () \<longleftrightarrow> server_setter_ok s cfg"
  using assms by (cases s; simp add: server_accepted le_max_iff_disj) (auto simp: reliability_accepted fragmentation_accepted)

lemmas config_defaults = ReliabilityConfig_default_def FragmentationConfig_default_def
  CongestionControlConfig_default_def AbuseConfig_default_def

lemmas validator_defs = validate_reliability_config_def validate_fragmentation_config_def
  validate_congestion_control_config_def U16_MAX_def required_fragments_def

lemma client_presets_valid:
  "validate_client_config ClientConfig_default = Inr ()"
  "validate_client_config ClientConfig_low_latency = Inr ()"
  "validate_client_config ClientConfig_reliable_gameplay = Inr ()"
  "validate_client_config ClientConfig_bulk_transfer = Inr ()"
  by (simp_all add: validate_client_config_def validator_defs config_defaults ClientConfig_default_def
      ClientConfig_low_latency_def ClientConfig_reliable_gameplay_def ClientConfig_bulk_transfer_def)

lemma server_presets_valid:
  "validate_server_config ServerConfig_default = Inr ()"
  "validate_server_config ServerConfig_public_internet = Inr ()"
  "validate_server_config ServerConfig_lan_only = Inr ()"
  "validate_server_config ServerConfig_bulk_transfer = Inr ()"
  by (simp_all add: validate_server_config_def validator_defs config_defaults ServerConfig_default_def
      ServerConfig_public_internet_def ServerConfig_lan_only_def ServerConfig_bulk_transfer_def)

text \<open>
  C38: the default configurations and all presets pass validation, and a builder call on a valid
  configuration gives a valid configuration exactly when its argument is in range.  In particular
  the server's \<open>max_pending_reliable_bytes\<close> never runs into the limit on queued bytes per peer, which it
  raises, while \<open>reliability_config\<close> with the same number may.
\<close>

theorem builders_validated:
  "validate_client_config ClientConfig_default = Inr () \<and> validate_client_config ClientConfig_low_latency = Inr () \<and>
   validate_client_config ClientConfig_reliable_gameplay = Inr () \<and> validate_client_config ClientConfig_bulk_transfer = Inr () \<and>
   validate_server_config ServerConfig_default = Inr () \<and> validate_server_config ServerConfig_public_internet = Inr () \<and>
   validate_server_config ServerConfig_lan_only = Inr () \<and> validate_server_config ServerConfig_bulk_transfer = Inr () \<and>
   (validate_client_config (client_build calls) = Inr () \<longrightarrow>
      (validate_client_config (client_build (calls @ [s])) = Inr () \<longleftrightarrow> client_setter_ok s (client_build calls))) \<and>
   (validate_server_config (server_build callt) = Inr () \<longrightarrow>
      (validate_server_config (server_build (callt @ [t])) = Inr () \<longleftrightarrow> server_setter_ok t (server_build callt)))"
  by (simp add: client_presets_valid server_presets_valid client_set_valid server_set_valid client_build_def server_build_def)

theorem builders_validated_witness:
  "validate_server_config (server_build [SMaxPendingReliableBytes 1000000]) = Inr () \<and>
   validate_client_config (client_build [CIdleTimeoutMs 5000]) \<noteq> Inr ()"
proof -
  have start: "validate_server_config (server_build []) = Inr ()" "validate_client_config (client_build []) = Inr ()"
    by (simp_all add: client_build_def server_build_def client_presets_valid server_presets_valid)
  have range: "server_setter_ok (SMaxPendingReliableBytes 1000000) (server_build [])"
    "\<not> client_setter_ok (CIdleTimeoutMs 5000) (client_build [])"
    by (simp_all add: client_build_def ClientConfig_default_def)
  show ?thesis
    using builders_validated [of "[]" "CIdleTimeoutMs 5000" "[]" "SMaxPendingReliableBytes 1000000"] start range
    unfolding append_Nil by blast
qed

end
