(* ===== verification/Spec2Isabelle.thy ===== *)
theory Spec2Isabelle
  imports Scn_Client_Inv Scn_Server_Inv Scn_Handshake Scn_Stream Scn_Nat Scn_Codec Scn_Request Scn_Async Scn_Builder
begin

text \<open>
  \<^bold>\<open>securecnet\<close>: a verification of the library for encrypted datagram networking under
  \<^verbatim>\<open>src/src/securecnet\<close> (headers in \<^verbatim>\<open>include/securecnet\<close>, sources in \<^verbatim>\<open>lib\<close>).

  \<^bold>\<open>The program.\<close>  A client and a server exchange packets over UDP.  A packet is a header and a payload; after
  a handshake (hello, retry token, hello, signed answer) the payload is encrypted and a replay window
  drops repeated packets.  A payload holds message frames on four application channels and a control
  channel.  The reliable channels have acknowledgements and retransmission, the ordered one also a receive
  window; large messages are cut into fragments and put together again; a congestion controller
  sets the budget of the send queue.  On top are a codec for payloads, byte streams, routers by message
  type, requests with replies, hints for peers behind address translation, and an event loop that polls
  clients and servers.

  \<^bold>\<open>How the code is modelled.\<close>
  \<^item> A struct or class is a record with its data members in order, an enumeration a datatype, an integer of
    \<open>n\<close> bits a word of \<open>n\<close> bits (\<open>ST\<close>, the type of sizes, is \<open>nat\<close>), a pointer with a length an optional byte
    list, a \<^verbatim>\<open>Result\<close> the sum type \<open>'a result\<close> over \<open>errc\<close>.  Texts of errors are left out.
  \<^item> A method that changes its object is an action of the state monad on the record (\<open>Scn_Effects\<close>): \<open>check\<close> is
    an early return on failure, \<open>on_part\<close> a call on a member, \<open>with_part\<close> such a call with callbacks that act
    on the whole object, \<open>notify\<close> the call of a user callback if there is one.
  \<^item> libsodium and the system calls are parameters, the records \<open>Sodium\<close> and \<open>Os\<close> over an abstract world \<open>'w\<close>.
    What the code relies on of libsodium is stated by \<open>aead_correct\<close>, \<open>kx_correct\<close> and \<open>hash_correct\<close>; the small
    instances \<open>sample_sodium\<close> and \<open>sample_os\<close> satisfy what is assumed and serve as concrete inputs.
  \<^item> User callbacks are functions on the whole object, so they may call any of its methods.  The logger and the
    packet hook see the world only.  A callback from inside the resend pass, the ordered window or the
    reassembler acts on the object, and the component is written back after it, as it is a member that
    these loops hold by reference; a callback that stops the client or server from inside such a loop is
    outside of the model, as the source's iterators would dangle.
  \<^item> Loops over data are structural recursions or functions with a termination proof (reading messages,
    chunking a stream).  The receive loops and the event loop run until the outside world says stop:
    they have fuel, the number of iterations, and no result when it is used up.  The draws of random ids have a
    bound in the same way.  The flush loop of the client visits each packet that was queued at its start,
    the one of the server starts again after each packet it sends, so the length of the queue plus one
    iterations are enough.
  \<^item> Unordered maps are association lists with distinct keys; no theorem depends on their order.
  \<^item> The branches for Linux are modelled, those for Windows are not.

  \<^bold>\<open>The theories and what they show.\<close>
  \<^item> \<open>Scn_Prelude\<close>, \<open>Scn_Effects\<close>, \<open>Scn_Kept\<close>: integers, results, big-endian numbers, insertion by priority; actions, and
    the calculus in which all invariants are proved (\<open>keeps\<close>, \<open>hoare\<close>, \<open>frames\<close>, and the locale \<open>kept\<close> of reflexive and
    transitive relations, interpreted for equations and for invariants).
  \<^item> \<open>Scn_Bytebuf\<close> (\<^verbatim>\<open>bytebuf\<close>), \<open>Scn_Packet\<close> (\<^verbatim>\<open>packet\<close>), \<open>Scn_Message\<close> (\<^verbatim>\<open>message.hpp\<close>), \<open>Scn_Protocol\<close> (\<^verbatim>\<open>protocol.hpp\<close>):
    a chain of writes is one bounded append; each reader accepts exactly the encodings of valid values
    (locale \<open>wire_codec\<close>, interpreted for every wire format); the replay window accepts each number at most
    once (locale \<open>dedup_window\<close>, interpreted for the replay window and the receive windows).
  \<^item> \<open>Scn_Config\<close>, \<open>Scn_Builder\<close> (\<^verbatim>\<open>config.hpp\<close>): budgets, defaults, presets, validators and builders; all presets are
    valid, and a builder call keeps a configuration valid exactly when its argument is in range.
  \<^item> \<open>Scn_Reliability\<close>, \<open>Scn_Reliable_Session\<close> (\<^verbatim>\<open>reliability.hpp\<close>): envelopes, receive windows, the queue of unacknowledged
    messages; ordered delivery is gapless and without repetition, the queue's counters agree with its
    contents, and the timers stay in their configured range.
  \<^item> \<open>Scn_Fragmentation\<close> (\<^verbatim>\<open>fragmentation.hpp\<close>): fragments in any order give back the message, memory and number of
    partial messages stay within limits, and a failed completion leaves an entry behind.
  \<^item> \<open>Scn_Congestion\<close> (\<^verbatim>\<open>congestion_control.hpp\<close>): rate, window and bucket stay within the configured bounds; additive
    increase and multiplicative decrease without wrap-around.
  \<^item> \<open>Scn_Crypto\<close> (\<^verbatim>\<open>crypto\<close>), \<open>Scn_Secure\<close> (the parts that \<^verbatim>\<open>client.cpp\<close> and \<^verbatim>\<open>server.cpp\<close> share): nonces are unique per
    connection and number, the comparison is exact, a sealed packet opens to what was sealed, the
    transcript determines both hellos.
  \<^item> \<open>Scn_Endpoint\<close>, \<open>Scn_Socket\<close> (\<^verbatim>\<open>endpoint\<close>, \<^verbatim>\<open>udp_socket\<close>, \<^verbatim>\<open>address.cpp\<close>), \<open>Scn_Stats\<close> (\<^verbatim>\<open>transport_stats.hpp\<close>): equality and hash of
    addresses form a key (locale \<open>hashed_key\<close>), a closed socket does nothing, a datagram fits its buffer.
  \<^item> \<open>Scn_Client\<close>, \<open>Scn_Client_Inv\<close> (\<^verbatim>\<open>client\<close>): all methods; in every reachable state the queue has its bytes counted
    and is within its limit, keys exist only while a session does, and the budget is below the bucket.
    The locale \<open>client_kept\<close> collects what the primitives promise; it is interpreted for each part.
  \<^item> \<open>Scn_Server_Base\<close>, \<open>Scn_Server_Guard\<close>, \<open>Scn_Server_Send\<close>, \<open>Scn_Server\<close>, \<open>Scn_Server_Inv\<close> (\<^verbatim>\<open>server\<close>): members and state changes,
    abuse guards and tokens, sending, receiving; in every reachable state the session table, its endpoint
    index and the send queue are consistent and within limits (locale \<open>server_kept\<close>).  The callbacks are
    assumed to keep what they find, and the state-change callback to leave the keys of the table alone.
  \<^item> \<open>Scn_Handshake\<close>: client and server agree on the session keys, and a retry token proves an address.
  \<^item> \<open>Scn_Stream\<close>, \<open>Scn_Nat\<close>, \<open>Scn_Codec\<close>, \<open>Scn_Router\<close>, \<open>Scn_Request\<close> (\<^verbatim>\<open>stream.hpp\<close>, \<^verbatim>\<open>nat.hpp\<close>, \<^verbatim>\<open>codec.hpp\<close>, \<^verbatim>\<open>router.hpp\<close>,
    \<^verbatim>\<open>request_reply.hpp\<close>): a stream arrives as it was sent; a hint carries an address up to the scope id;
    values are read back as written; dispatch refines the table of last registrations; each promise of
    a request is settled at most once and none is lost.
  \<^item> \<open>Scn_Io\<close>, \<open>Scn_Api\<close> (\<^verbatim>\<open>io_context\<close>, overloads and life cycle of \<^verbatim>\<open>client.cpp\<close> and \<^verbatim>\<open>server.cpp\<close>): draining the queue of
    callbacks ends when callbacks post callbacks of smaller rank only; a client without a socket ends
    the loop; \<open>run_async\<close> as a step relation of two threads, one step per critical section, with the
    states in which it can still return and the lost wake-up in which it cannot.
  \<^item> \<open>Scn_Async\<close> (\<^verbatim>\<open>async.hpp\<close>): the asynchronous wrappers; queued tasks run once and in order, each giving its promise
    its value.

  \<^bold>\<open>Not modelled.\<close>
  \<^item> \<^verbatim>\<open>local_session.hpp\<close>: a class that owns a server and a client, starts both and the event loop; each call is
    modelled, the composition of two objects on one outside world is not.
  \<^item> \<^verbatim>\<open>easy.hpp\<close>, \<^verbatim>\<open>scn.hpp\<close>, \<^verbatim>\<open>version.hpp\<close>, \<^verbatim>\<open>platform.hpp\<close>: includes, macros and switches without behaviour; the copy
    \<^verbatim>\<open>include/securecnet/crypto.cpp\<close> of \<^verbatim>\<open>lib/crypto.cpp\<close>, which is not compiled.
  \<^item> The demo, the examples, the benchmarks and the tests: programs around the library with console and
    window input and output.
  \<^item> The output of the logger and of packet dumps, and the texts of results.
  \<^item> libsodium and the operating system, which are parameters.
\<close>

end
